(* ===== verification/Prelude.thy ===== *)
theory Prelude
  imports Main "HOL-Library.Word" "HOL-Library.Numeral_Type"
begin

text \<open>
  The vocabulary shared by the component theories.

  \<^item> Machine integers: \<open>u8\<close>, \<open>u16\<close>, \<open>u32\<close>, \<open>u64\<close> and the 256-bit integers of alloy are
    words; fixed byte arrays are words as well and are read through their big-endian bytes.
    A length or an index (\<open>usize\<close>) is a \<open>nat\<close>.
  \<^item> A Rust \<open>Result<T, E>\<close> is a sum \<open>'e + 't\<close> with the error on the left. A call that can
    also panic returns an \<open>outcome\<close>.
  \<^item> Big-endian conversions between numbers and byte lists, with their round trips.
  \<^item> The list slices and the \<open>chunks\<close> iterator the sources use.
\<close>

section \<open>Names of the machine types\<close>

type_synonym u8 = "8 word"
type_synonym u16 = "16 word"
type_synonym u32 = "32 word"
type_synonym u64 = "64 word"
type_synonym u160 = "160 word"
type_synonym u256 = "256 word"
type_synonym u512 = "512 word"
type_synonym bytes = "8 word list"
type_synonym ('a, 'e) result = "'e + 'a"

named_theorems outcome_simps \<open>bind laws of the panic and result monads\<close>
named_theorems bytes_simps \<open>big-endian conversion laws\<close>

section \<open>Panics and results\<close>

datatype 'a outcome = Ret 'a | Panic string

primrec obind :: "'a outcome \<Rightarrow> ('a \<Rightarrow> 'b outcome) \<Rightarrow> 'b outcome" where
  "obind (Ret x) f = f x"
| "obind (Panic m) f = Panic m"

text \<open>The \<open>?\<close> operator on a \<open>Result\<close>.\<close>

primrec rbind :: "'e + 'a \<Rightarrow> ('a \<Rightarrow> 'e + 'b) \<Rightarrow> 'e + 'b" where
  "rbind (Inr x) f = f x"
| "rbind (Inl e) f = Inl e"

text \<open>The \<open>?\<close> operator in code that can also panic.\<close>

definition orbind :: "('e + 'a) outcome \<Rightarrow> ('a \<Rightarrow> ('e + 'b) outcome) \<Rightarrow> ('e + 'b) outcome" where
  "orbind m f = obind m (\<lambda>r. case r of Inl e \<Rightarrow> Ret (Inl e) | Inr x \<Rightarrow> f x)"

text \<open>\<open>assert!\<close> and the early \<open>panic!\<close>.\<close>

definition oassert :: "bool \<Rightarrow> string \<Rightarrow> unit outcome" where
  "oassert b m = (if b then Ret () else Panic m)"

primrec map_err :: "('e \<Rightarrow> 'f) \<Rightarrow> 'e + 'a \<Rightarrow> 'f + 'a" where
  "map_err f (Inl e) = Inl (f e)"
| "map_err f (Inr x) = Inr x"

definition ok_or :: "'e \<Rightarrow> 'a option \<Rightarrow> 'e + 'a" where
  "ok_or e m = (case m of None \<Rightarrow> Inl e | Some x \<Rightarrow> Inr x)"

definition unwrap :: "string \<Rightarrow> 'e + 'a \<Rightarrow> 'a outcome" where
  "unwrap m r = (case r of Inl e \<Rightarrow> Panic m | Inr x \<Rightarrow> Ret x)"

definition no_panic :: "'a outcome \<Rightarrow> bool" where
  "no_panic m = (case m of Ret _ \<Rightarrow> True | Panic _ \<Rightarrow> False)"

lemma obind_assoc [outcome_simps]: "obind (obind m f) g = obind m (\<lambda>x. obind (f x) g)"
  by (cases m) simp_all

lemma obind_Ret [outcome_simps]: "obind m Ret = m"
  by (cases m) simp_all

lemma unwrap_eq_Ret: "unwrap m r = Ret x \<longleftrightarrow> r = Inr x"
  by (cases r) (simp_all add: unwrap_def)

lemma obind_eq_Ret: "obind m f = Ret y \<longleftrightarrow> (\<exists>x. m = Ret x \<and> f x = Ret y)"
  by (cases m) simp_all

lemma obind_eq_Panic: "obind m f = Panic e \<longleftrightarrow> m = Panic e \<or> (\<exists>x. m = Ret x \<and> f x = Panic e)"
  by (cases m) auto

lemma rbind_eq_Inr: "rbind r f = Inr y \<longleftrightarrow> (\<exists>x. r = Inr x \<and> f x = Inr y)"
  by (cases r) simp_all

lemma rbind_eq_Inl: "rbind r f = Inl e \<longleftrightarrow> r = Inl e \<or> (\<exists>x. r = Inr x \<and> f x = Inl e)"
  by (cases r) auto

lemma orbind_simps [simp]:
  "orbind (Ret (Inr x)) f = f x"
  "orbind (Ret (Inl e)) f = Ret (Inl e)"
  "orbind (Panic m) f = Panic m"
  by (simp_all add: orbind_def)

lemma orbind_eq_RetInr:
  "orbind m f = Ret (Inr y) \<longleftrightarrow> (\<exists>x. m = Ret (Inr x) \<and> f x = Ret (Inr y))"
proof (cases m)
  case (Ret r)
  then show ?thesis by (cases r) simp_all
qed simp

lemma oassert_simps [simp]:
  "oassert True m = Ret ()"
  "oassert False m = Panic m"
  "oassert b m = Ret u \<longleftrightarrow> b"
  by (simp_all add: oassert_def)

lemma map_err_eq_Inr [simp]: "map_err f r = Inr x \<longleftrightarrow> r = Inr x"
  by (cases r) simp_all

lemma map_err_eq_Inl: "map_err f r = Inl e \<longleftrightarrow> (\<exists>d. r = Inl d \<and> e = f d)"
  by (cases r) auto

lemma ok_or_simps [simp]:
  "ok_or e None = Inl e"
  "ok_or e (Some x) = Inr x"
  by (simp_all add: ok_or_def)

lemma unwrap_simps [simp]:
  "unwrap m (Inr x) = Ret x"
  "unwrap m (Inl e) = Panic m"
  by (simp_all add: unwrap_def)

lemma no_panic_simps [simp]:
  "no_panic (Ret x)"
  "\<not> no_panic (Panic m)"
  by (simp_all add: no_panic_def)

lemma no_panic_iff: "no_panic m \<longleftrightarrow> (\<exists>x. m = Ret x)"
  by (cases m) simp_all

section \<open>Words as numbers\<close>

lemma unat_lt2p: "unat (w :: 'a::len word) < 2 ^ LENGTH('a)"
  by (rule unsigned_less)

lemma unat_eq_imp: "unat v = unat w \<Longrightarrow> v = w"
  by (simp add: word_unat_eq_iff)

section \<open>Big-endian bytes\<close>

text \<open>\<open>nat_be n k\<close> is the value \<open>k\<close> modulo \<open>256 ^ n\<close> in \<open>n\<close> big-endian bytes; \<open>be_nat\<close> reads
  a byte string of any length.\<close>

primrec nat_be :: "nat \<Rightarrow> nat \<Rightarrow> bytes" where
  "nat_be 0 k = []"
| "nat_be (Suc n) k = nat_be n (k div 256) @ [of_nat (k mod 256)]"

definition be_nat :: "bytes \<Rightarrow> nat" where
  "be_nat bs = foldl (\<lambda>acc b. acc * 256 + unat b) 0 bs"

lemma be_nat_Nil [simp]: "be_nat [] = 0"
  by (simp add: be_nat_def)

lemma be_nat_snoc [simp]: "be_nat (bs @ [b]) = be_nat bs * 256 + unat b"
  by (simp add: be_nat_def)

lemma unat_u8_less [simp]: "unat (b :: u8) < 256"
  using unat_lt2p [of b] by simp

lemma unat_of_nat_u8 [simp]: "unat (of_nat n :: u8) = n mod 256"
  by (simp add: unat_of_nat)

lemma length_nat_be [simp]: "length (nat_be n k) = n"
  by (induction n arbitrary: k) simp_all

lemma be_nat_bound: "be_nat bs < 256 ^ length bs"
proof (induction bs rule: rev_induct)
  case (snoc b bs)
  have "be_nat bs * 256 + unat b < (be_nat bs + 1) * 256"
    using unat_u8_less [of b] by simp
  also have "\<dots> \<le> 256 ^ length bs * 256"
    using snoc.IH by (intro mult_le_mono1) simp
  finally show ?case by (simp add: mult.commute)
qed simp

lemma be_nat_nat_be [simp, bytes_simps]: "be_nat (nat_be n k) = k mod 256 ^ n"
proof (induction n arbitrary: k)
  case (Suc n)
  have "k mod (256 * 256 ^ n) = 256 * (k div 256 mod 256 ^ n) + k mod 256"
    by (rule mod_mult2_eq)
  then show ?case using Suc.IH by simp
qed simp

lemma nat_be_be_nat [simp, bytes_simps]: "nat_be (length bs) (be_nat bs) = bs"
  by (induction bs rule: rev_induct) simp_all

lemma nat_be_be_nat_len: "length bs = n \<Longrightarrow> nat_be n (be_nat bs) = bs"
  by auto

lemma nat_be_inj:
  assumes "nat_be n a = nat_be n b" "a < 256 ^ n" "b < 256 ^ n"
  shows "a = b"
  using arg_cong [OF assms(1), of be_nat] assms(2,3) by simp

lemma be_nat_inj: "be_nat xs = be_nat ys \<Longrightarrow> length xs = length ys \<Longrightarrow> xs = ys"
  by (metis nat_be_be_nat)

lemma be_nat_append: "be_nat (xs @ ys) = be_nat xs * 256 ^ length ys + be_nat ys"
  by (induction ys rule: rev_induct)
     (simp_all add: algebra_simps flip: append_assoc)

lemma be_nat_Cons: "be_nat (b # bs) = unat b * 256 ^ length bs + be_nat bs"
  using be_nat_append [of "[b]" bs] by (simp add: be_nat_def)

lemma be_nat_zeros [simp]: "be_nat (replicate n 0) = 0"
  by (induction n) (simp_all add: be_nat_Cons)

lemma nat_be_0 [simp]: "nat_be n 0 = replicate n 0"
  by (induction n) (simp_all add: replicate_append_same)

text \<open>Words as fixed byte arrays (\<open>to_be_bytes\<close> and \<open>from_be_bytes\<close>).\<close>

definition u32_be :: "u32 \<Rightarrow> bytes" where
  "u32_be w = nat_be 4 (unat w)"

definition u64_be :: "u64 \<Rightarrow> bytes" where
  "u64_be w = nat_be 8 (unat w)"

definition b256_be :: "u256 \<Rightarrow> bytes" where
  "b256_be w = nat_be 32 (unat w)"

definition be_u32 :: "bytes \<Rightarrow> u32" where
  "be_u32 bs = of_nat (be_nat bs)"

definition be_b256 :: "bytes \<Rightarrow> u256" where
  "be_b256 bs = of_nat (be_nat bs)"

lemma length_u32_be [simp]: "length (u32_be w) = 4"
  by (simp add: u32_be_def)

lemma length_u64_be [simp]: "length (u64_be w) = 8"
  by (simp add: u64_be_def)

lemma length_b256_be [simp]: "length (b256_be w) = 32"
  by (simp add: b256_be_def)

lemma be_u32_be [simp, bytes_simps]: "be_u32 (u32_be w) = w"
  using unat_lt2p [of w] by (simp add: be_u32_def u32_be_def)

lemma be_b256_be [simp, bytes_simps]: "be_b256 (b256_be w) = w"
  using unat_lt2p [of w] by (simp add: be_b256_def b256_be_def)

lemma b256_be_inj [simp]: "b256_be v = b256_be w \<longleftrightarrow> v = w"
  by (metis be_b256_be)

lemma u64_be_inj [simp]: "u64_be v = u64_be w \<longleftrightarrow> v = w"
proof
  assume "u64_be v = u64_be w"
  then have "unat v = unat w"
    using unat_lt2p [of v] unat_lt2p [of w] unfolding u64_be_def
    by (intro nat_be_inj [of 8]) simp_all
  then show "v = w" by (rule unat_eq_imp)
qed simp

lemma b256_be_be:
  assumes "length bs = 32"
  shows "b256_be (be_b256 bs) = bs"
proof -
  have "be_nat bs < 2 ^ 256"
    using be_nat_bound [of bs] assms by simp
  then have "unat (be_b256 bs) = be_nat bs"
    by (simp add: be_b256_def unat_of_nat)
  then show ?thesis using nat_be_be_nat_len [OF assms] by (simp add: b256_be_def)
qed

lemma unat_be_u32:
  assumes "length bs = 4"
  shows "unat (be_u32 bs) = be_nat bs"
  using be_nat_bound [of bs] assms by (simp add: be_u32_def unat_of_nat)

section \<open>Slices and chunks\<close>

text \<open>\<open>bs[a..b]\<close> for \<open>a \<le> b \<le> len\<close>.\<close>

definition subslice :: "nat \<Rightarrow> nat \<Rightarrow> 'a list \<Rightarrow> 'a list" where
  "subslice a b xs = take (b - a) (drop a xs)"

text \<open>\<open>bs[off..off + len].copy_from_slice(v)\<close>, for a range inside the buffer.\<close>

definition write_at :: "nat \<Rightarrow> 'a list \<Rightarrow> 'a list \<Rightarrow> 'a list" where
  "write_at off v buf = take off buf @ v @ drop (off + length v) buf"

text \<open>The iterator \<open>chunks(n)\<close>; the last chunk may be shorter.\<close>

function chunks :: "nat \<Rightarrow> 'a list \<Rightarrow> 'a list list" where
  "chunks n xs = (if n = 0 \<or> xs = [] then [] else take n xs # chunks n (drop n xs))"
  by pat_completeness auto
termination by (relation "measure (\<lambda>(n, xs). length xs)") auto

declare chunks.simps [simp del]

lemma chunks_Nil [simp]: "chunks n [] = []"
  by (simp add: chunks.simps)

lemma length_subslice [simp]: "length (subslice a b xs) = min (b - a) (length xs - a)"
  by (simp add: subslice_def)

lemma length_write_at [simp]:
  "off + length v \<le> length buf \<Longrightarrow> length (write_at off v buf) = length buf"
  by (simp add: write_at_def)

lemma subslice_write_at:
  assumes "off + length v \<le> length buf"
  shows "subslice off (off + length v) (write_at off v buf) = v"
  using assms by (simp add: subslice_def write_at_def)

lemma chunks_append:
  assumes "length c = n" "n > 0"
  shows "chunks n (c @ xs) = c # chunks n xs"
  using assms by (subst chunks.simps) auto

lemma chunks_concat:
  assumes "n > 0" "\<forall>c\<in>set cs. length c = n"
  shows "chunks n (concat cs) = cs"
  using assms(2) by (induction cs) (simp_all add: chunks_append assms(1))

lemma concat_chunks [simp]: "n > 0 \<Longrightarrow> concat (chunks n xs) = xs"
proof (induction n xs rule: chunks.induct)
  case (1 n xs)
  then show ?case by (subst chunks.simps) simp
qed

lemma chunks_step:
  assumes "n > 0" "xs \<noteq> []"
  shows "chunks n xs = take n xs # chunks n (drop n xs)"
  using assms by (subst chunks.simps) simp

lemma chunks_lengths:
  assumes "n > 0" "length xs = k * n"
  shows "\<forall>c\<in>set (chunks n xs). length c = n"
  using assms(2)
proof (induction k arbitrary: xs)
  case (Suc k)
  then have ne: "xs \<noteq> []" and le: "n \<le> length xs" using assms(1) by auto
  have "length (drop n xs) = k * n" using Suc.prems by simp
  then have "\<forall>c\<in>set (chunks n (drop n xs)). length c = n" by (rule Suc.IH)
  moreover have "length (take n xs) = n" using le by (simp only: length_take min_absorb2)
  ultimately show ?case
    using chunks_step [OF assms(1) ne] by (simp only: list.set ball_simps)
qed simp

lemma length_concat_const:
  "\<forall>c\<in>set cs. length c = n \<Longrightarrow> length (concat cs) = length cs * n"
  by (induction cs) simp_all

lemma length_chunks_mult:
  assumes "n > 0" "length xs = k * n"
  shows "length (chunks n xs) = k"
proof -
  have "length (concat (chunks n xs)) = length (chunks n xs) * n"
    using chunks_lengths [OF assms] by (rule length_concat_const)
  then show ?thesis using assms by simp
qed

section \<open>Rendering\<close>

definition digit_char :: "nat \<Rightarrow> char" where
  "digit_char d = char_of (48 + d)"

text \<open>\<open>to_string\<close> of an unsigned integer.\<close>

fun show_nat :: "nat \<Rightarrow> string" where
  "show_nat n = (if n < 10 then [digit_char n] else show_nat (n div 10) @ [digit_char (n mod 10)])"

declare show_nat.simps [simp del]

definition hex_char :: "nat \<Rightarrow> char" where
  "hex_char d = (if d < 10 then char_of (48 + d) else char_of (87 + d))"

definition hex_byte :: "u8 \<Rightarrow> string" where
  "hex_byte b = [hex_char (unat b div 16), hex_char (unat b mod 16)]"

text \<open>\<open>alloy_primitives::hex::encode\<close>: two lower-case digits for each byte, no prefix.\<close>

definition hex_encode :: "bytes \<Rightarrow> string" where
  "hex_encode bs = concat (map hex_byte bs)"

end
