(* ===== verification/Canoe_Bindings.thy ===== *)
theory Canoe_Bindings
  imports Prelude
begin

text \<open>
  The Solidity types of \<open>canoe/bindings/src/lib.rs\<close>: the journal a zkVM guest commits to, the
  ABI form of the DA certificates and the status codes of the certificate verifier contract.
  A fixed array \<open>uint256[2]\<close> is a pair, \<open>bytes32\<close> a 256-bit word and \<open>address\<close> a 160-bit word.
  Field names carry the name of their struct, since record fields are global here.
\<close>

record Journal =
  j_blockNumber :: u64
  j_blockhash :: u256
  j_certVerifierAddress :: u160
  j_input :: bytes
  j_output :: bool
  j_l1ChainId :: u64
  j_chainConfigHash :: u256
  j_chainSpecHash :: u256

record sol_BatchHeaderV2 =
  s_batchRoot :: u256
  s_referenceBlockNumber :: u32

record sol_G1Point =
  s_X :: u256
  s_Y :: u256

record sol_G2Point =
  s_X2 :: "u256 \<times> u256"
  s_Y2 :: "u256 \<times> u256"

record sol_BlobCommitment =
  s_commitment :: sol_G1Point
  s_lengthCommitment :: sol_G2Point
  s_lengthProof :: sol_G2Point
  s_length :: u32

record sol_BlobHeaderV2 =
  s_version :: u16
  s_quorumNumbers :: bytes
  s_header_commitment :: sol_BlobCommitment
  s_paymentHeaderHash :: u256

record sol_BlobCertificate =
  s_blobHeader :: sol_BlobHeaderV2
  s_signature :: bytes
  s_relayKeys :: "u32 list"

record sol_BlobInclusionInfo =
  s_blobCertificate :: sol_BlobCertificate
  s_blobIndex :: u32
  s_inclusionProof :: bytes

record sol_NonSignerStakesAndSignature =
  s_nonSignerQuorumBitmapIndices :: "u32 list"
  s_nonSignerPubkeys :: "sol_G1Point list"
  s_quorumApks :: "sol_G1Point list"
  s_apkG2 :: sol_G2Point
  s_sigma :: sol_G1Point
  s_quorumApkIndices :: "u32 list"
  s_totalStakeIndices :: "u32 list"
  s_nonSignerStakeIndices :: "u32 list list"

record sol_EigenDACertV3 =
  s3_batchHeaderV2 :: sol_BatchHeaderV2
  s3_blobInclusionInfo :: sol_BlobInclusionInfo
  s3_nonSignerStakesAndSignature :: sol_NonSignerStakesAndSignature
  s3_signedQuorumNumbers :: bytes

record sol_EigenDACertV4 =
  s4_batchHeaderV2 :: sol_BatchHeaderV2
  s4_blobInclusionInfo :: sol_BlobInclusionInfo
  s4_nonSignerStakesAndSignature :: sol_NonSignerStakesAndSignature
  s4_signedQuorumNumbers :: bytes
  s4_offchainDerivationVersion :: u16

datatype StatusCode =
    NULL_ERROR
  | SUCCESS
  | UNUSED_HISTORICAL_INVALID_INCLUSION_PROOF
  | UNUSED_HISTORICAL_SECURITY_ASSUMPTIONS_NOT_MET
  | UNUSED_HISTORICAL_BLOB_QUORUMS_NOT_SUBSET
  | UNUSED_HISTORICAL_REQUIRED_QUORUMS_NOT_SUBSET
  | INVALID_CERT
  | INTERNAL_ERROR

text \<open>The conversion of the returned \<open>uint8\<close> that the \<open>sol!\<close> enumeration provides: the
  declaration order gives the discriminants, and a byte beyond them does not parse.\<close>

definition StatusCode_try_from :: "u8 \<Rightarrow> StatusCode option" where
  "StatusCode_try_from b =
     (let codes = [NULL_ERROR, SUCCESS, UNUSED_HISTORICAL_INVALID_INCLUSION_PROOF,
                   UNUSED_HISTORICAL_SECURITY_ASSUMPTIONS_NOT_MET,
                   UNUSED_HISTORICAL_BLOB_QUORUMS_NOT_SUBSET,
                   UNUSED_HISTORICAL_REQUIRED_QUORUMS_NOT_SUBSET, INVALID_CERT, INTERNAL_ERROR]
      in if unat b < length codes then Some (codes ! unat b) else None)"

lemma StatusCode_SUCCESS_iff: "StatusCode_try_from b = Some SUCCESS \<longleftrightarrow> b = 1"
proof (cases "unat b < 8")
  case True
  then have "unat b \<in> {0, 1, 2, 3, 4, 5, 6, 7}" by auto
  moreover have "b = 1 \<longleftrightarrow> unat b = 1"
    using unat_eq_imp [of b 1] by auto
  ultimately show ?thesis by (auto simp: StatusCode_try_from_def)
next
  case False
  then show ?thesis by (auto simp: StatusCode_try_from_def)
qed

end
