(* ===== verification/Eigenda_Cert.thy ===== *)
theory Eigenda_Cert
  imports Canoe_Bindings
begin

text \<open>
  The EigenDA certificates of \<open>crates/eigenda-cert/src\<close>: the structs shared by the
  certificate versions (\<open>lib.rs\<close>), the three versions (\<open>v2_cert.rs\<close>, \<open>v3_cert.rs\<close>,
  \<open>v4_cert.rs\<close>) and their conversion into the Solidity structs of \<open>Canoe_Bindings\<close>.

  RLP coding and Keccak come from the alloy crates. They are the parameters of type
  \<open>alloy_ops\<close>: an encoder, a decoder that returns the value and the unread rest of its buffer,
  and a hash. The conversions are shown to lose nothing: two certificates with the same
  Solidity form are equal.
\<close>

section \<open>Structs\<close>

record G1Point =
  g1_x :: u256
  g1_y :: u256

datatype Fp2 = Fp2 u256 u256

record G2Point =
  g2_x :: Fp2
  g2_y :: Fp2

record BlobCommitment =
  bc_commitment :: G1Point
  bc_length_commitment :: G2Point
  bc_length_proof :: G2Point
  bc_length :: u32

record BlobHeaderV2 =
  bh_version :: u16
  bh_quorum_numbers :: bytes
  bh_commitment :: BlobCommitment
  bh_payment_header_hash :: u256

record BlobCertificate =
  bcert_blob_header :: BlobHeaderV2
  bcert_signature :: bytes
  bcert_relay_keys :: "u32 list"

record BlobInclusionInfo =
  bii_blob_certificate :: BlobCertificate
  bii_blob_index :: u32
  bii_inclusion_proof :: bytes

record BatchHeaderV2 =
  bat_batch_root :: u256
  bat_reference_block_number :: u32

record NonSignerStakesAndSignature =
  ns_non_signer_quorum_bitmap_indices :: "u32 list"
  ns_non_signer_pubkeys :: "G1Point list"
  ns_quorum_apks :: "G1Point list"
  ns_apk_g2 :: G2Point
  ns_sigma :: G1Point
  ns_quorum_apk_indices :: "u32 list"
  ns_total_stake_indices :: "u32 list"
  ns_non_signer_stake_indices :: "u32 list list"

record EigenDACertV2 =
  v2_blob_inclusion_info :: BlobInclusionInfo
  v2_batch_header_v2 :: BatchHeaderV2
  v2_nonsigner_stake_and_signature :: NonSignerStakesAndSignature
  v2_signed_quorum_numbers :: bytes

record EigenDACertV3 =
  v3_batch_header_v2 :: BatchHeaderV2
  v3_blob_inclusion_info :: BlobInclusionInfo
  v3_nonsigner_stake_and_signature :: NonSignerStakesAndSignature
  v3_signed_quorum_numbers :: bytes

record EigenDACertV4 =
  v4_batch_header_v2 :: BatchHeaderV2
  v4_blob_inclusion_info :: BlobInclusionInfo
  v4_nonsigner_stake_and_signature :: NonSignerStakesAndSignature
  v4_signed_quorum_numbers :: bytes
  v4_offchain_derivation_version :: u16

text \<open>The alloy functions the certificates are hashed and coded with. The rendering of
  \<open>alloy_rlp::Error\<close> stands for the error.\<close>

type_synonym rlp_error = string

record alloy_ops =
  keccak256 :: "bytes \<Rightarrow> u256"
  rlp_encode_v2 :: "EigenDACertV2 \<Rightarrow> bytes"
  rlp_encode_v3 :: "EigenDACertV3 \<Rightarrow> bytes"
  rlp_encode_v4 :: "EigenDACertV4 \<Rightarrow> bytes"
  rlp_decode_v2 :: "bytes \<Rightarrow> (EigenDACertV2 \<times> bytes, rlp_error) result"
  rlp_decode_v3 :: "bytes \<Rightarrow> (EigenDACertV3 \<times> bytes, rlp_error) result"
  rlp_decode_v4 :: "bytes \<Rightarrow> (EigenDACertV4 \<times> bytes, rlp_error) result"

section \<open>Digests of a certificate\<close>

definition EigenDACertV2_to_digest :: "alloy_ops \<Rightarrow> EigenDACertV2 \<Rightarrow> u256" where
  "EigenDACertV2_to_digest A c = keccak256 A (rlp_encode_v2 A c)"

definition EigenDACertV3_to_digest :: "alloy_ops \<Rightarrow> EigenDACertV3 \<Rightarrow> u256" where
  "EigenDACertV3_to_digest A c = keccak256 A (rlp_encode_v3 A c)"

definition EigenDACertV4_to_digest :: "alloy_ops \<Rightarrow> EigenDACertV4 \<Rightarrow> u256" where
  "EigenDACertV4_to_digest A c = keccak256 A (rlp_encode_v4 A c)"

section \<open>Conversion to the Solidity structs\<close>

definition G1Point_to_sol :: "G1Point \<Rightarrow> sol_G1Point" where
  "G1Point_to_sol p = \<lparr> s_X = g1_x p, s_Y = g1_y p \<rparr>"

definition G2Point_to_sol :: "G2Point \<Rightarrow> sol_G2Point" where
  "G2Point_to_sol p =
     (case g2_x p of Fp2 x0 x1 \<Rightarrow> case g2_y p of Fp2 y0 y1 \<Rightarrow>
        \<lparr> s_X2 = (x0, x1), s_Y2 = (y0, y1) \<rparr>)"

definition BlobCommitment_to_sol :: "BlobCommitment \<Rightarrow> sol_BlobCommitment" where
  "BlobCommitment_to_sol c =
     \<lparr> s_commitment = G1Point_to_sol (bc_commitment c),
       s_lengthCommitment = G2Point_to_sol (bc_length_commitment c),
       s_lengthProof = G2Point_to_sol (bc_length_proof c),
       s_length = bc_length c \<rparr>"

definition BlobHeaderV2_to_sol :: "BlobHeaderV2 \<Rightarrow> sol_BlobHeaderV2" where
  "BlobHeaderV2_to_sol h =
     \<lparr> s_version = bh_version h,
       s_quorumNumbers = bh_quorum_numbers h,
       s_header_commitment = BlobCommitment_to_sol (bh_commitment h),
       s_paymentHeaderHash = bh_payment_header_hash h \<rparr>"

definition BlobCertificate_to_sol :: "BlobCertificate \<Rightarrow> sol_BlobCertificate" where
  "BlobCertificate_to_sol c =
     \<lparr> s_blobHeader = BlobHeaderV2_to_sol (bcert_blob_header c),
       s_signature = bcert_signature c,
       s_relayKeys = bcert_relay_keys c \<rparr>"

definition BatchHeaderV2_to_sol :: "BatchHeaderV2 \<Rightarrow> sol_BatchHeaderV2" where
  "BatchHeaderV2_to_sol b =
     \<lparr> s_batchRoot = bat_batch_root b,
       s_referenceBlockNumber = bat_reference_block_number b \<rparr>"

definition BlobInclusionInfo_to_sol :: "BlobInclusionInfo \<Rightarrow> sol_BlobInclusionInfo" where
  "BlobInclusionInfo_to_sol i =
     \<lparr> s_blobCertificate = BlobCertificate_to_sol (bii_blob_certificate i),
       s_blobIndex = bii_blob_index i,
       s_inclusionProof = bii_inclusion_proof i \<rparr>"

definition NonSignerStakesAndSignature_to_sol ::
    "NonSignerStakesAndSignature \<Rightarrow> sol_NonSignerStakesAndSignature" where
  "NonSignerStakesAndSignature_to_sol n =
     \<lparr> s_nonSignerQuorumBitmapIndices = ns_non_signer_quorum_bitmap_indices n,
       s_nonSignerPubkeys = map G1Point_to_sol (ns_non_signer_pubkeys n),
       s_quorumApks = map (\<lambda>e. \<lparr> s_X = g1_x e, s_Y = g1_y e \<rparr>) (ns_quorum_apks n),
       s_apkG2 = G2Point_to_sol (ns_apk_g2 n),
       s_sigma = G1Point_to_sol (ns_sigma n),
       s_quorumApkIndices = ns_quorum_apk_indices n,
       s_totalStakeIndices = ns_total_stake_indices n,
       s_nonSignerStakeIndices = ns_non_signer_stake_indices n \<rparr>"

definition EigenDACertV3_to_sol :: "EigenDACertV3 \<Rightarrow> sol_EigenDACertV3" where
  "EigenDACertV3_to_sol c =
     \<lparr> s3_batchHeaderV2 = BatchHeaderV2_to_sol (v3_batch_header_v2 c),
       s3_blobInclusionInfo = BlobInclusionInfo_to_sol (v3_blob_inclusion_info c),
       s3_nonSignerStakesAndSignature =
         NonSignerStakesAndSignature_to_sol (v3_nonsigner_stake_and_signature c),
       s3_signedQuorumNumbers = v3_signed_quorum_numbers c \<rparr>"

definition EigenDACertV4_to_sol :: "EigenDACertV4 \<Rightarrow> sol_EigenDACertV4" where
  "EigenDACertV4_to_sol c =
     \<lparr> s4_batchHeaderV2 = BatchHeaderV2_to_sol (v4_batch_header_v2 c),
       s4_blobInclusionInfo = BlobInclusionInfo_to_sol (v4_blob_inclusion_info c),
       s4_nonSignerStakesAndSignature =
         NonSignerStakesAndSignature_to_sol (v4_nonsigner_stake_and_signature c),
       s4_signedQuorumNumbers = v4_signed_quorum_numbers c,
       s4_offchainDerivationVersion = v4_offchain_derivation_version c \<rparr>"

section \<open>The conversions lose nothing\<close>

named_theorems to_sol_inj \<open>injectivity of the conversions to Solidity structs\<close>

lemma G1Point_to_sol_inj [to_sol_inj]: "G1Point_to_sol p = G1Point_to_sol q \<longleftrightarrow> p = q"
  by (cases p; cases q) (simp add: G1Point_to_sol_def)

lemma G1Points_to_sol_inj [to_sol_inj]: "map G1Point_to_sol ps = map G1Point_to_sol qs \<longleftrightarrow> ps = qs"
  by (rule inj_map_eq_map) (simp add: inj_def G1Point_to_sol_inj)

lemma G1Point_fields_inj [to_sol_inj]:
  "map (\<lambda>e. \<lparr> s_X = g1_x e, s_Y = g1_y e \<rparr>) ps = map (\<lambda>e. \<lparr> s_X = g1_x e, s_Y = g1_y e \<rparr>) qs
     \<longleftrightarrow> ps = qs" for ps qs :: "G1Point list"
  using G1Points_to_sol_inj [of ps qs] by (simp only: G1Point_to_sol_def [abs_def])

lemma G2Point_to_sol_inj [to_sol_inj]: "G2Point_to_sol p = G2Point_to_sol q \<longleftrightarrow> p = q"
  by (cases p; cases q) (auto simp: G2Point_to_sol_def split: Fp2.splits)

lemma BlobCommitment_to_sol_inj [to_sol_inj]:
  "BlobCommitment_to_sol a = BlobCommitment_to_sol b \<longleftrightarrow> a = b"
  by (cases a; cases b) (simp add: BlobCommitment_to_sol_def to_sol_inj)

lemma BlobHeaderV2_to_sol_inj [to_sol_inj]:
  "BlobHeaderV2_to_sol a = BlobHeaderV2_to_sol b \<longleftrightarrow> a = b"
  by (cases a; cases b) (simp add: BlobHeaderV2_to_sol_def to_sol_inj)

lemma BlobCertificate_to_sol_inj [to_sol_inj]:
  "BlobCertificate_to_sol a = BlobCertificate_to_sol b \<longleftrightarrow> a = b"
  by (cases a; cases b) (simp add: BlobCertificate_to_sol_def to_sol_inj)

lemma BatchHeaderV2_to_sol_inj [to_sol_inj]:
  "BatchHeaderV2_to_sol a = BatchHeaderV2_to_sol b \<longleftrightarrow> a = b"
  by (cases a; cases b) (simp add: BatchHeaderV2_to_sol_def)

lemma BlobInclusionInfo_to_sol_inj [to_sol_inj]:
  "BlobInclusionInfo_to_sol a = BlobInclusionInfo_to_sol b \<longleftrightarrow> a = b"
  by (cases a; cases b) (simp add: BlobInclusionInfo_to_sol_def to_sol_inj)

lemma NonSigner_to_sol_inj [to_sol_inj]:
  "NonSignerStakesAndSignature_to_sol a = NonSignerStakesAndSignature_to_sol b \<longleftrightarrow> a = b"
  by (cases a; cases b) (simp add: NonSignerStakesAndSignature_to_sol_def to_sol_inj)

lemma EigenDACertV3_to_sol_inj: "EigenDACertV3_to_sol a = EigenDACertV3_to_sol b \<longleftrightarrow> a = b"
  by (cases a; cases b) (simp add: EigenDACertV3_to_sol_def to_sol_inj)

lemma EigenDACertV4_to_sol_inj: "EigenDACertV4_to_sol a = EigenDACertV4_to_sol b \<longleftrightarrow> a = b"
  by (cases a; cases b) (simp add: EigenDACertV4_to_sol_def to_sol_inj)

end
