(* ===== verification/Altda_Commitment.thy ===== *)
theory Altda_Commitment
  imports Eigenda_Cert
begin

text \<open>
  The AltDA commitment of \<open>crates/eigenda-cert/src/altda_commitment.rs\<close>: the three header bytes
  and the versioned certificate found in the batcher inbox, its parser \<open>try_from\<close>, its byte form
  \<open>to_rlp_bytes\<close> and the digest that addresses all preimage data of the commitment.

  The locale \<open>prefix_codec\<close> states what a parser promises to the clients of its encoder: an
  encoding followed by anything parses back. Injectivity and prefix-freeness follow once in the
  locale, which is interpreted on the commitment.
\<close>

section \<open>Data\<close>

datatype EigenDAVersionedCert =
    V2 EigenDACertV2
  | V3 EigenDACertV3
  | V4 EigenDACertV4

datatype AltDACommitmentParseError =
    InsufficientData
  | UnsupportedCommitmentType
  | UnsupportedDaLayerType
  | UnsupportedCertVersionType u8
  | InvalidRlpCert rlp_error

record AltDACommitment =
  commitment_type :: u8
  da_layer_byte :: u8
  versioned_cert :: EigenDAVersionedCert

section \<open>Parsing\<close>

definition AltDACommitment_try_from ::
    "alloy_ops \<Rightarrow> bytes \<Rightarrow> (AltDACommitment, AltDACommitmentParseError) result" where
  "AltDACommitment_try_from A value =
     (if length value < 4 then Inl InsufficientData
      else if value ! 0 \<noteq> 1 then Inl UnsupportedCommitmentType
      else if value ! 1 \<noteq> 0 then Inl UnsupportedDaLayerType
      else rbind
        (if value ! 2 = 1 then
           rbind (map_err InvalidRlpCert (rlp_decode_v2 A (drop 3 value))) (\<lambda>(c, _). Inr (V2 c))
         else if value ! 2 = 2 then
           rbind (map_err InvalidRlpCert (rlp_decode_v3 A (drop 3 value))) (\<lambda>(c, _). Inr (V3 c))
         else if value ! 2 = 3 then
           rbind (map_err InvalidRlpCert (rlp_decode_v4 A (drop 3 value))) (\<lambda>(c, _). Inr (V4 c))
         else Inl (UnsupportedCertVersionType (value ! 2)))
        (\<lambda>cert. Inr \<lparr> commitment_type = value ! 0, da_layer_byte = value ! 1,
                       versioned_cert = cert \<rparr>))"

section \<open>Accessors, byte form and digest\<close>

definition to_rlp_bytes :: "alloy_ops \<Rightarrow> AltDACommitment \<Rightarrow> bytes" where
  "to_rlp_bytes A a =
     [commitment_type a, da_layer_byte a] @
     (case versioned_cert a of
        V2 c \<Rightarrow> [1] @ rlp_encode_v2 A c
      | V3 c \<Rightarrow> [2] @ rlp_encode_v3 A c
      | V4 c \<Rightarrow> [3] @ rlp_encode_v4 A c)"

definition to_digest :: "alloy_ops \<Rightarrow> AltDACommitment \<Rightarrow> u256" where
  "to_digest A a = keccak256 A (to_rlp_bytes A a)"

definition digest_template :: "alloy_ops \<Rightarrow> AltDACommitment \<Rightarrow> bytes" where
  "digest_template A a = write_at 0 (b256_be (to_digest A a)) (replicate 80 0)"

definition get_num_field_element :: "AltDACommitment \<Rightarrow> u64" where
  "get_num_field_element a =
     (case versioned_cert a of
        V2 c \<Rightarrow> ucast (bc_length (bh_commitment (bcert_blob_header
                  (bii_blob_certificate (v2_blob_inclusion_info c)))))
      | V3 c \<Rightarrow> ucast (bc_length (bh_commitment (bcert_blob_header
                  (bii_blob_certificate (v3_blob_inclusion_info c)))))
      | V4 c \<Rightarrow> ucast (bc_length (bh_commitment (bcert_blob_header
                  (bii_blob_certificate (v4_blob_inclusion_info c))))))"

definition get_rbn :: "AltDACommitment \<Rightarrow> u64" where
  "get_rbn a =
     (case versioned_cert a of
        V2 c \<Rightarrow> ucast (bat_reference_block_number (v2_batch_header_v2 c))
      | V3 c \<Rightarrow> ucast (bat_reference_block_number (v3_batch_header_v2 c))
      | V4 c \<Rightarrow> ucast (bat_reference_block_number (v4_batch_header_v2 c)))"

definition get_kzg_commitment :: "AltDACommitment \<Rightarrow> G1Point" where
  "get_kzg_commitment a =
     (let pick = (\<lambda>i. let p = bc_commitment (bh_commitment (bcert_blob_header
                                (bii_blob_certificate i)))
                      in \<lparr> g1_x = g1_x p, g1_y = g1_y p \<rparr>)
      in case versioned_cert a of
           V2 c \<Rightarrow> pick (v2_blob_inclusion_info c)
         | V3 c \<Rightarrow> pick (v3_blob_inclusion_info c)
         | V4 c \<Rightarrow> pick (v4_blob_inclusion_info c))"

definition cert_version_str :: "AltDACommitment \<Rightarrow> string" where
  "cert_version_str a =
     (case versioned_cert a of V2 _ \<Rightarrow> ''V2'' | V3 _ \<Rightarrow> ''V3'' | V4 _ \<Rightarrow> ''V4'')"

section \<open>Bounds of the accessors\<close>

lemma ucast_u32_u64_bound: "unat (ucast (w :: u32) :: u64) < 2 ^ 32"
proof -
  have "unat (ucast w :: u64) = unat w"
    using unat_lt2p [of w] by (simp add: unsigned_ucast_eq take_bit_nat_eq_self)
  then show ?thesis using unat_lt2p [of w] by simp
qed

lemma get_num_field_element_bound: "unat (get_num_field_element a) < 2 ^ 32"
  unfolding get_num_field_element_def
  by (cases "versioned_cert a") (simp_all only: EigenDAVersionedCert.case ucast_u32_u64_bound)

lemma get_rbn_bound: "unat (get_rbn a) < 2 ^ 32"
  unfolding get_rbn_def
  by (cases "versioned_cert a") (simp_all only: EigenDAVersionedCert.case ucast_u32_u64_bound)

lemma length_digest_template [simp]: "length (digest_template A a) = 80"
  by (simp add: digest_template_def)

lemma digest_template_eq:
  "digest_template A a = b256_be (to_digest A a) @ replicate 48 0"
  by (simp add: digest_template_def write_at_def)

section \<open>Codecs with the prefix property\<close>

locale prefix_codec =
  fixes valid :: "'a \<Rightarrow> bool"
    and enc :: "'a \<Rightarrow> bytes"
    and dec :: "bytes \<Rightarrow> ('a, 'e) result"
  assumes dec_enc: "valid x \<Longrightarrow> dec (enc x @ rest) = Inr x"
begin

lemma dec_enc_exact: "valid x \<Longrightarrow> dec (enc x) = Inr x"
  using dec_enc [of x "[]"] by simp

lemma enc_prefix_free:
  assumes "valid x" "valid y" "enc x @ r = enc y @ s"
  shows "x = y" "r = s"
proof -
  show "x = y"
    using dec_enc [OF assms(1), of r] dec_enc [OF assms(2), of s] assms(3) by simp
  then show "r = s" using assms(3) by simp
qed

lemma enc_inj: "valid x \<Longrightarrow> valid y \<Longrightarrow> enc x = enc y \<Longrightarrow> x = y"
  using enc_prefix_free(1) [of x y "[]" "[]"] by simp

end

text \<open>The RLP law at one certificate: its encoding is not empty and decodes to it from any
  buffer it starts.\<close>

definition rlp_law :: "alloy_ops \<Rightarrow> EigenDAVersionedCert \<Rightarrow> bool" where
  "rlp_law A vc =
     (case vc of
        V2 c \<Rightarrow> rlp_encode_v2 A c \<noteq> [] \<and> (\<forall>r. rlp_decode_v2 A (rlp_encode_v2 A c @ r) = Inr (c, r))
      | V3 c \<Rightarrow> rlp_encode_v3 A c \<noteq> [] \<and> (\<forall>r. rlp_decode_v3 A (rlp_encode_v3 A c @ r) = Inr (c, r))
      | V4 c \<Rightarrow> rlp_encode_v4 A c \<noteq> [] \<and> (\<forall>r. rlp_decode_v4 A (rlp_encode_v4 A c @ r) = Inr (c, r)))"

text \<open>A commitment as the parser makes them, over a certificate with that law.\<close>

definition parsed_form :: "alloy_ops \<Rightarrow> AltDACommitment \<Rightarrow> bool" where
  "parsed_form A a \<longleftrightarrow> commitment_type a = 1 \<and> da_layer_byte a = 0 \<and> rlp_law A (versioned_cert a)"

lemma length_to_rlp_bytes: "rlp_law A (versioned_cert a) \<Longrightarrow> 4 \<le> length (to_rlp_bytes A a)"
  by (cases "versioned_cert a")
     (auto simp: to_rlp_bytes_def rlp_law_def Suc_le_eq neq_Nil_conv)

lemma try_from_to_rlp_bytes_append:
  assumes "parsed_form A a"
  shows "AltDACommitment_try_from A (to_rlp_bytes A a @ rest) = Inr a"
proof -
  obtain vc where a: "a = \<lparr> commitment_type = 1, da_layer_byte = 0, versioned_cert = vc \<rparr>"
    using assms by (cases a) (simp add: parsed_form_def)
  have len: "\<not> length (to_rlp_bytes A a @ rest) < 4"
    using length_to_rlp_bytes [of A a] assms by (simp add: parsed_form_def)
  show ?thesis
  proof (cases vc)
    case (V2 c)
    then show ?thesis using assms len unfolding AltDACommitment_try_from_def a
      by (simp add: parsed_form_def rlp_law_def to_rlp_bytes_def)
  next
    case (V3 c)
    then show ?thesis using assms len unfolding AltDACommitment_try_from_def a
      by (simp add: parsed_form_def rlp_law_def to_rlp_bytes_def)
  next
    case (V4 c)
    then show ?thesis using assms len unfolding AltDACommitment_try_from_def a
      by (simp add: parsed_form_def rlp_law_def to_rlp_bytes_def)
  qed
qed

interpretation commitment_codec:
  prefix_codec "parsed_form A" "to_rlp_bytes A" "AltDACommitment_try_from A" for A
  by unfold_locales (rule try_from_to_rlp_bytes_append)

lemma rlp_law_inj:
  assumes "rlp_law A (V2 c)" "rlp_law A (V2 d)" "rlp_encode_v2 A c = rlp_encode_v2 A d"
  shows "c = d"
  using assms unfolding rlp_law_def by (auto dest!: spec [of _ "[]"])

lemma rlp_law_inj_v3:
  assumes "rlp_law A (V3 c)" "rlp_law A (V3 d)" "rlp_encode_v3 A c = rlp_encode_v3 A d"
  shows "c = d"
  using assms unfolding rlp_law_def by (auto dest!: spec [of _ "[]"])

lemma rlp_law_inj_v4:
  assumes "rlp_law A (V4 c)" "rlp_law A (V4 d)" "rlp_encode_v4 A c = rlp_encode_v4 A d"
  shows "c = d"
  using assms unfolding rlp_law_def by (auto dest!: spec [of _ "[]"])

lemma to_rlp_bytes_inj:
  assumes "rlp_law A (versioned_cert a)" "rlp_law A (versioned_cert b)"
    and "to_rlp_bytes A a = to_rlp_bytes A b"
  shows "a = b"
proof (cases a; cases b)
  fix t d u t' d' u'
  assume "a = \<lparr> commitment_type = t, da_layer_byte = d, versioned_cert = u \<rparr>"
    and "b = \<lparr> commitment_type = t', da_layer_byte = d', versioned_cert = u' \<rparr>"
  then show ?thesis using assms
    by (cases u; cases u')
       (auto simp: to_rlp_bytes_def intro: rlp_law_inj rlp_law_inj_v3 rlp_law_inj_v4)
qed

section \<open>What the parser accepts\<close>

lemma try_from_Inr_iff:
  "AltDACommitment_try_from A value = Inr a \<longleftrightarrow>
     4 \<le> length value \<and> commitment_type a = 1 \<and> da_layer_byte a = 0 \<and>
     take 2 value = [1, 0] \<and>
     (\<exists>r. (case versioned_cert a of
            V2 c \<Rightarrow> value ! 2 = 1 \<and> rlp_decode_v2 A (drop 3 value) = Inr (c, r)
          | V3 c \<Rightarrow> value ! 2 = 2 \<and> rlp_decode_v3 A (drop 3 value) = Inr (c, r)
          | V4 c \<Rightarrow> value ! 2 = 3 \<and> rlp_decode_v4 A (drop 3 value) = Inr (c, r)))"
    (is "?l \<longleftrightarrow> ?r")
proof (cases "4 \<le> length value")
  case True
  then obtain b0 b1 b2 rest where v: "value = b0 # b1 # b2 # rest"
    by (auto simp: Suc_le_length_iff numeral_eq_Suc)
  have rest: "rest \<noteq> []" using True v by auto
  obtain ct da vc where a: "a = \<lparr> commitment_type = ct, da_layer_byte = da, versioned_cert = vc \<rparr>"
    by (cases a)
  show ?thesis
    using rest unfolding v a AltDACommitment_try_from_def
    by (cases vc) (auto simp: rbind_eq_Inr Suc_le_eq)
next
  case False
  then show ?thesis by (simp add: AltDACommitment_try_from_def)
qed

text \<open>RLP has one encoding of every value: what decodes is the encoding of the result, and the law holds
  of it. Then the parser accepts exactly the byte forms of commitments, with anything after them.\<close>

definition rlp_canonical :: "alloy_ops \<Rightarrow> bool" where
  "rlp_canonical A \<longleftrightarrow>
     (\<forall>bs c r. rlp_decode_v2 A bs = Inr (c, r) \<longrightarrow> bs = rlp_encode_v2 A c @ r \<and> rlp_law A (V2 c)) \<and>
     (\<forall>bs c r. rlp_decode_v3 A bs = Inr (c, r) \<longrightarrow> bs = rlp_encode_v3 A c @ r \<and> rlp_law A (V3 c)) \<and>
     (\<forall>bs c r. rlp_decode_v4 A bs = Inr (c, r) \<longrightarrow> bs = rlp_encode_v4 A c @ r \<and> rlp_law A (V4 c))"

lemma rlp_canonicalD:
  assumes "rlp_canonical A"
  shows "rlp_decode_v2 A bs = Inr (c2, r) \<Longrightarrow> bs = rlp_encode_v2 A c2 @ r \<and> rlp_law A (V2 c2)"
    "rlp_decode_v3 A bs = Inr (c3, r) \<Longrightarrow> bs = rlp_encode_v3 A c3 @ r \<and> rlp_law A (V3 c3)"
    "rlp_decode_v4 A bs = Inr (c4, r) \<Longrightarrow> bs = rlp_encode_v4 A c4 @ r \<and> rlp_law A (V4 c4)"
  using assms unfolding rlp_canonical_def by blast+

lemma try_from_canonical:
  assumes "rlp_canonical A"
  shows "AltDACommitment_try_from A value = Inr a \<longleftrightarrow> parsed_form A a \<and> (\<exists>rest. value = to_rlp_bytes A a @ rest)"
proof
  assume "AltDACommitment_try_from A value = Inr a"
  then have t: "4 \<le> length value" "commitment_type a = 1" "da_layer_byte a = 0" "take 2 value = [1, 0]"
    "\<exists>r. (case versioned_cert a of
            V2 c \<Rightarrow> value ! 2 = 1 \<and> rlp_decode_v2 A (drop 3 value) = Inr (c, r)
          | V3 c \<Rightarrow> value ! 2 = 2 \<and> rlp_decode_v3 A (drop 3 value) = Inr (c, r)
          | V4 c \<Rightarrow> value ! 2 = 3 \<and> rlp_decode_v4 A (drop 3 value) = Inr (c, r))"
    unfolding try_from_Inr_iff by blast+
  obtain b0 b1 b2 rest where v: "value = b0 # b1 # b2 # rest"
    using t(1) by (auto simp: Suc_le_length_iff numeral_eq_Suc)
  have "b0 = 1" "b1 = 0" using t(4) v by (simp_all add: numeral_2_eq_2)
  then show "parsed_form A a \<and> (\<exists>rest. value = to_rlp_bytes A a @ rest)"
    using t(2,3,5) v
    by (cases "versioned_cert a") (auto simp: parsed_form_def to_rlp_bytes_def dest!: rlp_canonicalD [OF assms])
qed (auto intro: try_from_to_rlp_bytes_append)

lemma try_from_short: "length value < 4 \<Longrightarrow> AltDACommitment_try_from A value = Inl InsufficientData"
  by (simp add: AltDACommitment_try_from_def)

lemma try_from_header_bytes:
  "AltDACommitment_try_from A value = Inr a \<Longrightarrow> commitment_type a = 1 \<and> da_layer_byte a = 0"
  by (simp add: try_from_Inr_iff)

end
