(* ===== verification/Hokulea_Errors.thy ===== *)
theory Hokulea_Errors
  imports Altda_Commitment
begin

text \<open>
  The constants and the error types of \<open>crates/eigenda/src\<close> (\<open>constant.rs\<close>, \<open>errors.rs\<close>) with
  the messages they render and the conversions into \<open>HokuleaErrorKind\<close>, which decides whether the
  derivation pipeline discards a commitment, retries or stops.
\<close>

definition PAYLOAD_ENCODING_VERSION_0 :: u8 where
  "PAYLOAD_ENCODING_VERSION_0 = 0"

definition BYTES_PER_FIELD_ELEMENT :: nat where
  "BYTES_PER_FIELD_ELEMENT = 32"

definition ENCODED_PAYLOAD_HEADER_LEN_BYTES :: nat where
  "ENCODED_PAYLOAD_HEADER_LEN_BYTES = 32"

definition ALTDA_DERIVATION_VERSION :: u8 where
  "ALTDA_DERIVATION_VERSION = 1"

lemmas eigenda_constants [simp] =
  PAYLOAD_ENCODING_VERSION_0_def BYTES_PER_FIELD_ELEMENT_def
  ENCODED_PAYLOAD_HEADER_LEN_BYTES_def ALTDA_DERIVATION_VERSION_def

datatype HokuleaErrorKind =
    Discard string
  | Temporary string
  | Critical string

datatype EncodedPayloadDecodingError =
    InvalidLengthEncodedPayload u64
  | InvalidPowerOfTwoLength nat
  | InvalidHeaderFirstByte u8
  | PayloadTooShortForHeader nat nat
  | UnknownEncodingVersion u8
  | DecodedPayloadBodyTooShort nat u32
  | InvalidFirstByteFieldElementPadding u8
  | InvalidEncodedPayloadBodyPadding u8
  | InvalidEncodedPayloadHeaderPadding u8

datatype HokuleaRecencyCheckError = NotRecentCert

datatype HokuleaStatelessError =
    InsufficientLengthAltDACommimtment
  | ParseError AltDACommitmentParseError
  | DecodingError EncodedPayloadDecodingError
  | RecencyCheckError HokuleaRecencyCheckError
  | UnsupportedOffchainDerivationVersion u16

datatype HokuleaPreimageError = InvalidCert

text \<open>The \<open>#[error(...)]\<close> messages.\<close>

definition ParseError_to_string :: "AltDACommitmentParseError \<Rightarrow> string" where
  "ParseError_to_string e =
     (case e of
        InsufficientData \<Rightarrow> ''Insufficient altda commitment data''
      | UnsupportedCommitmentType \<Rightarrow> ''Unsupported commitment type''
      | UnsupportedDaLayerType \<Rightarrow> ''Unsupported da layer type''
      | UnsupportedCertVersionType v \<Rightarrow> ''Unsupported cert version type '' @ show_nat (unat v)
      | InvalidRlpCert m \<Rightarrow> ''Unable to decode rlp cert: '' @ m)"

definition DecodingError_to_string :: "EncodedPayloadDecodingError \<Rightarrow> string" where
  "DecodingError_to_string e =
     (case e of
        InvalidLengthEncodedPayload n \<Rightarrow>
          ''invalid number of bytes in the encoded payload '' @ show_nat (unat n) @
          '', that is not multiple of bytes per field element''
      | InvalidPowerOfTwoLength n \<Rightarrow>
          ''encoded payload must be a power of 2 field elements (32 bytes chunks), but got '' @
          show_nat n @ '' field elements''
      | InvalidHeaderFirstByte b \<Rightarrow>
          ''encoded payload header first byte must be 0x00, but got 0x'' @ hex_byte b
      | PayloadTooShortForHeader expected actual \<Rightarrow>
          ''encoded payload must be at least '' @ show_nat expected @
          '' bytes long to contain a header, but got '' @ show_nat actual @ '' bytes''
      | UnknownEncodingVersion v \<Rightarrow>
          ''unknown encoded payload header version: '' @ show_nat (unat v)
      | DecodedPayloadBodyTooShort actual claimed \<Rightarrow>
          ''length of unpadded data '' @ show_nat actual @
          '' is less than length claimed in encoded payload header '' @ show_nat (unat claimed)
      | InvalidFirstByteFieldElementPadding b \<Rightarrow>
          ''non-zero byte encountered in the first byte of multiples of 32 bytes: '' @
          show_nat (unat b)
      | InvalidEncodedPayloadBodyPadding b \<Rightarrow>
          ''non-zero padding byte encountered in the encoded payload body: '' @ show_nat (unat b)
      | InvalidEncodedPayloadHeaderPadding b \<Rightarrow>
          ''non-zero padding byte encountered in the encoded payload header: '' @
          show_nat (unat b))"

definition RecencyCheckError_to_string :: "HokuleaRecencyCheckError \<Rightarrow> string" where
  "RecencyCheckError_to_string e = (case e of NotRecentCert \<Rightarrow> ''da cert is not recent enough'')"

definition HokuleaErrorKind_from_stateless :: "HokuleaStatelessError \<Rightarrow> HokuleaErrorKind" where
  "HokuleaErrorKind_from_stateless e =
     (case e of
        InsufficientLengthAltDACommimtment \<Rightarrow> Discard ''Insufficient EigenDA Cert Length''
      | ParseError e \<Rightarrow> Discard (ParseError_to_string e)
      | DecodingError e \<Rightarrow> Discard (DecodingError_to_string e)
      | RecencyCheckError e \<Rightarrow> Discard (RecencyCheckError_to_string e)
      | UnsupportedOffchainDerivationVersion v \<Rightarrow>
          Critical (''cannot support offchain derivation version'' @ show_nat (unat v)))"

definition HokuleaErrorKind_from_preimage :: "HokuleaPreimageError \<Rightarrow> HokuleaErrorKind" where
  "HokuleaErrorKind_from_preimage e =
     (case e of
        InvalidCert \<Rightarrow> Discard ''da cert is invalid or inconsistent offchain code version'')"

fun is_Discard :: "HokuleaErrorKind \<Rightarrow> bool" where
  "is_Discard (Discard _) = True"
| "is_Discard _ = False"

lemma stateless_kind:
  "is_Discard (HokuleaErrorKind_from_stateless e) \<longleftrightarrow>
     (\<forall>v. e \<noteq> UnsupportedOffchainDerivationVersion v)"
  by (cases e) (simp_all add: HokuleaErrorKind_from_stateless_def)

lemma stateless_never_temporary: "HokuleaErrorKind_from_stateless e \<noteq> Temporary m"
  by (cases e) (simp_all add: HokuleaErrorKind_from_stateless_def)

end
