(* ===== verification/Encoded_Payload.thy ===== *)
theory Encoded_Payload
  imports Hokulea_Errors
begin

text \<open>
  The encoded payload of \<open>crates/eigenda/src/eigenda_data.rs\<close>: a 32-byte header, a body of
  field elements whose first byte is zero, and a power of two of field elements altogether.

  \<open>encode_ref\<close> is the specification of the payload encoding version 0. The decoder is shown to
  accept exactly the byte strings \<open>encode_ref\<close> produces and to invert it, never to panic, and its
  bit trick for powers of two is shown correct.
\<close>

unbundle bit_operations_syntax

section \<open>The decoder\<close>

record EncodedPayload =
  encoded_payload :: bytes

definition deserialize :: "bytes \<Rightarrow> EncodedPayload" where
  "deserialize bs = \<lparr> encoded_payload = bs \<rparr>"

definition serialize :: "EncodedPayload \<Rightarrow> bytes" where
  "serialize p = encoded_payload p"

definition num_field_element :: "EncodedPayload \<Rightarrow> u64" where
  "num_field_element p = of_nat (length (encoded_payload p) div BYTES_PER_FIELD_ELEMENT)"

definition is_power_of_two :: "nat \<Rightarrow> bool" where
  "is_power_of_two n \<longleftrightarrow> n \<noteq> 0 \<and> n AND (n - 1) = 0"

definition check_len_invariant :: "EncodedPayload \<Rightarrow> (unit, HokuleaStatelessError) result" where
  "check_len_invariant p =
     (let len = length (encoded_payload p) in
      if len < ENCODED_PAYLOAD_HEADER_LEN_BYTES then
        Inl (DecodingError (PayloadTooShortForHeader ENCODED_PAYLOAD_HEADER_LEN_BYTES len))
      else if len mod BYTES_PER_FIELD_ELEMENT \<noteq> 0 then
        Inl (DecodingError (InvalidLengthEncodedPayload (of_nat len)))
      else
        let num_field_elements = len div BYTES_PER_FIELD_ELEMENT in
        if \<not> is_power_of_two num_field_elements then
          Inl (DecodingError (InvalidPowerOfTwoLength num_field_elements))
        else Inr ())"

text \<open>The two padding loops return the first non-zero byte.\<close>

definition check_zeros :: "(u8 \<Rightarrow> 'e) \<Rightarrow> bytes \<Rightarrow> (unit, 'e) result" where
  "check_zeros err bs = (case List.find (\<lambda>b. b \<noteq> 0) bs of None \<Rightarrow> Inr () | Some b \<Rightarrow> Inl (err b))"

definition decode_header :: "EncodedPayload \<Rightarrow> (u32, HokuleaStatelessError) result" where
  "decode_header p =
     (let d = encoded_payload p in
      if length d < ENCODED_PAYLOAD_HEADER_LEN_BYTES then
        Inl (DecodingError (PayloadTooShortForHeader ENCODED_PAYLOAD_HEADER_LEN_BYTES (length d)))
      else if d ! 0 \<noteq> 0 then Inl (DecodingError (InvalidHeaderFirstByte (d ! 0)))
      else rbind
        (if d ! 1 = PAYLOAD_ENCODING_VERSION_0 then Inr (be_u32 [d ! 2, d ! 3, d ! 4, d ! 5])
         else Inl (DecodingError (UnknownEncodingVersion (d ! 1))))
        (\<lambda>payload_length.
          rbind (check_zeros (\<lambda>b. DecodingError (InvalidEncodedPayloadHeaderPadding b))
                   (subslice 6 ENCODED_PAYLOAD_HEADER_LEN_BYTES d))
            (\<lambda>_. Inr payload_length)))"

fun remove_padding_loop :: "bytes list \<Rightarrow> bytes \<Rightarrow> (bytes, HokuleaStatelessError) result" where
  "remove_padding_loop [] decoded_body = Inr decoded_body"
| "remove_padding_loop (chunk # rest) decoded_body =
     (if chunk ! 0 \<noteq> 0 then Inl (DecodingError (InvalidFirstByteFieldElementPadding (chunk ! 0)))
      else remove_padding_loop rest (decoded_body @ subslice 1 32 chunk))"

definition check_and_remove_zero_padding_for_field_elements ::
    "bytes \<Rightarrow> (bytes, HokuleaStatelessError) result" where
  "check_and_remove_zero_padding_for_field_elements encoded_body =
     (if length encoded_body mod BYTES_PER_FIELD_ELEMENT \<noteq> 0 then
        Inl (DecodingError (InvalidLengthEncodedPayload (of_nat (length encoded_body))))
      else remove_padding_loop (chunks BYTES_PER_FIELD_ELEMENT encoded_body) [])"

text \<open>\<open>Bytes::slice(32..)\<close> panics on a shorter buffer.\<close>

definition decode_payload ::
    "EncodedPayload \<Rightarrow> u32 \<Rightarrow> (bytes, HokuleaStatelessError) result outcome" where
  "decode_payload p payload_len =
     (if length (encoded_payload p) < ENCODED_PAYLOAD_HEADER_LEN_BYTES then
        Panic ''range start must not be greater than end''
      else orbind
        (Ret (check_and_remove_zero_padding_for_field_elements
                (drop ENCODED_PAYLOAD_HEADER_LEN_BYTES (encoded_payload p))))
        (\<lambda>decoded_body.
          if length decoded_body < unat payload_len then
            Ret (Inl (DecodingError (DecodedPayloadBodyTooShort (length decoded_body) payload_len)))
          else orbind
            (Ret (check_zeros (\<lambda>b. DecodingError (InvalidEncodedPayloadBodyPadding b))
                    (drop (unat payload_len) decoded_body)))
            (\<lambda>_. Ret (Inr (subslice 0 (unat payload_len) decoded_body)))))"

definition EncodedPayload_decode ::
    "EncodedPayload \<Rightarrow> (bytes, HokuleaStatelessError) result outcome" where
  "EncodedPayload_decode p =
     orbind (Ret (check_len_invariant p)) (\<lambda>_.
       orbind (Ret (decode_header p)) (\<lambda>payload_len_in_header.
         decode_payload p payload_len_in_header))"

section \<open>Powers of two\<close>

lemma nat_double_and_pred: "0 < m \<Longrightarrow> (2 * m) AND (2 * m - 1) = 2 * (m AND (m - 1))" for m :: nat
proof -
  assume "0 < m"
  then have eq: "2 * m - 1 = 1 + 2 * (m - 1)" by simp
  have "(2 * m) AND (1 + 2 * (m - 1)) = 2 * (m AND (m - 1))"
    by (subst and_rec) simp
  then show ?thesis using eq by simp
qed

lemma nat_odd_and_pred: "(2 * m + 1) AND (2 * m) = 2 * m" for m :: nat
  by (subst and_rec) simp

lemma is_power_of_two_double: "0 < m \<Longrightarrow> is_power_of_two (2 * m) \<longleftrightarrow> is_power_of_two m"
  using nat_double_and_pred [of m] unfolding is_power_of_two_def by simp

lemma is_power_of_two_odd: "is_power_of_two (2 * m + 1) \<longleftrightarrow> m = 0"
  using nat_odd_and_pred [of m] by (simp add: is_power_of_two_def)

lemma power_of_two_odd: "(\<exists>k. 2 * m + 1 = (2 :: nat) ^ k) \<longleftrightarrow> m = 0"
proof
  assume "\<exists>k. 2 * m + 1 = (2 :: nat) ^ k"
  then obtain k where k: "2 * m + 1 = (2 :: nat) ^ k" ..
  have "odd (2 * m + 1)" by simp
  then have "k = 0" unfolding k by simp
  with k show "m = 0" by simp
next
  assume "m = 0"
  then have "2 * m + 1 = (2 :: nat) ^ 0" by simp
  then show "\<exists>k. 2 * m + 1 = (2 :: nat) ^ k" ..
qed

lemma power_of_two_double: "0 < m \<Longrightarrow> (\<exists>k. 2 * m = (2 :: nat) ^ k) \<longleftrightarrow> (\<exists>k. m = 2 ^ k)"
proof
  assume "0 < m" "\<exists>k. 2 * m = (2 :: nat) ^ k"
  then obtain k where k: "2 * m = (2 :: nat) ^ k" by blast
  have "k \<noteq> 0"
  proof
    assume "k = 0"
    with k have "2 * m = 1" by simp
    then show False by presburger
  qed
  then have "m = 2 ^ (k - 1)" using k by (cases k) simp_all
  then show "\<exists>k. m = 2 ^ k" ..
next
  assume "\<exists>k. m = (2 :: nat) ^ k"
  then obtain k where "m = 2 ^ k" ..
  then have "2 * m = 2 ^ Suc k" by simp
  then show "\<exists>k. 2 * m = (2 :: nat) ^ k" ..
qed

lemma is_power_of_two_iff: "is_power_of_two n \<longleftrightarrow> (\<exists>k. n = 2 ^ k)"
proof (induction n rule: less_induct)
  case (less n)
  consider "n = 0" | m where "n = 2 * m" "0 < m" | m where "n = 2 * m + 1"
    by (metis evenE oddE gr0I mult_0_right)
  then show ?case
  proof cases
    case 1
    then show ?thesis by (simp add: is_power_of_two_def)
  next
    case 2
    then have "m < n" by simp
    from less.IH [OF this] show ?thesis
      unfolding \<open>n = 2 * m\<close> is_power_of_two_double [OF 2(2)] power_of_two_double [OF 2(2)] .
  next
    case 3
    show ?thesis unfolding 3 is_power_of_two_odd power_of_two_odd ..
  qed
qed

section \<open>The encoding the decoder inverts\<close>

text \<open>Payload encoding version 0 with \<open>2 ^ k\<close> field elements: the header holds the payload length,
  and the payload, padded with zeros to fill the body, is cut into 31 bytes per field element.\<close>

definition header_ref :: "nat \<Rightarrow> bytes" where
  "header_ref n = [0, 0] @ nat_be 4 n @ replicate 26 0"

definition body_ref :: "bytes \<Rightarrow> bytes" where
  "body_ref ds = concat (map (\<lambda>c. 0 # c) (chunks 31 ds))"

definition encode_ref :: "nat \<Rightarrow> bytes \<Rightarrow> bytes" where
  "encode_ref k payload =
     header_ref (length payload) @
     body_ref (payload @ replicate (31 * (2 ^ k - 1) - length payload) 0)"

text \<open>The payloads that fit.\<close>

definition fits :: "nat \<Rightarrow> bytes \<Rightarrow> bool" where
  "fits k payload \<longleftrightarrow> length payload < 2 ^ 32 \<and> length payload \<le> 31 * (2 ^ k - 1)"

lemma length_header_ref [simp]: "length (header_ref n) = 32"
  by (simp add: header_ref_def)

lemma check_zeros_Inr_iff: "check_zeros err bs = Inr u \<longleftrightarrow> bs = replicate (length bs) 0"
proof -
  have "check_zeros err bs = Inr u \<longleftrightarrow> (\<forall>b\<in>set bs. b = 0)"
    using find_None_iff [of "\<lambda>b. b \<noteq> 0" bs]
    by (cases "List.find (\<lambda>b. b \<noteq> 0) bs") (auto simp: check_zeros_def)
  also have "\<dots> \<longleftrightarrow> bs = replicate (length bs) 0"
    by (auto simp: list_eq_iff_nth_eq all_set_conv_all_nth)
  finally show ?thesis .
qed

lemma check_zeros_Inl: "check_zeros err bs = Inl e \<Longrightarrow> \<exists>b\<in>set bs. b \<noteq> 0 \<and> e = err b"
  by (induction bs) (auto simp: check_zeros_def split: if_splits)

lemma remove_padding_loop_Inr_iff:
  "remove_padding_loop cs acc = Inr d \<longleftrightarrow>
     (\<forall>c\<in>set cs. c ! 0 = 0) \<and> d = acc @ concat (map (subslice 1 32) cs)"
  by (induction cs arbitrary: acc) auto

lemma slice_tl_32: "length c = 32 \<Longrightarrow> subslice 1 32 c = tl c"
  by (cases c) (simp_all add: subslice_def)

lemma length_32_ConsE:
  assumes "length c = 32" "c ! 0 = (0 :: u8)"
  shows "c = 0 # tl c" "length (tl c) = 31"
  using assms by (cases c, simp_all)+

text \<open>The body: removing the padding inverts \<open>body_ref\<close>.\<close>

lemma body_ref_chunks:
  assumes "length ds = m * 31"
  shows "chunks 32 (body_ref ds) = map (\<lambda>c. 0 # c) (chunks 31 ds)"
    and "length (body_ref ds) = m * 32"
proof -
  have 31: "\<forall>c\<in>set (chunks 31 ds). length c = 31"
    using chunks_lengths [of 31 ds m] assms by simp
  then show "chunks 32 (body_ref ds) = map (\<lambda>c. 0 # c) (chunks 31 ds)"
    unfolding body_ref_def by (intro chunks_concat) auto
  have "length (body_ref ds) = length (map (\<lambda>c. (0::u8) # c) (chunks 31 ds)) * 32"
    unfolding body_ref_def using 31 by (intro length_concat_const) auto
  then show "length (body_ref ds) = m * 32"
    using length_chunks_mult [of 31 ds m] assms by simp
qed

lemma check_and_remove_body_ref:
  assumes "length ds = m * 31"
  shows "check_and_remove_zero_padding_for_field_elements (body_ref ds) = Inr ds"
proof -
  have 31: "\<forall>c\<in>set (chunks 31 ds). length c = 31"
    using chunks_lengths [of 31 ds m] assms by simp
  have "map (subslice 1 32) (map (\<lambda>c. 0 # c) (chunks 31 ds)) = map (\<lambda>c. c) (chunks 31 ds)"
    unfolding map_map using 31 by (intro map_cong) (auto simp: subslice_def)
  then have "remove_padding_loop (chunks 32 (body_ref ds)) [] = Inr ds"
    unfolding remove_padding_loop_Inr_iff body_ref_chunks(1) [OF assms] by auto
  then show ?thesis
    using body_ref_chunks(2) [OF assms]
    by (simp add: check_and_remove_zero_padding_for_field_elements_def)
qed

lemma check_and_remove_Inr:
  assumes "check_and_remove_zero_padding_for_field_elements body = Inr ds"
    and "length body = m * 32"
  shows "body = body_ref ds" "length ds = m * 31"
proof -
  let ?cs = "chunks 32 body"
  have 32: "\<forall>c\<in>set ?cs. length c = 32"
    using chunks_lengths [of 32 body m] assms(2) by simp
  have z: "\<forall>c\<in>set ?cs. c ! 0 = 0" and ds: "ds = concat (map (subslice 1 32) ?cs)"
    using assms by (auto simp: check_and_remove_zero_padding_for_field_elements_def
        remove_padding_loop_Inr_iff)
  have "map (subslice 1 32) ?cs = map tl ?cs"
    using 32 by (intro map_cong refl slice_tl_32) simp
  then have ds': "ds = concat (map tl ?cs)" using ds by (simp only:)
  have 31: "\<forall>c\<in>set (map tl ?cs). length c = 31" using 32 by auto
  have "chunks 31 ds = map tl ?cs"
    unfolding ds' using 31 by (intro chunks_concat) auto
  then have "body_ref ds = concat (map (\<lambda>c. 0 # tl c) ?cs)"
    by (simp add: body_ref_def o_def)
  also have "map (\<lambda>c. 0 # tl c) ?cs = map (\<lambda>c. c) ?cs"
    using 32 z by (intro map_cong) (auto simp flip: length_32_ConsE(1))
  finally show "body = body_ref ds" by simp
  show "length ds = m * 31"
    using length_concat_const [OF 31] length_chunks_mult [of 32 body m] assms(2) ds' by simp
qed

text \<open>The header.\<close>

lemma header_bytes_iff:
  assumes "length h = 32"
  shows "h ! 0 = 0 \<and> h ! 1 = 0 \<and> subslice 6 32 h = replicate 26 0 \<longleftrightarrow>
         h = header_ref (be_nat [h ! 2, h ! 3, h ! 4, h ! 5])"
proof -
  obtain a b c d e f t where h: "h = a # b # c # d # e # f # t"
    using assms by (auto simp: length_Suc_conv numeral_eq_Suc)
  have "nat_be 4 (be_nat [c, d, e, f]) = [c, d, e, f]"
    by (rule nat_be_be_nat_len) simp
  moreover have "length t = 26" using assms h by simp
  ultimately show ?thesis unfolding h header_ref_def subslice_def by auto
qed

lemma decode_header_Inr_iff:
  assumes "32 \<le> length (encoded_payload p)"
  shows "decode_header p = Inr n \<longleftrightarrow> take 32 (encoded_payload p) = header_ref (unat n)"
    (is "_ \<longleftrightarrow> ?h = _")
proof -
  let ?d = "encoded_payload p"
  have h: "length ?h = 32" using assms by simp
  have sl: "subslice 6 32 ?d = subslice 6 32 ?h" by (simp add: subslice_def drop_take)
  have len: "be_nat [?h ! 2, ?h ! 3, ?h ! 4, ?h ! 5] = unat (be_u32 [?d ! 2, ?d ! 3, ?d ! 4, ?d ! 5])"
    by (subst unat_be_u32) simp_all
  have "decode_header p = Inr n \<longleftrightarrow>
      ?h ! 0 = 0 \<and> ?h ! 1 = 0 \<and> subslice 6 32 ?h = replicate 26 0 \<and>
      n = be_u32 [?d ! 2, ?d ! 3, ?d ! 4, ?d ! 5]"
    using assms
    by (auto simp: decode_header_def Let_def rbind_eq_Inr check_zeros_Inr_iff sl)
  also have "\<dots> \<longleftrightarrow> ?h = header_ref (unat (be_u32 [?d ! 2, ?d ! 3, ?d ! 4, ?d ! 5])) \<and>
      n = be_u32 [?d ! 2, ?d ! 3, ?d ! 4, ?d ! 5]"
    using header_bytes_iff [OF h] len by auto
  also have "\<dots> \<longleftrightarrow> ?h = header_ref (unat n)"
  proof -
    have "n = be_u32 [?d ! 2, ?d ! 3, ?d ! 4, ?d ! 5]" if "?h = header_ref (unat n)"
    proof -
      have "subslice 2 6 ?h = u32_be n"
        unfolding that header_ref_def u32_be_def subslice_def by simp
      moreover have "subslice 2 6 ?h = [?d ! 2, ?d ! 3, ?d ! 4, ?d ! 5]"
        using assms by (auto simp: subslice_def list_eq_iff_nth_eq nth_Cons numeral_eq_Suc less_Suc_eq)
      ultimately show ?thesis using be_u32_be [of n] by simp
    qed
    then show ?thesis by auto
  qed
  finally show ?thesis .
qed

section \<open>Decoding inverts encoding\<close>

lemma check_len_invariant_Inr_iff:
  "check_len_invariant p = Inr u \<longleftrightarrow> (\<exists>k. length (encoded_payload p) = 32 * 2 ^ k)"
proof -
  let ?n = "length (encoded_payload p)"
  have "check_len_invariant p = Inr u \<longleftrightarrow>
      32 \<le> ?n \<and> ?n mod 32 = 0 \<and> is_power_of_two (?n div 32)"
    by (auto simp: check_len_invariant_def Let_def)
  also have "\<dots> \<longleftrightarrow> (\<exists>k. ?n = 32 * 2 ^ k)"
    unfolding is_power_of_two_iff by (auto elim!: dvdE simp flip: dvd_eq_mod_eq_0)
  finally show ?thesis .
qed

lemma decode_payload_Ret:
  assumes "32 \<le> length (encoded_payload p)"
  shows "\<exists>r. decode_payload p n = Ret r"
proof -
  let ?b = "check_and_remove_zero_padding_for_field_elements (drop 32 (encoded_payload p))"
  show ?thesis
  proof (cases ?b)
    case (Inl e)
    then show ?thesis using assms by (simp add: decode_payload_def)
  next
    case (Inr d)
    then show ?thesis using assms
      by (cases "check_zeros (\<lambda>b. DecodingError (InvalidEncodedPayloadBodyPadding b)) (drop (unat n) d)")
         (auto simp: decode_payload_def)
  qed
qed

lemma decode_payload_Inr_iff:
  assumes "length (encoded_payload p) = 32 * (m + 1)"
  shows "decode_payload p n = Ret (Inr payload) \<longleftrightarrow>
     length payload = unat n \<and> unat n \<le> 31 * m \<and>
     drop 32 (encoded_payload p) = body_ref (payload @ replicate (31 * m - unat n) 0)"
    (is "?l \<longleftrightarrow> ?r")
proof -
  let ?body = "drop 32 (encoded_payload p)"
  have len: "length ?body = m * 32" using assms by simp
  have l: "?l \<longleftrightarrow> (\<exists>ds. check_and_remove_zero_padding_for_field_elements ?body = Inr ds \<and>
      unat n \<le> length ds \<and> drop (unat n) ds = replicate (length ds - unat n) 0 \<and>
      payload = take (unat n) ds)"
    using assms
    by (auto simp: decode_payload_def orbind_eq_RetInr check_zeros_Inr_iff subslice_def not_less)
  show ?thesis
  proof
    assume ?l
    then obtain ds where ds: "check_and_remove_zero_padding_for_field_elements ?body = Inr ds"
      "unat n \<le> length ds" "drop (unat n) ds = replicate (length ds - unat n) 0"
      "payload = take (unat n) ds" unfolding l by blast
    note body = check_and_remove_Inr [OF ds(1) len]
    have "ds = payload @ replicate (31 * m - unat n) 0"
      using append_take_drop_id [of "unat n" ds] ds(3,4) body(2) by (simp add: mult.commute)
    then show ?r using ds body by (auto simp: min_absorb2)
  next
    assume r: ?r
    let ?ds = "payload @ replicate (31 * m - unat n) 0"
    have "length ?ds = m * 31" using r by simp
    from check_and_remove_body_ref [OF this] r show ?l
      unfolding l by (intro exI [of _ ?ds]) simp
  qed
qed

lemma decode_Ret: "\<exists>r. EncodedPayload_decode p = Ret r"
proof (cases "check_len_invariant p")
  case (Inl e)
  then show ?thesis by (simp add: EncodedPayload_decode_def)
next
  case (Inr u)
  then have "32 \<le> length (encoded_payload p)"
    unfolding check_len_invariant_Inr_iff by auto
  then show ?thesis
    using decode_payload_Ret [of p] Inr
    by (cases "decode_header p") (simp_all add: EncodedPayload_decode_def)
qed

lemma decode_iff_encode_ref:
  "EncodedPayload_decode p = Ret (Inr payload) \<longleftrightarrow>
     (\<exists>k. fits k payload \<and> encoded_payload p = encode_ref k payload)"
    (is "?l \<longleftrightarrow> ?r")
proof -
  let ?d = "encoded_payload p"
  have split: "?d = h @ b \<longleftrightarrow> take 32 ?d = h \<and> drop 32 ?d = b" if "length h = 32" for h b
    using that by (auto simp: append_eq_conv_conj)
  have k: "EncodedPayload_decode p = Ret (Inr payload) \<longleftrightarrow>
      fits k payload \<and> ?d = encode_ref k payload" if len: "length ?d = 32 * 2 ^ k" for k
  proof -
    have m: "length ?d = 32 * ((2 ^ k - 1) + 1)" using len by simp
    have "32 \<le> length ?d" using len by simp
    note hd = decode_header_Inr_iff [OF this]
    have "EncodedPayload_decode p = Ret (Inr payload) \<longleftrightarrow>
        (\<exists>n. decode_header p = Inr n \<and> decode_payload p n = Ret (Inr payload))"
      using len check_len_invariant_Inr_iff [of p "()"]
      by (auto simp: EncodedPayload_decode_def orbind_eq_RetInr)
    also have "\<dots> \<longleftrightarrow> (\<exists>n :: u32. length payload = unat n \<and> fits k payload \<and>
        ?d = encode_ref k payload)"
      unfolding hd decode_payload_Inr_iff [OF m] fits_def encode_ref_def
        split [OF length_header_ref]
      using unat_lt2p [where 'a = 32] by fastforce
    also have "\<dots> \<longleftrightarrow> fits k payload \<and> ?d = encode_ref k payload"
    proof -
      have "length payload = unat (of_nat (length payload) :: u32)" if "fits k payload"
        using that by (simp add: fits_def unat_of_nat)
      then show ?thesis by blast
    qed
    finally show ?thesis .
  qed
  show ?thesis
  proof
    assume l: ?l
    then obtain k where "length ?d = 32 * 2 ^ k"
      using check_len_invariant_Inr_iff [of p "()"]
      by (auto simp: EncodedPayload_decode_def orbind_eq_RetInr)
    then show ?r using l k by blast
  next
    assume ?r
    then obtain k where r: "fits k payload" "?d = encode_ref k payload" by blast
    have "length (payload @ replicate (31 * (2 ^ k - 1) - length payload) (0::u8)) = (2 ^ k - 1) * 31"
      using r(1) by (simp add: fits_def)
    from body_ref_chunks(2) [OF this] have "length ?d = 32 + (2 ^ k - 1) * 32"
      unfolding r(2) encode_ref_def by simp
    also have "\<dots> = 32 * 2 ^ k" by (simp add: algebra_simps)
    finally show ?l using k r by blast
  qed
qed

end
