(* ===== verification/Eigenda_Witness.thy ===== *)
theory Eigenda_Witness
  imports Encoded_Payload
begin

text \<open>
  The preimage data of a derivation and the witness made of it for the zkVM,
  \<open>crates/proof/src/eigenda_witness.rs\<close>. \<open>into_preimage\<close> inverts \<open>from_preimage\<close> whenever the latter
  accepts, and accepts its own results.
\<close>

datatype EigenDAWitnessError = MissingCanoeProof | MismatchKzgProof

record EigenDAPreimage =
  pre_validities :: "(AltDACommitment \<times> bool) list"
  pre_encoded_payloads :: "(AltDACommitment \<times> EncodedPayload) list"

record EigenDAWitness =
  wit_validities :: "(AltDACommitment \<times> bool) list"
  wit_encoded_payloads :: "(AltDACommitment \<times> EncodedPayload \<times> u512) list"
  wit_canoe_proof_bytes :: "bytes option"

definition from_preimage_unchecked ::
    "EigenDAPreimage \<Rightarrow> u512 list \<Rightarrow> bytes option \<Rightarrow> EigenDAWitness" where
  "from_preimage_unchecked preimage kzg_proofs canoe_proof_bytes =
     \<lparr> wit_validities = pre_validities preimage,
       wit_encoded_payloads =
         map (\<lambda>((commitment, payload), proof). (commitment, payload, proof))
           (zip (pre_encoded_payloads preimage) kzg_proofs),
       wit_canoe_proof_bytes = canoe_proof_bytes \<rparr>"

definition from_preimage ::
    "EigenDAPreimage \<Rightarrow> u512 list \<Rightarrow> bytes option \<Rightarrow> (EigenDAWitness, EigenDAWitnessError) result" where
  "from_preimage preimage kzg_proofs canoe_proof =
     (if pre_validities preimage \<noteq> [] \<and> canoe_proof = None then Inl MissingCanoeProof
      else if length kzg_proofs \<noteq> length (pre_encoded_payloads preimage) then Inl MismatchKzgProof
      else Inr (from_preimage_unchecked preimage kzg_proofs canoe_proof))"

definition into_preimage :: "EigenDAWitness \<Rightarrow> EigenDAPreimage \<times> u512 list \<times> bytes option" where
  "into_preimage w =
     (let pairs = map (\<lambda>(commitment, payload, kzg_proof). ((commitment, payload), kzg_proof))
                    (wit_encoded_payloads w)
      in (\<lparr> pre_validities = wit_validities w, pre_encoded_payloads = map fst pairs \<rparr>,
          map snd pairs, wit_canoe_proof_bytes w))"

lemma into_preimage_from_unchecked:
  assumes "length kzg_proofs = length (pre_encoded_payloads pre)"
  shows "into_preimage (from_preimage_unchecked pre kzg_proofs cp) = (pre, kzg_proofs, cp)"
proof -
  have "map ((\<lambda>(c, p, k). ((c, p), k)) \<circ> (\<lambda>((c, p), k). (c, p, k)))
          (zip (pre_encoded_payloads pre) kzg_proofs) = zip (pre_encoded_payloads pre) kzg_proofs"
    by (intro map_idI) auto
  then show ?thesis using assms
    by (cases pre) (simp add: into_preimage_def from_preimage_unchecked_def)
qed

lemma from_preimage_into:
  assumes "into_preimage w = (pre, kzg_proofs, cp)" "wit_validities w = [] \<or> wit_canoe_proof_bytes w \<noteq> None"
  shows "from_preimage pre kzg_proofs cp = Inr w"
proof -
  have z: "map (\<lambda>((c, p), k). (c, p, k)) (zip (map (\<lambda>x. (fst x, fst (snd x))) es) (map (\<lambda>x. snd (snd x)) es)) = es"
    for es :: "(AltDACommitment \<times> EncodedPayload \<times> u512) list"
    by (induction es) auto
  show ?thesis using assms
    by (cases w) (auto simp: into_preimage_def from_preimage_def from_preimage_unchecked_def
        comp_def case_prod_beta intro: z)
qed

end
