(* ===== verification/Preimage_Source.thy ===== *)
theory Preimage_Source
  imports Encoded_Payload
begin

text \<open>
  The provider interface of \<open>crates/eigenda/src/traits.rs\<close> and the preimage source of
  \<open>crates/eigenda/src/eigenda_preimage.rs\<close>, which turns an AltDA commitment into an encoded
  payload or into the decision to discard, retry or stop.

  A provider is a dictionary of operations over a state, the way a trait implementation is. The
  locale \<open>sound_provider\<close> is what the derivation relies on: an answer, when there is one, is the
  answer of fixed functions \<open>V\<close> and \<open>P\<close> of the commitment, and a failure is never a reason to
  discard. \<open>total_provider\<close> adds that there is always an answer. The client lemmas show that
  the source then computes \<open>derive_commitment\<close>.
\<close>

section \<open>The provider interface\<close>

record ('p, 'e) provider_ops =
  pv_get_validity :: "'p \<Rightarrow> AltDACommitment \<Rightarrow> ((bool, 'e) result \<times> 'p) outcome"
  pv_get_encoded_payload :: "'p \<Rightarrow> AltDACommitment \<Rightarrow> ((EncodedPayload, 'e) result \<times> 'p) outcome"
  pv_into_kind :: "'e \<Rightarrow> HokuleaErrorKind"

definition RESERVED_EIGENDA_API_BYTE_INDEX :: nat where
  "RESERVED_EIGENDA_API_BYTE_INDEX = 32"

definition RESERVED_EIGENDA_API_BYTE_FOR_VALIDITY :: u8 where
  "RESERVED_EIGENDA_API_BYTE_FOR_VALIDITY = 1"

lemmas reserved_constants [simp] =
  RESERVED_EIGENDA_API_BYTE_INDEX_def RESERVED_EIGENDA_API_BYTE_FOR_VALIDITY_def

section \<open>The preimage source\<close>

record 'p EigenDAPreimageSource =
  eigenda_fetcher :: 'p

definition EigenDAPreimageSource_new :: "'p \<Rightarrow> 'p EigenDAPreimageSource" where
  "EigenDAPreimageSource_new fetcher = \<lparr> eigenda_fetcher = fetcher \<rparr>"

definition get_recency_window :: "u16 \<Rightarrow> (u64, HokuleaStatelessError) result" where
  "get_recency_window offchain_derivation_version =
     (if offchain_derivation_version = 0 then Inr 14400
      else Inl (UnsupportedOffchainDerivationVersion offchain_derivation_version))"

text \<open>The addition is on 64 bits and wraps.\<close>

definition recency_check :: "u64 \<Rightarrow> u64 \<Rightarrow> u64 \<Rightarrow> (unit, HokuleaStatelessError) result" where
  "recency_check l1_inclusion_bn rbn recency_window =
     (if recency_window = 0 then Inr ()
      else if l1_inclusion_bn > rbn + recency_window then Inl (RecencyCheckError NotRecentCert)
      else Inr ())"

definition recency_window_of :: "EigenDAVersionedCert \<Rightarrow> (u64, HokuleaStatelessError) result" where
  "recency_window_of vc =
     (case vc of
        V2 _ \<Rightarrow> Inr 0
      | V3 _ \<Rightarrow> Inr 0
      | V4 cert \<Rightarrow> get_recency_window (v4_offchain_derivation_version cert))"

definition preimage_source_next ::
    "('p, 'e) provider_ops \<Rightarrow> 'p EigenDAPreimageSource \<Rightarrow> AltDACommitment \<Rightarrow> u64 \<Rightarrow>
     ((EncodedPayload, HokuleaErrorKind) result \<times> 'p EigenDAPreimageSource) outcome" where
  "preimage_source_next PO self altda_commitment l1_inclusion_bn =
     obind (pv_get_validity PO (eigenda_fetcher self) altda_commitment) (\<lambda>(validity, fetcher).
       let self = self\<lparr> eigenda_fetcher := fetcher \<rparr> in
       case validity of
         Inl e \<Rightarrow> Ret (Inl (pv_into_kind PO e), self)
       | Inr False \<Rightarrow> Ret (Inl (HokuleaErrorKind_from_preimage InvalidCert), self)
       | Inr True \<Rightarrow>
           (case rbind (recency_window_of (versioned_cert altda_commitment))
                   (\<lambda>w. recency_check l1_inclusion_bn (get_rbn altda_commitment) w) of
              Inl e \<Rightarrow> Ret (Inl (HokuleaErrorKind_from_stateless e), self)
            | Inr _ \<Rightarrow>
                obind (pv_get_encoded_payload PO (eigenda_fetcher self) altda_commitment)
                  (\<lambda>(payload, fetcher).
                     Ret (map_err (pv_into_kind PO) payload, self\<lparr> eigenda_fetcher := fetcher \<rparr>))))"

definition preimage_source_parse ::
    "alloy_ops \<Rightarrow> bytes \<Rightarrow> (AltDACommitment, HokuleaStatelessError) result" where
  "preimage_source_parse A data =
     (if length data \<le> 2 then Inl InsufficientLengthAltDACommimtment
      else map_err ParseError (AltDACommitment_try_from A (drop 1 data)))"

section \<open>Recency\<close>

text \<open>The rule on unbounded numbers. A V4 certificate is accepted for 14400 blocks after its
  reference block; the earlier versions have no window.\<close>

definition recent_enough :: "AltDACommitment \<Rightarrow> u64 \<Rightarrow> bool" where
  "recent_enough c bn \<longleftrightarrow>
     (case versioned_cert c of V4 _ \<Rightarrow> unat bn \<le> unat (get_rbn c) + 14400 | _ \<Rightarrow> True)"

definition unsupported_version :: "AltDACommitment \<Rightarrow> u16 option" where
  "unsupported_version c =
     (case versioned_cert c of
        V4 cert \<Rightarrow> if v4_offchain_derivation_version cert = 0 then None
                   else Some (v4_offchain_derivation_version cert)
      | _ \<Rightarrow> None)"

lemma rbn_window_no_wrap: "unat (get_rbn c + 14400) = unat (get_rbn c) + 14400"
proof -
  have "unat (get_rbn c) + unat (14400 :: u64) < 2 ^ LENGTH(64)"
    using get_rbn_bound [of c] by simp
  then have "unat (get_rbn c + 14400) = unat (get_rbn c) + unat (14400 :: u64)"
    by (simp only: unat_add_lem)
  then show ?thesis by simp
qed

lemma recency_window_check:
  "rbind (recency_window_of (versioned_cert c)) (\<lambda>w. recency_check bn (get_rbn c) w) =
     (case unsupported_version c of
        Some v \<Rightarrow> Inl (UnsupportedOffchainDerivationVersion v)
      | None \<Rightarrow> if recent_enough c bn then Inr () else Inl (RecencyCheckError NotRecentCert))"
  using rbn_window_no_wrap [of c]
  by (cases "versioned_cert c")
     (simp_all add: recency_window_of_def recency_check_def get_recency_window_def
        unsupported_version_def recent_enough_def word_less_nat_alt not_less)

section \<open>What a commitment derives to\<close>

definition derive_commitment ::
    "(AltDACommitment \<Rightarrow> bool) \<Rightarrow> (AltDACommitment \<Rightarrow> EncodedPayload) \<Rightarrow> AltDACommitment \<Rightarrow> u64 \<Rightarrow>
     (EncodedPayload, HokuleaErrorKind) result" where
  "derive_commitment V P c bn =
     (if \<not> V c then Inl (HokuleaErrorKind_from_preimage InvalidCert)
      else case unsupported_version c of
             Some v \<Rightarrow> Inl (HokuleaErrorKind_from_stateless (UnsupportedOffchainDerivationVersion v))
           | None \<Rightarrow>
               if \<not> recent_enough c bn
               then Inl (HokuleaErrorKind_from_stateless (RecencyCheckError NotRecentCert))
               else Inr (P c))"

lemma preimage_source_next_unfold:
  "preimage_source_next PO self c bn =
     obind (pv_get_validity PO (eigenda_fetcher self) c) (\<lambda>(validity, fetcher).
       case validity of
         Inl e \<Rightarrow> Ret (Inl (pv_into_kind PO e), \<lparr> eigenda_fetcher = fetcher \<rparr>)
       | Inr b \<Rightarrow>
         (case derive_commitment (\<lambda>_. b) (\<lambda>_. undefined) c bn of
            Inl k \<Rightarrow> Ret (Inl k, \<lparr> eigenda_fetcher = fetcher \<rparr>)
          | Inr _ \<Rightarrow> obind (pv_get_encoded_payload PO fetcher c) (\<lambda>(payload, fetcher).
              Ret (map_err (pv_into_kind PO) payload, \<lparr> eigenda_fetcher = fetcher \<rparr>))))"
  unfolding preimage_source_next_def recency_window_check
  by (cases self)
     (auto simp: derive_commitment_def Let_def split: bool.splits option.splits sum.splits
       intro!: arg_cong [where f = "obind _"] ext)

lemma derive_commitment_Inl_any:
  "derive_commitment V P c bn = Inl k \<longleftrightarrow> derive_commitment (\<lambda>_. V c) Q c bn = Inl k"
  by (auto simp: derive_commitment_def split: option.splits)

lemma derive_commitment_Inr_any:
  "derive_commitment V P c bn = Inr x \<longleftrightarrow>
     V c \<and> x = P c \<and> (\<exists>y. derive_commitment (\<lambda>_. V c) Q c bn = Inr y)"
  by (auto simp: derive_commitment_def split: option.splits)

lemma preimage_source_next_cases:
  assumes "preimage_source_next PO s c bn = Ret (r, s')"
  obtains
    (validity_error) e where "pv_get_validity PO (eigenda_fetcher s) c = Ret (Inl e, eigenda_fetcher s')"
      "r = Inl (pv_into_kind PO e)"
  | (rejected) b k where "pv_get_validity PO (eigenda_fetcher s) c = Ret (Inr b, eigenda_fetcher s')"
      "derive_commitment (\<lambda>_. b) (\<lambda>_. undefined) c bn = Inl k" "r = Inl k"
  | (fetched) b p' y x where "pv_get_validity PO (eigenda_fetcher s) c = Ret (Inr b, p')"
      "derive_commitment (\<lambda>_. b) (\<lambda>_. undefined) c bn = Inr y"
      "pv_get_encoded_payload PO p' c = Ret (x, eigenda_fetcher s')" "r = map_err (pv_into_kind PO) x"
proof -
  obtain v p' where v: "pv_get_validity PO (eigenda_fetcher s) c = Ret (v, p')"
    using assms by (auto simp: preimage_source_next_unfold obind_eq_Ret)
  show thesis
  proof (cases v)
    case (Inl e)
    then show thesis using assms v
      by (intro validity_error [of e]) (auto simp: preimage_source_next_unfold)
  next
    case (Inr b)
    show thesis
    proof (cases "derive_commitment (\<lambda>_. b) (\<lambda>_. undefined) c bn")
      case (Inl k)
      then show thesis using assms v Inr
        by (intro rejected [of b k]) (auto simp: preimage_source_next_unfold)
    next
      case (Inr y)
      then show thesis using assms v \<open>v = Inr b\<close> fetched [of b p' y]
        by (auto simp: preimage_source_next_unfold obind_eq_Ret)
    qed
  qed
qed

locale sound_provider =
  fixes PO :: "('p, 'e) provider_ops"
    and inv :: "'p \<Rightarrow> bool"
    and V :: "AltDACommitment \<Rightarrow> bool"
    and P :: "AltDACommitment \<Rightarrow> EncodedPayload"
  assumes validity_ok: "inv p \<Longrightarrow> pv_get_validity PO p c = Ret (Inr b, p') \<Longrightarrow> b = V c \<and> inv p'"
    and validity_err: "inv p \<Longrightarrow> pv_get_validity PO p c = Ret (Inl e, p') \<Longrightarrow>
          inv p' \<and> \<not> is_Discard (pv_into_kind PO e)"
    and payload_ok: "inv p \<Longrightarrow> V c \<Longrightarrow> pv_get_encoded_payload PO p c = Ret (Inr x, p') \<Longrightarrow>
          x = P c \<and> inv p'"
    and payload_err: "inv p \<Longrightarrow> V c \<Longrightarrow> pv_get_encoded_payload PO p c = Ret (Inl e, p') \<Longrightarrow>
          inv p' \<and> \<not> is_Discard (pv_into_kind PO e)"
begin

lemma next_inv:
  assumes "inv (eigenda_fetcher s)" "preimage_source_next PO s c bn = Ret (r, s')"
  shows "inv (eigenda_fetcher s')"
  using assms(2)
proof (cases rule: preimage_source_next_cases)
  case (validity_error e)
  then show ?thesis using validity_err [OF assms(1)] by blast
next
  case (rejected b k)
  then show ?thesis using validity_ok [OF assms(1)] by blast
next
  case (fetched b p' y x)
  have p': "b = V c" "inv p'" using validity_ok [OF assms(1) fetched(1)] by auto
  have "V c" using fetched(2) p' by (auto simp: derive_commitment_def split: if_splits)
  then show ?thesis using payload_ok [OF p'(2)] payload_err [OF p'(2)] fetched(3) by (cases x) blast+
qed

lemma next_cases:
  assumes "inv (eigenda_fetcher s)" "preimage_source_next PO s c bn = Ret (r, s')"
  shows "r = derive_commitment V P c bn \<or> (\<exists>e. r = Inl (pv_into_kind PO e) \<and> \<not> is_Discard (pv_into_kind PO e))"
  using assms(2)
proof (cases rule: preimage_source_next_cases)
  case (validity_error e)
  then show ?thesis using validity_err [OF assms(1)] by blast
next
  case (rejected b k)
  then have "b = V c" using validity_ok [OF assms(1)] by blast
  then have "derive_commitment V P c bn = Inl k"
    using rejected(2) derive_commitment_Inl_any by blast
  then show ?thesis using rejected(3) by simp
next
  case (fetched b p' y x)
  have p': "b = V c" "inv p'" using validity_ok [OF assms(1) fetched(1)] by auto
  have v: "V c" using fetched(2) p' by (auto simp: derive_commitment_def split: if_splits)
  show ?thesis
  proof (cases x)
    case (Inl e)
    then show ?thesis using payload_err [OF p'(2) v] fetched(3,4) by auto
  next
    case (Inr z)
    then have "z = P c" using payload_ok [OF p'(2) v] fetched(3) by blast
    then have "derive_commitment V P c bn = Inr z"
      unfolding derive_commitment_Inr_any [of V P c bn z "\<lambda>_. undefined"]
      using v fetched(2) p'(1) by auto
    then show ?thesis using fetched(4) Inr by simp
  qed
qed

end

locale total_provider = sound_provider +
  assumes validity_total: "inv p \<Longrightarrow> \<exists>b p'. pv_get_validity PO p c = Ret (Inr b, p')"
    and payload_total: "inv p \<Longrightarrow> V c \<Longrightarrow> \<exists>x p'. pv_get_encoded_payload PO p c = Ret (Inr x, p')"
begin

lemma next_total:
  assumes "inv (eigenda_fetcher s)"
  shows "\<exists>s'. preimage_source_next PO s c bn = Ret (derive_commitment V P c bn, s') \<and>
              inv (eigenda_fetcher s')"
proof -
  obtain b p' where v: "pv_get_validity PO (eigenda_fetcher s) c = Ret (Inr b, p')"
    using validity_total [OF assms] by blast
  then have b: "b = V c" and p': "inv p'" using validity_ok [OF assms] by auto
  show ?thesis
  proof (cases "derive_commitment (\<lambda>_. b) (\<lambda>_. undefined) c bn")
    case (Inl k)
    then show ?thesis using v b p'
      by (auto simp: preimage_source_next_unfold derive_commitment_def split: if_splits option.splits)
  next
    case (Inr u)
    then have "V c" using b by (auto simp: derive_commitment_def split: if_splits)
    then obtain x p'' where "pv_get_encoded_payload PO p' c = Ret (Inr x, p'')" "x = P c" "inv p''"
      using payload_total [OF p'] payload_ok [OF p'] by blast
    then show ?thesis using v b p' Inr
      by (auto simp: preimage_source_next_unfold derive_commitment_def split: if_splits option.splits)
  qed
qed

end

end
