(* ===== verification/Data_Source.thy ===== *)
theory Data_Source
  imports Preimage_Source
begin

text \<open>
  The data source of \<open>crates/eigenda/src/eigenda.rs\<close>, the \<open>DataAvailabilityProvider\<close> that the
  derivation pipeline of kona calls: it reads the batcher inbox from the ethereum source, passes
  data that is not for AltDA through, and resolves AltDA commitments through the preimage source.

  The ethereum source and the pipeline errors belong to kona: the source is a dictionary
  \<open>eth_ops\<close>, and of \<open>PipelineError\<close> only the variants named here are told apart. \<open>next\<close> calls itself
  after a discarded commitment, so it is a partial function whose value \<open>None\<close> would mean that it
  does not return; it is shown to return whenever the ethereum source runs dry.

  \<open>spec_next\<close> specifies one call on the sequence of pending items. A call either does what
  \<open>spec_next\<close> says, or reports a provider failure and leaves a state from which \<open>spec_next\<close>
  gives the same answer, so that retrying loses nothing.
\<close>

section \<open>The pipeline interface of kona\<close>

datatype PipelineError = Eof | NotEnoughData | Provider string | OtherPipelineError string

datatype PipelineErrorKind = PTemporary PipelineError | PCritical PipelineError | PReset string

record BlockInfo =
  bi_number :: u64

record 'g eth_ops =
  eth_next :: "'g \<Rightarrow> BlockInfo \<Rightarrow> u160 \<Rightarrow> (bytes, PipelineErrorKind) result \<times> 'g"
  eth_clear :: "'g \<Rightarrow> 'g"

section \<open>The data source\<close>

record ('g, 'p) EigenDADataSource =
  ethereum_source :: 'g
  eigenda_source :: "'p EigenDAPreimageSource"
  altda_commitment :: "AltDACommitment option"

definition EigenDADataSource_new ::
    "'g \<Rightarrow> 'p EigenDAPreimageSource \<Rightarrow> ('g, 'p) EigenDADataSource" where
  "EigenDADataSource_new eth src =
     \<lparr> ethereum_source = eth, eigenda_source = src, altda_commitment = None \<rparr>"

definition data_source_clear ::
    "'g eth_ops \<Rightarrow> ('g, 'p) EigenDADataSource \<Rightarrow> ('g, 'p) EigenDADataSource" where
  "data_source_clear E self =
     self\<lparr> altda_commitment := None, ethereum_source := eth_clear E (ethereum_source self) \<rparr>"

text \<open>The first half of \<open>next\<close>: make sure there is a commitment to resolve, or return early.\<close>

definition data_source_load ::
    "alloy_ops \<Rightarrow> 'g eth_ops \<Rightarrow> ('g, 'p) EigenDADataSource \<Rightarrow> BlockInfo \<Rightarrow> u160 \<Rightarrow>
     ((bytes, PipelineErrorKind) result + AltDACommitment) \<times> ('g, 'p) EigenDADataSource" where
  "data_source_load A E self block_ref batcher_addr =
     (case altda_commitment self of
        Some c \<Rightarrow> (Inr c, self)
      | None \<Rightarrow>
          (case eth_next E (ethereum_source self) block_ref batcher_addr of
             (Inl e, g) \<Rightarrow>
               let self = self\<lparr> ethereum_source := g \<rparr> in
               if e = PTemporary Eof then (Inl (Inl e), data_source_clear E self)
               else (Inl (Inl e), self)
           | (Inr local_data, g) \<Rightarrow>
               let self = self\<lparr> ethereum_source := g \<rparr> in
               if local_data = [] then (Inl (Inl (PTemporary NotEnoughData)), self)
               else if local_data ! 0 \<noteq> ALTDA_DERIVATION_VERSION then (Inl (Inr local_data), self)
               else case preimage_source_parse A local_data of
                      Inr c \<Rightarrow> (Inr c, self\<lparr> altda_commitment := Some c \<rparr>)
                    | Inl _ \<Rightarrow> (Inl (Inl (PTemporary NotEnoughData)), self)))"

partial_function (option) data_source_next ::
    "alloy_ops \<Rightarrow> 'g eth_ops \<Rightarrow> ('p, 'e) provider_ops \<Rightarrow> ('g, 'p) EigenDADataSource \<Rightarrow>
     BlockInfo \<Rightarrow> u160 \<Rightarrow>
     ((bytes, PipelineErrorKind) result \<times> ('g, 'p) EigenDADataSource) outcome option" where
  "data_source_next A E PO self block_ref batcher_addr =
     (case data_source_load A E self block_ref batcher_addr of
        (Inl r, self) \<Rightarrow> Some (Ret (r, self))
      | (Inr c, self) \<Rightarrow>
          (case preimage_source_next PO (eigenda_source self) c (bi_number block_ref) of
             Panic m \<Rightarrow> Some (Panic m)
           | Ret (r, src) \<Rightarrow>
               let self = self\<lparr> eigenda_source := src \<rparr> in
               (case r of
                  Inl (Temporary e) \<Rightarrow> Some (Ret (Inl (PTemporary (Provider e)), self))
                | Inl (Discard e) \<Rightarrow>
                    data_source_next A E PO (self\<lparr> altda_commitment := None \<rparr>) block_ref batcher_addr
                | Inl (Critical e) \<Rightarrow> Some (Ret (Inl (PCritical (Provider e)), self))
                | Inr payload \<Rightarrow>
                    (case EncodedPayload_decode payload of
                       Panic m \<Rightarrow> Some (Panic m)
                     | Ret (Inr c) \<Rightarrow> Some (Ret (Inr c, self\<lparr> altda_commitment := None \<rparr>))
                     | Ret (Inl e) \<Rightarrow>
                         data_source_next A E PO (self\<lparr> altda_commitment := None \<rparr>)
                           block_ref batcher_addr))))"

declare data_source_next.simps [code]

lemma data_source_next_early:
  "data_source_load A E s b a = (Inl r, s') \<Longrightarrow> data_source_next A E PO s b a = Some (Ret (r, s'))"
  by (subst data_source_next.simps) simp

lemma data_source_next_at:
  assumes "data_source_load A E s b a = (Inr c, s1)"
    and "preimage_source_next PO (eigenda_source s1) c (bi_number b) = Ret (r, src)"
  shows "data_source_next A E PO s b a =
     (let s2 = s1\<lparr> eigenda_source := src \<rparr> in
      case r of
        Inl (Temporary e) \<Rightarrow> Some (Ret (Inl (PTemporary (Provider e)), s2))
      | Inl (Discard e) \<Rightarrow> data_source_next A E PO (s2\<lparr> altda_commitment := None \<rparr>) b a
      | Inl (Critical e) \<Rightarrow> Some (Ret (Inl (PCritical (Provider e)), s2))
      | Inr p \<Rightarrow>
          (case EncodedPayload_decode p of
             Panic m \<Rightarrow> Some (Panic m)
           | Ret (Inr x) \<Rightarrow> Some (Ret (Inr x, s2\<lparr> altda_commitment := None \<rparr>))
           | Ret (Inl e) \<Rightarrow> data_source_next A E PO (s2\<lparr> altda_commitment := None \<rparr>) b a))"
  using assms by (subst data_source_next.simps) simp

section \<open>Termination\<close>

text \<open>Every self-call starts without a commitment and has to take one more item from the ethereum
  source.\<close>

definition eth_measure :: "'g eth_ops \<Rightarrow> ('g \<Rightarrow> nat) \<Rightarrow> BlockInfo \<Rightarrow> u160 \<Rightarrow> bool" where
  "eth_measure E m b a \<longleftrightarrow>
     (\<forall>g d g'. eth_next E g b a = (Inr d, g') \<longrightarrow> m g' < m g)"

lemma data_source_load_Inr:
  assumes "data_source_load A E s b a = (Inr c, s')"
  shows "altda_commitment s' = Some c \<and> eigenda_source s' = eigenda_source s \<and>
     (if altda_commitment s = None
      then \<exists>d. eth_next E (ethereum_source s) b a = (Inr d, ethereum_source s') \<and>
               d \<noteq> [] \<and> d ! 0 = 1 \<and> preimage_source_parse A d = Inr c
      else s' = s)"
  using assms
  by (auto simp: data_source_load_def Let_def split: option.splits prod.splits sum.splits if_splits)

lemma data_source_next_returns_aux:
  assumes m: "eth_measure E m b a" and "m (ethereum_source s) = n" "altda_commitment s = None"
  shows "\<exists>r. data_source_next A E PO s b a = Some r"
  using assms(2,3)
proof (induction n arbitrary: s rule: less_induct)
  case (less n)
  show ?case
  proof (cases "data_source_load A E s b a")
    case (Pair l s1)
    show ?thesis
    proof (cases l)
      case (Inl r)
      then show ?thesis using Pair by (subst data_source_next.simps) simp
    next
      case (Inr c)
      then obtain d where "eth_next E (ethereum_source s) b a = (Inr d, ethereum_source s1)"
        using data_source_load_Inr [of A E s b a c s1] Pair less.prems(2) by auto
      then have "m (ethereum_source s1) < n"
        using m less.prems(1) unfolding eth_measure_def by blast
      then have IH: "\<exists>r. data_source_next A E PO
          (s1\<lparr> eigenda_source := src, altda_commitment := None \<rparr>) b a = Some r" for src
        by (intro less.IH [of "m (ethereum_source s1)"]) simp_all
      then show ?thesis using Pair Inr
        by (subst data_source_next.simps)
           (auto simp: Let_def split: outcome.splits sum.splits HokuleaErrorKind.splits)
    qed
  qed
qed

lemma data_source_next_returns:
  assumes m: "eth_measure E m b a"
  shows "\<exists>r. data_source_next A E PO s b a = Some r"
proof (cases "altda_commitment s")
  case None
  then show ?thesis using data_source_next_returns_aux [OF m] by blast
next
  case (Some c)
  then have l: "data_source_load A E s b a = (Inr c, s)" by (simp add: data_source_load_def)
  have IH: "\<exists>r. data_source_next A E PO (s\<lparr> eigenda_source := src, altda_commitment := None \<rparr>) b a = Some r"
    for src by (rule data_source_next_returns_aux [OF m refl]) simp
  show ?thesis using IH
    by (subst data_source_next.simps)
       (auto simp: l Let_def split: outcome.splits sum.splits HokuleaErrorKind.splits)
qed

section \<open>What the pipeline should receive\<close>

text \<open>The pending work of a data source: the commitment kept for a retry, then the inbox data the
  ethereum source still holds for the block.\<close>

datatype item = Calldata bytes | Retry AltDACommitment

datatype verdict = Skip | Yield bytes | Fail PipelineErrorKind | Stuck AltDACommitment PipelineErrorKind

definition spec_commitment ::
    "(AltDACommitment \<Rightarrow> bool) \<Rightarrow> (AltDACommitment \<Rightarrow> EncodedPayload) \<Rightarrow> u64 \<Rightarrow> AltDACommitment \<Rightarrow>
     verdict" where
  "spec_commitment V P bn c =
     (case derive_commitment V P c bn of
        Inl (Discard _) \<Rightarrow> Skip
      | Inl (Temporary m) \<Rightarrow> Stuck c (PTemporary (Provider m))
      | Inl (Critical m) \<Rightarrow> Stuck c (PCritical (Provider m))
      | Inr p \<Rightarrow> (case EncodedPayload_decode p of Ret (Inr x) \<Rightarrow> Yield x | _ \<Rightarrow> Skip))"

definition spec_item ::
    "alloy_ops \<Rightarrow> (AltDACommitment \<Rightarrow> bool) \<Rightarrow> (AltDACommitment \<Rightarrow> EncodedPayload) \<Rightarrow> u64 \<Rightarrow> item \<Rightarrow>
     verdict" where
  "spec_item A V P bn i =
     (case i of
        Retry c \<Rightarrow> spec_commitment V P bn c
      | Calldata d \<Rightarrow>
          if d = [] then Fail (PTemporary NotEnoughData)
          else if d ! 0 \<noteq> 1 then Yield d
          else case preimage_source_parse A d of
                 Inl _ \<Rightarrow> Fail (PTemporary NotEnoughData)
               | Inr c \<Rightarrow> spec_commitment V P bn c)"

fun spec_next :: "(item \<Rightarrow> verdict) \<Rightarrow> item list \<Rightarrow> (bytes, PipelineErrorKind) result \<times> item list" where
  "spec_next v [] = (Inl (PTemporary Eof), [])"
| "spec_next v (i # is) =
     (case v i of
        Skip \<Rightarrow> spec_next v is
      | Yield x \<Rightarrow> (Inr x, is)
      | Fail e \<Rightarrow> (Inl e, is)
      | Stuck c e \<Rightarrow> (Inl e, Retry c # is))"

definition spec_outputs :: "(item \<Rightarrow> verdict) \<Rightarrow> item list \<Rightarrow> bytes list" where
  "spec_outputs v is = concat (map (\<lambda>i. case v i of Yield x \<Rightarrow> [x] | _ \<Rightarrow> []) is)"

definition pending :: "('g \<Rightarrow> bytes list) \<Rightarrow> ('g, 'p) EigenDADataSource \<Rightarrow> item list" where
  "pending items s =
     (case altda_commitment s of None \<Rightarrow> [] | Some c \<Rightarrow> [Retry c]) @
     map Calldata (items (ethereum_source s))"

text \<open>What the ethereum source promises for one block: it hands out its items in order, signals the
  end of them with \<open>Eof\<close>, and another error loses none.\<close>

definition eth_drains :: "'g eth_ops \<Rightarrow> ('g \<Rightarrow> bytes list) \<Rightarrow> BlockInfo \<Rightarrow> u160 \<Rightarrow> bool" where
  "eth_drains E items b a \<longleftrightarrow>
     (\<forall>g. case eth_next E g b a of
            (Inr d, g') \<Rightarrow> items g = d # items g'
          | (Inl e, g') \<Rightarrow> if e = PTemporary Eof then items g = [] else items g' = items g)"

lemma spec_commitment_Stuck: "spec_commitment V P bn c = Stuck c' e \<Longrightarrow> c' = c"
  by (auto simp: spec_commitment_def split: sum.splits HokuleaErrorKind.splits outcome.splits)

lemma spec_item_Stuck:
  "spec_item A V P bn i = Stuck c e \<Longrightarrow> spec_item A V P bn (Retry c) = Stuck c e"
  by (auto simp: spec_item_def dest: spec_commitment_Stuck split: item.splits if_splits sum.splits)

lemma spec_next_outputs:
  assumes "spec_next (spec_item A V P bn) is = (r, rest)"
  shows "spec_outputs (spec_item A V P bn) is =
     (case r of
        Inr x \<Rightarrow> x # spec_outputs (spec_item A V P bn) rest
      | Inl _ \<Rightarrow> spec_outputs (spec_item A V P bn) rest)"
  using assms
proof (induction "is")
  case (Cons i "is")
  then show ?case
    using spec_item_Stuck [of A V P bn i]
    by (cases "spec_item A V P bn i") (auto simp: spec_outputs_def)
qed (auto simp: spec_outputs_def)

lemma spec_item_never_Eof: "spec_item A V P bn i \<noteq> Fail (PTemporary Eof)"
  "spec_item A V P bn i \<noteq> Stuck c (PTemporary Eof)"
  by (auto simp: spec_item_def spec_commitment_def
      split: item.splits sum.splits HokuleaErrorKind.splits outcome.splits)

lemma spec_next_Eof:
  "spec_next (spec_item A V P bn) is = (Inl (PTemporary Eof), rest) \<Longrightarrow> rest = []"
  by (induction "is") (auto split: verdict.splits simp: spec_item_never_Eof)

lemma spec_next_again:
  assumes "spec_next (spec_item A V P bn) is = (Inl e, rest)" "e \<noteq> PTemporary Eof" "e \<noteq> PTemporary NotEnoughData"
  shows "spec_next (spec_item A V P bn) rest = (Inl e, rest)"
  using assms(1)
proof (induction "is")
  case (Cons i "is")
  have "spec_item A V P bn i \<noteq> Fail e"
    using assms(3) by (auto simp: spec_item_def spec_commitment_def
        split: item.splits sum.splits HokuleaErrorKind.splits outcome.splits)
  then show ?case
    using Cons spec_item_Stuck [of A V P bn i]
    by (auto split: verdict.splits)
qed (use assms(2) in simp)

text \<open>The first half of a call against the specification.\<close>

lemma data_source_load_spec:
  assumes "eth_drains E items b a" "data_source_load A E s b a = (l, s')"
  shows "case l of
      Inr c \<Rightarrow> altda_commitment s' = Some c \<and> eigenda_source s' = eigenda_source s \<and>
        (\<exists>i. pending items s = i # map Calldata (items (ethereum_source s')) \<and>
             spec_item A V P bn i = spec_commitment V P bn c)
    | Inl (Inr x) \<Rightarrow> altda_commitment s' = None \<and> eigenda_source s' = eigenda_source s \<and>
        (\<exists>i. pending items s = i # pending items s' \<and> spec_item A V P bn i = Yield x)
    | Inl (Inl e) \<Rightarrow> altda_commitment s' = None \<and> eigenda_source s' = eigenda_source s \<and>
        (if e = PTemporary Eof then pending items s = []
         else pending items s' = pending items s \<or>
           (\<exists>i. pending items s = i # pending items s' \<and> spec_item A V P bn i = Fail e))"
proof (cases "altda_commitment s")
  case (Some c)
  then show ?thesis using assms(2)
    by (auto simp: data_source_load_def pending_def spec_item_def)
next
  case None
  obtain r g where n: "eth_next E (ethereum_source s) b a = (r, g)" by fastforce
  have d: "case r of Inr d \<Rightarrow> items (ethereum_source s) = d # items g
      | Inl e \<Rightarrow> if e = PTemporary Eof then items (ethereum_source s) = []
                 else items g = items (ethereum_source s)"
    using assms(1) n unfolding eth_drains_def by (auto dest: spec [of _ "ethereum_source s"] split: sum.splits)
  show ?thesis
  proof (cases r)
    case (Inl e)
    then show ?thesis using None n d assms(2)
      by (auto simp: data_source_load_def data_source_clear_def pending_def Let_def split: if_splits)
  next
    case (Inr x)
    then show ?thesis using None n d assms(2)
      by (auto simp: data_source_load_def pending_def spec_item_def Let_def
          split: if_splits sum.splits)
  qed
qed

section \<open>One call\<close>

text \<open>A call is in step with the specification: it answers as \<open>spec_next\<close> does and leaves the rest
  pending, or it reports an error and the specification still gives what it gave before.\<close>

definition in_step ::
    "(item \<Rightarrow> verdict) \<Rightarrow> item list \<Rightarrow> (bytes, PipelineErrorKind) result \<Rightarrow> item list \<Rightarrow> bool" where
  "in_step v before r after \<longleftrightarrow>
     (fst (spec_next v before) = r \<and> (r = Inl (PTemporary Eof) \<or> snd (spec_next v before) = after)) \<or>
     (\<exists>e. r = Inl e \<and> e \<noteq> PTemporary Eof \<and> spec_next v after = spec_next v before)"

lemma in_step_outputs:
  assumes "in_step (spec_item A V P bn) before r after"
  shows "spec_outputs (spec_item A V P bn) before =
     (case r of
        Inr x \<Rightarrow> x # spec_outputs (spec_item A V P bn) after
      | Inl e \<Rightarrow> if e = PTemporary Eof then [] else spec_outputs (spec_item A V P bn) after)"
proof -
  let ?v = "spec_item A V P bn"
  obtain r0 rest where sb: "spec_next ?v before = (r0, rest)" by fastforce
  note ob = spec_next_outputs [OF sb]
  show ?thesis
  proof (cases "r = Inl (PTemporary Eof)")
    case True
    then have "r0 = Inl (PTemporary Eof)" using assms sb by (auto simp: in_step_def)
    then show ?thesis using ob True spec_next_Eof [of A V P bn before rest] sb
      by (simp add: spec_outputs_def)
  next
    case False
    then consider "r0 = r" "rest = after" | e where "r = Inl e" "spec_next ?v after = (r0, rest)"
      using assms sb by (auto simp: in_step_def)
    then show ?thesis
    proof cases
      case 1
      then show ?thesis using ob False by (auto split: sum.splits)
    next
      case 2
      then show ?thesis using ob spec_next_outputs [OF 2(2)] False by simp
    qed
  qed
qed

lemma decode_not_Panic: "EncodedPayload_decode p \<noteq> Panic m"
  using decode_Ret [of p] by auto

text \<open>Induction along the self-calls of \<open>next\<close>, one case for each way a call ends.\<close>

lemma data_source_next_induct [consumes 1, case_names early panic temporary critical decoded skip]:
  assumes "data_source_next A E PO s b a = Some y"
    and early: "\<And>s r s'. data_source_load A E s b a = (Inl r, s') \<Longrightarrow> Q s (Ret (r, s'))"
    and panic: "\<And>s c s1 m. data_source_load A E s b a = (Inr c, s1) \<Longrightarrow>
          preimage_source_next PO (eigenda_source s1) c (bi_number b) = Panic m \<Longrightarrow> Q s (Panic m)"
    and temporary: "\<And>s c s1 e src. data_source_load A E s b a = (Inr c, s1) \<Longrightarrow>
          preimage_source_next PO (eigenda_source s1) c (bi_number b) = Ret (Inl (Temporary e), src) \<Longrightarrow>
          Q s (Ret (Inl (PTemporary (Provider e)), s1\<lparr> eigenda_source := src \<rparr>))"
    and critical: "\<And>s c s1 e src. data_source_load A E s b a = (Inr c, s1) \<Longrightarrow>
          preimage_source_next PO (eigenda_source s1) c (bi_number b) = Ret (Inl (Critical e), src) \<Longrightarrow>
          Q s (Ret (Inl (PCritical (Provider e)), s1\<lparr> eigenda_source := src \<rparr>))"
    and decoded: "\<And>s c s1 p x src. data_source_load A E s b a = (Inr c, s1) \<Longrightarrow>
          preimage_source_next PO (eigenda_source s1) c (bi_number b) = Ret (Inr p, src) \<Longrightarrow>
          EncodedPayload_decode p = Ret (Inr x) \<Longrightarrow>
          Q s (Ret (Inr x, s1\<lparr> eigenda_source := src, altda_commitment := None \<rparr>))"
    and skip: "\<And>s c s1 r src y. data_source_load A E s b a = (Inr c, s1) \<Longrightarrow>
          preimage_source_next PO (eigenda_source s1) c (bi_number b) = Ret (r, src) \<Longrightarrow>
          (case r of Inl k \<Rightarrow> is_Discard k | Inr p \<Rightarrow> \<exists>e. EncodedPayload_decode p = Ret (Inl e)) \<Longrightarrow>
          Q (s1\<lparr> eigenda_source := src, altda_commitment := None \<rparr>) y \<Longrightarrow> Q s y"
  shows "Q s y"
proof -
  have "A' = A \<longrightarrow> E' = E \<longrightarrow> PO' = PO \<longrightarrow> b' = b \<longrightarrow> a' = a \<longrightarrow> Q s' y'"
    if "data_source_next A' E' PO' s' b' a' = Some y'" for A' E' PO' s' b' a' y'
    using that
  proof (induction rule: data_source_next.raw_induct [rotated 1, consumes 1, case_names 1])
    case (1 nxt A' E' PO' s' b' a' y')
    show ?case
    proof (intro impI)
      assume eqs: "A' = A" "E' = E" "PO' = PO" "b' = b" "a' = a"
      obtain l s1 where l: "data_source_load A E s' b a = (l, s1)" by fastforce
      have IH: "nxt A E PO s b a = Some y \<Longrightarrow> Q s y" for s y
        using 1(1) [of A E PO s b a y] by simp
      show "Q s' y'"
      proof (cases l)
        case (Inl r)
        then show ?thesis using 1(2) early l eqs by auto
      next
        case (Inr c)
        note l = l [unfolded Inr]
        show ?thesis
        proof (cases "preimage_source_next PO (eigenda_source s1) c (bi_number b)")
          case (Panic m)
          then show ?thesis using 1(2) panic [OF l] l eqs by auto
        next
          case (Ret rs)
          then obtain r src where p: "preimage_source_next PO (eigenda_source s1) c (bi_number b) = Ret (r, src)"
            by (cases rs) simp
          note sk = skip [OF l p]
          show ?thesis
          proof (cases r)
            case (Inl k)
            then show ?thesis
              using 1(2) l eqs p temporary [OF l] critical [OF l] sk IH
              by (cases k) (auto simp: Let_def)
          next
            case (Inr pay)
            show ?thesis
            proof (cases "EncodedPayload_decode pay")
              case (Panic m)
              then show ?thesis using decode_not_Panic by blast
            next
              case (Ret d)
              then show ?thesis
                using 1(2) l eqs p Inr decoded [OF l, of pay src] sk IH
                by (cases d) (auto simp: Let_def)
            qed
          qed
        qed
      qed
    qed
  qed
  then show ?thesis using assms(1) by blast
qed

lemma loaded_spec:
  assumes "eth_drains E items b a" "data_source_load A E s b a = (Inr c, s')"
  shows "\<exists>i. pending items s = i # map Calldata (items (ethereum_source s')) \<and>
             spec_item A V P bn i = spec_commitment V P bn c"
  using data_source_load_spec [OF assms, of V P bn] by simp

lemma loaded_retry:
  assumes "eth_drains E items b a" "data_source_load A E s b a = (Inr c, s')"
  shows "spec_next (spec_item A V P bn) (pending items (s'\<lparr> eigenda_source := src \<rparr>)) =
         spec_next (spec_item A V P bn) (pending items s)"
proof -
  obtain i where i: "pending items s = i # map Calldata (items (ethereum_source s'))"
      "spec_item A V P bn i = spec_commitment V P bn c"
    using loaded_spec [OF assms] by metis
  have "altda_commitment s' = Some c" using data_source_load_Inr [OF assms(2)] by simp
  then have "pending items (s'\<lparr> eigenda_source := src \<rparr>) =
      Retry c # map Calldata (items (ethereum_source s'))" by (simp add: pending_def)
  moreover have "spec_item A V P bn (Retry c) = spec_commitment V P bn c"
    by (simp add: spec_item_def)
  ultimately show ?thesis
    using i spec_commitment_Stuck [of V P bn c] by (cases "spec_commitment V P bn c") auto
qed

context sound_provider begin

lemma next_verdict:
  assumes "inv (eigenda_fetcher src)" "preimage_source_next PO src c bn = Ret (r, src')"
  shows "case r of
      Inl (Discard _) \<Rightarrow> spec_commitment V P bn c = Skip
    | Inl _ \<Rightarrow> True
    | Inr p \<Rightarrow> (case EncodedPayload_decode p of
                 Ret (Inr x) \<Rightarrow> spec_commitment V P bn c = Yield x
               | Ret (Inl _) \<Rightarrow> spec_commitment V P bn c = Skip
               | Panic _ \<Rightarrow> False)"
  using next_cases [OF assms] decode_Ret
  by (auto simp: spec_commitment_def decode_not_Panic
      split: sum.splits HokuleaErrorKind.splits outcome.splits)

lemma next_loaded:
  assumes "eth_drains E items b a" "inv (eigenda_fetcher (eigenda_source s))"
    and ld: "data_source_load A E s b a = (Inr c, s1)"
    and nx: "preimage_source_next PO (eigenda_source s1) c (bi_number b) = Ret (r, src)"
  shows "inv (eigenda_fetcher src)"
    and "r = Inr p \<Longrightarrow> EncodedPayload_decode p = Ret (Inr x) \<Longrightarrow>
      spec_next (spec_item A V P (bi_number b)) (pending items s) =
        (Inr x, pending items (s1\<lparr> eigenda_source := src, altda_commitment := None \<rparr>))"
    and "(case r of Inl k \<Rightarrow> is_Discard k | Inr p \<Rightarrow> \<exists>e. EncodedPayload_decode p = Ret (Inl e)) \<Longrightarrow>
      spec_next (spec_item A V P (bi_number b)) (pending items s) =
      spec_next (spec_item A V P (bi_number b))
        (pending items (s1\<lparr> eigenda_source := src, altda_commitment := None \<rparr>))"
proof -
  have i: "inv (eigenda_fetcher (eigenda_source s1))"
    using assms(2) data_source_load_Inr [OF ld] by simp
  then show "inv (eigenda_fetcher src)" using next_inv nx by blast
  obtain j where j: "pending items s =
        j # pending items (s1\<lparr> eigenda_source := src, altda_commitment := None \<rparr>)"
      "spec_item A V P (bi_number b) j = spec_commitment V P (bi_number b) c"
    using loaded_spec [OF assms(1) ld, of V P "bi_number b"] by (auto simp: pending_def)
  note v = next_verdict [OF i nx]
  show "spec_next (spec_item A V P (bi_number b)) (pending items s) =
      (Inr x, pending items (s1\<lparr> eigenda_source := src, altda_commitment := None \<rparr>))"
    if "r = Inr p" "EncodedPayload_decode p = Ret (Inr x)"
    using v that j by simp
  assume d: "case r of Inl k \<Rightarrow> is_Discard k | Inr p \<Rightarrow> \<exists>e. EncodedPayload_decode p = Ret (Inl e)"
  have "spec_commitment V P (bi_number b) c = Skip"
    using v d by (auto split: sum.splits HokuleaErrorKind.splits)
  then show "spec_next (spec_item A V P (bi_number b)) (pending items s) =
      spec_next (spec_item A V P (bi_number b))
        (pending items (s1\<lparr> eigenda_source := src, altda_commitment := None \<rparr>))"
    using j by simp
qed

lemma next_in_step:
  assumes "data_source_next A E PO s b a = Some y"
    and dr: "eth_drains E items b a"
  shows "inv (eigenda_fetcher (eigenda_source s)) \<Longrightarrow> y = Ret (r, s') \<Longrightarrow>
      inv (eigenda_fetcher (eigenda_source s')) \<and>
      in_step (spec_item A V P (bi_number b)) (pending items s) r (pending items s')"
  using assms(1)
proof (induction arbitrary: r s' rule: data_source_next_induct)
  case (early s r s')
  then show ?case using data_source_load_spec [OF dr early(1), where V = V and P = P and bn = "bi_number b"]
    by (auto simp: in_step_def split: sum.splits if_splits)
next
  case (panic s c s1 m)
  then show ?case by simp
next
  case (temporary s c s1 e src)
  then show ?case using next_loaded(1) [OF dr temporary(3,1,2)]
      loaded_retry [OF dr temporary(1)] by (auto simp: in_step_def)
next
  case (critical s c s1 e src)
  then show ?case using next_loaded(1) [OF dr critical(3,1,2)]
      loaded_retry [OF dr critical(1)] by (auto simp: in_step_def)
next
  case (decoded s c s1 p x src)
  then show ?case using next_loaded(1,2) [OF dr decoded(4,1,2)] by (auto simp: in_step_def)
next
  case (skip s c s1 q src y)
  note l = next_loaded(1,3) [OF dr skip(5,1,2)]
  have "inv (eigenda_fetcher (eigenda_source (s1\<lparr> eigenda_source := src, altda_commitment := None \<rparr>)))"
    using l(1) by simp
  from skip(4) [OF this skip(6)] show ?case
    using l(2) [OF skip(3)] by (simp add: in_step_def)
qed

end

section \<open>A whole block\<close>

text \<open>The pipeline calls \<open>next\<close> until it reports \<open>Eof\<close>, again after every other error. \<open>pulls\<close> relates
  a state to the data such a sequence of calls delivers.\<close>

inductive pulls ::
    "alloy_ops \<Rightarrow> 'g eth_ops \<Rightarrow> ('p, 'e) provider_ops \<Rightarrow> BlockInfo \<Rightarrow> u160 \<Rightarrow>
     ('g, 'p) EigenDADataSource \<Rightarrow> bytes list \<Rightarrow> bool"
  for A E PO b a where
  finish: "data_source_next A E PO s b a = Some (Ret (Inl (PTemporary Eof), s')) \<Longrightarrow>
     pulls A E PO b a s []"
| data: "data_source_next A E PO s b a = Some (Ret (Inr x, s')) \<Longrightarrow>
     pulls A E PO b a s' xs \<Longrightarrow> pulls A E PO b a s (x # xs)"
| again: "data_source_next A E PO s b a = Some (Ret (Inl e, s')) \<Longrightarrow> e \<noteq> PTemporary Eof \<Longrightarrow>
     pulls A E PO b a s' xs \<Longrightarrow> pulls A E PO b a s xs"

context sound_provider begin

lemma pulls_spec:
  assumes "pulls A E PO b a s xs" "eth_drains E items b a"
    and "inv (eigenda_fetcher (eigenda_source s))"
  shows "xs = spec_outputs (spec_item A V P (bi_number b)) (pending items s)"
  using assms(1,3)
proof (induction rule: pulls.induct)
  case (finish s s')
  then show ?case using in_step_outputs [of A V P "bi_number b"] next_in_step [OF finish(1) assms(2)]
    by fastforce
next
  case (data s x s' xs)
  then show ?case using in_step_outputs [of A V P "bi_number b"] next_in_step [OF data(1) assms(2)]
    by fastforce
next
  case (again s e s' xs)
  then show ?case using in_step_outputs [of A V P "bi_number b"] next_in_step [OF again(1) assms(2)]
    by fastforce
qed

end

section \<open>A provider that always answers\<close>

definition eth_quiet :: "'g eth_ops \<Rightarrow> BlockInfo \<Rightarrow> u160 \<Rightarrow> bool" where
  "eth_quiet E b a \<longleftrightarrow> (\<forall>g e g'. eth_next E g b a = (Inl e, g') \<longrightarrow> e = PTemporary Eof)"

lemma eth_drains_measure:
  assumes "eth_drains E items b a"
  shows "eth_measure E (length \<circ> items) b a"
  unfolding eth_measure_def
proof (intro allI impI)
  fix g d g'
  assume "eth_next E g b a = (Inr d, g')"
  then have "items g = d # items g'"
    using assms unfolding eth_drains_def by (auto dest: spec [of _ g])
  then show "(length \<circ> items) g' < (length \<circ> items) g" by simp
qed

lemma data_source_load_quiet:
  assumes "eth_drains E items b a" "eth_quiet E b a" "data_source_load A E s b a = (Inl r, s')"
  shows "fst (spec_next (spec_item A V P bn) (pending items s)) = r \<and>
         (r = Inl (PTemporary Eof) \<or>
          snd (spec_next (spec_item A V P bn) (pending items s)) = pending items s')"
proof (cases "altda_commitment s")
  case (Some c)
  then show ?thesis using assms(3) by (simp add: data_source_load_def)
next
  case None
  obtain q g where n: "eth_next E (ethereum_source s) b a = (q, g)" by fastforce
  show ?thesis
  proof (cases q)
    case (Inl e)
    then have "e = PTemporary Eof" using assms(2) n unfolding eth_quiet_def by blast
    then have "r = Inl (PTemporary Eof)"
      using assms(3) None n Inl by (auto simp: data_source_load_def)
    then show ?thesis using data_source_load_spec [OF assms(1,3)] by simp
  next
    case (Inr d)
    then have "items (ethereum_source s) = d # items g"
      using assms(1) n unfolding eth_drains_def by (auto dest: spec [of _ "ethereum_source s"])
    then show ?thesis using assms(3) None n Inr
      by (auto simp: data_source_load_def pending_def spec_item_def Let_def split: if_splits sum.splits)
  qed
qed

lemma spec_next_progress:
  assumes "spec_next v is = (r, rest)" "\<forall>i\<in>set is. \<forall>c e. v i \<noteq> Stuck c e"
  shows "set rest \<subseteq> set is" "is \<noteq> [] \<Longrightarrow> length rest < length is"
  using assms by (induction "is") (fastforce split: verdict.splits)+

context total_provider begin

lemma next_stuck:
  assumes "eth_drains E items b a" "inv (eigenda_fetcher (eigenda_source s))"
    and ld: "data_source_load A E s b a = (Inr c, s1)"
    and nx: "preimage_source_next PO (eigenda_source s1) c (bi_number b) = Ret (Inl k, src)"
  shows "k = Temporary e \<Longrightarrow> spec_next (spec_item A V P (bi_number b)) (pending items s) =
        (Inl (PTemporary (Provider e)), pending items (s1\<lparr> eigenda_source := src \<rparr>))"
    and "k = Critical e \<Longrightarrow> spec_next (spec_item A V P (bi_number b)) (pending items s) =
        (Inl (PCritical (Provider e)), pending items (s1\<lparr> eigenda_source := src \<rparr>))"
proof -
  have s1: "altda_commitment s1 = Some c" "eigenda_source s1 = eigenda_source s"
    using data_source_load_Inr [OF ld] by simp_all
  have "derive_commitment V P c (bi_number b) = Inl k"
    using next_total [of "eigenda_source s1" c "bi_number b"] nx assms(2) s1 by auto
  moreover obtain j where "pending items s = j # map Calldata (items (ethereum_source s1))"
      "spec_item A V P (bi_number b) j = spec_commitment V P (bi_number b) c"
    using loaded_spec [OF assms(1) ld] by metis
  ultimately show "k = Temporary e \<Longrightarrow> spec_next (spec_item A V P (bi_number b)) (pending items s) =
        (Inl (PTemporary (Provider e)), pending items (s1\<lparr> eigenda_source := src \<rparr>))"
    and "k = Critical e \<Longrightarrow> spec_next (spec_item A V P (bi_number b)) (pending items s) =
        (Inl (PCritical (Provider e)), pending items (s1\<lparr> eigenda_source := src \<rparr>))"
    using s1 by (simp_all add: spec_commitment_def pending_def)
qed

lemma next_exact:
  assumes "data_source_next A E PO s b a = Some y"
    and dr: "eth_drains E items b a" "eth_quiet E b a"
  shows "inv (eigenda_fetcher (eigenda_source s)) \<Longrightarrow>
     \<exists>r s'. y = Ret (r, s') \<and> fst (spec_next (spec_item A V P (bi_number b)) (pending items s)) = r \<and>
       (r = Inl (PTemporary Eof) \<or>
        snd (spec_next (spec_item A V P (bi_number b)) (pending items s)) = pending items s') \<and>
       inv (eigenda_fetcher (eigenda_source s'))"
  using assms(1)
proof (induction rule: data_source_next_induct)
  case (early s r s')
  have "eigenda_source s' = eigenda_source s"
    using data_source_load_spec [OF dr(1) early(1), of V P "bi_number b"]
    by (auto split: sum.splits)
  then show ?case using data_source_load_quiet [OF dr early(1)] early(2) by auto
next
  case (panic s c s1 m)
  then show ?case
    using next_total [of "eigenda_source s1" c "bi_number b"] data_source_load_Inr [OF panic(1)] by auto
next
  case (temporary s c s1 e src)
  then show ?case using next_stuck [OF dr(1) temporary(3,1,2)] next_loaded(1) [OF dr(1) temporary(3,1,2)]
    by auto
next
  case (critical s c s1 e src)
  then show ?case using next_stuck [OF dr(1) critical(3,1,2)] next_loaded(1) [OF dr(1) critical(3,1,2)]
    by auto
next
  case (decoded s c s1 p x src)
  then show ?case using next_loaded(1,2) [OF dr(1) decoded(4,1,2)] by auto
next
  case (skip s c s1 q src y)
  note l = next_loaded(1,3) [OF dr(1) skip(5,1,2)]
  have "inv (eigenda_fetcher (eigenda_source (s1\<lparr> eigenda_source := src, altda_commitment := None \<rparr>)))"
    using l(1) by simp
  from skip(4) [OF this] show ?case using l(2) [OF skip(3)] by simp
qed

lemma pulls_exists:
  assumes dr: "eth_drains E items b a" "eth_quiet E b a"
    and "inv (eigenda_fetcher (eigenda_source s))"
    and "\<forall>i\<in>set (pending items s). \<forall>c e. spec_item A V P (bi_number b) i \<noteq> Stuck c e"
  shows "\<exists>xs. pulls A E PO b a s xs"
  using assms(3,4)
proof (induction "length (pending items s)" arbitrary: s rule: less_induct)
  case less
  obtain y where y: "data_source_next A E PO s b a = Some y"
    using data_source_next_returns [OF eth_drains_measure [OF dr(1)]] by blast
  obtain r rest where sp: "spec_next (spec_item A V P (bi_number b)) (pending items s) = (r, rest)"
    by fastforce
  from next_exact [OF y dr less.prems(1)] sp obtain s' where s': "y = Ret (r, s')"
      "r = Inl (PTemporary Eof) \<or> rest = pending items s'" "inv (eigenda_fetcher (eigenda_source s'))"
    by auto
  show ?case
  proof (cases "r = Inl (PTemporary Eof)")
    case True
    then show ?thesis using y s'(1) by (blast intro: pulls.finish)
  next
    case False
    then have ne: "pending items s \<noteq> []" using sp by auto
    have rest: "rest = pending items s'" using s'(2) False by simp
    note pr = spec_next_progress [OF sp less.prems(2)]
    from pr ne rest less.prems(2) obtain xs where xs: "pulls A E PO b a s' xs"
      using less.hyps [of s'] s'(3) by blast
    show ?thesis
    proof (cases r)
      case (Inl e)
      then show ?thesis using pulls.again [of A E PO s b a e s' xs] y s'(1) xs False by blast
    next
      case (Inr x)
      then show ?thesis using pulls.data [of A E PO s b a x s' xs] y s'(1) xs by blast
    qed
  qed
qed

end

end
