(* ===== verification/Oracle_Provider.thy ===== *)
theory Oracle_Provider
  imports Data_Source
begin

text \<open>
  The client side of the preimage oracle, \<open>crates/proof/src\<close>: the hint types (\<open>hint.rs\<close>), the
  provider errors (\<open>errors.rs\<close>) and the provider that reads validity and field elements through the
  oracle (\<open>eigenda_provider.rs\<close>).

  The communication channel \<open>CommsClient\<close>, \<open>PreimageKey\<close> and kona's \<open>HintType\<close> are parameters. All
  data of a commitment lives at 80-byte addresses that start with its digest; the addresses of
  the validity and of the field elements are shown never to meet. The provider is an instance of
  \<open>sound_provider\<close> as soon as the channel answers from fixed data.
\<close>

section \<open>Hints\<close>

datatype 'h ExtendedHintType = Original 'h | EigenDACert

text \<open>The derived \<open>Ord\<close>: variants in declaration order, then by their fields.\<close>

instantiation ExtendedHintType :: (linorder) linorder
begin

fun less_eq_ExtendedHintType :: "'a ExtendedHintType \<Rightarrow> 'a ExtendedHintType \<Rightarrow> bool" where
  "less_eq_ExtendedHintType (Original a) (Original b) \<longleftrightarrow> a \<le> b"
| "less_eq_ExtendedHintType (Original a) EigenDACert \<longleftrightarrow> True"
| "less_eq_ExtendedHintType EigenDACert (Original b) \<longleftrightarrow> False"
| "less_eq_ExtendedHintType EigenDACert EigenDACert \<longleftrightarrow> True"

definition less_ExtendedHintType :: "'a ExtendedHintType \<Rightarrow> 'a ExtendedHintType \<Rightarrow> bool" where
  "less_ExtendedHintType x y \<longleftrightarrow> x \<le> y \<and> \<not> y \<le> x"

instance
proof
  fix x y z :: "'a ExtendedHintType"
  show "x < y \<longleftrightarrow> x \<le> y \<and> \<not> y \<le> x" by (rule less_ExtendedHintType_def)
  show "x \<le> x" by (cases x) simp_all
  show "x \<le> y \<Longrightarrow> y \<le> z \<Longrightarrow> x \<le> z" by (cases x; cases y; cases z) auto
  show "x \<le> y \<Longrightarrow> y \<le> x \<Longrightarrow> x = y" by (cases x; cases y) auto
  show "x \<le> y \<or> y \<le> x" by (cases x; cases y) auto
qed

end

text \<open>\<open>From<ExtendedHintType> for &str\<close> and \<open>Display\<close>; \<open>into\<close> is the name of a kona hint.\<close>

definition hint_to_str :: "('h \<Rightarrow> string) \<Rightarrow> 'h ExtendedHintType \<Rightarrow> string" where
  "hint_to_str into h = (case h of EigenDACert \<Rightarrow> ''eigenda-certificate'' | Original t \<Rightarrow> into t)"

definition hint_from_str ::
    "(string \<Rightarrow> ('h, 'x) result) \<Rightarrow> string \<Rightarrow> ('h ExtendedHintType, 'x) result" where
  "hint_from_str from value =
     (if value = ''eigenda-certificate'' then Inr EigenDACert
      else rbind (from value) (\<lambda>t. Inr (Original t)))"

definition encode_with :: "('h \<Rightarrow> string) \<Rightarrow> 'h ExtendedHintType \<Rightarrow> bytes list \<Rightarrow> string" where
  "encode_with into h data = hint_to_str into h @ '' '' @ hex_encode (concat data)"

lemma hint_round_trip:
  assumes "\<And>t. h = Original t \<Longrightarrow> from (into t) = Inr t \<and> into t \<noteq> ''eigenda-certificate''"
  shows "hint_from_str from (hint_to_str into h) = Inr h"
  using assms by (cases h) (auto simp: hint_to_str_def hint_from_str_def)

section \<open>Errors and the channel\<close>

datatype PreimageOracleError = IOError string | OtherOracleError string

datatype HokuleaOracleProviderError = Preimage PreimageOracleError

definition HokuleaErrorKind_from_oracle :: "HokuleaOracleProviderError \<Rightarrow> HokuleaErrorKind" where
  "HokuleaErrorKind_from_oracle val =
     (case val of Preimage err \<Rightarrow>
        (case err of
           IOError e \<Rightarrow> Critical (''HokuleaOracleProviderError::PreimageOracleError::IOError '' @ e)
         | OtherOracleError e \<Rightarrow> Temporary (''HokuleaOracleProviderError::Preimage: '' @ e)))"

lemma oracle_error_never_discards [simp]: "\<not> is_Discard (HokuleaErrorKind_from_oracle e)"
  by (simp add: HokuleaErrorKind_from_oracle_def split: HokuleaOracleProviderError.splits
      PreimageOracleError.splits)

text \<open>\<open>CommsClient\<close> over a state: writing a hint, reading a value, and reading a value into a
  32-byte buffer. \<open>co_key\<close> is \<open>PreimageKey::new\<close> with the key type \<open>GlobalGeneric\<close>.\<close>

record ('o, 'k) comms_ops =
  co_key :: "u256 \<Rightarrow> 'k"
  co_write :: "'o \<Rightarrow> string \<Rightarrow> (unit, PreimageOracleError) result \<times> 'o"
  co_get :: "'o \<Rightarrow> 'k \<Rightarrow> (bytes, PreimageOracleError) result \<times> 'o"
  co_get_exact :: "'o \<Rightarrow> 'k \<Rightarrow> (u256, PreimageOracleError) result \<times> 'o"

section \<open>Addresses\<close>

definition validity_address :: "alloy_ops \<Rightarrow> AltDACommitment \<Rightarrow> bytes" where
  "validity_address A c =
     (digest_template A c)[RESERVED_EIGENDA_API_BYTE_INDEX := RESERVED_EIGENDA_API_BYTE_FOR_VALIDITY]"

definition set_index :: "u64 \<Rightarrow> bytes \<Rightarrow> bytes" where
  "set_index idx field_element_key = write_at 72 (u64_be idx) field_element_key"

abbreviation field_element_address :: "alloy_ops \<Rightarrow> AltDACommitment \<Rightarrow> u64 \<Rightarrow> bytes" where
  "field_element_address A c idx \<equiv> set_index idx (digest_template A c)"

lemma validity_address_eq:
  "validity_address A c = b256_be (to_digest A c) @ [1] @ replicate 47 0"
  by (simp add: validity_address_def digest_template_eq list_update_append numeral_eq_Suc)

lemma field_element_address_eq:
  "field_element_address A c idx = b256_be (to_digest A c) @ replicate 40 0 @ u64_be idx"
  by (simp add: set_index_def write_at_def digest_template_eq)

lemma set_index_set_index:
  "length k = 80 \<Longrightarrow> set_index i (set_index j k) = set_index i k"
  by (simp add: set_index_def write_at_def)

lemma length_set_index [simp]: "length k = 80 \<Longrightarrow> length (set_index i k) = 80"
  by (simp add: set_index_def)

lemma field_element_address_inj:
  "field_element_address A c i = field_element_address A d j \<longleftrightarrow>
     to_digest A c = to_digest A d \<and> i = j"
  by (simp add: field_element_address_eq)

lemma validity_address_inj:
  "validity_address A c = validity_address A d \<longleftrightarrow> to_digest A c = to_digest A d"
  by (simp add: validity_address_eq)

lemma validity_not_field_element: "validity_address A c \<noteq> field_element_address A d i"
proof
  assume "validity_address A c = field_element_address A d i"
  from arg_cong [OF this, of "\<lambda>bs. bs ! 32"] show False
    by (simp add: validity_address_eq field_element_address_eq nth_append)
qed

section \<open>The provider\<close>

record 'o OracleEigenDAPreimageProvider =
  oracle_client :: 'o

definition oracle_provider_new :: "'o \<Rightarrow> 'o OracleEigenDAPreimageProvider" where
  "oracle_provider_new ch = \<lparr> oracle_client = ch \<rparr>"

definition oracle_hint :: "alloy_ops \<Rightarrow> AltDACommitment \<Rightarrow> string" where
  "oracle_hint A c = encode_with (\<lambda>t :: unit. []) EigenDACert [to_rlp_bytes A c]"

definition oracle_get_validity ::
    "alloy_ops \<Rightarrow> ('o, 'k) comms_ops \<Rightarrow> 'o OracleEigenDAPreimageProvider \<Rightarrow> AltDACommitment \<Rightarrow>
     ((bool, HokuleaOracleProviderError) result \<times> 'o OracleEigenDAPreimageProvider) outcome" where
  "oracle_get_validity A CO self c =
     (case co_write CO (oracle_client self) (oracle_hint A c) of
        (Inl e, o1) \<Rightarrow> Ret (Inl (Preimage e), self\<lparr> oracle_client := o1 \<rparr>)
      | (Inr _, o1) \<Rightarrow>
          (case co_get CO o1 (co_key CO (keccak256 A (validity_address A c))) of
             (Inl e, o2) \<Rightarrow> Ret (Inl (Preimage e), self\<lparr> oracle_client := o2 \<rparr>)
           | (Inr validity, o2) \<Rightarrow>
               if validity = [] \<or> length validity \<noteq> 1 then
                 Panic ''Preimage returned something, but the returned value is not formatted correctly for validity''
               else if validity ! 0 = 0 then Ret (Inr False, self\<lparr> oracle_client := o2 \<rparr>)
               else if validity ! 0 = 1 then Ret (Inr True, self\<lparr> oracle_client := o2 \<rparr>)
               else Panic ''validity can only be 0 or 1''))"

fun fetch_loop ::
    "alloy_ops \<Rightarrow> ('o, 'k) comms_ops \<Rightarrow> 'o \<Rightarrow> u64 list \<Rightarrow> bytes \<Rightarrow> bytes \<Rightarrow>
     (bytes, HokuleaOracleProviderError) result \<times> 'o" where
  "fetch_loop A CO ch [] field_element_key buf = (Inr buf, ch)"
| "fetch_loop A CO ch (idx_fe # rest) field_element_key buf =
     (let field_element_key = set_index idx_fe field_element_key in
      case co_get_exact CO ch (co_key CO (keccak256 A field_element_key)) of
        (Inl e, ch) \<Rightarrow> (Inl (Preimage e), ch)
      | (Inr field_element, ch) \<Rightarrow>
          fetch_loop A CO ch rest field_element_key
            (write_at (unat idx_fe * 32) (b256_be field_element) buf))"

definition fetch_encoded_payload ::
    "alloy_ops \<Rightarrow> ('o, 'k) comms_ops \<Rightarrow> 'o \<Rightarrow> bytes \<Rightarrow> u64 \<Rightarrow> bytes \<Rightarrow>
     (bytes, HokuleaOracleProviderError) result \<times> 'o" where
  "fetch_encoded_payload A CO ch field_element_key blob_length buf =
     fetch_loop A CO ch (map of_nat [0..<unat blob_length]) field_element_key buf"

definition oracle_get_encoded_payload ::
    "alloy_ops \<Rightarrow> ('o, 'k) comms_ops \<Rightarrow> 'o OracleEigenDAPreimageProvider \<Rightarrow> AltDACommitment \<Rightarrow>
     ((EncodedPayload, HokuleaOracleProviderError) result \<times> 'o OracleEigenDAPreimageProvider) outcome"
  where
  "oracle_get_encoded_payload A CO self c =
     (case co_write CO (oracle_client self) (oracle_hint A c) of
        (Inl e, o1) \<Rightarrow> Ret (Inl (Preimage e), self\<lparr> oracle_client := o1 \<rparr>)
      | (Inr _, o1) \<Rightarrow>
          let blob_length_fe = get_num_field_element c;
              buf = replicate (unat blob_length_fe * BYTES_PER_FIELD_ELEMENT) 0
          in case fetch_encoded_payload A CO o1 (digest_template A c) blob_length_fe buf of
               (Inl e, o2) \<Rightarrow> Ret (Inl e, self\<lparr> oracle_client := o2 \<rparr>)
             | (Inr buf, o2) \<Rightarrow> Ret (Inr \<lparr> encoded_payload = buf \<rparr>, self\<lparr> oracle_client := o2 \<rparr>))"

definition oracle_provider ::
    "alloy_ops \<Rightarrow> ('o, 'k) comms_ops \<Rightarrow>
     ('o OracleEigenDAPreimageProvider, HokuleaOracleProviderError) provider_ops" where
  "oracle_provider A CO =
     \<lparr> pv_get_validity = oracle_get_validity A CO,
       pv_get_encoded_payload = oracle_get_encoded_payload A CO,
       pv_into_kind = HokuleaErrorKind_from_oracle \<rparr>"

section \<open>What the fetch loop reads\<close>

text \<open>The elements the loop writes are those the channel returns, in index order, whatever the
  index bytes of the key held before.\<close>

definition channel_serves ::
    "alloy_ops \<Rightarrow> ('o, 'k) comms_ops \<Rightarrow> AltDACommitment \<Rightarrow> (u64 \<Rightarrow> u256) \<Rightarrow> bool" where
  "channel_serves A CO c F \<longleftrightarrow>
     (\<forall>ch i x ch'. unat i < unat (get_num_field_element c) \<longrightarrow>
        co_get_exact CO ch (co_key CO (keccak256 A (field_element_address A c i))) = (Inr x, ch') \<longrightarrow>
        x = F i)"

lemma fetch_loop_result:
  assumes "channel_serves A CO c F" "n \<le> unat (get_num_field_element c)"
    and "fetch_loop A CO ch (map of_nat [k..<n]) key buf = (Inr res, ch')"
    and "set_index 0 key = field_element_address A c 0" "length key = 80"
    and "length buf = n * 32" "k \<le> n"
  shows "res = take (k * 32) buf @ concat (map (\<lambda>i. b256_be (F (of_nat i))) [k..<n])"
  using assms(3-)
proof (induction "n - k" arbitrary: k ch key buf)
  case 0
  then show ?case by simp
next
  case (Suc m)
  then have k: "k < n" by simp
  then have up: "[k..<n] = k # [Suc k..<n]" by (simp add: upt_conv_Cons)
  let ?i = "of_nat k :: u64"
  have "k < 2 ^ 64" using k assms(2) unat_lt2p [of "get_num_field_element c"] by simp
  then have ui: "unat ?i = k" by (simp add: unat_of_nat)
  have key: "set_index ?i key = field_element_address A c ?i"
    using Suc.prems(2,3) set_index_set_index [of key ?i 0]
      set_index_set_index [of "digest_template A c" ?i 0] by simp
  obtain x ch1 where x: "co_get_exact CO ch (co_key CO (keccak256 A (field_element_address A c ?i))) = (Inr x, ch1)"
    and rest: "fetch_loop A CO ch1 (map of_nat [Suc k..<n]) (set_index ?i key)
      (write_at (k * 32) (b256_be x) buf) = (Inr res, ch')"
    using Suc.prems(1) unfolding up by (auto simp: Let_def key ui split: prod.splits sum.splits)
  have "unat ?i < unat (get_num_field_element c)" using ui k assms(2) by simp
  then have xF: "x = F ?i" using assms(1) x unfolding channel_serves_def by blast
  have len: "length (write_at (k * 32) (b256_be x) buf) = n * 32"
    using Suc.prems(4) k by (subst length_write_at) simp_all
  have "res = take (Suc k * 32) (write_at (k * 32) (b256_be x) buf) @
      concat (map (\<lambda>i. b256_be (F (of_nat i))) [Suc k..<n])"
    using Suc.hyps(2) k Suc.prems(3) len
    by (intro Suc.hyps(1) [OF _ rest]) (simp_all add: set_index_set_index key)
  moreover have "take (Suc k * 32) (write_at (k * 32) (b256_be x) buf) = take (k * 32) buf @ b256_be x"
    using Suc.prems(4) k by (simp add: write_at_def)
  ultimately show ?case unfolding up xF by simp
qed

definition elements :: "AltDACommitment \<Rightarrow> (u64 \<Rightarrow> u256) \<Rightarrow> EncodedPayload" where
  "elements c F =
     \<lparr> encoded_payload =
         concat (map (\<lambda>i. b256_be (F (of_nat i))) [0..<unat (get_num_field_element c)]) \<rparr>"

lemma oracle_get_encoded_payload_Inr:
  assumes "channel_serves A CO c F"
    and "oracle_get_encoded_payload A CO p c = Ret (Inr x, p')"
  shows "x = elements c F"
proof -
  let ?n = "unat (get_num_field_element c)"
  obtain o1 buf o2 where f: "fetch_encoded_payload A CO o1 (digest_template A c)
        (get_num_field_element c) (replicate (?n * 32) 0) = (Inr buf, o2)"
    and x: "x = \<lparr> encoded_payload = buf \<rparr>"
    using assms(2) unfolding oracle_get_encoded_payload_def
    by (auto simp: Let_def split: prod.splits sum.splits)
  have "buf = take (0 * 32) (replicate (?n * 32) 0) @ concat (map (\<lambda>i. b256_be (F (of_nat i))) [0..<?n])"
    by (rule fetch_loop_result [OF assms(1) order_refl f [unfolded fetch_encoded_payload_def]])
       (simp_all add: length_digest_template)
  then show ?thesis using x by (simp add: elements_def)
qed

text \<open>The channel answers from fixed data: a validity byte and field elements for each commitment.\<close>

definition oracle_consistent ::
    "alloy_ops \<Rightarrow> ('o, 'k) comms_ops \<Rightarrow> (AltDACommitment \<Rightarrow> bool) \<Rightarrow> (AltDACommitment \<Rightarrow> u64 \<Rightarrow> u256) \<Rightarrow>
     'o OracleEigenDAPreimageProvider \<Rightarrow> bool" where
  "oracle_consistent A CO V F p \<longleftrightarrow>
     (\<forall>c ch v ch'. co_get CO ch (co_key CO (keccak256 A (validity_address A c))) = (Inr v, ch') \<longrightarrow>
        v = [if V c then 1 else 0]) \<and>
     (\<forall>c. V c \<longrightarrow> channel_serves A CO c (F c))"

interpretation oracle_sound:
  sound_provider "oracle_provider A CO" "oracle_consistent A CO V F" V "\<lambda>c. elements c (F c)"
  for A and CO :: "('o, 'k) comms_ops" and V F
proof unfold_locales
  fix p p' :: "'o OracleEigenDAPreimageProvider" and c b
  assume i: "oracle_consistent A CO V F p"
    and "pv_get_validity (oracle_provider A CO) p c = Ret (Inr b, p')"
  then obtain ch v ch' where
      g: "co_get CO ch (co_key CO (keccak256 A (validity_address A c))) = (Inr v, ch')"
    and b: "b \<longleftrightarrow> v ! 0 \<noteq> 0"
    by (auto simp: oracle_provider_def oracle_get_validity_def split: prod.splits sum.splits if_splits)
  have "v = [if V c then 1 else 0]" using i g unfolding oracle_consistent_def by blast
  then show "b = V c \<and> oracle_consistent A CO V F p'"
    using b i by (simp add: oracle_consistent_def)
next
  fix p p' :: "'o OracleEigenDAPreimageProvider" and c x
  assume "oracle_consistent A CO V F p" "V c"
    and g: "pv_get_encoded_payload (oracle_provider A CO) p c = Ret (Inr x, p')"
  then have "channel_serves A CO c (F c)" by (simp add: oracle_consistent_def)
  then have "x = elements c (F c)"
    using g oracle_get_encoded_payload_Inr by (simp add: oracle_provider_def)
  then show "x = elements c (F c) \<and> oracle_consistent A CO V F p'"
    using \<open>oracle_consistent A CO V F p\<close> by (simp add: oracle_consistent_def)
qed (simp_all add: oracle_provider_def oracle_consistent_def)

section \<open>A channel that always answers\<close>

definition oracle_answers ::
    "alloy_ops \<Rightarrow> ('o, 'k) comms_ops \<Rightarrow> (AltDACommitment \<Rightarrow> bool) \<Rightarrow> (AltDACommitment \<Rightarrow> u64 \<Rightarrow> u256) \<Rightarrow>
     'o OracleEigenDAPreimageProvider \<Rightarrow> bool" where
  "oracle_answers A CO V F p \<longleftrightarrow>
     oracle_consistent A CO V F p \<and>
     (\<forall>ch h. \<exists>ch'. co_write CO ch h = (Inr (), ch')) \<and>
     (\<forall>ch c. \<exists>v ch'. co_get CO ch (co_key CO (keccak256 A (validity_address A c))) = (Inr v, ch')) \<and>
     (\<forall>ch c i. V c \<longrightarrow> unat i < unat (get_num_field_element c) \<longrightarrow>
        (\<exists>x ch'. co_get_exact CO ch (co_key CO (keccak256 A (field_element_address A c i))) = (Inr x, ch')))"

lemma oracle_answersD:
  assumes "oracle_answers A CO V F p"
  shows "\<exists>ch'. co_write CO ch h = (Inr (), ch')"
    and "\<exists>ch'. co_get CO ch (co_key CO (keccak256 A (validity_address A c))) =
           (Inr [if V c then 1 else 0], ch')"
    and "V c \<Longrightarrow> unat i < unat (get_num_field_element c) \<Longrightarrow>
           \<exists>x ch'. co_get_exact CO ch (co_key CO (keccak256 A (field_element_address A c i))) = (Inr x, ch')"
proof -
  show "\<exists>ch'. co_write CO ch h = (Inr (), ch')"
    using assms unfolding oracle_answers_def by blast
  obtain v ch' where v: "co_get CO ch (co_key CO (keccak256 A (validity_address A c))) = (Inr v, ch')"
    using assms unfolding oracle_answers_def by blast
  then have "v = [if V c then 1 else 0]"
    using assms unfolding oracle_answers_def oracle_consistent_def by blast
  then show "\<exists>ch'. co_get CO ch (co_key CO (keccak256 A (validity_address A c))) =
           (Inr [if V c then 1 else 0], ch')" using v by blast
  show "V c \<Longrightarrow> unat i < unat (get_num_field_element c) \<Longrightarrow>
           \<exists>x ch'. co_get_exact CO ch (co_key CO (keccak256 A (field_element_address A c i))) = (Inr x, ch')"
    using assms unfolding oracle_answers_def by blast
qed

lemma fetch_loop_total:
  assumes "oracle_answers A CO V F p" "V c" "\<forall>i\<in>set is. unat i < unat (get_num_field_element c)"
    and "set_index 0 key = field_element_address A c 0" "length key = 80"
  shows "\<exists>buf' ch'. fetch_loop A CO ch is key buf = (Inr buf', ch')"
  using assms(3-)
proof (induction "is" arbitrary: ch key buf)
  case (Cons i "is")
  have key: "set_index i key = field_element_address A c i"
    using Cons.prems(2,3) set_index_set_index [of key i 0]
      set_index_set_index [of "digest_template A c" i 0] by simp
  obtain x ch1 where "co_get_exact CO ch (co_key CO (keccak256 A (field_element_address A c i))) = (Inr x, ch1)"
    using oracle_answersD(3) [OF assms(1,2)] Cons.prems(1) by (meson list.set_intros(1))
  moreover have "set_index 0 (set_index i key) = field_element_address A c 0"
    by (simp add: key set_index_set_index)
  ultimately show ?case
    using Cons.IH [of "set_index i key" ch1] Cons.prems by (simp add: Let_def key)
qed simp

interpretation oracle_total:
  total_provider "oracle_provider A CO" "oracle_answers A CO V F" V "\<lambda>c. elements c (F c)"
  for A and CO :: "('o, 'k) comms_ops" and V F
proof unfold_locales
  fix p p' :: "'o OracleEigenDAPreimageProvider" and c b
  assume "oracle_answers A CO V F p" "pv_get_validity (oracle_provider A CO) p c = Ret (Inr b, p')"
  then show "b = V c \<and> oracle_answers A CO V F p'"
    using oracle_sound.validity_ok [of A CO V F p c b p']
    by (auto simp: oracle_answers_def)
next
  fix p p' :: "'o OracleEigenDAPreimageProvider" and c e
  assume "oracle_answers A CO V F p" "pv_get_validity (oracle_provider A CO) p c = Ret (Inl e, p')"
  then show "oracle_answers A CO V F p' \<and> \<not> is_Discard (pv_into_kind (oracle_provider A CO) e)"
    using oracle_sound.validity_err [of A CO V F p c e p']
    by (auto simp: oracle_answers_def)
next
  fix p p' :: "'o OracleEigenDAPreimageProvider" and c x
  assume "oracle_answers A CO V F p" "V c"
    "pv_get_encoded_payload (oracle_provider A CO) p c = Ret (Inr x, p')"
  then show "x = elements c (F c) \<and> oracle_answers A CO V F p'"
    using oracle_sound.payload_ok [of A CO V F p c x p']
    by (auto simp: oracle_answers_def)
next
  fix p p' :: "'o OracleEigenDAPreimageProvider" and c e
  assume "oracle_answers A CO V F p" "V c"
    "pv_get_encoded_payload (oracle_provider A CO) p c = Ret (Inl e, p')"
  then show "oracle_answers A CO V F p' \<and> \<not> is_Discard (pv_into_kind (oracle_provider A CO) e)"
    using oracle_sound.payload_err [of A CO V F p c e p']
    by (auto simp: oracle_answers_def)
next
  fix p :: "'o OracleEigenDAPreimageProvider" and c
  assume p: "oracle_answers A CO V F p"
  obtain ch1 where "co_write CO (oracle_client p) (oracle_hint A c) = (Inr (), ch1)"
    using oracle_answersD(1) [OF p] by blast
  moreover obtain ch2 where "co_get CO ch1 (co_key CO (keccak256 A (validity_address A c))) =
      (Inr [if V c then 1 else 0], ch2)"
    using oracle_answersD(2) [OF p] by blast
  ultimately show "\<exists>b p'. pv_get_validity (oracle_provider A CO) p c = Ret (Inr b, p')"
    by (auto simp: oracle_provider_def oracle_get_validity_def)
next
  fix p :: "'o OracleEigenDAPreimageProvider" and c
  assume p: "oracle_answers A CO V F p" and V: "V c"
  let ?n = "get_num_field_element c"
  obtain ch1 where w: "co_write CO (oracle_client p) (oracle_hint A c) = (Inr (), ch1)"
    using oracle_answersD(1) [OF p] by blast
  have "unat (of_nat i :: u64) < unat ?n" if "i < unat ?n" for i
    using that unat_lt2p [of ?n] by (simp add: unat_of_nat)
  then obtain buf' ch2 where "fetch_encoded_payload A CO ch1 (digest_template A c) ?n
      (replicate (unat ?n * 32) 0) = (Inr buf', ch2)"
    using fetch_loop_total [OF p V, of "map of_nat [0..<unat ?n]" "digest_template A c" ch1
        "replicate (unat ?n * 32) 0"]
    unfolding fetch_encoded_payload_def by (auto simp: length_digest_template)
  then show "\<exists>x p'. pv_get_encoded_payload (oracle_provider A CO) p c = Ret (Inr x, p')"
    using w by (simp add: oracle_provider_def oracle_get_encoded_payload_def Let_def)
qed

end
