(* ===== verification/Host.thy ===== *)
theory Host
  imports Oracle_Provider
begin

text \<open>
  The host, \<open>bin/host/src\<close>: the status codes of the EigenDA proxy (\<open>status_code.rs\<close>), the
  provider that asks the proxy over HTTP with a one-entry cache (\<open>eigenda_preimage.rs\<close>) and the hint
  handler that writes validity and field elements into the key-value store (\<open>handler.rs\<close>).

  URLs, HTTP, the key-value store and kona's own hint handler are parameters; an \<open>anyhow\<close> error is
  its message. The online provider is an instance of \<open>sound_provider\<close> for a proxy that answers each
  commitment the same way. What the handler stores is shown to be what the oracle provider of the
  client reads back.
\<close>

unbundle bit_operations_syntax

section \<open>Status codes\<close>

definition HTTP_RESPONSE_STATUS_CODE_TEAPOT :: u16 where
  "HTTP_RESPONSE_STATUS_CODE_TEAPOT = 418"

definition STATUS_CODE_CERT_PARSE_ERROR :: u8 where
  "STATUS_CODE_CERT_PARSE_ERROR = 1"

definition STATUS_CODE_RECENCY_ERROR :: u8 where
  "STATUS_CODE_RECENCY_ERROR = 2"

definition STATUS_CODE_INVALID_CERT :: u8 where
  "STATUS_CODE_INVALID_CERT = 3"

definition STATUS_CODE_BLOB_DECODING_ERROR :: u8 where
  "STATUS_CODE_BLOB_DECODING_ERROR = 4"

lemmas status_codes [simp] =
  HTTP_RESPONSE_STATUS_CODE_TEAPOT_def STATUS_CODE_CERT_PARSE_ERROR_def
  STATUS_CODE_RECENCY_ERROR_def STATUS_CODE_INVALID_CERT_def STATUS_CODE_BLOB_DECODING_ERROR_def

record DerivationError =
  status_code :: u8
  msg :: string

datatype HostHandlerError =
    HokuleaPreimageError HokuleaPreimageError
  | HokuleaRecencyCheckError
  | HokuleaEncodedPayloadDecodingError u8
  | UndefinedStatusCodeError u8
  | IllogicalStatusCodeError u8

definition HostHandlerError_from :: "DerivationError \<Rightarrow> HostHandlerError" where
  "HostHandlerError_from status =
     (let code = status_code status in
      if code = STATUS_CODE_INVALID_CERT then HokuleaPreimageError InvalidCert
      else if code = STATUS_CODE_RECENCY_ERROR then HokuleaRecencyCheckError
      else if code = STATUS_CODE_CERT_PARSE_ERROR then IllogicalStatusCodeError code
      else if code = STATUS_CODE_BLOB_DECODING_ERROR then HokuleaEncodedPayloadDecodingError code
      else UndefinedStatusCodeError code)"

section \<open>The online provider\<close>

record ProxyDerivationStage =
  is_valid_cert :: bool
  pass_recency_check :: bool
  stage_encoded_payload :: bytes

text \<open>HTTP as the provider uses it: URLs, and a request that answers with a status and a body that
  is read as JSON or as bytes. \<open>resp_debug\<close> renders \<open>error_for_status\<close>.\<close>

record http_response =
  resp_status :: u16
  resp_json :: "(DerivationError, string) result"
  resp_bytes :: "(bytes, string) result"
  resp_debug :: string

record ('w, 'u) http_ops =
  ho_join :: "'u \<Rightarrow> string \<Rightarrow> ('u, string) result"
  ho_set_query :: "'u \<Rightarrow> string \<Rightarrow> 'u"
  ho_send :: "'w \<Rightarrow> 'u \<Rightarrow> (http_response, string) result \<times> 'w"

definition is_success :: "u16 \<Rightarrow> bool" where
  "is_success s \<longleftrightarrow> 200 \<le> s \<and> s < 300"

record ('w, 'u) OnlineEigenDAPreimageProvider =
  base :: 'u
  inner :: 'w
  last_entry :: "(AltDACommitment \<times> ProxyDerivationStage) option"

definition GET_QUERY_PARAMS_ENCODED_PAYLOAD :: string where
  "GET_QUERY_PARAMS_ENCODED_PAYLOAD = ''commitment_mode=optimism_generic&return_encoded_payload=true''"

definition new_http :: "'w \<Rightarrow> 'u \<Rightarrow> ('w, 'u) OnlineEigenDAPreimageProvider" where
  "new_http client base_url = \<lparr> base = base_url, inner = client, last_entry = None \<rparr>"

text \<open>What a response means.\<close>

definition handle_response :: "http_response \<Rightarrow> (ProxyDerivationStage, string) result" where
  "handle_response response =
     (if \<not> is_success (resp_status response) then
        if resp_status response \<noteq> HTTP_RESPONSE_STATUS_CODE_TEAPOT then
          Inl (''failed to fetch eigenda encoded payload, status '' @ resp_debug response)
        else rbind (map_err (\<lambda>e. ''failed to deserialize 418 body: '' @ e) (resp_json response))
          (\<lambda>code. case HostHandlerError_from code of
             HokuleaPreimageError InvalidCert \<Rightarrow>
               Inr \<lparr> is_valid_cert = False, pass_recency_check = True, stage_encoded_payload = [] \<rparr>
           | HokuleaRecencyCheckError \<Rightarrow>
               Inr \<lparr> is_valid_cert = True, pass_recency_check = False, stage_encoded_payload = [] \<rparr>
           | HokuleaEncodedPayloadDecodingError e \<Rightarrow>
               Inl (''failed to handle http response: '' @ show_nat (unat e))
           | IllogicalStatusCodeError e \<Rightarrow>
               Inl (''failed to handle http response: '' @ show_nat (unat e))
           | UndefinedStatusCodeError e \<Rightarrow>
               Inl (''failed to handle http response: '' @ show_nat (unat e)))
      else rbind (map_err (\<lambda>e. ''should be able to get encoded payload from http response '' @ e)
                    (resp_bytes response))
        (\<lambda>payload. Inr \<lparr> is_valid_cert = True, pass_recency_check = True,
                          stage_encoded_payload = payload \<rparr>))"

definition fetch_data_from_proxy ::
    "('w, 'u) http_ops \<Rightarrow> ('w, 'u) OnlineEigenDAPreimageProvider \<Rightarrow> bytes \<Rightarrow>
     (ProxyDerivationStage, string) result \<times> ('w, 'u) OnlineEigenDAPreimageProvider" where
  "fetch_data_from_proxy HO self altda_commitment_bytes =
     (case ho_join HO (base self) (''get/'' @ hex_encode altda_commitment_bytes) of
        Inl e \<Rightarrow> (Inl (''failed to construct URL: '' @ e), self)
      | Inr url \<Rightarrow>
          (case ho_send HO (inner self) (ho_set_query HO url GET_QUERY_PARAMS_ENCODED_PAYLOAD) of
             (Inl e, w) \<Rightarrow> (Inl (''failed to fetch eigenda encoded payload: '' @ e), self\<lparr> inner := w \<rparr>)
           | (Inr response, w) \<Rightarrow> (handle_response response, self\<lparr> inner := w \<rparr>)))"

definition get_or_fetch_payload ::
    "alloy_ops \<Rightarrow> ('w, 'u) http_ops \<Rightarrow> ('w, 'u) OnlineEigenDAPreimageProvider \<Rightarrow> AltDACommitment \<Rightarrow>
     (ProxyDerivationStage, HokuleaErrorKind) result \<times> ('w, 'u) OnlineEigenDAPreimageProvider" where
  "get_or_fetch_payload A HO self c =
     (let fetch =
        (case fetch_data_from_proxy HO self (to_rlp_bytes A c) of
           (Inl e, self) \<Rightarrow> (Inl (Temporary (''fetch failed: '' @ e)), self)
         | (Inr stage, self) \<Rightarrow> (Inr stage, self\<lparr> last_entry := Some (c, stage) \<rparr>))
      in case last_entry self of
           Some (cached_commitment, cached_stage) \<Rightarrow>
             if cached_commitment = c then (Inr cached_stage, self) else fetch
         | None \<Rightarrow> fetch)"

definition online_get_validity ::
    "alloy_ops \<Rightarrow> ('w, 'u) http_ops \<Rightarrow> ('w, 'u) OnlineEigenDAPreimageProvider \<Rightarrow> AltDACommitment \<Rightarrow>
     ((bool, HokuleaErrorKind) result \<times> ('w, 'u) OnlineEigenDAPreimageProvider) outcome" where
  "online_get_validity A HO self c =
     (case get_or_fetch_payload A HO self c of
        (r, self) \<Rightarrow> Ret (rbind r (\<lambda>stage. Inr (is_valid_cert stage)), self))"

definition online_get_encoded_payload ::
    "alloy_ops \<Rightarrow> ('w, 'u) http_ops \<Rightarrow> ('w, 'u) OnlineEigenDAPreimageProvider \<Rightarrow> AltDACommitment \<Rightarrow>
     ((EncodedPayload, HokuleaErrorKind) result \<times> ('w, 'u) OnlineEigenDAPreimageProvider) outcome" where
  "online_get_encoded_payload A HO self c =
     (case get_or_fetch_payload A HO self c of
        (r, self) \<Rightarrow>
          Ret (rbind r (\<lambda>stage. Inr \<lparr> encoded_payload = stage_encoded_payload stage \<rparr>), self))"

definition online_provider ::
    "alloy_ops \<Rightarrow> ('w, 'u) http_ops \<Rightarrow>
     (('w, 'u) OnlineEigenDAPreimageProvider, HokuleaErrorKind) provider_ops" where
  "online_provider A HO =
     \<lparr> pv_get_validity = online_get_validity A HO,
       pv_get_encoded_payload = online_get_encoded_payload A HO,
       pv_into_kind = (\<lambda>e. e) \<rparr>"

text \<open>A proxy that answers each commitment the same way, and a cache that holds such an answer.\<close>

definition stage_agrees ::
    "(AltDACommitment \<Rightarrow> bool) \<Rightarrow> (AltDACommitment \<Rightarrow> EncodedPayload) \<Rightarrow> AltDACommitment \<Rightarrow>
     ProxyDerivationStage \<Rightarrow> bool" where
  "stage_agrees V P c stage \<longleftrightarrow>
     is_valid_cert stage = V c \<and> (V c \<longrightarrow> stage_encoded_payload stage = encoded_payload (P c))"

definition online_consistent ::
    "alloy_ops \<Rightarrow> ('w, 'u) http_ops \<Rightarrow> (AltDACommitment \<Rightarrow> bool) \<Rightarrow> (AltDACommitment \<Rightarrow> EncodedPayload) \<Rightarrow>
     ('w, 'u) OnlineEigenDAPreimageProvider \<Rightarrow> bool" where
  "online_consistent A HO V P p \<longleftrightarrow>
     (\<forall>q c stage q'. fetch_data_from_proxy HO q (to_rlp_bytes A c) = (Inr stage, q') \<longrightarrow>
        stage_agrees V P c stage) \<and>
     (\<forall>c stage. last_entry p = Some (c, stage) \<longrightarrow> stage_agrees V P c stage)"

lemma fetch_keeps_cache:
  "fetch_data_from_proxy HO p bs = (r, p') \<Longrightarrow> last_entry p' = last_entry p"
  by (auto simp: fetch_data_from_proxy_def split: sum.splits prod.splits)

lemma get_or_fetch_consistent:
  assumes "online_consistent A HO V P p" "get_or_fetch_payload A HO p c = (r, p')"
  shows "online_consistent A HO V P p'"
    and "r = Inr stage \<Longrightarrow> stage_agrees V P c stage"
    and "r = Inl k \<Longrightarrow> \<exists>m. k = Temporary m"
  using assms fetch_keeps_cache [of HO p "to_rlp_bytes A c"]
  unfolding get_or_fetch_payload_def online_consistent_def
  by (auto simp: Let_def split: prod.splits sum.splits option.splits if_splits; blast)+

lemma EncodedPayload_eqI: "encoded_payload p = encoded_payload q \<Longrightarrow> p = q" for p q :: EncodedPayload
  by (cases p; cases q) simp

interpretation online_sound:
  sound_provider "online_provider A HO" "online_consistent A HO V P" V P for A HO V P
  using get_or_fetch_consistent [of A HO V P]
  by unfold_locales
     (fastforce simp: online_provider_def online_get_validity_def online_get_encoded_payload_def
        rbind_eq_Inr rbind_eq_Inl stage_agrees_def intro: EncodedPayload_eqI split: prod.splits)+

section \<open>The hint handler\<close>

text \<open>The key-value store of kona. \<open>kv_key\<close> is \<open>PreimageKey::new\<close> with the key type
  \<open>GlobalGeneric\<close>, as for the channel of the client.\<close>

record ('s, 'k) kv_ops =
  kv_key :: "u256 \<Rightarrow> 'k"
  kv_set :: "'s \<Rightarrow> 'k \<Rightarrow> bytes \<Rightarrow> (unit, string) result \<times> 's"
  kv_get :: "'s \<Rightarrow> 'k \<Rightarrow> bytes option"

definition store_cert_validity ::
    "alloy_ops \<Rightarrow> ('s, 'k) kv_ops \<Rightarrow> 's \<Rightarrow> AltDACommitment \<Rightarrow> bool \<Rightarrow> (unit, string) result \<times> 's" where
  "store_cert_validity A KO kv c is_valid =
     (let address = (digest_template A c)[RESERVED_EIGENDA_API_BYTE_INDEX :=
                       RESERVED_EIGENDA_API_BYTE_FOR_VALIDITY]
      in kv_set KO kv (kv_key KO (keccak256 A address)) [if is_valid then 1 else 0])"

fun store_loop ::
    "alloy_ops \<Rightarrow> ('s, 'k) kv_ops \<Rightarrow> 's \<Rightarrow> bytes \<Rightarrow> u64 \<Rightarrow> u64 list \<Rightarrow> bytes \<Rightarrow>
     (unit, string) result \<times> 's" where
  "store_loop A KO kv payload fetch_num_element [] field_element_key = (Inr (), kv)"
| "store_loop A KO kv payload fetch_num_element (i # rest) field_element_key =
     (let field_element_key = set_index i field_element_key;
          value = (if i < fetch_num_element
                   then subslice (unat i * 32) ((unat i + 1) * 32) payload
                   else replicate 32 0)
      in case kv_set KO kv (kv_key KO (keccak256 A field_element_key)) value of
           (Inl e, kv) \<Rightarrow> (Inl e, kv)
         | (Inr _, kv) \<Rightarrow> store_loop A KO kv payload fetch_num_element rest field_element_key)"

definition store_encoded_payload ::
    "alloy_ops \<Rightarrow> ('s, 'k) kv_ops \<Rightarrow> 's \<Rightarrow> AltDACommitment \<Rightarrow> bytes \<Rightarrow>
     ((unit, string) result \<times> 's) outcome" where
  "store_encoded_payload A KO kv c payload =
     (if \<not> (length payload mod 32 = 0 \<and> payload \<noteq> []) then
        Panic ''assertion failed: encoded_payload.len().is_multiple_of(32) && !encoded_payload.is_empty()''
      else if \<exists>chunk \<in> set (chunks BYTES_PER_FIELD_ELEMENT payload). chunk ! 0 AND 224 \<noteq> 0 then
        Ret (Inl ''invalid field element encoding'', kv)
      else Ret (store_loop A KO kv payload (of_nat (length payload div BYTES_PER_FIELD_ELEMENT))
                  (map of_nat [0..<unat (get_num_field_element c)]) (digest_template A c)))"

definition fetch_eigenda_hint ::
    "alloy_ops \<Rightarrow> ('w, 'u) http_ops \<Rightarrow> ('s, 'k) kv_ops \<Rightarrow> bytes \<Rightarrow>
     ('w, 'u) OnlineEigenDAPreimageProvider \<Rightarrow> 's \<Rightarrow>
     ((unit, string) result \<times> ('w, 'u) OnlineEigenDAPreimageProvider \<times> 's) outcome" where
  "fetch_eigenda_hint A HO KO altda_commitment_bytes provider kv =
     (case AltDACommitment_try_from A altda_commitment_bytes of
        Inl e \<Rightarrow> Ret (Inl (''failed to parse AltDACommitment: '' @ ParseError_to_string e), provider, kv)
      | Inr c \<Rightarrow>
          (case fetch_data_from_proxy HO provider altda_commitment_bytes of
             (Inl e, provider) \<Rightarrow> Ret (Inl e, provider, kv)
           | (Inr stage, provider) \<Rightarrow>
               (case store_cert_validity A KO kv c (is_valid_cert stage) of
                  (Inl e, kv) \<Rightarrow> Ret (Inl e, provider, kv)
                | (Inr _, kv) \<Rightarrow>
                    if \<not> is_valid_cert stage then Ret (Inr (), provider, kv)
                    else if \<not> pass_recency_check stage then Ret (Inr (), provider, kv)
                    else obind (store_encoded_payload A KO kv c (stage_encoded_payload stage))
                           (\<lambda>(r, kv). Ret (r, provider, kv)))))"

text \<open>The router; \<open>original\<close> is kona's handler for its own hints.\<close>

definition fetch_hint ::
    "alloy_ops \<Rightarrow> ('w, 'u) http_ops \<Rightarrow> ('s, 'k) kv_ops \<Rightarrow>
     ('h \<Rightarrow> bytes \<Rightarrow> 's \<Rightarrow> ((unit, string) result \<times> 's) outcome) \<Rightarrow>
     'h ExtendedHintType \<Rightarrow> bytes \<Rightarrow> ('w, 'u) OnlineEigenDAPreimageProvider \<Rightarrow> 's \<Rightarrow>
     ((unit, string) result \<times> ('w, 'u) OnlineEigenDAPreimageProvider \<times> 's) outcome" where
  "fetch_hint A HO KO original ty data provider kv =
     (case ty of
        EigenDACert \<Rightarrow> fetch_eigenda_hint A HO KO data provider kv
      | Original h \<Rightarrow> obind (original h data kv) (\<lambda>(r, kv). Ret (r, provider, kv)))"

section \<open>The store holds what the client asks for\<close>

text \<open>What a key-value store promises, at the store it is used on and later ones.\<close>

definition kv_lawful :: "('s, 'k) kv_ops \<Rightarrow> bool" where
  "kv_lawful KO \<longleftrightarrow>
     (\<forall>s k v. fst (kv_set KO s k v) = Inr () \<and>
        kv_get KO (snd (kv_set KO s k v)) = (kv_get KO s)(k \<mapsto> v))"

text \<open>The addresses of a commitment hash to different keys.\<close>

definition addresses :: "alloy_ops \<Rightarrow> AltDACommitment \<Rightarrow> bytes list" where
  "addresses A c =
     validity_address A c #
     map (\<lambda>i. field_element_address A c (of_nat i)) [0..<unat (get_num_field_element c)]"

definition keys_distinct :: "alloy_ops \<Rightarrow> (u256 \<Rightarrow> 'k) \<Rightarrow> AltDACommitment \<Rightarrow> bool" where
  "keys_distinct A key c \<longleftrightarrow> distinct (map (\<lambda>a. key (keccak256 A a)) (addresses A c))"

definition stored_element :: "bytes \<Rightarrow> nat \<Rightarrow> bytes" where
  "stored_element payload i =
     (if i < length payload div 32 then subslice (i * 32) ((i + 1) * 32) payload
      else replicate 32 0)"

definition fe_key :: "alloy_ops \<Rightarrow> (u256 \<Rightarrow> 'k) \<Rightarrow> AltDACommitment \<Rightarrow> nat \<Rightarrow> 'k" where
  "fe_key A key c i = key (keccak256 A (field_element_address A c (of_nat i)))"

lemma length_stored_element [simp]: "length (stored_element payload i) = 32"
proof (cases "i < length payload div 32")
  case True
  then have "Suc i * 32 \<le> length payload"
    by (simp only: less_eq_div_iff_mult_less_eq Suc_le_eq [symmetric] zero_less_numeral)
  then have "32 \<le> length payload - i * 32" by simp
  moreover have "(i + 1) * 32 - i * 32 = 32" by simp
  ultimately show ?thesis using True unfolding stored_element_def length_subslice if_P [OF True]
    by (simp only: min_absorb1)
next
  case False
  then show ?thesis by (simp add: stored_element_def)
qed

lemma store_loop_result:
  assumes "kv_lawful KO" "n < 2 ^ 64" "length payload div 32 < 2 ^ 64"
    and "set_index 0 key = field_element_address A c 0" "length key = 80" "k \<le> n"
  shows "\<exists>s'. store_loop A KO s payload (of_nat (length payload div 32)) (map of_nat [k..<n]) key =
           (Inr (), s') \<and>
         kv_get KO s' = foldl (\<lambda>m i. m(fe_key A (kv_key KO) c i \<mapsto> stored_element payload i))
           (kv_get KO s) [k..<n]"
  using assms(4-)
proof (induction "n - k" arbitrary: k s key)
  case 0
  then show ?case by simp
next
  case (Suc m)
  then have up: "[k..<n] = k # [Suc k..<n]" by (simp add: upt_conv_Cons)
  let ?i = "of_nat k :: u64"
  let ?v = "stored_element payload k"
  let ?kk = "fe_key A (kv_key KO) c k"
  have ui: "unat ?i = k" using Suc assms(2) by (simp add: unat_of_nat)
  have lt: "?i < of_nat (length payload div 32) \<longleftrightarrow> k < length payload div 32"
    using assms(3) ui by (simp add: word_less_nat_alt unat_of_nat)
  have key: "set_index ?i key = field_element_address A c ?i"
    using Suc.prems(1,2) set_index_set_index [of key ?i 0]
      set_index_set_index [of "digest_template A c" ?i 0] by simp
  obtain s1 where s1: "kv_set KO s ?kk ?v = (Inr (), s1)" "kv_get KO s1 = (kv_get KO s)(?kk \<mapsto> ?v)"
    using assms(1) unfolding kv_lawful_def by (metis prod.collapse)
  have "\<exists>s'. store_loop A KO s1 payload (of_nat (length payload div 32)) (map of_nat [Suc k..<n])
           (set_index ?i key) = (Inr (), s') \<and>
         kv_get KO s' = foldl (\<lambda>m i. m(fe_key A (kv_key KO) c i \<mapsto> stored_element payload i))
           (kv_get KO s1) [Suc k..<n]"
    using Suc by (intro Suc.hyps(1)) (simp_all add: set_index_set_index)
  then show ?case
    using s1 unfolding up
    by (simp add: Let_def key lt ui fe_key_def stored_element_def cong: if_cong)
qed

lemma foldl_upd_other:
  "k \<notin> f ` set xs \<Longrightarrow> foldl (\<lambda>m i. m(f i \<mapsto> g i)) m0 xs k = m0 k"
  by (induction xs arbitrary: m0) auto

lemma foldl_upd_at:
  "distinct (map f xs) \<Longrightarrow> i \<in> set xs \<Longrightarrow> foldl (\<lambda>m i. m(f i \<mapsto> g i)) m0 xs (f i) = Some (g i)"
proof (induction xs arbitrary: m0)
  case (Cons x xs)
  show ?case
  proof (cases "i = x")
    case True
    then have "f i \<notin> f ` set xs" using Cons.prems(1) by auto
    then show ?thesis using True by (simp add: foldl_upd_other fun_upd_same del: fun_upd_apply)
  next
    case False
    then show ?thesis using Cons by (simp del: fun_upd_apply)
  qed
qed simp

text \<open>The channel of the client reads the store of the host: a hint is acknowledged and a stored value is
  returned. Nothing is said about keys that are not stored.\<close>

definition channel_backed :: "('s, 'k) comms_ops \<Rightarrow> ('s, 'k) kv_ops \<Rightarrow> bool" where
  "channel_backed CO KO \<longleftrightarrow>
     co_key CO = kv_key KO \<and>
     (\<forall>s h. co_write CO s h = (Inr (), s)) \<and>
     (\<forall>s k v. kv_get KO s k = Some v \<longrightarrow>
        co_get CO s k = (Inr v, s) \<and> (length v = 32 \<longrightarrow> co_get_exact CO s k = (Inr (be_b256 v), s)))"

lemma channel_backedD:
  assumes "channel_backed CO KO"
  shows "co_key CO = kv_key KO" "co_write CO s h = (Inr (), s)"
    and "kv_get KO s k = Some v \<Longrightarrow> co_get CO s k = (Inr v, s)"
    and "kv_get KO s k = Some v \<Longrightarrow> length v = 32 \<Longrightarrow> co_get_exact CO s k = (Inr (be_b256 v), s)"
  using assms unfolding channel_backed_def by blast+

lemma fetch_loop_from_store:
  assumes cb: "channel_backed CO KO" and n: "n < 2 ^ 64"
    and st: "\<And>i. k \<le> i \<Longrightarrow> i < n \<Longrightarrow> kv_get KO s (fe_key A (kv_key KO) c i) = Some (v i) \<and> length (v i) = 32"
    and "set_index 0 key = field_element_address A c 0" "length key = 80"
    and "length buf = n * 32" "k \<le> n"
  shows "fetch_loop A CO s (map of_nat [k..<n]) key buf =
           (Inr (take (k * 32) buf @ concat (map v [k..<n])), s)"
  using st assms(4-)
proof (induction "n - k" arbitrary: k key buf)
  case 0
  then show ?case by simp
next
  case (Suc m)
  then have k: "k < n" and up: "[k..<n] = k # [Suc k..<n]" by (simp_all add: upt_conv_Cons)
  let ?i = "of_nat k :: u64"
  have ui: "unat ?i = k" using k n by (simp add: unat_of_nat)
  have key: "set_index ?i key = field_element_address A c ?i"
    using Suc.prems(2,3) set_index_set_index [of key ?i 0]
      set_index_set_index [of "digest_template A c" ?i 0] by simp
  have len: "length (v k) = 32" using Suc.prems(1) [of k] k by simp
  have g: "co_get_exact CO s (co_key CO (keccak256 A (field_element_address A c ?i))) =
      (Inr (be_b256 (v k)), s)"
    using channel_backedD(1) [OF cb] channel_backedD(4) [OF cb _ len] Suc.prems(1) [of k] k
    by (simp add: fe_key_def)
  let ?buf = "write_at (k * 32) (v k) buf"
  have lb: "length ?buf = n * 32" using Suc.prems(4) k len by (subst length_write_at) simp_all
  have "fetch_loop A CO s (map of_nat [Suc k..<n]) (set_index ?i key) ?buf =
      (Inr (take (Suc k * 32) ?buf @ concat (map v [Suc k..<n])), s)"
    using Suc.hyps(2) k Suc.prems lb
    by (intro Suc.hyps(1)) (simp_all add: set_index_set_index key)
  moreover have "take (Suc k * 32) ?buf = take (k * 32) buf @ v k"
    using Suc.prems(4) k len by (simp add: write_at_def)
  ultimately show ?case unfolding up by (simp add: Let_def key g ui b256_be_be len)
qed

lemma stored_elements_concat:
  assumes "length payload = m * 32"
  shows "concat (map (stored_element payload) [0..<n]) =
         take (n * 32) payload @ replicate (n * 32 - length payload) 0"
proof (induction n)
  case (Suc n)
  show ?case
  proof (cases "n < m")
    case True
    then have "stored_element payload n = take 32 (drop (n * 32) payload)"
      using assms by (simp add: stored_element_def subslice_def)
    moreover have "take (Suc n * 32) payload = take (n * 32) payload @ take 32 (drop (n * 32) payload)"
      using take_add [of "n * 32" 32 payload] by (simp add: add.commute)
    ultimately show ?thesis using Suc True assms by simp
  next
    case False
    then have "stored_element payload n = replicate 32 0" using assms by (simp add: stored_element_def)
    moreover have "Suc n * 32 - m * 32 = (n * 32 - m * 32) + 32" using False by simp
    moreover have "take (n * 32) payload = payload" "take (Suc n * 32) payload = payload"
      using False assms by simp_all
    ultimately show ?thesis using Suc assms by (simp only: upt_Suc_append map_append concat_append
        list.map concat.simps append_Nil2 zero_le replicate_add append_assoc)
  qed
qed simp

definition served_payload :: "AltDACommitment \<Rightarrow> bytes \<Rightarrow> bytes" where
  "served_payload c payload =
     (let n = unat (get_num_field_element c) * 32
      in take n payload @ replicate (n - length payload) 0)"

lemma keys_distinctD:
  assumes "keys_distinct A key c"
  shows "distinct (map (fe_key A key c) [0..<unat (get_num_field_element c)])"
    and "key (keccak256 A (validity_address A c)) \<notin>
           fe_key A key c ` set [0..<unat (get_num_field_element c)]"
  using assms by (auto simp: keys_distinct_def addresses_def fe_key_def [abs_def] comp_def)

lemma store_cert_validity_eq:
  "store_cert_validity A KO kv c b =
     kv_set KO kv (kv_key KO (keccak256 A (validity_address A c))) [if b then 1 else 0]"
  by (simp add: store_cert_validity_def validity_address_def)

lemma oracle_get_validity_stored:
  assumes "channel_backed CO KO"
    and "kv_get KO s (kv_key KO (keccak256 A (validity_address A c))) = Some [if b then 1 else 0]"
  shows "oracle_get_validity A CO \<lparr> oracle_client = s \<rparr> c = Ret (Inr b, \<lparr> oracle_client = s \<rparr>)"
  using channel_backedD(1,2) [OF assms(1)] channel_backedD(3) [OF assms(1)] assms(2)
  by (simp add: oracle_get_validity_def)

lemma oracle_get_encoded_payload_stored:
  assumes cb: "channel_backed CO KO" and "length payload = m * 32"
    and st: "\<And>i. i < unat (get_num_field_element c) \<Longrightarrow>
          kv_get KO s (fe_key A (kv_key KO) c i) = Some (stored_element payload i)"
  shows "oracle_get_encoded_payload A CO \<lparr> oracle_client = s \<rparr> c =
         Ret (Inr \<lparr> encoded_payload = served_payload c payload \<rparr>, \<lparr> oracle_client = s \<rparr>)"
proof -
  let ?n = "unat (get_num_field_element c)"
  have "fetch_loop A CO s (map of_nat [0..<?n]) (digest_template A c) (replicate (?n * 32) 0) =
      (Inr (take (0 * 32) (replicate (?n * 32) 0) @ concat (map (stored_element payload) [0..<?n])), s)"
    using unat_lt2p [of "get_num_field_element c"] st
    by (intro fetch_loop_from_store [OF cb]) (simp_all add: length_digest_template)
  then show ?thesis
    using channel_backedD(2) [OF cb] stored_elements_concat [OF assms(2), of ?n]
    by (simp add: oracle_get_encoded_payload_def fetch_encoded_payload_def served_payload_def Let_def)
qed

text \<open>Answers of the proxy the handler accepts.\<close>

definition well_formed_payload :: "bytes \<Rightarrow> bool" where
  "well_formed_payload payload \<longleftrightarrow>
     payload \<noteq> [] \<and> length payload mod 32 = 0 \<and> length payload div 32 < 2 ^ 64 \<and>
     (\<forall>chunk\<in>set (chunks 32 payload). chunk ! 0 AND 224 = 0)"

lemma store_encoded_payload_ok:
  assumes "kv_lawful KO" "well_formed_payload payload"
  shows "\<exists>s'. store_encoded_payload A KO s c payload = Ret (Inr (), s') \<and>
         kv_get KO s' = foldl (\<lambda>m i. m(fe_key A (kv_key KO) c i \<mapsto> stored_element payload i))
           (kv_get KO s) [0..<unat (get_num_field_element c)]"
  using store_loop_result [OF assms(1), of "unat (get_num_field_element c)" payload
      "digest_template A c" A c 0 s] assms(2) unat_lt2p [of "get_num_field_element c"]
  by (auto simp: store_encoded_payload_def well_formed_payload_def length_digest_template)

lemma fetch_eigenda_hint_valid:
  assumes "parsed_form A c" "kv_lawful KO" "keys_distinct A (kv_key KO) c"
    and "fetch_data_from_proxy HO pr (to_rlp_bytes A c) = (Inr stage, pr')"
    and "is_valid_cert stage" "pass_recency_check stage"
    and "well_formed_payload (stage_encoded_payload stage)"
  shows "\<exists>s'. fetch_eigenda_hint A HO KO (to_rlp_bytes A c) pr s = Ret (Inr (), pr', s') \<and>
     kv_get KO s' (kv_key KO (keccak256 A (validity_address A c))) = Some [1] \<and>
     (\<forall>i < unat (get_num_field_element c).
        kv_get KO s' (fe_key A (kv_key KO) c i) = Some (stored_element (stage_encoded_payload stage) i))"
proof -
  let ?vk = "kv_key KO (keccak256 A (validity_address A c))"
  let ?n = "unat (get_num_field_element c)"
  let ?f = "fe_key A (kv_key KO) c"
  obtain s1 where s1: "kv_set KO s ?vk [1] = (Inr (), s1)" "kv_get KO s1 = (kv_get KO s)(?vk \<mapsto> [1])"
    using assms(2) unfolding kv_lawful_def by (metis prod.collapse)
  obtain s' where s': "store_encoded_payload A KO s1 c (stage_encoded_payload stage) = Ret (Inr (), s')"
    "kv_get KO s' = foldl (\<lambda>m i. m(?f i \<mapsto> stored_element (stage_encoded_payload stage) i))
       (kv_get KO s1) [0..<?n]"
    using store_encoded_payload_ok [OF assms(2,7)] by blast
  note kd = keys_distinctD [OF assms(3)]
  have "fetch_eigenda_hint A HO KO (to_rlp_bytes A c) pr s = Ret (Inr (), pr', s')"
    using commitment_codec.dec_enc_exact [OF assms(1)] assms(4-6) s1(1) s'(1)
    by (simp add: fetch_eigenda_hint_def store_cert_validity_eq)
  moreover have "kv_get KO s' ?vk = Some [1]"
    unfolding s'(2) by (subst foldl_upd_other [OF kd(2)]) (simp add: s1(2))
  moreover have "kv_get KO s' (?f i) = Some (stored_element (stage_encoded_payload stage) i)"
    if "i < ?n" for i
    unfolding s'(2) using that by (intro foldl_upd_at [OF kd(1)]) simp
  ultimately show ?thesis by blast
qed

lemma fetch_eigenda_hint_only_validity:
  assumes "parsed_form A c" "kv_lawful KO"
    and "fetch_data_from_proxy HO pr (to_rlp_bytes A c) = (Inr stage, pr')"
    and "\<not> is_valid_cert stage \<or> \<not> pass_recency_check stage"
  shows "\<exists>s'. fetch_eigenda_hint A HO KO (to_rlp_bytes A c) pr s = Ret (Inr (), pr', s') \<and>
     kv_get KO s' = (kv_get KO s)(kv_key KO (keccak256 A (validity_address A c)) \<mapsto>
        [if is_valid_cert stage then 1 else 0])"
proof -
  let ?vk = "kv_key KO (keccak256 A (validity_address A c))"
  let ?b = "[if is_valid_cert stage then 1 else 0]"
  obtain s1 where "kv_set KO s ?vk ?b = (Inr (), s1)" "kv_get KO s1 = (kv_get KO s)(?vk \<mapsto> ?b)"
    using assms(2) unfolding kv_lawful_def by (metis prod.collapse)
  then show ?thesis
    using commitment_codec.dec_enc_exact [OF assms(1)] assms(3,4)
    by (auto simp: fetch_eigenda_hint_def store_cert_validity_eq)
qed

end
