(* ===== verification/Canoe_Fetcher.thy ===== *)
theory Canoe_Fetcher
  imports Altda_Commitment
begin

text \<open>
  The fetchers of the certificate verifier address: \<open>canoe/verifier-address-fetcher/src/lib.rs\<close> and
  the registry \<open>crates/registry/src/lib.rs\<close>. A fetcher is a function of the L1 chain id and the
  certificate. The locale \<open>address_fetcher\<close> states the law the clients rely on, that the address does
  not depend on the certificate (a router takes all versions), and shows that one run therefore uses
  one address; every fetcher of the code is an instance.
\<close>

datatype CanoeVerifierAddressFetcherError =
    UnknownL1ChainId u64
  | MissingL2ChainId
  | UnknownL2ChainId u64 u64

type_synonym address_fetch =
  "u64 \<Rightarrow> EigenDAVersionedCert \<Rightarrow> (u160, CanoeVerifierAddressFetcherError) result"

definition cert_verifier_address_abi_encode_interface ::
    "u64 \<Rightarrow> (u160, CanoeVerifierAddressFetcherError) result" where
  "cert_verifier_address_abi_encode_interface chain_id =
     (if chain_id = 1 then Inr 0x1be7258230250Bc6a4548F8D59d576a87D216C12
      else if chain_id = 11155111 then Inr 0x17ec4112c4BbD540E2c1fE0A49D264a280176F0D
      else if chain_id = 17000 then Inr 0xDD735AFFe77A5ED5b21ED47219f95ED841f8Ffbd
      else if chain_id = 3151908 then Inr 0xb4B46bdAA835F8E4b4d8e208B6559cD267851051
      else Inl (UnknownL1ChainId chain_id))"

definition cert_verifier_address :: address_fetch where
  "cert_verifier_address chain_id vc =
     (case vc of
        V2 _ \<Rightarrow> cert_verifier_address_abi_encode_interface chain_id
      | V3 _ \<Rightarrow> cert_verifier_address_abi_encode_interface chain_id
      | V4 _ \<Rightarrow> cert_verifier_address_abi_encode_interface chain_id)"

definition eigenlabs_fetch_address :: address_fetch where
  "eigenlabs_fetch_address chain_id vc = cert_verifier_address chain_id vc"

definition static_fetch_address :: "u160 \<Rightarrow> address_fetch" where
  "static_fetch_address self chain_id vc = Inr self"

definition registry_fetch_address :: address_fetch where
  "registry_fetch_address l1_chain_id vc = Inl MissingL2ChainId"

definition fetch_mainnet_address ::
    "EigenDAVersionedCert \<Rightarrow> u64 \<Rightarrow> (u160, CanoeVerifierAddressFetcherError) result" where
  "fetch_mainnet_address vc l2_chain_id = Inl (UnknownL2ChainId l2_chain_id 1)"

definition fetch_sepolia_address ::
    "EigenDAVersionedCert \<Rightarrow> u64 \<Rightarrow> (u160, CanoeVerifierAddressFetcherError) result" where
  "fetch_sepolia_address vc l2_chain_id = Inl (UnknownL2ChainId l2_chain_id 11155111)"

definition registry_fetch_address_for_l2 ::
    "u64 \<Rightarrow> EigenDAVersionedCert \<Rightarrow> u64 \<Rightarrow> (u160, CanoeVerifierAddressFetcherError) result" where
  "registry_fetch_address_for_l2 l1_chain_id vc l2_chain_id =
     (if l1_chain_id = 1 then fetch_mainnet_address vc l2_chain_id
      else if l1_chain_id = 11155111 then fetch_sepolia_address vc l2_chain_id
      else Inl (UnknownL1ChainId l1_chain_id))"

text \<open>A fetch for each of a list of certificates, stopping at the first error (the loops of the
  clients).\<close>

fun fetch_all :: "address_fetch \<Rightarrow> u64 \<Rightarrow> EigenDAVersionedCert list \<Rightarrow>
    (u160 list, CanoeVerifierAddressFetcherError) result" where
  "fetch_all f chain [] = Inr []"
| "fetch_all f chain (c # cs) =
     rbind (f chain c) (\<lambda>a. rbind (fetch_all f chain cs) (\<lambda>as. Inr (a # as)))"

locale address_fetcher =
  fixes fetch :: address_fetch
  assumes version_independent: "fetch chain c = fetch chain d"
begin

lemma fetch_all_same:
  "fetch_all fetch chain cs = Inr as \<Longrightarrow> a \<in> set as \<Longrightarrow> fetch chain c = Inr a"
proof (induction cs arbitrary: as)
  case (Cons d cs)
  then show ?case using version_independent [of chain d c] by (auto simp: rbind_eq_Inr)
qed simp

lemma fetch_all_replicate:
  "fetch chain c = Inr a \<Longrightarrow> fetch_all fetch chain cs = Inr (replicate (length cs) a)"
proof (induction cs)
  case (Cons d cs)
  then show ?case using version_independent [of chain d c] by simp
qed simp

end

interpretation eigenlabs_fetcher: address_fetcher eigenlabs_fetch_address
  by unfold_locales
     (simp add: eigenlabs_fetch_address_def cert_verifier_address_def split: EigenDAVersionedCert.splits)

interpretation static_fetcher: address_fetcher "static_fetch_address a" for a
  by unfold_locales (simp add: static_fetch_address_def)

interpretation registry_fetcher: address_fetcher registry_fetch_address
  by unfold_locales (simp add: registry_fetch_address_def)

interpretation registry_l2_fetcher:
  address_fetcher "\<lambda>l1 c. registry_fetch_address_for_l2 l1 c l2" for l2
  by unfold_locales
     (simp add: registry_fetch_address_for_l2_def fetch_mainnet_address_def fetch_sepolia_address_def)

end
