(* ===== verification/Canoe_Provider.thy ===== *)
theory Canoe_Provider
  imports Canoe_Fetcher
begin

text \<open>
  What the Canoe provers and verifiers share: the input of a proof and the view call it proves
  (\<open>canoe/provider/src\<close>), the claim about a certificate and the verifier interface
  (\<open>canoe/verifier/src\<close>), and the active fork of an L1 block (\<open>canoe/verifier/src/chain_spec.rs\<close>).

  ABI and bincode encodings and the fork tables of reth and steel are parameters.
\<close>

section \<open>Proof inputs and the view call\<close>

record CanoeInput =
  ci_altda_commitment :: AltDACommitment
  ci_claimed_validity :: bool
  ci_l1_head_block_hash :: u256
  ci_l1_head_block_number :: u64
  ci_l1_chain_id :: u64
  ci_verifier_address :: u160

record abi_ops =
  abi_encode_v3 :: "sol_EigenDACertV3 \<Rightarrow> bytes"
  abi_encode_v4 :: "sol_EigenDACertV4 \<Rightarrow> bytes"

text \<open>The payload of \<open>checkDACertCall\<close>.\<close>

datatype CertVerifierCall = ABIEncodeInterface bytes

definition V2_as_V3 :: "EigenDACertV2 \<Rightarrow> EigenDACertV3" where
  "V2_as_V3 c =
     \<lparr> v3_batch_header_v2 = v2_batch_header_v2 c,
       v3_blob_inclusion_info = v2_blob_inclusion_info c,
       v3_nonsigner_stake_and_signature = v2_nonsigner_stake_and_signature c,
       v3_signed_quorum_numbers = v2_signed_quorum_numbers c \<rparr>"

definition CertVerifierCall_build :: "abi_ops \<Rightarrow> AltDACommitment \<Rightarrow> CertVerifierCall" where
  "CertVerifierCall_build B a =
     (case versioned_cert a of
        V2 c \<Rightarrow> ABIEncodeInterface (abi_encode_v3 B (EigenDACertV3_to_sol (V2_as_V3 c)))
      | V3 c \<Rightarrow> ABIEncodeInterface (abi_encode_v3 B (EigenDACertV3_to_sol c))
      | V4 c \<Rightarrow> ABIEncodeInterface (abi_encode_v4 B (EigenDACertV4_to_sol c)))"

definition noop_create_certs_validity_proof :: "CanoeInput list \<Rightarrow> (unit, string) result option" where
  "noop_create_certs_validity_proof inputs = Some (Inr ())"

text \<open>The call carries the whole certificate, whichever version it has.\<close>

lemma V2_as_V3_inj: "V2_as_V3 c = V2_as_V3 d \<longleftrightarrow> c = d"
  by (cases c; cases d) (auto simp: V2_as_V3_def)

section \<open>Claims and verifiers\<close>

record CertValidity =
  cv_claimed_validity :: bool
  cv_l1_head_block_hash :: u256
  cv_l1_head_block_number :: u64
  cv_l1_head_block_timestamp :: u64
  cv_l1_chain_id :: u64
  cv_verifier_address :: u160

datatype HokuleaCanoeVerificationError =
    InconsistentPublicJournal
  | MissingProof
  | InvalidProofAndJournal string
  | UnableToDeserializeReceipt string

type_synonym claims = "(AltDACommitment \<times> CertValidity) list"

record canoe_verifier_ops =
  vo_validate_cert_receipt ::
    "claims \<Rightarrow> bytes option \<Rightarrow> (unit, HokuleaCanoeVerificationError) result outcome"
  vo_to_journals_bytes :: "claims \<Rightarrow> bytes outcome"

definition CanoeNoOpVerifier :: canoe_verifier_ops where
  "CanoeNoOpVerifier =
     \<lparr> vo_validate_cert_receipt = (\<lambda>pairs proof_bytes. Ret (Inr ())),
       vo_to_journals_bytes = (\<lambda>pairs. Ret []) \<rparr>"

text \<open>What a secure verifier promises: acceptance means that a proof of exactly the journals of the
  claims was checked.\<close>

locale secure_verifier =
  fixes VO :: canoe_verifier_ops
    and proven :: "bytes \<Rightarrow> bool"
  assumes accepts_proven:
    "vo_validate_cert_receipt VO pairs pf = Ret (Inr ()) \<Longrightarrow>
       \<exists>j. vo_to_journals_bytes VO pairs = Ret j \<and> proven j"
begin

lemma accepts_sound:
  assumes "vo_validate_cert_receipt VO pairs pf = Ret (Inr ())"
    and sound: "\<And>j. proven j \<Longrightarrow> committed j"
  shows "\<exists>j. vo_to_journals_bytes VO pairs = Ret j \<and> committed j"
  using accepts_proven [OF assms(1)] sound by blast

end

section \<open>Active forks\<close>

text \<open>The four L1 chains with a spec, and the fork names the libraries give for a block: reth's for a
  timestamp and a block number, steel's for a block number and a timestamp.\<close>

datatype l1_chain = MAINNET | SEPOLIA | HOLESKY | KURTOSIS

record fork_ops =
  fo_spec_by_timestamp_and_block_number :: "l1_chain \<Rightarrow> u64 \<Rightarrow> u64 \<Rightarrow> string"
  fo_steel_active_fork :: "l1_chain \<Rightarrow> u64 \<Rightarrow> u64 \<Rightarrow> (string, string) result"
  fo_PRAGUE :: string
  fo_OSAKA :: string

definition l1_chain_of :: "u64 \<Rightarrow> l1_chain option" where
  "l1_chain_of chain_id =
     (if chain_id = 1 then Some MAINNET
      else if chain_id = 11155111 then Some SEPOLIA
      else if chain_id = 17000 then Some HOLESKY
      else if chain_id = 3151908 then Some KURTOSIS
      else None)"

definition derive_chain_spec_id :: "fork_ops \<Rightarrow> u64 \<Rightarrow> u64 \<Rightarrow> u64 \<Rightarrow> string outcome" where
  "derive_chain_spec_id FO l1_chain_id l1_head_block_timestamp l1_head_block_number =
     (case l1_chain_of l1_chain_id of
        Some chain \<Rightarrow> Ret (fo_spec_by_timestamp_and_block_number FO chain
                             l1_head_block_timestamp l1_head_block_number)
      | None \<Rightarrow> Panic ''unsupported chain id'')"

text \<open>The bytes of a string, as \<open>keccak256\<close> of a \<open>String\<close> hashes them.\<close>

definition str_bytes :: "string \<Rightarrow> bytes" where
  "str_bytes s = map (\<lambda>c. of_nat (of_char c)) s"

text \<open>A loop over claims or inputs that may panic.\<close>

fun mapM :: "('a \<Rightarrow> 'b outcome) \<Rightarrow> 'a list \<Rightarrow> 'b list outcome" where
  "mapM f [] = Ret []"
| "mapM f (x # xs) = obind (f x) (\<lambda>y. obind (mapM f xs) (\<lambda>ys. Ret (y # ys)))"

lemma mapM_Ret_iff: "mapM f xs = Ret ys \<longleftrightarrow> list_all2 (\<lambda>x y. f x = Ret y) xs ys"
proof (induction xs arbitrary: ys)
  case (Cons x xs)
  then show ?case by (cases ys) (auto simp: obind_eq_Ret)
qed auto

text \<open>Two loops with the same journals pair up.\<close>

lemma mapM_meet:
  assumes "mapM f xs = Ret js" "mapM g ys = Ret js"
  shows "list_all2 (\<lambda>x y. \<exists>j. f x = Ret j \<and> g y = Ret j) xs ys"
  using assms unfolding mapM_Ret_iff by (auto simp: list_all2_conv_all_nth)

lemma list_all2_left: "list_all2 R xs ys \<Longrightarrow> x \<in> set xs \<Longrightarrow> \<exists>y\<in>set ys. R x y"
  by (induction rule: list_all2_induct) auto

lemma mapM_Ret_map: "(\<And>x. x \<in> set xs \<Longrightarrow> f x = Ret (g x)) \<Longrightarrow> mapM f xs = Ret (map g xs)"
  by (induction xs) simp_all

end
