(* ===== verification/Canoe_Steel.thy ===== *)
theory Canoe_Steel
  imports Canoe_Provider
begin

text \<open>
  Canoe with risc0 steel: the verifier \<open>canoe/steel/verifier/src/lib.rs\<close> and the guest
  \<open>canoe/steel/methods/guest/src/bin/cert_verification.rs\<close> whose execution its proofs attest.

  bincode, receipts, the zkVM and the EVM environment of steel are parameters; the compile-time
  choice between zkVM and native code is the flag \<open>zkvm\<close>. The verifier is an instance of
  \<open>secure_verifier\<close>. Guest and verifier build the same journals, so journals that both sides
  agree on force every claimed validity to be the answer of the contract.
\<close>

section \<open>The verifier\<close>

record 'r steel_ops =
  so_bincode :: "Journal list \<Rightarrow> bytes option"
  so_env_verify :: "bytes \<Rightarrow> (unit, string) result"
  so_receipt_from_slice :: "bytes \<Rightarrow> ('r, string) result"
  so_receipt_verify :: "'r \<Rightarrow> (unit, string) result"
  so_receipt_journal :: "'r \<Rightarrow> bytes"

definition get_allowed_steel_spec_id :: "fork_ops \<Rightarrow> u64 \<Rightarrow> string list outcome" where
  "get_allowed_steel_spec_id FO chain_id =
     (case l1_chain_of chain_id of
        Some _ \<Rightarrow> Ret [fo_PRAGUE FO, fo_OSAKA FO]
      | None \<Rightarrow> Panic ''unsupported chain id'')"

definition get_steel_active_fork :: "fork_ops \<Rightarrow> u64 \<Rightarrow> u64 \<Rightarrow> u64 \<Rightarrow> string outcome" where
  "get_steel_active_fork FO chain_id timestamp block_number =
     (case l1_chain_of chain_id of
        Some chain \<Rightarrow> unwrap ''should be able to get active fork with steel chain spec''
                        (fo_steel_active_fork FO chain block_number timestamp)
      | None \<Rightarrow> Panic ''unsupported chain id'')"

definition steel_journal :: "alloy_ops \<Rightarrow> fork_ops \<Rightarrow> AltDACommitment \<times> CertValidity \<Rightarrow> Journal outcome" where
  "steel_journal A FO pair =
     (case pair of (altda_commitment, cert_validity) \<Rightarrow>
        let rlp_bytes = to_rlp_bytes A altda_commitment;
            chain_id = cv_l1_chain_id cert_validity;
            timestamp = cv_l1_head_block_timestamp cert_validity;
            block_number = cv_l1_head_block_number cert_validity
        in obind (get_steel_active_fork FO chain_id timestamp block_number) (\<lambda>steel_active_fork.
           obind (derive_chain_spec_id FO chain_id timestamp block_number) (\<lambda>derived_active_fork.
           obind (if steel_active_fork \<noteq> derived_active_fork then
                    obind (get_allowed_steel_spec_id FO chain_id) (\<lambda>allowed.
                      oassert (steel_active_fork \<in> set allowed)
                        ''assertion failed: get_allowed_steel_spec_id(chain_id).contains(&steel_active_fork)'')
                  else Ret ()) (\<lambda>_.
           Ret \<lparr> j_blockNumber = block_number,
                 j_blockhash = cv_l1_head_block_hash cert_validity,
                 j_certVerifierAddress = cv_verifier_address cert_validity,
                 j_input = rlp_bytes,
                 j_output = cv_claimed_validity cert_validity,
                 j_l1ChainId = chain_id,
                 j_chainConfigHash = keccak256 A (str_bytes steel_active_fork),
                 j_chainSpecHash = 0 \<rparr>))))"

definition bincode_serialize :: "(Journal list \<Rightarrow> bytes option) \<Rightarrow> Journal list \<Rightarrow> bytes outcome" where
  "bincode_serialize ser journals =
     (case ser journals of Some b \<Rightarrow> Ret b | None \<Rightarrow> Panic ''should be able to serialize'')"

definition steel_to_journals_bytes ::
    "alloy_ops \<Rightarrow> fork_ops \<Rightarrow> 'r steel_ops \<Rightarrow> claims \<Rightarrow> bytes outcome" where
  "steel_to_journals_bytes A FO SO cert_validity_pairs =
     obind (mapM (steel_journal A FO) cert_validity_pairs) (bincode_serialize (so_bincode SO))"

definition steel_validate_cert_receipt_inner ::
    "bool \<Rightarrow> alloy_ops \<Rightarrow> fork_ops \<Rightarrow> 'r steel_ops \<Rightarrow> claims \<Rightarrow> bytes option \<Rightarrow>
     (unit, HokuleaCanoeVerificationError) result outcome" where
  "steel_validate_cert_receipt_inner zkvm A FO SO pairs canoe_proof_bytes =
     obind (steel_to_journals_bytes A FO SO pairs) (\<lambda>journals_bytes.
       if zkvm then Ret (map_err InvalidProofAndJournal (so_env_verify SO journals_bytes))
       else case canoe_proof_bytes of
              None \<Rightarrow> Ret (Inl MissingProof)
            | Some bs \<Rightarrow> Ret
                (rbind (map_err UnableToDeserializeReceipt (so_receipt_from_slice SO bs)) (\<lambda>receipt.
                 rbind (map_err InvalidProofAndJournal (so_receipt_verify SO receipt)) (\<lambda>_.
                   if so_receipt_journal SO receipt \<noteq> journals_bytes
                   then Inl InconsistentPublicJournal else Inr ()))))"

definition CanoeSteelVerifierForDevnetTesting ::
    "bool \<Rightarrow> alloy_ops \<Rightarrow> fork_ops \<Rightarrow> 'r steel_ops \<Rightarrow> canoe_verifier_ops" where
  "CanoeSteelVerifierForDevnetTesting zkvm A FO SO =
     \<lparr> vo_validate_cert_receipt = steel_validate_cert_receipt_inner zkvm A FO SO,
       vo_to_journals_bytes = steel_to_journals_bytes A FO SO \<rparr>"

definition steel_validate_cert_receipt ::
    "bool \<Rightarrow> alloy_ops \<Rightarrow> fork_ops \<Rightarrow> 'r steel_ops \<Rightarrow> claims \<Rightarrow> bytes option \<Rightarrow>
     (unit, HokuleaCanoeVerificationError) result outcome" where
  "steel_validate_cert_receipt zkvm A FO SO pairs canoe_proof_bytes =
     (if \<exists>pair \<in> set pairs. cv_l1_chain_id (snd pair) = 3151908 then
        Panic ''trustless secure integration does not support kurtosis devnet''
      else steel_validate_cert_receipt_inner zkvm A FO SO pairs canoe_proof_bytes)"

definition CanoeSteelVerifier ::
    "bool \<Rightarrow> alloy_ops \<Rightarrow> fork_ops \<Rightarrow> 'r steel_ops \<Rightarrow> canoe_verifier_ops" where
  "CanoeSteelVerifier zkvm A FO SO =
     \<lparr> vo_validate_cert_receipt = steel_validate_cert_receipt zkvm A FO SO,
       vo_to_journals_bytes = steel_to_journals_bytes A FO SO \<rparr>"

text \<open>Journals for which risc0 has accepted a proof of the pinned guest.\<close>

definition steel_proven :: "bool \<Rightarrow> 'r steel_ops \<Rightarrow> bytes \<Rightarrow> bool" where
  "steel_proven zkvm SO j \<longleftrightarrow>
     (if zkvm then so_env_verify SO j = Inr ()
      else \<exists>receipt. so_receipt_verify SO receipt = Inr () \<and> so_receipt_journal SO receipt = j)"

lemma steel_inner_accepts:
  assumes "steel_validate_cert_receipt_inner zkvm A FO SO pairs pf = Ret (Inr ())"
  shows "\<exists>j. steel_to_journals_bytes A FO SO pairs = Ret j \<and> steel_proven zkvm SO j"
  using assms
  by (auto simp: steel_validate_cert_receipt_inner_def obind_eq_Ret steel_proven_def rbind_eq_Inr
      split: if_splits option.splits)

interpretation steel_devnet_secure:
  secure_verifier "CanoeSteelVerifierForDevnetTesting zkvm A FO SO" "steel_proven zkvm SO"
  for zkvm A FO SO
  by unfold_locales (simp add: CanoeSteelVerifierForDevnetTesting_def steel_inner_accepts)

interpretation steel_secure:
  secure_verifier "CanoeSteelVerifier zkvm A FO SO" "steel_proven zkvm SO" for zkvm A FO SO
  by unfold_locales
     (auto simp: CanoeSteelVerifier_def steel_validate_cert_receipt_def steel_inner_accepts
        split: if_splits)

section \<open>The guest\<close>

record ('i, 'e) steel_guest_ops =
  go_into_env :: "'i \<Rightarrow> l1_chain \<Rightarrow> 'e"
  go_header_number :: "'e \<Rightarrow> u64"
  go_header_timestamp :: "'e \<Rightarrow> u64"
  go_header_seal :: "'e \<Rightarrow> u256"
  go_call :: "'e \<Rightarrow> u160 \<Rightarrow> CertVerifierCall \<Rightarrow> u8"

definition steel_is_valid ::
    "abi_ops \<Rightarrow> ('i, 'e) steel_guest_ops \<Rightarrow> 'e \<Rightarrow> u160 \<Rightarrow> AltDACommitment \<Rightarrow> bool" where
  "steel_is_valid B GO env address c \<longleftrightarrow>
     StatusCode_try_from (go_call GO env address (CertVerifierCall_build B c)) = Some SUCCESS"

text \<open>\<open>status == StatusCode::SUCCESS as u8\<close> compares with the byte 1.\<close>

definition steel_guest_journal ::
    "alloy_ops \<Rightarrow> abi_ops \<Rightarrow> ('i, 'e) steel_guest_ops \<Rightarrow> 'e \<Rightarrow> u64 \<Rightarrow> u64 \<Rightarrow> u256 \<Rightarrow> u256 \<Rightarrow>
     CanoeInput \<Rightarrow> Journal outcome" where
  "steel_guest_journal A B GO env l1_chain_id l1_head_block_number l1_head_block_hash
       chain_config_hash canoe_input =
     (let is_valid = (case CertVerifierCall_build B (ci_altda_commitment canoe_input) of
            ABIEncodeInterface call \<Rightarrow>
              go_call GO env (ci_verifier_address canoe_input) (ABIEncodeInterface call) = 1)
      in obind (oassert (go_header_seal GO env = l1_head_block_hash)
                  ''assertion failed: env.header().seal() == l1_head_block_hash'') (\<lambda>_.
         obind (oassert (ci_claimed_validity canoe_input = is_valid)
                  ''assertion failed: canoe_input.claimed_validity == is_valid'') (\<lambda>_.
         Ret \<lparr> j_blockNumber = l1_head_block_number,
               j_blockhash = l1_head_block_hash,
               j_certVerifierAddress = ci_verifier_address canoe_input,
               j_input = to_rlp_bytes A (ci_altda_commitment canoe_input),
               j_output = is_valid,
               j_l1ChainId = l1_chain_id,
               j_chainConfigHash = chain_config_hash,
               j_chainSpecHash = 0 \<rparr>)))"

definition steel_guest_main ::
    "alloy_ops \<Rightarrow> abi_ops \<Rightarrow> fork_ops \<Rightarrow> (Journal list \<Rightarrow> bytes option) \<Rightarrow> ('i, 'e) steel_guest_ops \<Rightarrow>
     'i \<Rightarrow> CanoeInput list \<Rightarrow> bytes outcome" where
  "steel_guest_main A B FO ser GO evm_input canoe_inputs =
     (case canoe_inputs of
        [] \<Rightarrow> Panic ''assertion failed: !canoe_inputs.is_empty()''
      | first # _ \<Rightarrow>
          let l1_chain_id = ci_l1_chain_id first;
              l1_head_block_number = ci_l1_head_block_number first;
              l1_head_block_hash = ci_l1_head_block_hash first
          in obind (oassert (\<forall>i \<in> set canoe_inputs. ci_l1_chain_id i = l1_chain_id \<and>
                        ci_l1_head_block_number i = l1_head_block_number \<and>
                        ci_l1_head_block_hash i = l1_head_block_hash)
                     ''assertion failed: canoe inputs share one L1 head'') (\<lambda>_.
             case l1_chain_of l1_chain_id of
               None \<Rightarrow> Panic ''unsupported chain id by canoe steel''
             | Some chain \<Rightarrow>
                 let env = go_into_env GO evm_input chain in
                 obind (unwrap ''should be able to get active fork with steel''
                          (fo_steel_active_fork FO chain l1_head_block_number
                             (go_header_timestamp GO env))) (\<lambda>active_fork_string.
                 obind (oassert (l1_head_block_number = go_header_number GO env)
                          ''assertion failed: l1_head_block_number == env.header().number'') (\<lambda>_.
                 obind (mapM (steel_guest_journal A B GO env l1_chain_id l1_head_block_number
                                l1_head_block_hash (keccak256 A (str_bytes active_fork_string)))
                          canoe_inputs)
                   (bincode_serialize ser)))))"

section \<open>Guest and verifier agree\<close>

lemma steel_journal_Ret:
  assumes "steel_journal A FO (c, cv) = Ret j"
  shows "j_output j = cv_claimed_validity cv" "j_input j = to_rlp_bytes A c"
    "j_certVerifierAddress j = cv_verifier_address cv" "j_blockhash j = cv_l1_head_block_hash cv"
    "j_blockNumber j = cv_l1_head_block_number cv" "j_l1ChainId j = cv_l1_chain_id cv"
  using assms by (auto simp: steel_journal_def Let_def obind_eq_Ret split: if_splits)

lemma steel_guest_journal_Ret:
  assumes "steel_guest_journal A B GO env cid bn bh ch i = Ret j"
  shows "j_output j = steel_is_valid B GO env (ci_verifier_address i) (ci_altda_commitment i)"
    "j_input j = to_rlp_bytes A (ci_altda_commitment i)"
    "j_certVerifierAddress j = ci_verifier_address i" "j_blockhash j = bh" "j_blockNumber j = bn"
    "j_l1ChainId j = cid" "go_header_seal GO env = bh"
  using assms
  by (auto simp: steel_guest_journal_def steel_is_valid_def StatusCode_SUCCESS_iff Let_def obind_eq_Ret
      split: CertVerifierCall.splits)

text \<open>What a claim says of the chain the guest ran on.\<close>

definition claim_holds ::
    "abi_ops \<Rightarrow> ('i, 'e) steel_guest_ops \<Rightarrow> 'e \<Rightarrow> AltDACommitment \<times> CertValidity \<Rightarrow> bool" where
  "claim_holds B GO env pair \<longleftrightarrow>
     (case pair of (c, cv) \<Rightarrow>
        cv_claimed_validity cv = steel_is_valid B GO env (cv_verifier_address cv) c \<and>
        cv_l1_head_block_hash cv = go_header_seal GO env \<and>
        cv_l1_head_block_number cv = go_header_number GO env)"

lemma steel_guest_main_Ret:
  assumes "steel_guest_main A B FO ser GO evm_input inputs = Ret bs"
  obtains chain env ch js where
    "l1_chain_of (ci_l1_chain_id (hd inputs)) = Some chain" "env = go_into_env GO evm_input chain"
    "ci_l1_head_block_number (hd inputs) = go_header_number GO env"
    "mapM (steel_guest_journal A B GO env (ci_l1_chain_id (hd inputs))
       (ci_l1_head_block_number (hd inputs)) (ci_l1_head_block_hash (hd inputs)) ch) inputs = Ret js"
    "ser js = Some bs"
  using assms
  by (cases inputs)
     (auto simp: steel_guest_main_def Let_def obind_eq_Ret bincode_serialize_def simp del: mapM.simps
       split: option.splits)

lemma steel_journals_agree:
  assumes v: "steel_to_journals_bytes A FO SO pairs = Ret bs"
    and g: "steel_guest_main A B FO (so_bincode SO) GO evm_input inputs = Ret bs"
    and ser: "\<And>js ks b. so_bincode SO js = Some b \<Longrightarrow> so_bincode SO ks = Some b \<Longrightarrow> js = ks"
    and pv: "\<forall>pair\<in>set pairs. rlp_law A (versioned_cert (fst pair))"
    and pg: "\<forall>i\<in>set inputs. rlp_law A (versioned_cert (ci_altda_commitment i))"
  shows "\<exists>chain. l1_chain_of (ci_l1_chain_id (hd inputs)) = Some chain \<and>
     list_all2 (\<lambda>pair i. fst pair = ci_altda_commitment i \<and>
        claim_holds B GO (go_into_env GO evm_input chain) pair \<and>
        cv_l1_chain_id (snd pair) = ci_l1_chain_id (hd inputs)) pairs inputs"
proof -
  obtain js where js: "mapM (steel_journal A FO) pairs = Ret js" "so_bincode SO js = Some bs"
    using v by (auto simp: steel_to_journals_bytes_def obind_eq_Ret bincode_serialize_def split: option.splits)
  let ?h = "hd inputs"
  from g obtain chain env ch ks where chain: "l1_chain_of (ci_l1_chain_id ?h) = Some chain"
    and env: "env = go_into_env GO evm_input chain"
    and num: "ci_l1_head_block_number ?h = go_header_number GO env"
    and ks: "mapM (steel_guest_journal A B GO env (ci_l1_chain_id ?h)
       (ci_l1_head_block_number ?h) (ci_l1_head_block_hash ?h) ch) inputs = Ret ks"
    and kb: "so_bincode SO ks = Some bs"
    by (rule steel_guest_main_Ret)
  have "js = ks" using ser js(2) kb by blast
  have step: "fst pair = ci_altda_commitment i \<and> claim_holds B GO env pair \<and>
      cv_l1_chain_id (snd pair) = ci_l1_chain_id ?h"
    if "pair \<in> set pairs" "i \<in> set inputs"
      and j: "\<exists>j. steel_journal A FO pair = Ret j \<and> steel_guest_journal A B GO env (ci_l1_chain_id ?h)
           (ci_l1_head_block_number ?h) (ci_l1_head_block_hash ?h) ch i = Ret j" for pair i
  proof -
    obtain c cv j where p: "pair = (c, cv)" and jv: "steel_journal A FO (c, cv) = Ret j"
      and jg: "steel_guest_journal A B GO env (ci_l1_chain_id ?h)
           (ci_l1_head_block_number ?h) (ci_l1_head_block_hash ?h) ch i = Ret j"
      using j by (cases pair) auto
    note jv = steel_journal_Ret [OF jv] and jg = steel_guest_journal_Ret [OF jg]
    have "rlp_law A (versioned_cert c)" "rlp_law A (versioned_cert (ci_altda_commitment i))"
      using pv pg that(1,2) p by auto
    then have "c = ci_altda_commitment i" using jv(2) jg(2) to_rlp_bytes_inj by metis
    then show ?thesis using jv jg p num by (simp add: claim_holds_def)
  qed
  show ?thesis
    using chain env mapM_meet [OF js(1) ks [folded \<open>js = ks\<close>]] step
    by (intro exI [of _ chain]) (auto elim!: list.rel_mono_strong)
qed

end
