(* ===== verification/Canoe_Sp1.thy ===== *)
theory Canoe_Sp1
  imports Canoe_Steel
begin

text \<open>
  Canoe with sp1-cc: the verifier \<open>canoe/sp1-cc/verifier/src/lib.rs\<close> and the guest
  \<open>canoe/sp1-cc/client/src/main.rs\<close>, in the same way as \<open>Canoe_Steel\<close>. The genesis type of rsp, the
  EVM sketch and its executor, SHA-256 and the proof check of sp1 are parameters.
\<close>

section \<open>The verifier\<close>

definition V_KEY :: "u32 list" where
  "V_KEY = [645065344, 790782758, 208923010, 697337507, 818842597, 1276513316, 2097862760, 1282309798]"

record 'g sp1_ops =
  pp_bincode :: "Journal list \<Rightarrow> bytes option"
  pp_genesis_try_from :: "u64 \<Rightarrow> ('g, string) result"
  pp_bincode_genesis :: "'g \<Rightarrow> bytes option"
  pp_abi_encode_packed :: "u256 \<Rightarrow> string \<Rightarrow> bytes"
  pp_sha256 :: "bytes \<Rightarrow> u256"
  pp_verify_sp1_proof :: "u32 list \<Rightarrow> u256 \<Rightarrow> bool"

definition hash_chain_config :: "alloy_ops \<Rightarrow> 'g sp1_ops \<Rightarrow> u64 \<Rightarrow> string \<Rightarrow> u256" where
  "hash_chain_config A PP chain_id active_fork_name =
     keccak256 A (pp_abi_encode_packed PP (ucast chain_id) active_fork_name)"

definition derive_chain_config_hash ::
    "alloy_ops \<Rightarrow> fork_ops \<Rightarrow> 'g sp1_ops \<Rightarrow> u64 \<Rightarrow> u64 \<Rightarrow> u64 \<Rightarrow> u256 outcome" where
  "derive_chain_config_hash A FO PP l1_chain_id l1_head_block_timestamp l1_head_block_number =
     obind (derive_chain_spec_id FO l1_chain_id l1_head_block_timestamp l1_head_block_number)
       (\<lambda>spec_id. Ret (hash_chain_config A PP l1_chain_id spec_id))"

definition serialize_genesis :: "'g sp1_ops \<Rightarrow> 'g \<Rightarrow> bytes outcome" where
  "serialize_genesis PP genesis =
     (case pp_bincode_genesis PP genesis of
        Some b \<Rightarrow> Ret b | None \<Rightarrow> Panic ''should be able to serialize rsp genesis'')"

definition rsp_genesis_hash :: "alloy_ops \<Rightarrow> 'g sp1_ops \<Rightarrow> u64 \<Rightarrow> u256 outcome" where
  "rsp_genesis_hash A PP chain_id =
     (case pp_genesis_try_from PP chain_id of
        Inr genesis \<Rightarrow> obind (serialize_genesis PP genesis) (\<lambda>b. Ret (keccak256 A b))
      | Inl e \<Rightarrow> Panic (''rsp does not recognize genesis '' @ e))"

definition sp1_journal ::
    "alloy_ops \<Rightarrow> fork_ops \<Rightarrow> 'g sp1_ops \<Rightarrow> AltDACommitment \<times> CertValidity \<Rightarrow> Journal outcome" where
  "sp1_journal A FO PP pair =
     (case pair of (altda_commitment, cert_validity) \<Rightarrow>
        obind (derive_chain_config_hash A FO PP (cv_l1_chain_id cert_validity)
                 (cv_l1_head_block_timestamp cert_validity)
                 (cv_l1_head_block_number cert_validity)) (\<lambda>chain_config_hash_derive.
        obind (rsp_genesis_hash A PP (cv_l1_chain_id cert_validity)) (\<lambda>genesis_hash.
        Ret \<lparr> j_blockNumber = cv_l1_head_block_number cert_validity,
              j_blockhash = cv_l1_head_block_hash cert_validity,
              j_certVerifierAddress = cv_verifier_address cert_validity,
              j_input = to_rlp_bytes A altda_commitment,
              j_output = cv_claimed_validity cert_validity,
              j_l1ChainId = cv_l1_chain_id cert_validity,
              j_chainConfigHash = chain_config_hash_derive,
              j_chainSpecHash = genesis_hash \<rparr>)))"

definition sp1_to_journals_bytes ::
    "alloy_ops \<Rightarrow> fork_ops \<Rightarrow> 'g sp1_ops \<Rightarrow> claims \<Rightarrow> bytes outcome" where
  "sp1_to_journals_bytes A FO PP cert_validity_pairs =
     obind (mapM (sp1_journal A FO PP) cert_validity_pairs) (bincode_serialize (pp_bincode PP))"

definition sp1_validate_cert_receipt ::
    "bool \<Rightarrow> alloy_ops \<Rightarrow> fork_ops \<Rightarrow> 'g sp1_ops \<Rightarrow> claims \<Rightarrow> bytes option \<Rightarrow>
     (unit, HokuleaCanoeVerificationError) result outcome" where
  "sp1_validate_cert_receipt zkvm A FO PP cert_validity_pair canoe_proof_bytes =
     obind (oassert (cert_validity_pair \<noteq> []) ''assertion failed: !cert_validity_pair.is_empty()'') (\<lambda>_.
       if zkvm then
         obind (sp1_to_journals_bytes A FO PP cert_validity_pair) (\<lambda>journals_bytes.
           if pp_verify_sp1_proof PP V_KEY (pp_sha256 PP journals_bytes) then Ret (Inr ())
           else Panic ''verify_sp1_proof'')
       else Panic ''CanoeSp1CCVerifier should only be used for secure integration whose validation happens in zkVM'')"

definition CanoeSp1CCVerifier ::
    "bool \<Rightarrow> alloy_ops \<Rightarrow> fork_ops \<Rightarrow> 'g sp1_ops \<Rightarrow> canoe_verifier_ops" where
  "CanoeSp1CCVerifier zkvm A FO PP =
     \<lparr> vo_validate_cert_receipt = sp1_validate_cert_receipt zkvm A FO PP,
       vo_to_journals_bytes = sp1_to_journals_bytes A FO PP \<rparr>"

definition sp1_proven :: "'g sp1_ops \<Rightarrow> bytes \<Rightarrow> bool" where
  "sp1_proven PP j \<longleftrightarrow> pp_verify_sp1_proof PP V_KEY (pp_sha256 PP j)"

interpretation sp1_secure:
  secure_verifier "CanoeSp1CCVerifier zkvm A FO PP" "sp1_proven PP" for zkvm A FO PP
  by unfold_locales
     (auto simp: CanoeSp1CCVerifier_def sp1_validate_cert_receipt_def sp1_proven_def obind_eq_Ret
        split: if_splits)

section \<open>The guest\<close>

datatype AnchorType = BlockHash | OtherAnchor string

record sp1_public_values =
  pub_contractOutput :: bytes
  pub_anchorHash :: u256
  pub_anchorType :: AnchorType
  pub_chainConfigHash :: u256

record ('s, 'x, 'g) sp1_guest_ops =
  xo_deserialize :: "bytes \<Rightarrow> ('s, string) result"
  xo_genesis :: "'s \<Rightarrow> 'g"
  xo_executor :: "'s \<Rightarrow> ('x, string) result"
  xo_header_number :: "'x \<Rightarrow> u64"
  xo_chain_id :: "'x \<Rightarrow> u64"
  xo_execute :: "'x \<Rightarrow> u160 \<Rightarrow> u160 \<Rightarrow> CertVerifierCall \<Rightarrow> (sp1_public_values, string) result"
  xo_status_abi_decode :: "bytes \<Rightarrow> (StatusCode, string) result"

text \<open>An output that is not a status code counts as a failed verification.\<close>

definition sp1_validity :: "('s, 'x, 'g) sp1_guest_ops \<Rightarrow> bytes \<Rightarrow> bool" where
  "sp1_validity XO out =
     (case xo_status_abi_decode XO out of Inr returns \<Rightarrow> returns = SUCCESS | Inl _ \<Rightarrow> False)"

definition sp1_guest_journal ::
    "alloy_ops \<Rightarrow> abi_ops \<Rightarrow> ('s, 'x, 'g) sp1_guest_ops \<Rightarrow> 'x \<Rightarrow> u64 \<Rightarrow> u64 \<Rightarrow> u256 \<Rightarrow> u256 \<Rightarrow>
     CanoeInput \<Rightarrow> Journal outcome" where
  "sp1_guest_journal A B XO executor l1_chain_id l1_head_block_number l1_head_block_hash genesis_hash
       canoe_input =
     obind (unwrap ''executor should be able to execute call''
              (xo_execute XO executor (ci_verifier_address canoe_input) 0
                 (CertVerifierCall_build B (ci_altda_commitment canoe_input)))) (\<lambda>public_vals.
       let returns = sp1_validity XO (pub_contractOutput public_vals);
           anchor_hash = pub_anchorHash public_vals
       in case pub_anchorType public_vals of
            OtherAnchor _ \<Rightarrow> Panic ''sp1-cc expects anchor type of BlockHash''
          | BlockHash \<Rightarrow>
              obind (oassert (ci_claimed_validity canoe_input = returns)
                       ''assertion failed: canoe_input.claimed_validity == returns'') (\<lambda>_.
              obind (oassert (anchor_hash = l1_head_block_hash)
                       ''assertion failed: anchor_hash == l1_head_block_hash'') (\<lambda>_.
              Ret \<lparr> j_blockNumber = l1_head_block_number,
                    j_blockhash = anchor_hash,
                    j_certVerifierAddress = ci_verifier_address canoe_input,
                    j_input = to_rlp_bytes A (ci_altda_commitment canoe_input),
                    j_output = returns,
                    j_l1ChainId = l1_chain_id,
                    j_chainConfigHash = pub_chainConfigHash public_vals,
                    j_chainSpecHash = genesis_hash \<rparr>)))"

definition sp1_guest_main ::
    "alloy_ops \<Rightarrow> abi_ops \<Rightarrow> 'g sp1_ops \<Rightarrow> ('s, 'x, 'g) sp1_guest_ops \<Rightarrow> bytes \<Rightarrow> CanoeInput list \<Rightarrow>
     bytes outcome" where
  "sp1_guest_main A B PP XO state_sketch_bytes canoe_inputs =
     obind (unwrap ''should be able to deserialize evm sketch state''
              (xo_deserialize XO state_sketch_bytes)) (\<lambda>state_sketch.
     case canoe_inputs of
       [] \<Rightarrow> Panic ''assertion failed: !canoe_inputs.is_empty()''
     | first # _ \<Rightarrow>
         let l1_chain_id_from_canoe_input = ci_l1_chain_id first;
             l1_head_block_number = ci_l1_head_block_number first;
             l1_head_block_hash = ci_l1_head_block_hash first
         in obind (oassert (\<forall>i \<in> set canoe_inputs. ci_l1_chain_id i = l1_chain_id_from_canoe_input \<and>
                       ci_l1_head_block_number i = l1_head_block_number \<and>
                       ci_l1_head_block_hash i = l1_head_block_hash)
                    ''assertion failed: canoe inputs share one L1 head'') (\<lambda>_.
            obind (serialize_genesis PP (xo_genesis XO state_sketch)) (\<lambda>rsp_genesis_bytes.
            obind (unwrap ''should be able to initialize client executor''
                     (xo_executor XO state_sketch)) (\<lambda>executor.
            obind (oassert (l1_head_block_number = xo_header_number XO executor)
                     ''assertion failed: l1_head_block_number == executor.header.number'') (\<lambda>_.
            obind (oassert (l1_chain_id_from_canoe_input = xo_chain_id XO executor)
                     ''assertion failed: l1_chain_id_from_canoe_input == l1_chain_id'') (\<lambda>_.
            obind (mapM (sp1_guest_journal A B XO executor (xo_chain_id XO executor)
                           l1_head_block_number l1_head_block_hash (keccak256 A rsp_genesis_bytes))
                     canoe_inputs)
              (bincode_serialize (pp_bincode PP))))))))"

section \<open>Guest and verifier agree\<close>

definition sp1_claim_holds ::
    "alloy_ops \<Rightarrow> abi_ops \<Rightarrow> fork_ops \<Rightarrow> 'g sp1_ops \<Rightarrow> ('s, 'x, 'g) sp1_guest_ops \<Rightarrow> 'x \<Rightarrow>
     AltDACommitment \<times> CertValidity \<Rightarrow> bool" where
  "sp1_claim_holds A B FO PP XO executor pair \<longleftrightarrow>
     (case pair of (c, cv) \<Rightarrow>
        (case xo_execute XO executor (cv_verifier_address cv) 0 (CertVerifierCall_build B c) of
           Inr pub \<Rightarrow>
             cv_claimed_validity cv = sp1_validity XO (pub_contractOutput pub) \<and>
             pub_anchorType pub = BlockHash \<and> cv_l1_head_block_hash cv = pub_anchorHash pub \<and>
             derive_chain_config_hash A FO PP (cv_l1_chain_id cv) (cv_l1_head_block_timestamp cv)
               (cv_l1_head_block_number cv) = Ret (pub_chainConfigHash pub)
         | Inl _ \<Rightarrow> False) \<and>
        cv_l1_head_block_number cv = xo_header_number XO executor \<and>
        cv_l1_chain_id cv = xo_chain_id XO executor)"

lemma sp1_journal_Ret:
  assumes "sp1_journal A FO PP (c, cv) = Ret j"
  shows "j_output j = cv_claimed_validity cv" "j_input j = to_rlp_bytes A c"
    "j_certVerifierAddress j = cv_verifier_address cv" "j_blockhash j = cv_l1_head_block_hash cv"
    "j_blockNumber j = cv_l1_head_block_number cv" "j_l1ChainId j = cv_l1_chain_id cv"
    "rsp_genesis_hash A PP (cv_l1_chain_id cv) = Ret (j_chainSpecHash j)"
    "derive_chain_config_hash A FO PP (cv_l1_chain_id cv) (cv_l1_head_block_timestamp cv)
       (cv_l1_head_block_number cv) = Ret (j_chainConfigHash j)"
  using assms by (auto simp: sp1_journal_def obind_eq_Ret)

lemma sp1_guest_journal_Ret:
  assumes "sp1_guest_journal A B XO x cid bn bh gh i = Ret j"
  obtains pub where
    "xo_execute XO x (ci_verifier_address i) 0 (CertVerifierCall_build B (ci_altda_commitment i)) = Inr pub"
    "pub_anchorType pub = BlockHash" "pub_anchorHash pub = bh"
    "j_output j = sp1_validity XO (pub_contractOutput pub)"
    "j_input j = to_rlp_bytes A (ci_altda_commitment i)"
    "j_certVerifierAddress j = ci_verifier_address i" "j_blockhash j = bh" "j_blockNumber j = bn"
    "j_l1ChainId j = cid" "j_chainSpecHash j = gh" "j_chainConfigHash j = pub_chainConfigHash pub"
proof -
  let ?e = "xo_execute XO x (ci_verifier_address i) 0 (CertVerifierCall_build B (ci_altda_commitment i))"
  show thesis
  proof (cases ?e)
    case (Inl e)
    then show thesis using assms by (simp add: sp1_guest_journal_def)
  next
    case (Inr pub)
    then show thesis using assms that [of pub]
      by (auto simp: sp1_guest_journal_def Let_def obind_eq_Ret split: AnchorType.splits)
  qed
qed

lemma sp1_guest_main_Ret:
  assumes "sp1_guest_main A B PP XO sk inputs = Ret bs"
  obtains s x gb js where "xo_deserialize XO sk = Inr s" "xo_executor XO s = Inr x"
    "serialize_genesis PP (xo_genesis XO s) = Ret gb"
    "ci_l1_head_block_number (hd inputs) = xo_header_number XO x"
    "mapM (sp1_guest_journal A B XO x (xo_chain_id XO x) (ci_l1_head_block_number (hd inputs))
       (ci_l1_head_block_hash (hd inputs)) (keccak256 A gb)) inputs = Ret js"
    "pp_bincode PP js = Some bs"
  using assms
  by (cases inputs; cases "xo_deserialize XO sk")
     (auto simp: sp1_guest_main_def Let_def obind_eq_Ret bincode_serialize_def unwrap_def
       simp del: mapM.simps split: option.splits sum.splits)

lemma sp1_journals_agree:
  assumes v: "sp1_to_journals_bytes A FO PP pairs = Ret bs"
    and g: "sp1_guest_main A B PP XO sk inputs = Ret bs"
    and ser: "\<And>js ks b. pp_bincode PP js = Some b \<Longrightarrow> pp_bincode PP ks = Some b \<Longrightarrow> js = ks"
    and pv: "\<forall>pair\<in>set pairs. rlp_law A (versioned_cert (fst pair))"
    and pg: "\<forall>i\<in>set inputs. rlp_law A (versioned_cert (ci_altda_commitment i))"
  shows "\<exists>s x. xo_deserialize XO sk = Inr s \<and> xo_executor XO s = Inr x \<and>
     list_all2 (\<lambda>pair i. fst pair = ci_altda_commitment i \<and> sp1_claim_holds A B FO PP XO x pair) pairs inputs"
proof -
  obtain js where js: "mapM (sp1_journal A FO PP) pairs = Ret js" "pp_bincode PP js = Some bs"
    using v by (auto simp: sp1_to_journals_bytes_def obind_eq_Ret bincode_serialize_def split: option.splits)
  let ?h = "hd inputs"
  from g obtain s x gb ks where sx: "xo_deserialize XO sk = Inr s" "xo_executor XO s = Inr x"
    and num: "ci_l1_head_block_number ?h = xo_header_number XO x"
    and ks: "mapM (sp1_guest_journal A B XO x (xo_chain_id XO x) (ci_l1_head_block_number ?h)
       (ci_l1_head_block_hash ?h) (keccak256 A gb)) inputs = Ret ks"
    and kb: "pp_bincode PP ks = Some bs"
    by (rule sp1_guest_main_Ret)
  have "js = ks" using ser js(2) kb by blast
  have step: "fst pair = ci_altda_commitment i \<and> sp1_claim_holds A B FO PP XO x pair"
    if "pair \<in> set pairs" "i \<in> set inputs"
      and j: "\<exists>j. sp1_journal A FO PP pair = Ret j \<and>
        sp1_guest_journal A B XO x (xo_chain_id XO x) (ci_l1_head_block_number ?h)
          (ci_l1_head_block_hash ?h) (keccak256 A gb) i = Ret j" for pair i
  proof -
    obtain c cv j where p: "pair = (c, cv)" and jv: "sp1_journal A FO PP (c, cv) = Ret j"
      and jg: "sp1_guest_journal A B XO x (xo_chain_id XO x) (ci_l1_head_block_number ?h)
          (ci_l1_head_block_hash ?h) (keccak256 A gb) i = Ret j"
      using j by (cases pair) auto
    note jv = sp1_journal_Ret [OF jv]
    from jg show ?thesis
    proof (rule sp1_guest_journal_Ret)
      fix pub
      assume pub: "xo_execute XO x (ci_verifier_address i) 0
            (CertVerifierCall_build B (ci_altda_commitment i)) = Inr pub"
          "pub_anchorType pub = BlockHash" "pub_anchorHash pub = ci_l1_head_block_hash ?h"
          "j_output j = sp1_validity XO (pub_contractOutput pub)"
        and inp: "j_input j = to_rlp_bytes A (ci_altda_commitment i)"
        and rest: "j_certVerifierAddress j = ci_verifier_address i"
          "j_blockhash j = ci_l1_head_block_hash ?h" "j_blockNumber j = ci_l1_head_block_number ?h"
          "j_l1ChainId j = xo_chain_id XO x" "j_chainSpecHash j = keccak256 A gb"
          "j_chainConfigHash j = pub_chainConfigHash pub"
      have "rlp_law A (versioned_cert c)" "rlp_law A (versioned_cert (ci_altda_commitment i))"
        using pv pg that(1,2) p by auto
      then have "c = ci_altda_commitment i" using jv(2) inp to_rlp_bytes_inj by metis
      then show ?thesis using jv pub rest p num by (simp add: sp1_claim_holds_def)
    qed
  qed
  show ?thesis
    using sx mapM_meet [OF js(1) ks [folded \<open>js = ks\<close>]] step
    by (intro exI [of _ s] exI [of _ x]) (auto elim!: list.rel_mono_strong)
qed

end
