(* ===== verification/Preloaded_Provider.thy ===== *)
theory Preloaded_Provider
  imports Eigenda_Witness Host Canoe_Sp1
begin

text \<open>
  The provider the zkVM runs the derivation on,
  \<open>crates/proof/src/preloaded_eigenda_provider.rs\<close>: \<open>from_witness\<close> checks a witness against the
  Canoe proof and the KZG proofs and the provider then hands out its entries in order, aborting on a
  request it does not expect.

  The KZG check is the parameter \<open>BV\<close> (the code chooses one of two backends at compile time). The
  provider is an instance of \<open>sound_provider\<close> for any \<open>V\<close> and \<open>P\<close> its entries agree with.
\<close>

section \<open>The provider\<close>

record PreloadedEigenDAPreimageProvider =
  validity_entries :: "(AltDACommitment \<times> bool) list"
  encoded_payload_entries :: "(AltDACommitment \<times> EncodedPayload) list"

text \<open>\<open>Vec::pop\<close>.\<close>

definition vec_pop :: "'a list \<Rightarrow> ('a \<times> 'a list) option" where
  "vec_pop xs = (if xs = [] then None else Some (last xs, butlast xs))"

type_synonym batch_verifier = "bytes list \<Rightarrow> G1Point list \<Rightarrow> u512 list \<Rightarrow> bool outcome"

definition cert_validity_of ::
    "address_fetch \<Rightarrow> u256 \<Rightarrow> u64 \<Rightarrow> u64 \<Rightarrow> u64 \<Rightarrow> AltDACommitment \<times> bool \<Rightarrow>
     (AltDACommitment \<times> CertValidity) outcome" where
  "cert_validity_of fetch l1_head_block_hash l1_head_block_number l1_head_block_timestamp l1_chain_id
       entry =
     (case entry of (c, claimed_validity) \<Rightarrow>
        obind (unwrap ''should be able to get verifier address'' (fetch l1_chain_id (versioned_cert c)))
          (\<lambda>verifier_address_fetched.
             Ret (c, \<lparr> cv_claimed_validity = claimed_validity,
                       cv_l1_head_block_hash = l1_head_block_hash,
                       cv_l1_head_block_number = l1_head_block_number,
                       cv_l1_head_block_timestamp = l1_head_block_timestamp,
                       cv_l1_chain_id = l1_chain_id,
                       cv_verifier_address = verifier_address_fetched \<rparr>)))"

definition from_witness ::
    "canoe_verifier_ops \<Rightarrow> address_fetch \<Rightarrow> batch_verifier \<Rightarrow> EigenDAWitness \<Rightarrow>
     u256 \<Rightarrow> u64 \<Rightarrow> u64 \<Rightarrow> u64 \<Rightarrow> PreloadedEigenDAPreimageProvider outcome" where
  "from_witness VO fetch BV witness l1_head_block_hash l1_head_block_number l1_head_block_timestamp
       l1_chain_id =
     (let validities = wit_validities witness;
          encoded_payloads = wit_encoded_payloads witness
      in
      obind (oassert (length validities \<ge> length encoded_payloads)
               ''assertion failed: validities.len() >= encoded_payloads.len()'') (\<lambda>_.
      obind (oassert (\<forall>(c, payload, _) \<in> set encoded_payloads.
                        num_field_element payload = get_num_field_element c)
               ''assertion failed: encoded_payload.num_field_element() == altda_commitment.get_num_field_element()'') (\<lambda>_.
      obind (if validities \<noteq> [] then
               obind (mapM (cert_validity_of fetch l1_head_block_hash l1_head_block_number
                              l1_head_block_timestamp l1_chain_id) validities) (\<lambda>cert_validities.
               obind (vo_validate_cert_receipt VO cert_validities (wit_canoe_proof_bytes witness)) (\<lambda>r.
                 unwrap ''verification should have been passing'' r))
             else Ret ()) (\<lambda>_.
      obind (BV (map (\<lambda>(_, ep, _). serialize ep) encoded_payloads)
                (map (\<lambda>(ac, _, _). get_kzg_commitment ac) encoded_payloads)
                (map (\<lambda>(_, _, p). p) encoded_payloads)) (\<lambda>ok.
      obind (oassert ok ''assertion failed: batch_verify'') (\<lambda>_.
      let encoded_payload_entries = map (\<lambda>(ac, ep, _). (ac, ep)) encoded_payloads in
      obind (oassert (length validities \<ge> length encoded_payload_entries)
               ''assertion failed: validity_entries.len() >= encoded_payload_entries.len()'') (\<lambda>_.
      Ret \<lparr> validity_entries = rev validities,
            encoded_payload_entries = rev encoded_payload_entries \<rparr>)))))))"

definition preloaded_get_validity ::
    "PreloadedEigenDAPreimageProvider \<Rightarrow> AltDACommitment \<Rightarrow>
     ((bool, HokuleaOracleProviderError) result \<times> PreloadedEigenDAPreimageProvider) outcome" where
  "preloaded_get_validity self c =
     (case vec_pop (validity_entries self) of
        None \<Rightarrow> Panic ''no validity available in preloaded preiamge provider''
      | Some ((stored, validity), rest) \<Rightarrow>
          if stored = c then Ret (Inr validity, self\<lparr> validity_entries := rest \<rparr>)
          else Panic ''preloaded eigenda preimage provider does not match altda commitment requested from derivation pipeline'')"

definition preloaded_get_encoded_payload ::
    "PreloadedEigenDAPreimageProvider \<Rightarrow> AltDACommitment \<Rightarrow>
     ((EncodedPayload, HokuleaOracleProviderError) result \<times> PreloadedEigenDAPreimageProvider) outcome" where
  "preloaded_get_encoded_payload self c =
     (case vec_pop (encoded_payload_entries self) of
        None \<Rightarrow> Panic ''no encoded payload available in preloaded preiamge provider''
      | Some ((stored, payload), rest) \<Rightarrow>
          if stored = c then Ret (Inr payload, self\<lparr> encoded_payload_entries := rest \<rparr>)
          else Panic ''preloaded preimage provider does not match altda commitment requested from derivation pipeline'')"

definition preloaded_provider ::
    "(PreloadedEigenDAPreimageProvider, HokuleaOracleProviderError) provider_ops" where
  "preloaded_provider =
     \<lparr> pv_get_validity = preloaded_get_validity,
       pv_get_encoded_payload = preloaded_get_encoded_payload,
       pv_into_kind = HokuleaErrorKind_from_oracle \<rparr>"

section \<open>First in, first out\<close>

text \<open>The provider seen as two queues, in the order of the witness.\<close>

definition preloaded_of ::
    "(AltDACommitment \<times> bool) list \<Rightarrow> (AltDACommitment \<times> EncodedPayload) list \<Rightarrow>
     PreloadedEigenDAPreimageProvider" where
  "preloaded_of vs ps = \<lparr> validity_entries = rev vs, encoded_payload_entries = rev ps \<rparr>"

lemma preloaded_of_surj: "\<exists>vs ps. p = preloaded_of vs ps"
  by (intro exI [of _ "rev (validity_entries p)"] exI [of _ "rev (encoded_payload_entries p)"])
     (cases p, simp add: preloaded_of_def)

lemma vec_pop_rev [simp]:
  "vec_pop (rev []) = None"
  "vec_pop (rev xs @ [x]) = Some (x, rev xs)"
  by (simp_all add: vec_pop_def)

lemma preloaded_get_validity_Ret_iff:
  "preloaded_get_validity (preloaded_of vs ps) c = Ret (r, p') \<longleftrightarrow>
     (\<exists>b vs'. vs = (c, b) # vs' \<and> r = Inr b \<and> p' = preloaded_of vs' ps)"
proof (cases vs)
  case Nil
  then show ?thesis by (simp add: preloaded_get_validity_def preloaded_of_def vec_pop_def)
next
  case (Cons e vs')
  then show ?thesis
    by (cases e) (auto simp: preloaded_get_validity_def preloaded_of_def)
qed

lemma preloaded_get_encoded_payload_Ret_iff:
  "preloaded_get_encoded_payload (preloaded_of vs ps) c = Ret (r, p') \<longleftrightarrow>
     (\<exists>x ps'. ps = (c, x) # ps' \<and> r = Inr x \<and> p' = preloaded_of vs ps')"
proof (cases ps)
  case Nil
  then show ?thesis by (simp add: preloaded_get_encoded_payload_def preloaded_of_def vec_pop_def)
next
  case (Cons e ps')
  then show ?thesis
    by (cases e) (auto simp: preloaded_get_encoded_payload_def preloaded_of_def)
qed

lemma preloaded_get_validity_hit:
  "preloaded_get_validity (preloaded_of ((c, b) # vs) ps) c = Ret (Inr b, preloaded_of vs ps)"
  unfolding preloaded_get_validity_Ret_iff by simp

lemma preloaded_get_encoded_payload_hit:
  "preloaded_get_encoded_payload (preloaded_of vs ((c, x) # ps)) c = Ret (Inr x, preloaded_of vs ps)"
  unfolding preloaded_get_encoded_payload_Ret_iff by simp

lemma preloaded_get_validity_miss:
  "d \<noteq> c \<Longrightarrow> \<exists>m. preloaded_get_validity (preloaded_of ((d, b) # vs) ps) c = Panic m"
  by (simp add: preloaded_get_validity_def preloaded_of_def)

section \<open>Soundness\<close>

definition entries_agree ::
    "(AltDACommitment \<Rightarrow> bool) \<Rightarrow> (AltDACommitment \<Rightarrow> EncodedPayload) \<Rightarrow>
     PreloadedEigenDAPreimageProvider \<Rightarrow> bool" where
  "entries_agree V P p \<longleftrightarrow>
     (\<forall>(c, b) \<in> set (validity_entries p). b = V c) \<and>
     (\<forall>(c, x) \<in> set (encoded_payload_entries p). V c \<longrightarrow> x = P c)"

lemma entries_agree_of:
  "entries_agree V P (preloaded_of vs ps) \<longleftrightarrow>
     (\<forall>(c, b) \<in> set vs. b = V c) \<and> (\<forall>(c, x) \<in> set ps. V c \<longrightarrow> x = P c)"
  by (simp add: entries_agree_def preloaded_of_def)

interpretation preloaded_sound:
  sound_provider preloaded_provider "entries_agree V P" V P for V P
proof unfold_locales
  fix p p' c b
  assume "entries_agree V P p" "pv_get_validity preloaded_provider p c = Ret (Inr b, p')"
  then show "b = V c \<and> entries_agree V P p'"
    using preloaded_of_surj [of p]
    by (auto simp: preloaded_provider_def preloaded_get_validity_Ret_iff entries_agree_of)
next
  fix p p' c e
  assume "pv_get_validity preloaded_provider p c = Ret (Inl e, p')"
  then show "entries_agree V P p' \<and> \<not> is_Discard (pv_into_kind preloaded_provider e)"
    using preloaded_of_surj [of p]
    by (auto simp: preloaded_provider_def preloaded_get_validity_Ret_iff)
next
  fix p p' c x
  assume "entries_agree V P p" "V c" "pv_get_encoded_payload preloaded_provider p c = Ret (Inr x, p')"
  then show "x = P c \<and> entries_agree V P p'"
    using preloaded_of_surj [of p]
    by (auto simp: preloaded_provider_def preloaded_get_encoded_payload_Ret_iff entries_agree_of)
next
  fix p p' c e
  assume "pv_get_encoded_payload preloaded_provider p c = Ret (Inl e, p')"
  then show "entries_agree V P p' \<and> \<not> is_Discard (pv_into_kind preloaded_provider e)"
    using preloaded_of_surj [of p]
    by (auto simp: preloaded_provider_def preloaded_get_encoded_payload_Ret_iff)
qed

section \<open>What \<open>from_witness\<close> has checked\<close>

lemma from_witness_Ret_iff:
  "from_witness VO fetch BV w hash num ts chain = Ret p \<longleftrightarrow>
     length (wit_encoded_payloads w) \<le> length (wit_validities w) \<and>
     (\<forall>(c, payload, _) \<in> set (wit_encoded_payloads w). num_field_element payload = get_num_field_element c) \<and>
     (wit_validities w = [] \<or>
        (\<exists>claims. mapM (cert_validity_of fetch hash num ts chain) (wit_validities w) = Ret claims \<and>
           vo_validate_cert_receipt VO claims (wit_canoe_proof_bytes w) = Ret (Inr ()))) \<and>
     BV (map (\<lambda>(_, ep, _). serialize ep) (wit_encoded_payloads w))
        (map (\<lambda>(ac, _, _). get_kzg_commitment ac) (wit_encoded_payloads w))
        (map (\<lambda>(_, _, k). k) (wit_encoded_payloads w)) = Ret True \<and>
     p = preloaded_of (wit_validities w) (map (\<lambda>(ac, ep, _). (ac, ep)) (wit_encoded_payloads w))"
proof -
  have u: "unwrap m (r :: 'x + unit) = Ret v \<longleftrightarrow> r = Inr ()" for m r v
    by (cases r) simp_all
  show ?thesis
    unfolding from_witness_def Let_def preloaded_of_def
    by (auto simp: obind_eq_Ret u)
qed

lemma cert_validity_of_Ret_iff:
  "cert_validity_of fetch hash num ts chain (c, b) = Ret pair \<longleftrightarrow>
     (\<exists>a. fetch chain (versioned_cert c) = Inr a \<and>
        pair = (c, \<lparr> cv_claimed_validity = b, cv_l1_head_block_hash = hash,
                     cv_l1_head_block_number = num, cv_l1_head_block_timestamp = ts,
                     cv_l1_chain_id = chain, cv_verifier_address = a \<rparr>))"
  by (cases "fetch chain (versioned_cert c)") (auto simp: cert_validity_of_def)

lemma from_witness_claims:
  assumes "from_witness VO fetch BV w hash num ts chain = Ret p" "wit_validities w \<noteq> []"
  obtains claims where
    "list_all2 (\<lambda>e pair. cert_validity_of fetch hash num ts chain e = Ret pair) (wit_validities w) claims"
    "vo_validate_cert_receipt VO claims (wit_canoe_proof_bytes w) = Ret (Inr ())"
  using assms unfolding from_witness_Ret_iff mapM_Ret_iff by blast

end
