(* ===== verification/Witgen.thy ===== *)
theory Witgen
  imports Preloaded_Provider
begin

text \<open>
  Witness generation, \<open>crates/witgen/src\<close>: the provider that records what another provider answers
  (\<open>witness_provider.rs\<close>) and the inputs of the Canoe proof (\<open>canoe_witness_provider.rs\<close>).

  Recording and replay: when the recorded provider reports no errors, a derivation run on the
  recorder and the same run on a preloaded provider made of the recording give the same results, and
  the replay uses up every entry. With errors the recording is not the sequence the replay asks for,
  which is shown on the retry of a commitment.
\<close>

section \<open>The recorder\<close>

record 'p OracleEigenDAPreimageProviderWithPreimage =
  rec_provider :: 'p
  rec_preimage :: EigenDAPreimage

definition recorder_get_validity ::
    "('p, 'e) provider_ops \<Rightarrow> 'p OracleEigenDAPreimageProviderWithPreimage \<Rightarrow> AltDACommitment \<Rightarrow>
     ((bool, 'e) result \<times> 'p OracleEigenDAPreimageProviderWithPreimage) outcome" where
  "recorder_get_validity PO self c =
     obind (pv_get_validity PO (rec_provider self) c) (\<lambda>(r, provider).
       let self = self\<lparr> rec_provider := provider \<rparr> in
       case r of
         Inr validity \<Rightarrow>
           let pre = rec_preimage self in
           Ret (Inr validity, self\<lparr> rec_preimage :=
             pre\<lparr> pre_validities := pre_validities pre @ [(c, validity)] \<rparr> \<rparr>)
       | Inl e \<Rightarrow> Ret (Inl e, self))"

definition recorder_get_encoded_payload ::
    "('p, 'e) provider_ops \<Rightarrow> 'p OracleEigenDAPreimageProviderWithPreimage \<Rightarrow> AltDACommitment \<Rightarrow>
     ((EncodedPayload, 'e) result \<times> 'p OracleEigenDAPreimageProviderWithPreimage) outcome" where
  "recorder_get_encoded_payload PO self c =
     obind (pv_get_encoded_payload PO (rec_provider self) c) (\<lambda>(r, provider).
       let self = self\<lparr> rec_provider := provider \<rparr> in
       case r of
         Inr payload \<Rightarrow>
           let pre = rec_preimage self in
           Ret (Inr payload, self\<lparr> rec_preimage :=
             pre\<lparr> pre_encoded_payloads := pre_encoded_payloads pre @ [(c, payload)] \<rparr> \<rparr>)
       | Inl e \<Rightarrow> Ret (Inl e, self))"

definition recorder ::
    "('p, 'e) provider_ops \<Rightarrow> ('p OracleEigenDAPreimageProviderWithPreimage, 'e) provider_ops" where
  "recorder PO =
     \<lparr> pv_get_validity = recorder_get_validity PO,
       pv_get_encoded_payload = recorder_get_encoded_payload PO,
       pv_into_kind = pv_into_kind PO \<rparr>"

section \<open>Inputs of the Canoe proof\<close>

text \<open>The message of a fetcher error, as \<open>anyhow\<close> renders it.\<close>

definition FetcherError_to_string :: "CanoeVerifierAddressFetcherError \<Rightarrow> string" where
  "FetcherError_to_string e =
     (case e of
        UnknownL1ChainId c \<Rightarrow> ''Unknown L1 chain ID: '' @ show_nat (unat c) @
          ''. This L1 chain is not supported.''
      | MissingL2ChainId \<Rightarrow>
          ''L2 chain ID is required for this verifier address fetcher but was not provided''
      | UnknownL2ChainId l2 l1 \<Rightarrow> ''Unknown L2 chain ID: '' @ show_nat (unat l2) @
          '' for L1 chain ID: '' @ show_nat (unat l1) @
          ''. This L2 is not registered. Rollup teams should submit a PR to add their router address.'')"

fun from_eigenda_preimage_to_canoe_inputs ::
    "address_fetch \<Rightarrow> u64 \<Rightarrow> u256 \<Rightarrow> u64 \<Rightarrow> (AltDACommitment \<times> bool) list \<Rightarrow>
     (CanoeInput list, string) result" where
  "from_eigenda_preimage_to_canoe_inputs fetch l1_chain_id hash number [] = Inr []"
| "from_eigenda_preimage_to_canoe_inputs fetch l1_chain_id hash number ((c, claimed) # rest) =
     rbind (map_err FetcherError_to_string (fetch l1_chain_id (versioned_cert c))) (\<lambda>address.
     rbind (from_eigenda_preimage_to_canoe_inputs fetch l1_chain_id hash number rest) (\<lambda>inputs.
       Inr (\<lparr> ci_altda_commitment = c, ci_claimed_validity = claimed,
              ci_l1_head_block_hash = hash, ci_l1_head_block_number = number,
              ci_l1_chain_id = l1_chain_id, ci_verifier_address = address \<rparr> # inputs)))"

text \<open>Kona's boot information, and the oracle and header decoding of kona and alloy as arguments: \<open>get\<close>
  reads the header preimage of a block hash, \<open>header_number\<close> decodes it. The Canoe provider may return
  nothing, fail or panic.\<close>

record BootInfo =
  boot_l1_head :: u256
  boot_agreed_l2_output_root :: u256
  boot_claimed_l2_output_root :: u256
  boot_claimed_l2_block_number :: u64
  boot_l1_chain_id :: u64

type_synonym 'r canoe_provider = "CanoeInput list \<Rightarrow> ('r, string) result option outcome"

definition from_boot_info_to_canoe_proof ::
    "address_fetch \<Rightarrow> (u256 \<Rightarrow> (bytes, string) result) \<Rightarrow> (bytes \<Rightarrow> u64 option) \<Rightarrow>
     'r canoe_provider \<Rightarrow> BootInfo \<Rightarrow> EigenDAPreimage \<Rightarrow> ('r option, string) result outcome" where
  "from_boot_info_to_canoe_proof fetch get header_number create_proof boot_info preimage =
     orbind (Ret (get (boot_l1_head boot_info))) (\<lambda>header_rlp.
     orbind (Ret (ok_or ''cannot rlp decode header in canoe proof generation'' (header_number header_rlp)))
       (\<lambda>number.
     orbind (Ret (from_eigenda_preimage_to_canoe_inputs fetch (boot_l1_chain_id boot_info)
              (boot_l1_head boot_info) number (pre_validities preimage))) (\<lambda>canoe_inputs.
     obind (create_proof canoe_inputs) (\<lambda>answer.
       Ret (case answer of Some result \<Rightarrow> rbind result (\<lambda>proof. Inr (Some proof)) | None \<Rightarrow> Inr None)))))"

text \<open>The inputs carry exactly the recorded claims, in order, all about one L1 head.\<close>

lemma canoe_inputs_iff:
  "from_eigenda_preimage_to_canoe_inputs fetch chain hash num vs = Inr inputs \<longleftrightarrow>
     list_all2 (\<lambda>(c, b) i. \<exists>a. fetch chain (versioned_cert c) = Inr a \<and>
        i = \<lparr> ci_altda_commitment = c, ci_claimed_validity = b, ci_l1_head_block_hash = hash,
              ci_l1_head_block_number = num, ci_l1_chain_id = chain, ci_verifier_address = a \<rparr>)
       vs inputs"
proof (induction vs arbitrary: inputs)
  case (Cons v vs)
  then show ?case by (cases v; cases inputs) (auto simp: rbind_eq_Inr)
qed auto

section \<open>Replay of a recording\<close>

text \<open>A provider that reports no errors (it may still panic).\<close>

definition never_errs :: "('p, 'e) provider_ops \<Rightarrow> bool" where
  "never_errs PO \<longleftrightarrow>
     (\<forall>p c e p'. pv_get_validity PO p c \<noteq> Ret (Inl e, p')) \<and>
     (\<forall>p c e p'. pv_get_encoded_payload PO p c \<noteq> Ret (Inl e, p'))"

lemma never_errsD:
  assumes "never_errs PO"
  shows "pv_get_validity PO p c \<noteq> Ret (Inl e, p')" "pv_get_encoded_payload PO p c \<noteq> Ret (Inl e, p')"
  using assms unfolding never_errs_def by blast+

text \<open>\<open>extends pre vs ps pre'\<close>: the recording grew by \<open>vs\<close> and \<open>ps\<close>.\<close>

definition extends ::
    "EigenDAPreimage \<Rightarrow> (AltDACommitment \<times> bool) list \<Rightarrow> (AltDACommitment \<times> EncodedPayload) list \<Rightarrow>
     EigenDAPreimage \<Rightarrow> bool" where
  "extends pre vs ps pre' \<longleftrightarrow>
     pre_validities pre' = pre_validities pre @ vs \<and>
     pre_encoded_payloads pre' = pre_encoded_payloads pre @ ps"

lemma extends_refl: "extends pre [] [] pre"
  by (simp add: extends_def)

lemma extends_trans:
  "extends a vs ps b \<Longrightarrow> extends b vs' ps' c \<Longrightarrow> extends a (vs @ vs') (ps @ ps') c"
  by (simp add: extends_def)

lemma recorder_validity_replay:
  assumes "never_errs PO" "pv_get_validity (recorder PO) p c = Ret (r, p')"
  shows "\<exists>b. r = Inr b \<and> extends (rec_preimage p) [(c, b)] [] (rec_preimage p') \<and>
     (\<forall>vs ps. pv_get_validity preloaded_provider (preloaded_of ((c, b) # vs) ps) c =
        Ret (Inr b, preloaded_of vs ps))"
proof -
  obtain q p1 where q: "pv_get_validity PO (rec_provider p) c = Ret (q, p1)"
    using assms(2) by (auto simp: recorder_def recorder_get_validity_def obind_eq_Ret)
  then obtain b where "q = Inr b" using never_errsD(1) [OF assms(1), of "rec_provider p" c] by (cases q) auto
  then have "r = Inr b" "extends (rec_preimage p) [(c, b)] [] (rec_preimage p')"
    using q assms(2) by (auto simp: recorder_def recorder_get_validity_def extends_def Let_def)
  then show ?thesis by (simp add: preloaded_provider_def preloaded_get_validity_hit)
qed

lemma recorder_payload_replay:
  assumes "never_errs PO" "pv_get_encoded_payload (recorder PO) p c = Ret (r, p')"
  shows "\<exists>x. r = Inr x \<and> extends (rec_preimage p) [] [(c, x)] (rec_preimage p') \<and>
     (\<forall>vs ps. pv_get_encoded_payload preloaded_provider (preloaded_of vs ((c, x) # ps)) c =
        Ret (Inr x, preloaded_of vs ps))"
proof -
  obtain q p1 where q: "pv_get_encoded_payload PO (rec_provider p) c = Ret (q, p1)"
    using assms(2) by (auto simp: recorder_def recorder_get_encoded_payload_def obind_eq_Ret)
  then obtain x where "q = Inr x" using never_errsD(2) [OF assms(1), of "rec_provider p" c] by (cases q) auto
  then have "r = Inr x" "extends (rec_preimage p) [] [(c, x)] (rec_preimage p')"
    using q assms(2) by (auto simp: recorder_def recorder_get_encoded_payload_def extends_def Let_def)
  then show ?thesis by (simp add: preloaded_provider_def preloaded_get_encoded_payload_hit)
qed

lemma preimage_source_replay:
  assumes ne: "never_errs PO" and nx: "preimage_source_next (recorder PO) s c bn = Ret (r, s')"
  shows "\<exists>vs ps. extends (rec_preimage (eigenda_fetcher s)) vs ps (rec_preimage (eigenda_fetcher s')) \<and>
     (\<forall>vs' ps'. preimage_source_next preloaded_provider
         \<lparr> eigenda_fetcher = preloaded_of (vs @ vs') (ps @ ps') \<rparr> c bn =
       Ret (r, \<lparr> eigenda_fetcher = preloaded_of vs' ps' \<rparr>))"
  using nx
proof (cases rule: preimage_source_next_cases)
  case (validity_error e)
  then show ?thesis using recorder_validity_replay [OF ne validity_error(1)] by blast
next
  case (rejected b k)
  from recorder_validity_replay [OF ne rejected(1)] rejected(2,3) show ?thesis
    by (intro exI [of _ "[(c, b)]"] exI [of _ "[]"]) (auto simp: preimage_source_next_unfold)
next
  case (fetched b p' y x)
  obtain z where z: "x = Inr z" "extends (rec_preimage p') [] [(c, z)] (rec_preimage (eigenda_fetcher s'))"
     "\<And>vs ps. pv_get_encoded_payload preloaded_provider (preloaded_of vs ((c, z) # ps)) c =
        Ret (Inr z, preloaded_of vs ps)"
    using recorder_payload_replay [OF ne fetched(3)] by blast
  have v: "extends (rec_preimage (eigenda_fetcher s)) [(c, b)] [] (rec_preimage p')"
     "\<And>vs ps. pv_get_validity preloaded_provider (preloaded_of ((c, b) # vs) ps) c =
        Ret (Inr b, preloaded_of vs ps)"
    using recorder_validity_replay [OF ne fetched(1)] by auto
  show ?thesis
    using extends_trans [OF v(1) z(2)] v(2) z(1,3) fetched(2,4)
    by (intro exI [of _ "[(c, b)]"] exI [of _ "[(c, z)]"]) (simp add: preimage_source_next_unfold)
qed

text \<open>The state of the replaying data source that corresponds to a recording one, with the entries
  still to come.\<close>

definition replaying ::
    "('g, 'p) EigenDADataSource \<Rightarrow> (AltDACommitment \<times> bool) list \<Rightarrow>
     (AltDACommitment \<times> EncodedPayload) list \<Rightarrow>
     ('g, PreloadedEigenDAPreimageProvider) EigenDADataSource" where
  "replaying s vs ps =
     \<lparr> ethereum_source = ethereum_source s,
       eigenda_source = \<lparr> eigenda_fetcher = preloaded_of vs ps \<rparr>,
       altda_commitment = altda_commitment s \<rparr>"

abbreviation recording :: "('g, 'p OracleEigenDAPreimageProviderWithPreimage) EigenDADataSource \<Rightarrow>
    EigenDAPreimage" where
  "recording s \<equiv> rec_preimage (eigenda_fetcher (eigenda_source s))"

lemma load_replaying:
  assumes "data_source_load A E s b a = (l, s')"
  shows "data_source_load A E (replaying s vs ps) b a = (l, replaying s' vs ps)"
    and "eigenda_source s' = eigenda_source s"
  using assms
  by (auto simp: data_source_load_def data_source_clear_def replaying_def Let_def
      split: option.splits prod.splits sum.splits if_splits)

lemma replaying_update:
  "replaying s vs ps\<lparr> eigenda_source := \<lparr> eigenda_fetcher = preloaded_of vs' ps' \<rparr> \<rparr> =
     replaying (s\<lparr> eigenda_source := src \<rparr>) vs' ps'"
  "replaying s vs ps\<lparr> eigenda_source := \<lparr> eigenda_fetcher = preloaded_of vs' ps' \<rparr>, altda_commitment := None \<rparr> =
     replaying (s\<lparr> eigenda_source := src, altda_commitment := None \<rparr>) vs' ps'"
  by (simp_all add: replaying_def)

lemma replaying_none [simp]:
  "replaying s vs ps\<lparr> altda_commitment := None \<rparr> = replaying (s\<lparr> altda_commitment := None \<rparr>) vs ps"
  by (simp add: replaying_def)

text \<open>\<open>replays PO s y\<close>: whatever a call returned on the recorder, the call on the entries it added
  returns too.\<close>

definition replays where
  "replays A E b a s y \<longleftrightarrow>
     (\<forall>r s'. y = Ret (r, s') \<longrightarrow>
        (\<exists>vs ps. extends (recording s) vs ps (recording s') \<and>
           (\<forall>vs' ps'. data_source_next A E preloaded_provider (replaying s (vs @ vs') (ps @ ps')) b a =
              Some (Ret (r, replaying s' vs' ps')))))"

lemma replaysI:
  assumes "extends (recording s) vs ps (recording s')"
    and "\<And>vs' ps'. data_source_next A E preloaded_provider (replaying s (vs @ vs') (ps @ ps')) b a =
           Some (Ret (r, replaying s' vs' ps'))"
  shows "replays A E b a s (Ret (r, s'))"
  using assms unfolding replays_def by blast

lemma replay_at:
  assumes "never_errs PO" "data_source_load A E s b a = (Inr c, s1)"
    and "preimage_source_next (recorder PO) (eigenda_source s1) c (bi_number b) = Ret (r, src)"
  obtains vs ps where "extends (recording s) vs ps (rec_preimage (eigenda_fetcher src))"
    "\<And>vs' ps'. data_source_load A E (replaying s (vs @ vs') (ps @ ps')) b a =
       (Inr c, replaying s1 (vs @ vs') (ps @ ps'))"
    "\<And>vs' ps'. preimage_source_next preloaded_provider
       (eigenda_source (replaying s1 (vs @ vs') (ps @ ps'))) c (bi_number b) =
       Ret (r, \<lparr> eigenda_fetcher = preloaded_of vs' ps' \<rparr>)"
  using preimage_source_replay [OF assms(1,3)] load_replaying [OF assms(2)]
  by (auto simp: replaying_def)

lemma data_source_replay:
  assumes ne: "never_errs PO"
    and "data_source_next A E (recorder PO) s b a = Some y"
  shows "replays A E b a s y"
  using assms(2)
proof (induction rule: data_source_next_induct)
  case (early s r s')
  have "recording s' = recording s" using load_replaying(2) [OF early] by simp
  then show ?case
    unfolding replays_def
    by (intro allI impI exI [of _ "[]"])
       (simp add: extends_refl data_source_next.simps load_replaying(1) [OF early])
next
  case (panic s c s1 m)
  then show ?case by (simp add: replays_def)
next
  case (temporary s c s1 e src)
  from ne temporary show ?case
  proof (rule replay_at, goal_cases)
    case (1 vs ps)
    then show ?case
      by (intro replaysI [of _ vs ps])
         (simp_all add: data_source_next_at replaying_update [where src = src] Let_def)
  qed
next
  case (critical s c s1 e src)
  from ne critical show ?case
  proof (rule replay_at, goal_cases)
    case (1 vs ps)
    then show ?case
      by (intro replaysI [of _ vs ps])
         (simp_all add: data_source_next_at replaying_update [where src = src] Let_def)
  qed
next
  case (decoded s c s1 p x src)
  from ne decoded(1,2) show ?case
  proof (rule replay_at, goal_cases)
    case (1 vs ps)
    then show ?case
      by (intro replaysI [of _ vs ps])
         (simp_all add: data_source_next_at replaying_update [where src = src] decoded(3) Let_def)
  qed
next
  case (skip s c s1 q src y)
  from ne skip(1,2) show ?case
  proof (rule replay_at, goal_cases)
    case (1 vs ps)
    have at: "data_source_next A E preloaded_provider (replaying s (vs @ vs') (ps @ ps')) b a =
        data_source_next A E preloaded_provider
          (replaying (s1\<lparr> eigenda_source := src, altda_commitment := None \<rparr>) vs' ps') b a" for vs' ps'
      using skip(3) 1
      by (auto simp: data_source_next_at replaying_update [where src = src] Let_def
          split: sum.splits HokuleaErrorKind.splits)
    show ?case
      unfolding replays_def
    proof (intro allI impI)
      fix r s'
      assume "y = Ret (r, s')"
      then obtain vs2 ps2 where "extends (rec_preimage (eigenda_fetcher src)) vs2 ps2 (recording s')"
        "\<And>vs' ps'. data_source_next A E preloaded_provider
           (replaying (s1\<lparr> eigenda_source := src, altda_commitment := None \<rparr>) (vs2 @ vs') (ps2 @ ps')) b a =
           Some (Ret (r, replaying s' vs' ps'))"
        using skip(4) unfolding replays_def by auto
      then show "\<exists>vs ps. extends (recording s) vs ps (recording s') \<and>
           (\<forall>vs' ps'. data_source_next A E preloaded_provider (replaying s (vs @ vs') (ps @ ps')) b a =
              Some (Ret (r, replaying s' vs' ps')))"
        using extends_trans [OF 1(1)] at
        by (intro exI [of _ "vs @ vs2"] exI [of _ "ps @ ps2"]) simp
    qed
  qed
qed

section \<open>A derivation and its replay\<close>

text \<open>A sequence of calls of the pipeline, over any blocks, with their results.\<close>

inductive calls ::
    "alloy_ops \<Rightarrow> 'g eth_ops \<Rightarrow> ('p, 'e) provider_ops \<Rightarrow> ('g, 'p) EigenDADataSource \<Rightarrow>
     (BlockInfo \<times> u160 \<times> (bytes, PipelineErrorKind) result) list \<Rightarrow> ('g, 'p) EigenDADataSource \<Rightarrow> bool"
  for A E PO where
  stop: "calls A E PO s [] s"
| call: "data_source_next A E PO s b a = Some (Ret (r, s')) \<Longrightarrow> calls A E PO s' rs s'' \<Longrightarrow>
     calls A E PO s ((b, a, r) # rs) s''"

inductive_cases calls_NilE: "calls A E PO s [] s'"
inductive_cases calls_ConsE: "calls A E PO s ((b, a, r) # rs) s''"

lemma calls_replay:
  assumes "calls A E (recorder PO) s rs s'" "never_errs PO"
  shows "\<exists>vs ps. extends (recording s) vs ps (recording s') \<and>
     (\<forall>vs' ps'. calls A E preloaded_provider (replaying s (vs @ vs') (ps @ ps')) rs (replaying s' vs' ps'))"
  using assms(1)
proof (induction rule: calls.induct)
  case (stop s)
  show ?case
    by (intro exI [of _ "[]"]) (simp add: extends_refl calls.stop)
next
  case (call s b a r s1 rs s2)
  obtain vs ps where 1: "extends (recording s) vs ps (recording s1)"
    "\<And>vs' ps'. data_source_next A E preloaded_provider (replaying s (vs @ vs') (ps @ ps')) b a =
       Some (Ret (r, replaying s1 vs' ps'))"
    using data_source_replay [OF assms(2) call(1)] unfolding replays_def by auto
  obtain vs2 ps2 where 2: "extends (recording s1) vs2 ps2 (recording s2)"
    "\<And>vs' ps'. calls A E preloaded_provider (replaying s1 (vs2 @ vs') (ps2 @ ps')) rs (replaying s2 vs' ps')"
    using call.IH by auto
  show ?case
    using extends_trans [OF 1(1) 2(1)] calls.call [OF 1(2) 2(2)]
    by (intro exI [of _ "vs @ vs2"] exI [of _ "ps @ ps2"]) simp
qed

definition recorder_new :: "'p \<Rightarrow> 'p OracleEigenDAPreimageProviderWithPreimage" where
  "recorder_new p =
     \<lparr> rec_provider = p, rec_preimage = \<lparr> pre_validities = [], pre_encoded_payloads = [] \<rparr> \<rparr>"

lemma record_then_replay:
  assumes "calls A E (recorder PO) (EigenDADataSource_new g (EigenDAPreimageSource_new (recorder_new p))) rs s'"
    and "never_errs PO"
  shows "\<exists>t. calls A E preloaded_provider
       (EigenDADataSource_new g (EigenDAPreimageSource_new
          (preloaded_of (pre_validities (recording s')) (pre_encoded_payloads (recording s'))))) rs t \<and>
     eigenda_fetcher (eigenda_source t) = preloaded_of [] []"
proof -
  let ?s = "EigenDADataSource_new g (EigenDAPreimageSource_new (recorder_new p))"
  obtain vs ps where e: "extends (recording ?s) vs ps (recording s')"
    and r: "calls A E preloaded_provider (replaying ?s (vs @ []) (ps @ [])) rs (replaying s' [] [])"
    using calls_replay [OF assms] by blast
  have "vs = pre_validities (recording s')" "ps = pre_encoded_payloads (recording s')"
    using e by (simp_all add: extends_def EigenDADataSource_new_def EigenDAPreimageSource_new_def
        recorder_new_def)
  then show ?thesis using r
    by (intro exI [of _ "replaying s' [] []"])
       (simp add: replaying_def EigenDADataSource_new_def EigenDAPreimageSource_new_def)
qed

section \<open>A retry is recorded twice\<close>

text \<open>A commitment whose validity is answered and whose payload then fails temporarily is asked for
  its validity again on the retry. The recording holds the validity twice, and a replay stops at the
  next different commitment.\<close>

lemma recorder_next_fetched:
  assumes "pv_get_validity PO p c = Ret (Inr True, p1)" "pv_get_encoded_payload PO p1 c = Ret (x, p2)"
    and "unsupported_version c = None" "recent_enough c bn"
  shows "preimage_source_next (recorder PO)
       \<lparr> eigenda_fetcher = \<lparr> rec_provider = p, rec_preimage = \<lparr> pre_validities = vs, pre_encoded_payloads = ps \<rparr> \<rparr> \<rparr> c bn =
     Ret (map_err (pv_into_kind PO) x,
       \<lparr> eigenda_fetcher = \<lparr> rec_provider = p2, rec_preimage =
           \<lparr> pre_validities = vs @ [(c, True)],
             pre_encoded_payloads = (case x of Inr y \<Rightarrow> ps @ [(c, y)] | Inl _ \<Rightarrow> ps) \<rparr> \<rparr> \<rparr>)"
  using assms
  by (cases x)
     (simp_all add: preimage_source_next_unfold recorder_def recorder_get_validity_def
        recorder_get_encoded_payload_def derive_commitment_def Let_def)

lemma replay_after_duplicate:
  assumes "unsupported_version c = None" "recent_enough c bn" "c \<noteq> d"
  shows "\<exists>s m. preimage_source_next preloaded_provider
        \<lparr> eigenda_fetcher = preloaded_of ((c, True) # (c, True) # vs) ((c, x) # ps) \<rparr> c bn = Ret (Inr x, s) \<and>
      preimage_source_next preloaded_provider s d bn' = Panic m"
proof -
  have 1: "preimage_source_next preloaded_provider
        \<lparr> eigenda_fetcher = preloaded_of ((c, True) # (c, True) # vs) ((c, x) # ps) \<rparr> c bn =
      Ret (Inr x, \<lparr> eigenda_fetcher = preloaded_of ((c, True) # vs) ps \<rparr>)"
    using assms(1,2)
    by (simp add: preimage_source_next_unfold preloaded_provider_def preloaded_get_validity_hit
        preloaded_get_encoded_payload_hit derive_commitment_def)
  obtain m where "preloaded_get_validity (preloaded_of ((c, True) # vs) ps) d = Panic m"
    using preloaded_get_validity_miss [OF assms(3)] by blast
  then have "preimage_source_next preloaded_provider
      \<lparr> eigenda_fetcher = preloaded_of ((c, True) # vs) ps \<rparr> d bn' = Panic m"
    by (simp add: preimage_source_next_unfold preloaded_provider_def)
  then show ?thesis using 1 by blast
qed

end
