(* ===== verification/Sample_Data.thy ===== *)
theory Sample_Data
  imports Witgen
begin

text \<open>
  Small concrete inputs the theorems are applied to: two certificates, functions that stand for the
  alloy crates on them, a payload of one field element, and an ethereum source that holds a list.
\<close>

definition sample_g1 :: G1Point where
  "sample_g1 = \<lparr> g1_x = 1, g1_y = 2 \<rparr>"

definition sample_g2 :: G2Point where
  "sample_g2 = \<lparr> g2_x = Fp2 1 2, g2_y = Fp2 3 4 \<rparr>"

definition sample_inclusion :: BlobInclusionInfo where
  "sample_inclusion =
     \<lparr> bii_blob_certificate =
         \<lparr> bcert_blob_header =
             \<lparr> bh_version = 0, bh_quorum_numbers = [0, 1],
               bh_commitment = \<lparr> bc_commitment = sample_g1, bc_length_commitment = sample_g2,
                                 bc_length_proof = sample_g2, bc_length = 1 \<rparr>,
               bh_payment_header_hash = 5 \<rparr>,
           bcert_signature = [], bcert_relay_keys = [0] \<rparr>,
       bii_blob_index = 0, bii_inclusion_proof = [] \<rparr>"

definition sample_batch :: BatchHeaderV2 where
  "sample_batch = \<lparr> bat_batch_root = 6, bat_reference_block_number = 100 \<rparr>"

definition sample_nonsigner :: NonSignerStakesAndSignature where
  "sample_nonsigner =
     \<lparr> ns_non_signer_quorum_bitmap_indices = [], ns_non_signer_pubkeys = [],
       ns_quorum_apks = [sample_g1], ns_apk_g2 = sample_g2, ns_sigma = sample_g1,
       ns_quorum_apk_indices = [0], ns_total_stake_indices = [0], ns_non_signer_stake_indices = [[]] \<rparr>"

definition sample_v3 :: EigenDACertV3 where
  "sample_v3 =
     \<lparr> v3_batch_header_v2 = sample_batch, v3_blob_inclusion_info = sample_inclusion,
       v3_nonsigner_stake_and_signature = sample_nonsigner, v3_signed_quorum_numbers = [0, 1] \<rparr>"

definition sample_v4 :: EigenDACertV4 where
  "sample_v4 =
     \<lparr> v4_batch_header_v2 = sample_batch, v4_blob_inclusion_info = sample_inclusion,
       v4_nonsigner_stake_and_signature = sample_nonsigner, v4_signed_quorum_numbers = [0, 1],
       v4_offchain_derivation_version = 0 \<rparr>"

definition sample_c3 :: AltDACommitment where
  "sample_c3 = \<lparr> commitment_type = 1, da_layer_byte = 0, versioned_cert = V3 sample_v3 \<rparr>"

definition sample_c4 :: AltDACommitment where
  "sample_c4 = \<lparr> commitment_type = 1, da_layer_byte = 0, versioned_cert = V4 sample_v4 \<rparr>"

text \<open>One byte stands for a certificate, and the hash of an address keeps the index and the
  interface byte.\<close>

definition sample_alloy :: alloy_ops where
  "sample_alloy =
     \<lparr> keccak256 = (\<lambda>bs. of_nat (if length bs = 80 then be_nat (drop 72 bs) * 2 + unat (bs ! 32)
                                  else be_nat bs)),
       rlp_encode_v2 = (\<lambda>_. [2]), rlp_encode_v3 = (\<lambda>_. [7]), rlp_encode_v4 = (\<lambda>_. [9]),
       rlp_decode_v2 = (\<lambda>_. Inl ''unexpected list''),
       rlp_decode_v3 = (\<lambda>bs. if take 1 bs = [7] then Inr (sample_v3, drop 1 bs) else Inl ''unexpected list''),
       rlp_decode_v4 = (\<lambda>bs. if take 1 bs = [9] then Inr (sample_v4, drop 1 bs) else Inl ''unexpected list'') \<rparr>"

lemmas sample_cert_defs = sample_c3_def sample_c4_def sample_v3_def sample_v4_def sample_batch_def
  sample_inclusion_def

lemma sample_parsed_form [simp]:
  "parsed_form sample_alloy sample_c3" "parsed_form sample_alloy sample_c4"
  by (simp_all add: parsed_form_def rlp_law_def sample_c3_def sample_c4_def sample_alloy_def)

lemma sample_rlp [simp]:
  "to_rlp_bytes sample_alloy sample_c3 = [1, 0, 2, 7]"
  "to_rlp_bytes sample_alloy sample_c4 = [1, 0, 3, 9]"
  by (simp_all add: to_rlp_bytes_def sample_c3_def sample_c4_def sample_alloy_def)

lemma sample_parse [simp]:
  "AltDACommitment_try_from sample_alloy [1, 0, 2, 7] = Inr sample_c3"
  "AltDACommitment_try_from sample_alloy [1, 0, 3, 9] = Inr sample_c4"
  using commitment_codec.dec_enc_exact [of sample_alloy sample_c3]
    commitment_codec.dec_enc_exact [of sample_alloy sample_c4] by simp_all

lemma sample_lengths [simp]:
  "get_num_field_element sample_c3 = 1" "get_num_field_element sample_c4 = 1"
  "get_rbn sample_c3 = 100" "get_rbn sample_c4 = 100"
  by (simp_all add: get_num_field_element_def get_rbn_def sample_cert_defs)

lemma sample_commitments_differ [simp]: "sample_c3 \<noteq> sample_c4" "sample_c4 \<noteq> sample_c3"
  by (simp_all add: sample_c3_def sample_c4_def)

lemma sample_recency [simp]:
  "unsupported_version sample_c3 = None" "unsupported_version sample_c4 = None"
  "recent_enough sample_c3 bn" "recent_enough sample_c4 200"
  by (simp_all add: unsupported_version_def recent_enough_def sample_c3_def sample_c4_def
      sample_v4_def sample_batch_def get_rbn_def)

text \<open>The empty payload in one field element.\<close>

definition sample_payload :: EncodedPayload where
  "sample_payload = \<lparr> encoded_payload = replicate 32 0 \<rparr>"

lemma sample_payload_decode [simp]: "EncodedPayload_decode sample_payload = Ret (Inr [])"
proof -
  have "header_ref 0 = replicate 2 0 @ replicate 4 0 @ replicate 26 0"
    by (simp add: header_ref_def numeral_2_eq_2)
  also have "\<dots> = replicate 32 0" by (simp flip: replicate_add)
  finally have "fits 0 []" "encoded_payload sample_payload = encode_ref 0 []"
    by (simp_all add: fits_def encode_ref_def body_ref_def sample_payload_def)
  then show ?thesis unfolding decode_iff_encode_ref by blast
qed

text \<open>An ethereum source over a list of inbox items.\<close>

definition list_eth :: "bytes list eth_ops" where
  "list_eth =
     \<lparr> eth_next = (\<lambda>ds _ _. case ds of [] \<Rightarrow> (Inl (PTemporary Eof), []) | d # ds' \<Rightarrow> (Inr d, ds')),
       eth_clear = (\<lambda>_. []) \<rparr>"

lemma list_eth_drains [simp]: "eth_drains list_eth (\<lambda>ds. ds) b a"
  by (simp add: eth_drains_def list_eth_def split: list.splits)

lemma list_eth_quiet [simp]: "eth_quiet list_eth b a"
  by (simp add: eth_quiet_def list_eth_def split: list.splits)

lemma list_eth_next [simp]:
  "eth_next list_eth [] b a = (Inl (PTemporary Eof), [])"
  "eth_next list_eth (d # ds) b a = (Inr d, ds)"
  by (simp_all add: list_eth_def)

end
