(* ===== verification/Hex.thy ===== *)
theory Hex
  imports Prelude
begin

text \<open>
  The hexadecimal code of bytes, which the alloy crates take from \<open>const-hex\<close> and which is a parameter of
  the model. Here it instantiates the parameter, with the rules that read long literals word by word.
\<close>

section \<open>Decoding\<close>

definition hex_digit :: "char \<Rightarrow> nat option" where
  "hex_digit c =
     (let n = of_char c in
      if 48 \<le> n \<and> n \<le> 57 then Some (n - 48)
      else if 97 \<le> n \<and> n \<le> 102 then Some (n - 87)
      else if 65 \<le> n \<and> n \<le> 70 then Some (n - 55)
      else None)"

fun hex_pairs :: "string \<Rightarrow> (bytes, string) result" where
  "hex_pairs [] = Inr []"
| "hex_pairs [c] = Inl ''odd number of digits''"
| "hex_pairs (c # d # cs) =
     (case (hex_digit c, hex_digit d) of
        (Some m, Some n) \<Rightarrow> rbind (hex_pairs cs) (\<lambda>bs. Inr (of_nat (16 * m + n) # bs))
      | _ \<Rightarrow> Inl ''invalid character'')"

text \<open>A prefix \<open>0x\<close> is skipped.\<close>

definition hex_decode :: "string \<Rightarrow> (bytes, string) result" where
  "hex_decode s = hex_pairs (if take 2 s = ''0x'' then drop 2 s else s)"

section \<open>Reading literals\<close>

lemma hex_digits:
  "hex_digit CHR ''0'' = Some 0" "hex_digit CHR ''1'' = Some 1" "hex_digit CHR ''2'' = Some 2"
  "hex_digit CHR ''3'' = Some 3" "hex_digit CHR ''4'' = Some 4" "hex_digit CHR ''5'' = Some 5"
  "hex_digit CHR ''6'' = Some 6" "hex_digit CHR ''7'' = Some 7" "hex_digit CHR ''8'' = Some 8"
  "hex_digit CHR ''9'' = Some 9" "hex_digit CHR ''a'' = Some 10" "hex_digit CHR ''b'' = Some 11"
  "hex_digit CHR ''c'' = Some 12" "hex_digit CHR ''d'' = Some 13" "hex_digit CHR ''e'' = Some 14"
  "hex_digit CHR ''f'' = Some 15"
  by (simp_all add: hex_digit_def)

lemma hex_digit_less: "hex_digit c = Some d \<Longrightarrow> d < 16"
  by (auto simp: hex_digit_def Let_def split: if_splits)

lemma hex_pairs_append:
  assumes "even (length s)"
  shows "hex_pairs (s @ t) = rbind (hex_pairs s) (\<lambda>a. rbind (hex_pairs t) (\<lambda>b. Inr (a @ b)))"
  using assms
proof (induction s rule: hex_pairs.induct)
  case 1
  then show ?case by (cases "hex_pairs t") simp_all
next
  case (3 c d cs)
  then show ?case
    by (cases "hex_pairs cs"; cases "hex_pairs t") (auto split: option.splits)
qed simp

text \<open>The number a string of digits reads as.\<close>

fun hex_number :: "nat \<Rightarrow> string \<Rightarrow> nat option" where
  "hex_number a [] = Some a"
| "hex_number a (c # cs) = (case hex_digit c of None \<Rightarrow> None | Some d \<Rightarrow> hex_number (16 * a + d) cs)"

lemma hex_pairs_number:
  assumes "hex_number a s = Some v" "length s = 2 * n"
  shows "\<exists>bs. hex_pairs s = Inr bs \<and> length bs = n \<and> v = a * 256 ^ n + be_nat bs"
  using assms
proof (induction s arbitrary: a n rule: hex_pairs.induct)
  case (3 c d cs)
  then obtain m k where mk: "hex_digit c = Some m" "hex_digit d = Some k" "hex_number (16 * (16 * a + m) + k) cs = Some v"
    by (auto split: option.splits)
  obtain j where n: "n = Suc j" "length cs = 2 * j" using 3(3) by (cases n) simp_all
  obtain bs where bs: "hex_pairs cs = Inr bs" "length bs = j" "v = (16 * (16 * a + m) + k) * 256 ^ j + be_nat bs"
    using 3(1) [OF refl mk(1,2) mk(3) n(2)] by blast
  have "16 * m + k < 256" using hex_digit_less [OF mk(1)] hex_digit_less [OF mk(2)] by simp
  then have "be_nat (of_nat (16 * m + k) # bs) = (16 * m + k) * 256 ^ j + be_nat bs"
    using bs(2) by (simp add: be_nat_Cons unat_of_nat del: of_nat_add of_nat_mult)
  then show ?case using mk bs n by (simp add: algebra_simps)
qed simp_all

text \<open>A word of digits is read at once, a shorter string byte by byte.\<close>

lemma hex_word:
  assumes "length s = 2 * n" "hex_number 0 s = Some v"
  shows "hex_pairs s = Inr (nat_be n v)"
  using hex_pairs_number [OF assms(2,1)] by auto

definition hex_bytes :: "string \<Rightarrow> (bytes, string) result" where
  "hex_bytes s = hex_pairs s"

lemma hex_short: "length s < 60 \<Longrightarrow> hex_pairs s = hex_bytes s"
  by (simp add: hex_bytes_def)

lemma hex_decode_prefix:
  "hex_decode (''0x'' @ s) = hex_pairs s"
  "hex_decode ((CHR ''0'' # CHR ''0'' # s) @ t) = hex_pairs ((CHR ''0'' # CHR ''0'' # s) @ t)"
  by (simp_all add: hex_decode_def)

lemma even_length_literal: "even (length [])" "even (length (c # d # cs)) \<longleftrightarrow> even (length cs)"
  by simp_all

text \<open>First the concatenation is split, then its parts are read.\<close>

lemmas hex_split = hex_decode_prefix hex_pairs_append even_length_literal

text \<open>A string inside another one is read where it stands.\<close>

lemma hex_decode_inside:
  assumes "hex_decode (''0x'' @ s) = Inr bs" "t = ''0x'' @ p @ s @ q"
    and "\<exists>a. hex_pairs p = Inr (a @ [1])" "\<exists>b. hex_pairs q = Inr b" "even (length p)" "even (length s)"
  shows "\<exists>a b. hex_decode t = Inr (a @ 1 # bs @ b)"
proof -
  obtain a b where "hex_pairs p = Inr (a @ [1])" "hex_pairs q = Inr b" using assms(3,4) by blast
  moreover have "hex_pairs s = Inr bs" using assms(1) by (simp only: hex_decode_prefix)
  ultimately have "hex_decode t = Inr (a @ 1 # bs @ b)"
    using assms(2,5,6) by (simp only: hex_decode_prefix) (simp add: hex_pairs_append)
  then show ?thesis by blast
qed

lemmas hex_rules = hex_short hex_pairs.simps [folded hex_bytes_def] hex_digits
  hex_word [of _ 31, simplified] hex_word [of _ 32, simplified] hex_word [of _ 65, simplified]

end
