(* ===== verification/Rlp.thy ===== *)
theory Rlp
  imports Prelude
begin

text \<open>
  The recursive length prefix code of Ethereum, which the alloy crates implement and which is a
  parameter of the model: strings of bytes and lists of items, each after a header with the length of
  its payload. Here it instantiates the parameter. Encoding and decoding are inverse in both
  directions: an item decodes from its encoding whatever follows, and what decodes is the encoding of
  the result, since lengths and single bytes have one form only.
\<close>

section \<open>Numbers without leading zeros\<close>

fun min_be :: "nat \<Rightarrow> bytes" where
  "min_be n = (if n = 0 then [] else min_be (n div 256) @ [of_nat (n mod 256)])"

declare min_be.simps [simp del]

lemma min_be_0 [simp]: "min_be 0 = []"
  by (simp add: min_be.simps)

lemma min_be_step: "0 < n \<Longrightarrow> min_be n = min_be (n div 256) @ [of_nat (n mod 256)]"
  by (simp add: min_be.simps)

lemma be_nat_min_be [simp]: "be_nat (min_be n) = n"
proof (induction n rule: min_be.induct)
  case (1 n)
  then show ?case by (cases "n = 0") (simp_all add: min_be_step)
qed

definition no_leading_zero :: "bytes \<Rightarrow> bool" where
  "no_leading_zero bs \<longleftrightarrow> (case bs of [] \<Rightarrow> True | b # _ \<Rightarrow> b \<noteq> 0)"

lemma no_leading_zero_min_be [simp]: "no_leading_zero (min_be n)"
proof (induction n rule: min_be.induct)
  case (1 n)
  show ?case
  proof (cases "n < 256")
    case True
    then have "n \<noteq> 0 \<longrightarrow> (of_nat n :: u8) \<noteq> 0"
      by (metis unat_of_nat_u8 mod_less unat_0)
    then show ?thesis using True by (cases "n = 0") (simp_all add: min_be_step no_leading_zero_def)
  next
    case False
    then have n: "n \<noteq> 0" "0 < n div 256" by simp_all
    then have "min_be (n div 256) \<noteq> []" by (simp add: min_be_step)
    then show ?thesis using 1 [OF n(1)] n
      by (simp add: min_be_step [of n] no_leading_zero_def split: list.splits)
  qed
qed

lemma no_leading_zero_snoc: "no_leading_zero (bs @ [b]) \<Longrightarrow> no_leading_zero bs"
  by (auto simp: no_leading_zero_def split: list.splits)

lemma be_nat_pos: "no_leading_zero bs \<Longrightarrow> bs \<noteq> [] \<Longrightarrow> 0 < be_nat bs"
proof -
  assume "no_leading_zero bs" "bs \<noteq> []"
  then obtain b cs where "bs = b # cs" "b \<noteq> 0" by (cases bs) (simp_all add: no_leading_zero_def)
  then show ?thesis by (simp add: be_nat_Cons unat_gt_0)
qed

lemma min_be_be_nat: "no_leading_zero bs \<Longrightarrow> min_be (be_nat bs) = bs"
proof (induction bs rule: rev_induct)
  case (snoc b bs)
  have "0 < be_nat (bs @ [b])" using be_nat_pos [OF snoc.prems] by simp
  then show ?case
    using snoc.IH [OF no_leading_zero_snoc [OF snoc.prems]] by (simp add: min_be_step)
qed simp

lemma min_be_inj [simp]: "min_be m = min_be n \<longleftrightarrow> m = n"
  by (metis be_nat_min_be)

lemma min_be_length: "n < 256 ^ k \<Longrightarrow> length (min_be n) \<le> k"
proof (induction n arbitrary: k rule: min_be.induct)
  case (1 n)
  show ?case
  proof (cases "n = 0")
    case False
    then obtain j where k: "k = Suc j" using 1(2) by (cases k) simp_all
    then have "n div 256 < 256 ^ j" using 1(2) by (simp add: less_mult_imp_div_less mult.commute)
    then show ?thesis using 1(1) [OF False] False k by (simp add: min_be_step)
  qed simp
qed

section \<open>Headers\<close>

definition rlp_header :: "nat \<Rightarrow> nat \<Rightarrow> bytes" where
  "rlp_header base n =
     (if n < 56 then [of_nat (base + n)]
      else of_nat (base + 55 + length (min_be n)) # min_be n)"

definition split_at :: "nat \<Rightarrow> bytes \<Rightarrow> (bytes \<times> bytes) option" where
  "split_at n bs = (if n \<le> length bs then Some (take n bs, drop n bs) else None)"

definition open_long :: "nat \<Rightarrow> bytes \<Rightarrow> (bytes \<times> bytes) option" where
  "open_long n bs =
     (case split_at n bs of
        None \<Rightarrow> None
      | Some (len, rest) \<Rightarrow>
          if no_leading_zero len \<and> 56 \<le> be_nat len then split_at (be_nat len) rest else None)"

text \<open>Whether a list starts the buffer, its payload, and what follows.\<close>

definition rlp_open :: "bytes \<Rightarrow> (bool \<times> bytes \<times> bytes) option" where
  "rlp_open bs =
     (case bs of
        [] \<Rightarrow> None
      | b # bs \<Rightarrow>
          if unat b < 128 then Some (False, [b], bs)
          else if unat b < 184 then
            (case split_at (unat b - 128) bs of
               None \<Rightarrow> None
             | Some (p, r) \<Rightarrow> if length p = 1 \<and> unat (hd p) < 128 then None else Some (False, p, r))
          else if unat b < 192 then map_option (Pair False) (open_long (unat b - 183) bs)
          else if unat b < 248 then map_option (Pair True) (split_at (unat b - 192) bs)
          else map_option (Pair True) (open_long (unat b - 247) bs))"

definition rlp_string :: "bytes \<Rightarrow> bytes" where
  "rlp_string bs = (if length bs = 1 \<and> unat (hd bs) < 128 then bs else rlp_header 128 (length bs) @ bs)"

definition rlp_list :: "bytes \<Rightarrow> bytes" where
  "rlp_list p = rlp_header 192 (length p) @ p"

lemma split_at_append [simp]: "length p = n \<Longrightarrow> split_at n (p @ r) = Some (p, r)"
  by (auto simp: split_at_def)

lemma split_at_Some: "split_at n bs = Some (p, r) \<longleftrightarrow> bs = p @ r \<and> length p = n"
  by (auto simp: split_at_def)

lemma header_length_bound: "n < 2 ^ 64 \<Longrightarrow> length (min_be n) \<le> 8"
  using min_be_length [of n 8] by simp

lemma header_length_pos: "56 \<le> n \<Longrightarrow> 0 < length (min_be n)"
  by (simp add: min_be_step)

lemma open_long_header:
  assumes "56 \<le> length p"
  shows "open_long (length (min_be (length p))) (min_be (length p) @ p @ r) = Some (p, r)"
  using assms by (simp add: open_long_def)

lemma open_long_Some:
  "open_long n bs = Some (p, r) \<longleftrightarrow> bs = min_be (length p) @ p @ r \<and> n = length (min_be (length p)) \<and> 56 \<le> length p"
proof
  assume "open_long n bs = Some (p, r)"
  then obtain len where "bs = len @ p @ r" "length len = n" "no_leading_zero len" "56 \<le> be_nat len" "length p = be_nat len"
    by (auto simp: open_long_def split_at_Some split: option.splits if_splits)
  then show "bs = min_be (length p) @ p @ r \<and> n = length (min_be (length p)) \<and> 56 \<le> length p"
    by (simp add: min_be_be_nat)
qed (simp add: open_long_header)

lemma unat_byte: "n < 256 \<Longrightarrow> unat (of_nat n :: u8) = n"
  by simp

lemma unat_short_header: "n < 56 \<Longrightarrow> k \<le> 192 \<Longrightarrow> unat (of_nat (k + n) :: u8) = k + n"
  by (rule unat_byte) simp

lemma unat_long_header: "length p < 2 ^ 64 \<Longrightarrow> k \<le> 247 \<Longrightarrow>
    unat (of_nat (k + length (min_be (length p))) :: u8) = k + length (min_be (length p))"
  using header_length_bound [of "length p"] by (intro unat_byte) simp

lemma rlp_open_list:
  assumes "length p < 2 ^ 64"
  shows "rlp_open (rlp_list p @ r) = Some (True, p, r)"
proof (cases "length p < 56")
  case True
  then show ?thesis using unat_short_header [of "length p" 192]
    by (simp add: rlp_open_def rlp_list_def rlp_header_def del: unat_of_nat_u8 of_nat_add)
next
  case False
  then have "0 < length (min_be (length p))" "length (min_be (length p)) \<le> 8"
    using header_length_bound [OF assms] header_length_pos by simp_all
  then show ?thesis using False open_long_header [of p r] unat_long_header [OF assms, of 247]
    by (simp add: rlp_open_def rlp_list_def rlp_header_def del: unat_of_nat_u8 of_nat_add)
qed

lemma rlp_open_string:
  assumes "length p < 2 ^ 64"
  shows "rlp_open (rlp_string p @ r) = Some (False, p, r)"
proof (cases "length p = 1 \<and> unat (hd p) < 128")
  case True
  then show ?thesis by (cases p) (simp_all add: rlp_open_def rlp_string_def)
next
  case single: False
  then have s: "rlp_string p = rlp_header 128 (length p) @ p" by (simp only: rlp_string_def if_False)
  show ?thesis
  proof (cases "length p < 56")
    case True
    then show ?thesis using single unat_short_header [of "length p" 128]
      unfolding s by (simp add: rlp_open_def rlp_header_def del: unat_of_nat_u8 of_nat_add)
  next
    case False
    then have "0 < length (min_be (length p))" "length (min_be (length p)) \<le> 8"
      using header_length_bound [OF assms] header_length_pos by simp_all
    then show ?thesis using False open_long_header [of p r] unat_long_header [OF assms, of 183]
      unfolding s by (simp add: rlp_open_def rlp_header_def del: unat_of_nat_u8 of_nat_add)
  qed
qed

text \<open>The other direction: a buffer that opens is the header of its payload.\<close>

lemma of_nat_unat_byte: "unat (b :: u8) = n \<Longrightarrow> of_nat n = b"
  by auto

lemma rlp_open_Some:
  assumes "rlp_open bs = Some (l, p, r)"
  shows "bs = (if l then rlp_list p else rlp_string p) @ r \<and> length p < 2 ^ 64"
proof -
  obtain b cs where bs: "bs = b # cs" using assms by (cases bs) (simp_all add: rlp_open_def)
  have short: "length p < 2 ^ 64" if "length p < 56" using that by simp
  have long: "length p < 2 ^ 64" if "length (min_be (length p)) \<le> 8"
  proof -
    have "length p < 256 ^ length (min_be (length p))"
      using be_nat_bound [of "min_be (length p)"] by simp
    also have "\<dots> \<le> 256 ^ 8" using that by (intro power_increasing) simp_all
    finally show ?thesis by simp
  qed
  have b: "unat b < 256" by simp
  consider "unat b < 128" | "128 \<le> unat b" "unat b < 184" | "184 \<le> unat b" "unat b < 192"
    | "192 \<le> unat b" "unat b < 248" | "248 \<le> unat b" by linarith
  then show ?thesis
  proof cases
    case 1
    then show ?thesis using assms bs by (auto simp: rlp_open_def rlp_string_def)
  next
    case 2
    then have "cs = p @ r" "unat b = 128 + length p" "\<not> l" "\<not> (length p = 1 \<and> unat (hd p) < 128)"
      using assms bs by (auto simp: rlp_open_def split_at_Some split: option.splits if_splits)
    moreover from this(2) have "of_nat (128 + length p) = b" by (rule of_nat_unat_byte)
    ultimately show ?thesis using 2 bs short
      by (auto simp: rlp_string_def rlp_header_def simp del: of_nat_add)
  next
    case 3
    then have "cs = min_be (length p) @ p @ r" "unat b = 183 + length (min_be (length p))" "\<not> l" "56 \<le> length p"
      using assms bs by (auto simp: rlp_open_def open_long_Some)
    moreover from this(2) have "of_nat (183 + length (min_be (length p))) = b" by (rule of_nat_unat_byte)
    ultimately show ?thesis using 3 bs long
      by (auto simp: rlp_string_def rlp_header_def simp del: of_nat_add)
  next
    case 4
    then have "cs = p @ r" "unat b = 192 + length p" "l"
      using assms bs by (auto simp: rlp_open_def split_at_Some)
    moreover from this(2) have "of_nat (192 + length p) = b" by (rule of_nat_unat_byte)
    ultimately show ?thesis using 4 bs short
      by (auto simp: rlp_list_def rlp_header_def simp del: of_nat_add)
  next
    case 5
    then have "cs = min_be (length p) @ p @ r" "unat b = 247 + length (min_be (length p))" "l" "56 \<le> length p"
      using assms bs by (auto simp: rlp_open_def open_long_Some)
    moreover from this(2) have "of_nat (247 + length (min_be (length p))) = b" by (rule of_nat_unat_byte)
    ultimately show ?thesis using b bs long
      by (auto simp: rlp_list_def rlp_header_def simp del: of_nat_add)
  qed
qed

section \<open>Items\<close>

datatype rlp = RString bytes | RList "rlp list"

fun rlp_encode :: "rlp \<Rightarrow> bytes" where
  "rlp_encode (RString bs) = rlp_string bs"
| "rlp_encode (RList xs) = rlp_list (concat (map rlp_encode xs))"

text \<open>Items up to the end of a buffer. Every item takes at least one byte, so the length of the buffer
  and one more is enough fuel.\<close>

fun rlp_items :: "nat \<Rightarrow> bytes \<Rightarrow> rlp list option" where
  "rlp_items 0 bs = None"
| "rlp_items (Suc f) bs =
     (if bs = [] then Some []
      else case rlp_open bs of
             None \<Rightarrow> None
           | Some (l, p, r) \<Rightarrow>
               (case (if l then map_option RList (rlp_items f p) else Some (RString p)) of
                  None \<Rightarrow> None
                | Some x \<Rightarrow> map_option ((#) x) (rlp_items f r)))"

definition rlp_decode :: "bytes \<Rightarrow> (rlp \<times> bytes) option" where
  "rlp_decode bs =
     (case rlp_open bs of
        None \<Rightarrow> None
      | Some (l, p, r) \<Rightarrow>
          if l then map_option (\<lambda>xs. (RList xs, r)) (rlp_items (Suc (length p)) p)
          else Some (RString p, r))"

text \<open>Items the code can write: lengths are below \<open>2 ^ 64\<close>.\<close>

fun rlp_fits :: "rlp \<Rightarrow> bool" where
  "rlp_fits (RString bs) \<longleftrightarrow> length bs < 2 ^ 64"
| "rlp_fits (RList xs) \<longleftrightarrow> length (concat (map rlp_encode xs)) < 2 ^ 64 \<and> (\<forall>x\<in>set xs. rlp_fits x)"

text \<open>A bound on the encoded length that needs no encoding: nine bytes for every header.\<close>

fun rlp_weight :: "rlp \<Rightarrow> nat" where
  "rlp_weight (RString bs) = 9 + length bs"
| "rlp_weight (RList xs) = 9 + sum_list (map rlp_weight xs)"

lemma length_rlp_header: "n < 2 ^ 64 \<Longrightarrow> length (rlp_header k n) \<le> 9"
  using header_length_bound [of n] by (simp add: rlp_header_def)

lemma rlp_weight_fits:
  "rlp_weight t < 2 ^ 64 \<Longrightarrow> rlp_fits t \<and> length (rlp_encode t) \<le> rlp_weight t"
proof (induction t)
  case (RString bs)
  then show ?case using length_rlp_header [of "length bs" 128] by (simp add: rlp_string_def)
next
  case (RList xs)
  have "rlp_weight x < 2 ^ 64" if "x \<in> set xs" for x
    using RList.prems member_le_sum_list [of "rlp_weight x" "map rlp_weight xs"] that by simp
  then have x: "rlp_fits x" "length (rlp_encode x) \<le> rlp_weight x" if "x \<in> set xs" for x
    using RList.IH that by blast+
  have "length (concat (map rlp_encode xs)) \<le> sum_list (map rlp_weight xs)"
    using x(2) by (auto simp: length_concat comp_def intro: sum_list_mono)
  then show ?case using RList.prems x(1) length_rlp_header [of "length (concat (map rlp_encode xs))" 192]
    by (simp add: rlp_list_def)
qed

lemma rlp_header_not_Nil [simp]: "rlp_header k n \<noteq> []"
  by (simp add: rlp_header_def)

lemma rlp_string_not_Nil [simp]: "rlp_string bs \<noteq> []"
  by (auto simp: rlp_string_def)

lemma rlp_list_not_Nil [simp]: "rlp_list p \<noteq> []"
  by (simp add: rlp_list_def)

lemma rlp_encode_not_Nil [simp]: "rlp_encode x \<noteq> []"
  by (cases x) simp_all

lemma length_rlp_list: "length p < length (rlp_list p)"
  by (simp add: rlp_list_def rlp_header_def)

lemma rlp_items_encode:
  "length (concat (map rlp_encode xs)) < f \<Longrightarrow> \<forall>x\<in>set xs. rlp_fits x \<Longrightarrow>
     rlp_items f (concat (map rlp_encode xs)) = Some xs"
proof (induction f arbitrary: xs)
  case (Suc f)
  show ?case
  proof (cases xs)
    case (Cons x ys)
    let ?r = "concat (map rlp_encode ys)"
    have "rlp_encode x \<noteq> []" by simp
    then have "1 \<le> length (rlp_encode x)" by (cases "rlp_encode x") simp_all
    then have "length ?r < f" using Suc.prems(1) Cons by simp
    then have r: "rlp_items f ?r = Some ys" using Suc.IH Suc.prems(2) Cons by simp
    show ?thesis
    proof (cases x)
      case (RString bs)
      then show ?thesis using r Cons Suc.prems(2) rlp_open_string [of bs ?r] by simp
    next
      case (RList zs)
      let ?p = "concat (map rlp_encode zs)"
      have "length ?p < f" using Suc.prems(1) Cons RList length_rlp_list [of ?p] by simp
      then have "rlp_items f ?p = Some zs" using Suc.IH Suc.prems(2) Cons RList by simp
      then show ?thesis using r Cons RList Suc.prems(2) rlp_open_list [of ?p ?r] by simp
    qed
  qed simp
qed simp

lemma rlp_items_Some:
  "rlp_items f bs = Some xs \<Longrightarrow> bs = concat (map rlp_encode xs) \<and> (\<forall>x\<in>set xs. rlp_fits x)"
proof (induction f arbitrary: bs xs)
  case (Suc f)
  show ?case
  proof (cases "bs = []")
    case False
    then obtain l p r x ys where o: "rlp_open bs = Some (l, p, r)" "xs = x # ys" "rlp_items f r = Some ys"
      "(if l then map_option RList (rlp_items f p) else Some (RString p)) = Some x"
      using Suc.prems by (auto split: option.splits)
    note b = rlp_open_Some [OF o(1)] and r = Suc.IH [OF o(3)]
    show ?thesis
    proof (cases l)
      case True
      then obtain zs where z: "rlp_items f p = Some zs" "x = RList zs" using o(4) by auto
      from Suc.IH [OF z(1)] show ?thesis using b r o(2) z(2) True by simp
    next
      case False
      then show ?thesis using b r o(2,4) by auto
    qed
  qed (use Suc.prems in simp)
qed simp

theorem rlp_decode_encode:
  assumes "rlp_fits x"
  shows "rlp_decode (rlp_encode x @ r) = Some (x, r)"
proof (cases x)
  case (RString bs)
  then show ?thesis using assms rlp_open_string [of bs r] by (simp add: rlp_decode_def)
next
  case (RList xs)
  then show ?thesis
    using assms rlp_open_list [of "concat (map rlp_encode xs)" r] rlp_items_encode [of xs "Suc (length (concat (map rlp_encode xs)))"]
    by (simp add: rlp_decode_def del: rlp_items.simps)
qed

theorem rlp_decode_Some:
  assumes "rlp_decode bs = Some (x, r)"
  shows "bs = rlp_encode x @ r \<and> rlp_fits x"
proof -
  obtain l p where o: "rlp_open bs = Some (l, p, r)"
    "(if l then map_option RList (rlp_items (Suc (length p)) p) else Some (RString p)) = Some x"
    using assms by (auto simp: rlp_decode_def simp del: rlp_items.simps split: option.splits if_splits)
  note b = rlp_open_Some [OF o(1)]
  show ?thesis
  proof (cases l)
    case True
    then obtain xs where x: "rlp_items (Suc (length p)) p = Some xs" "x = RList xs"
      using o(2) by (auto simp del: rlp_items.simps)
    from rlp_items_Some [OF x(1)] show ?thesis using b x(2) True by simp
  next
    case False
    then show ?thesis using b o(2) by auto
  qed
qed

section \<open>Encoding concrete items\<close>

lemma min_be_1: "0 < n \<Longrightarrow> n < 256 \<Longrightarrow> min_be n = [of_nat n]"
  by (simp add: min_be_step)

lemma min_be_2: "256 \<le> n \<Longrightarrow> n < 65536 \<Longrightarrow> min_be n = [of_nat (n div 256), of_nat (n mod 256)]"
  by (simp add: min_be_step)

lemma min_be_3:
  "65536 \<le> n \<Longrightarrow> n < 16777216 \<Longrightarrow> min_be n = [of_nat (n div 65536), of_nat (n div 256 mod 256), of_nat (n mod 256)]"
  by (simp add: min_be_step div_mult2_eq [symmetric])

lemma min_be_nat_be:
  assumes "256 ^ k \<le> n" "n < 256 ^ Suc k"
  shows "min_be n = nat_be (Suc k) n"
proof -
  have "length (min_be n) \<le> Suc k" by (rule min_be_length [OF assms(2)])
  moreover have "\<not> length (min_be n) \<le> k"
  proof
    assume "length (min_be n) \<le> k"
    then have "(256 :: nat) ^ length (min_be n) \<le> 256 ^ k" by (rule power_increasing) simp
    moreover have "n < 256 ^ length (min_be n)" using be_nat_bound [of "min_be n"] by simp
    ultimately show False using assms(1) by linarith
  qed
  ultimately have "length (min_be n) = Suc k" by simp
  then show ?thesis using nat_be_be_nat_len [of "min_be n"] by simp
qed

text \<open>The header by the length of the payload, for payloads of up to two bytes of length.\<close>

lemma rlp_string_eval:
  "rlp_string [] = [128]"
  "unat b < 128 \<Longrightarrow> rlp_string [b] = [b]"
  "length bs = n \<Longrightarrow> 1 < n \<Longrightarrow> n < 56 \<Longrightarrow> rlp_string bs = of_nat (128 + n) # bs"
  "length bs = n \<Longrightarrow> 56 \<le> n \<Longrightarrow> n < 256 \<Longrightarrow> rlp_string bs = 184 # of_nat n # bs"
  by (auto simp: rlp_string_def rlp_header_def min_be_1)

lemma rlp_list_eval:
  "length bs = n \<Longrightarrow> n < 56 \<Longrightarrow> rlp_list bs = of_nat (192 + n) # bs"
  "length bs = n \<Longrightarrow> 56 \<le> n \<Longrightarrow> n < 256 \<Longrightarrow> rlp_list bs = 248 # of_nat n # bs"
  "length bs = n \<Longrightarrow> 256 \<le> n \<Longrightarrow> n < 65536 \<Longrightarrow>
     rlp_list bs = 249 # of_nat (n div 256) # of_nat (n mod 256) # bs"
  by (auto simp: rlp_list_def rlp_header_def min_be_1 min_be_2)

lemmas rlp_eval = rlp_string_eval rlp_list_eval

end
