(* ===== verification/Rlp_Certs.thy ===== *)
theory Rlp_Certs
  imports Altda_Commitment Rlp
begin

text \<open>
  The RLP form of the certificates: a struct is the list of its fields in the order of its declaration,
  as \<open>derive(RlpEncodable, RlpDecodable)\<close> has it, an integer its bytes without leading zeros, a byte array
  a string of its length, a vector a list. The locale \<open>rlp_form\<close> states what each form promises; with the
  code of \<open>Rlp\<close> it gives \<open>eth_alloy\<close>, functions that satisfy what the model assumes of the alloy crates.
\<close>

named_theorems rlp_iffs \<open>what a form reads\<close>

section \<open>Forms\<close>

locale rlp_form =
  fixes to_rlp :: "'a \<Rightarrow> rlp"
    and of_rlp :: "rlp \<Rightarrow> 'a option"
  assumes of_rlp_iff: "of_rlp t = Some x \<longleftrightarrow> t = to_rlp x"
begin

lemma of_to_rlp [simp]: "of_rlp (to_rlp x) = Some x"
  by (simp add: of_rlp_iff)

lemma to_rlp_inj [simp]: "to_rlp x = to_rlp y \<longleftrightarrow> x = y"
  by (metis of_to_rlp option.inject)

lemma those_of_rlp: "those (map of_rlp ts) = Some xs \<longleftrightarrow> ts = map to_rlp xs"
proof (induction ts arbitrary: xs)
  case (Cons t ts)
  show ?case
  proof (cases "of_rlp t")
    case None
    then have "t \<noteq> to_rlp x" for x by auto
    then show ?thesis using None by (cases xs) simp_all
  next
    case (Some y)
    then have "t = to_rlp y" by (simp add: of_rlp_iff)
    then show ?thesis using Cons.IH by (cases xs) auto
  qed
qed auto

end

lemma rlp_formI:
  assumes "\<And>x. of_rlp (to_rlp x) = Some x" "\<And>t x. of_rlp t = Some x \<Longrightarrow> t = to_rlp x"
  shows "rlp_form to_rlp of_rlp"
  using assms by (auto simp: rlp_form_def)

definition rlp_word :: "'a::len word \<Rightarrow> rlp" where
  "rlp_word w = RString (min_be (unat w))"

definition word_of_rlp :: "rlp \<Rightarrow> 'a::len word option" where
  "word_of_rlp t =
     (case t of
        RString bs \<Rightarrow> if no_leading_zero bs \<and> be_nat bs < 2 ^ LENGTH('a) then Some (of_nat (be_nat bs)) else None
      | RList _ \<Rightarrow> None)"

definition rlp_b256 :: "u256 \<Rightarrow> rlp" where
  "rlp_b256 w = RString (b256_be w)"

definition b256_of_rlp :: "rlp \<Rightarrow> u256 option" where
  "b256_of_rlp t = (case t of RString bs \<Rightarrow> if length bs = 32 then Some (be_b256 bs) else None | RList _ \<Rightarrow> None)"

definition bytes_of_rlp :: "rlp \<Rightarrow> bytes option" where
  "bytes_of_rlp t = (case t of RString bs \<Rightarrow> Some bs | RList _ \<Rightarrow> None)"

definition rlp_vec :: "('a \<Rightarrow> rlp) \<Rightarrow> 'a list \<Rightarrow> rlp" where
  "rlp_vec f xs = RList (map f xs)"

definition vec_of_rlp :: "(rlp \<Rightarrow> 'a option) \<Rightarrow> rlp \<Rightarrow> 'a list option" where
  "vec_of_rlp f t = (case t of RString _ \<Rightarrow> None | RList ts \<Rightarrow> those (map f ts))"

lemma rlp_weight_word: "rlp_weight (rlp_word (w :: 'a::len word)) \<le> 9 + LENGTH('a)"
proof -
  have "unat w < 2 ^ LENGTH('a)" by (rule unat_lt2p)
  also have "(2::nat) ^ LENGTH('a) \<le> 256 ^ LENGTH('a)" by (rule power_mono) simp_all
  finally show ?thesis using min_be_length [of "unat w" "LENGTH('a)"] by (simp add: rlp_word_def)
qed

lemma rlp_weight_b256 [simp]: "rlp_weight (rlp_b256 w) = 41"
  by (simp add: rlp_b256_def)

lemma rlp_vec_form: "rlp_form to_rlp of_rlp \<Longrightarrow> rlp_form (rlp_vec to_rlp) (vec_of_rlp of_rlp)"
  by (auto simp: rlp_form_def rlp_vec_def vec_of_rlp_def rlp_form.those_of_rlp [unfolded rlp_form_def] split: rlp.splits)

interpretation word_form: rlp_form rlp_word "word_of_rlp :: rlp \<Rightarrow> 'a::len word option"
proof
  fix t and x :: "'a word"
  have "unat (of_nat (be_nat bs) :: 'a word) = be_nat bs" if "be_nat bs < 2 ^ LENGTH('a)" for bs
    using that by (simp add: unat_of_nat)
  moreover have "unat x < 2 ^ LENGTH('a)" by (rule unat_lt2p)
  ultimately show "word_of_rlp t = Some x \<longleftrightarrow> t = rlp_word x"
    by (auto simp: word_of_rlp_def rlp_word_def min_be_be_nat split: rlp.splits if_splits)
qed

interpretation b256_form: rlp_form rlp_b256 b256_of_rlp
  by unfold_locales (auto simp: b256_of_rlp_def rlp_b256_def b256_be_be split: rlp.splits if_splits)

interpretation bytes_form: rlp_form RString bytes_of_rlp
  by unfold_locales (auto simp: bytes_of_rlp_def split: rlp.splits)

interpretation words_form: rlp_form "rlp_vec rlp_word" "vec_of_rlp (word_of_rlp :: rlp \<Rightarrow> 'a::len word option)"
  by (rule rlp_vec_form) (rule word_form.rlp_form_axioms)

interpretation word_lists_form:
  rlp_form "rlp_vec (rlp_vec rlp_word)" "vec_of_rlp (vec_of_rlp (word_of_rlp :: rlp \<Rightarrow> 'a::len word option))"
  by (rule rlp_vec_form) (rule words_form.rlp_form_axioms)

declare word_form.of_rlp_iff [rlp_iffs] b256_form.of_rlp_iff [rlp_iffs] bytes_form.of_rlp_iff [rlp_iffs]
  words_form.of_rlp_iff [rlp_iffs] word_lists_form.of_rlp_iff [rlp_iffs]

section \<open>Structs\<close>

definition rlp_Fp2 :: "Fp2 \<Rightarrow> rlp" where
  "rlp_Fp2 p = (case p of Fp2 a b \<Rightarrow> RList [rlp_word a, rlp_word b])"

definition Fp2_of_rlp :: "rlp \<Rightarrow> Fp2 option" where
  "Fp2_of_rlp t =
     (case t of
        RList [a, b] \<Rightarrow> Option.bind (word_of_rlp a) (\<lambda>a. Option.bind (word_of_rlp b) (\<lambda>b. Some (Fp2 a b)))
      | _ \<Rightarrow> None)"

interpretation Fp2_form: rlp_form rlp_Fp2 Fp2_of_rlp
proof (rule rlp_formI)
  show "Fp2_of_rlp (rlp_Fp2 x) = Some x" for x
    by (cases x) (simp add: Fp2_of_rlp_def rlp_Fp2_def)
  show "t = rlp_Fp2 x" if "Fp2_of_rlp t = Some x" for t x
    using that
    by (auto simp: rlp_Fp2_def Fp2_of_rlp_def bind_eq_Some_conv rlp_iffs
        split: rlp.splits list.splits)
qed

declare Fp2_form.of_rlp_iff [rlp_iffs]

definition rlp_G1Point :: "G1Point \<Rightarrow> rlp" where
  "rlp_G1Point v =
     RList [rlp_word (g1_x v), rlp_word (g1_y v)]"

definition G1Point_of_rlp :: "rlp \<Rightarrow> G1Point option" where
  "G1Point_of_rlp t =
     (case t of
        RList [x1, x2] \<Rightarrow>
          Option.bind (word_of_rlp x1) (\<lambda>x1.
          Option.bind (word_of_rlp x2) (\<lambda>x2.
          Some \<lparr> g1_x = x1, g1_y = x2 \<rparr>))
      | _ \<Rightarrow> None)"

interpretation G1Point_form: rlp_form rlp_G1Point G1Point_of_rlp
proof (rule rlp_formI)
  show "G1Point_of_rlp (rlp_G1Point x) = Some x" for x
    by (cases x) (simp add: G1Point_of_rlp_def rlp_G1Point_def)
  show "t = rlp_G1Point x" if "G1Point_of_rlp t = Some x" for t x
    using that
    by (auto simp: rlp_G1Point_def G1Point_of_rlp_def bind_eq_Some_conv rlp_iffs
        split: rlp.splits list.splits)
qed

declare G1Point_form.of_rlp_iff [rlp_iffs]

interpretation G1Points_form: rlp_form "rlp_vec rlp_G1Point" "vec_of_rlp G1Point_of_rlp"
  by (rule rlp_vec_form) (rule G1Point_form.rlp_form_axioms)

declare G1Points_form.of_rlp_iff [rlp_iffs]

definition rlp_G2Point :: "G2Point \<Rightarrow> rlp" where
  "rlp_G2Point v =
     RList [rlp_Fp2 (g2_x v), rlp_Fp2 (g2_y v)]"

definition G2Point_of_rlp :: "rlp \<Rightarrow> G2Point option" where
  "G2Point_of_rlp t =
     (case t of
        RList [x1, x2] \<Rightarrow>
          Option.bind (Fp2_of_rlp x1) (\<lambda>x1.
          Option.bind (Fp2_of_rlp x2) (\<lambda>x2.
          Some \<lparr> g2_x = x1, g2_y = x2 \<rparr>))
      | _ \<Rightarrow> None)"

interpretation G2Point_form: rlp_form rlp_G2Point G2Point_of_rlp
proof (rule rlp_formI)
  show "G2Point_of_rlp (rlp_G2Point x) = Some x" for x
    by (cases x) (simp add: G2Point_of_rlp_def rlp_G2Point_def)
  show "t = rlp_G2Point x" if "G2Point_of_rlp t = Some x" for t x
    using that
    by (auto simp: rlp_G2Point_def G2Point_of_rlp_def bind_eq_Some_conv rlp_iffs
        split: rlp.splits list.splits)
qed

declare G2Point_form.of_rlp_iff [rlp_iffs]

definition rlp_BlobCommitment :: "BlobCommitment \<Rightarrow> rlp" where
  "rlp_BlobCommitment v =
     RList [rlp_G1Point (bc_commitment v), rlp_G2Point (bc_length_commitment v),
       rlp_G2Point (bc_length_proof v), rlp_word (bc_length v)]"

definition BlobCommitment_of_rlp :: "rlp \<Rightarrow> BlobCommitment option" where
  "BlobCommitment_of_rlp t =
     (case t of
        RList [x1, x2, x3, x4] \<Rightarrow>
          Option.bind (G1Point_of_rlp x1) (\<lambda>x1.
          Option.bind (G2Point_of_rlp x2) (\<lambda>x2.
          Option.bind (G2Point_of_rlp x3) (\<lambda>x3.
          Option.bind (word_of_rlp x4) (\<lambda>x4.
          Some \<lparr> bc_commitment = x1, bc_length_commitment = x2, bc_length_proof = x3, bc_length = x4 \<rparr>))))
      | _ \<Rightarrow> None)"

interpretation BlobCommitment_form: rlp_form rlp_BlobCommitment BlobCommitment_of_rlp
proof (rule rlp_formI)
  show "BlobCommitment_of_rlp (rlp_BlobCommitment x) = Some x" for x
    by (cases x) (simp add: BlobCommitment_of_rlp_def rlp_BlobCommitment_def)
  show "t = rlp_BlobCommitment x" if "BlobCommitment_of_rlp t = Some x" for t x
    using that
    by (auto simp: rlp_BlobCommitment_def BlobCommitment_of_rlp_def bind_eq_Some_conv rlp_iffs
        split: rlp.splits list.splits)
qed

declare BlobCommitment_form.of_rlp_iff [rlp_iffs]

definition rlp_BlobHeaderV2 :: "BlobHeaderV2 \<Rightarrow> rlp" where
  "rlp_BlobHeaderV2 v =
     RList [rlp_word (bh_version v), RString (bh_quorum_numbers v), rlp_BlobCommitment (bh_commitment v),
       rlp_b256 (bh_payment_header_hash v)]"

definition BlobHeaderV2_of_rlp :: "rlp \<Rightarrow> BlobHeaderV2 option" where
  "BlobHeaderV2_of_rlp t =
     (case t of
        RList [x1, x2, x3, x4] \<Rightarrow>
          Option.bind (word_of_rlp x1) (\<lambda>x1.
          Option.bind (bytes_of_rlp x2) (\<lambda>x2.
          Option.bind (BlobCommitment_of_rlp x3) (\<lambda>x3.
          Option.bind (b256_of_rlp x4) (\<lambda>x4.
          Some \<lparr> bh_version = x1, bh_quorum_numbers = x2, bh_commitment = x3,
                  bh_payment_header_hash = x4 \<rparr>))))
      | _ \<Rightarrow> None)"

interpretation BlobHeaderV2_form: rlp_form rlp_BlobHeaderV2 BlobHeaderV2_of_rlp
proof (rule rlp_formI)
  show "BlobHeaderV2_of_rlp (rlp_BlobHeaderV2 x) = Some x" for x
    by (cases x) (simp add: BlobHeaderV2_of_rlp_def rlp_BlobHeaderV2_def)
  show "t = rlp_BlobHeaderV2 x" if "BlobHeaderV2_of_rlp t = Some x" for t x
    using that
    by (auto simp: rlp_BlobHeaderV2_def BlobHeaderV2_of_rlp_def bind_eq_Some_conv rlp_iffs
        split: rlp.splits list.splits)
qed

declare BlobHeaderV2_form.of_rlp_iff [rlp_iffs]

definition rlp_BlobCertificate :: "BlobCertificate \<Rightarrow> rlp" where
  "rlp_BlobCertificate v =
     RList [rlp_BlobHeaderV2 (bcert_blob_header v), RString (bcert_signature v),
       rlp_vec rlp_word (bcert_relay_keys v)]"

definition BlobCertificate_of_rlp :: "rlp \<Rightarrow> BlobCertificate option" where
  "BlobCertificate_of_rlp t =
     (case t of
        RList [x1, x2, x3] \<Rightarrow>
          Option.bind (BlobHeaderV2_of_rlp x1) (\<lambda>x1.
          Option.bind (bytes_of_rlp x2) (\<lambda>x2.
          Option.bind (vec_of_rlp word_of_rlp x3) (\<lambda>x3.
          Some \<lparr> bcert_blob_header = x1, bcert_signature = x2, bcert_relay_keys = x3 \<rparr>)))
      | _ \<Rightarrow> None)"

interpretation BlobCertificate_form: rlp_form rlp_BlobCertificate BlobCertificate_of_rlp
proof (rule rlp_formI)
  show "BlobCertificate_of_rlp (rlp_BlobCertificate x) = Some x" for x
    by (cases x) (simp add: BlobCertificate_of_rlp_def rlp_BlobCertificate_def)
  show "t = rlp_BlobCertificate x" if "BlobCertificate_of_rlp t = Some x" for t x
    using that
    by (auto simp: rlp_BlobCertificate_def BlobCertificate_of_rlp_def bind_eq_Some_conv rlp_iffs
        split: rlp.splits list.splits)
qed

declare BlobCertificate_form.of_rlp_iff [rlp_iffs]

definition rlp_BlobInclusionInfo :: "BlobInclusionInfo \<Rightarrow> rlp" where
  "rlp_BlobInclusionInfo v =
     RList [rlp_BlobCertificate (bii_blob_certificate v), rlp_word (bii_blob_index v),
       RString (bii_inclusion_proof v)]"

definition BlobInclusionInfo_of_rlp :: "rlp \<Rightarrow> BlobInclusionInfo option" where
  "BlobInclusionInfo_of_rlp t =
     (case t of
        RList [x1, x2, x3] \<Rightarrow>
          Option.bind (BlobCertificate_of_rlp x1) (\<lambda>x1.
          Option.bind (word_of_rlp x2) (\<lambda>x2.
          Option.bind (bytes_of_rlp x3) (\<lambda>x3.
          Some \<lparr> bii_blob_certificate = x1, bii_blob_index = x2, bii_inclusion_proof = x3 \<rparr>)))
      | _ \<Rightarrow> None)"

interpretation BlobInclusionInfo_form: rlp_form rlp_BlobInclusionInfo BlobInclusionInfo_of_rlp
proof (rule rlp_formI)
  show "BlobInclusionInfo_of_rlp (rlp_BlobInclusionInfo x) = Some x" for x
    by (cases x) (simp add: BlobInclusionInfo_of_rlp_def rlp_BlobInclusionInfo_def)
  show "t = rlp_BlobInclusionInfo x" if "BlobInclusionInfo_of_rlp t = Some x" for t x
    using that
    by (auto simp: rlp_BlobInclusionInfo_def BlobInclusionInfo_of_rlp_def bind_eq_Some_conv rlp_iffs
        split: rlp.splits list.splits)
qed

declare BlobInclusionInfo_form.of_rlp_iff [rlp_iffs]

definition rlp_BatchHeaderV2 :: "BatchHeaderV2 \<Rightarrow> rlp" where
  "rlp_BatchHeaderV2 v =
     RList [rlp_b256 (bat_batch_root v), rlp_word (bat_reference_block_number v)]"

definition BatchHeaderV2_of_rlp :: "rlp \<Rightarrow> BatchHeaderV2 option" where
  "BatchHeaderV2_of_rlp t =
     (case t of
        RList [x1, x2] \<Rightarrow>
          Option.bind (b256_of_rlp x1) (\<lambda>x1.
          Option.bind (word_of_rlp x2) (\<lambda>x2.
          Some \<lparr> bat_batch_root = x1, bat_reference_block_number = x2 \<rparr>))
      | _ \<Rightarrow> None)"

interpretation BatchHeaderV2_form: rlp_form rlp_BatchHeaderV2 BatchHeaderV2_of_rlp
proof (rule rlp_formI)
  show "BatchHeaderV2_of_rlp (rlp_BatchHeaderV2 x) = Some x" for x
    by (cases x) (simp add: BatchHeaderV2_of_rlp_def rlp_BatchHeaderV2_def)
  show "t = rlp_BatchHeaderV2 x" if "BatchHeaderV2_of_rlp t = Some x" for t x
    using that
    by (auto simp: rlp_BatchHeaderV2_def BatchHeaderV2_of_rlp_def bind_eq_Some_conv rlp_iffs
        split: rlp.splits list.splits)
qed

declare BatchHeaderV2_form.of_rlp_iff [rlp_iffs]

definition rlp_NonSignerStakesAndSignature :: "NonSignerStakesAndSignature \<Rightarrow> rlp" where
  "rlp_NonSignerStakesAndSignature v =
     RList [rlp_vec rlp_word (ns_non_signer_quorum_bitmap_indices v),
       rlp_vec rlp_G1Point (ns_non_signer_pubkeys v), rlp_vec rlp_G1Point (ns_quorum_apks v),
       rlp_G2Point (ns_apk_g2 v), rlp_G1Point (ns_sigma v), rlp_vec rlp_word (ns_quorum_apk_indices v),
       rlp_vec rlp_word (ns_total_stake_indices v),
       rlp_vec (rlp_vec rlp_word) (ns_non_signer_stake_indices v)]"

definition NonSignerStakesAndSignature_of_rlp :: "rlp \<Rightarrow> NonSignerStakesAndSignature option" where
  "NonSignerStakesAndSignature_of_rlp t =
     (case t of
        RList [x1, x2, x3, x4, x5, x6, x7, x8] \<Rightarrow>
          Option.bind (vec_of_rlp word_of_rlp x1) (\<lambda>x1.
          Option.bind (vec_of_rlp G1Point_of_rlp x2) (\<lambda>x2.
          Option.bind (vec_of_rlp G1Point_of_rlp x3) (\<lambda>x3.
          Option.bind (G2Point_of_rlp x4) (\<lambda>x4.
          Option.bind (G1Point_of_rlp x5) (\<lambda>x5.
          Option.bind (vec_of_rlp word_of_rlp x6) (\<lambda>x6.
          Option.bind (vec_of_rlp word_of_rlp x7) (\<lambda>x7.
          Option.bind (vec_of_rlp (vec_of_rlp word_of_rlp) x8) (\<lambda>x8.
          Some \<lparr> ns_non_signer_quorum_bitmap_indices = x1, ns_non_signer_pubkeys = x2,
                  ns_quorum_apks = x3, ns_apk_g2 = x4, ns_sigma = x5, ns_quorum_apk_indices = x6,
                  ns_total_stake_indices = x7, ns_non_signer_stake_indices = x8 \<rparr>))))))))
      | _ \<Rightarrow> None)"

interpretation NonSignerStakesAndSignature_form: rlp_form rlp_NonSignerStakesAndSignature NonSignerStakesAndSignature_of_rlp
proof (rule rlp_formI)
  show "NonSignerStakesAndSignature_of_rlp (rlp_NonSignerStakesAndSignature x) = Some x" for x
    by (cases x) (simp add: NonSignerStakesAndSignature_of_rlp_def rlp_NonSignerStakesAndSignature_def)
  show "t = rlp_NonSignerStakesAndSignature x" if "NonSignerStakesAndSignature_of_rlp t = Some x" for t x
    using that
    by (auto simp: rlp_NonSignerStakesAndSignature_def NonSignerStakesAndSignature_of_rlp_def bind_eq_Some_conv rlp_iffs
        split: rlp.splits list.splits)
qed

declare NonSignerStakesAndSignature_form.of_rlp_iff [rlp_iffs]

definition rlp_EigenDACertV2 :: "EigenDACertV2 \<Rightarrow> rlp" where
  "rlp_EigenDACertV2 v =
     RList [rlp_BlobInclusionInfo (v2_blob_inclusion_info v), rlp_BatchHeaderV2 (v2_batch_header_v2 v),
       rlp_NonSignerStakesAndSignature (v2_nonsigner_stake_and_signature v),
       RString (v2_signed_quorum_numbers v)]"

definition EigenDACertV2_of_rlp :: "rlp \<Rightarrow> EigenDACertV2 option" where
  "EigenDACertV2_of_rlp t =
     (case t of
        RList [x1, x2, x3, x4] \<Rightarrow>
          Option.bind (BlobInclusionInfo_of_rlp x1) (\<lambda>x1.
          Option.bind (BatchHeaderV2_of_rlp x2) (\<lambda>x2.
          Option.bind (NonSignerStakesAndSignature_of_rlp x3) (\<lambda>x3.
          Option.bind (bytes_of_rlp x4) (\<lambda>x4.
          Some \<lparr> v2_blob_inclusion_info = x1, v2_batch_header_v2 = x2,
                  v2_nonsigner_stake_and_signature = x3, v2_signed_quorum_numbers = x4 \<rparr>))))
      | _ \<Rightarrow> None)"

interpretation EigenDACertV2_form: rlp_form rlp_EigenDACertV2 EigenDACertV2_of_rlp
proof (rule rlp_formI)
  show "EigenDACertV2_of_rlp (rlp_EigenDACertV2 x) = Some x" for x
    by (cases x) (simp add: EigenDACertV2_of_rlp_def rlp_EigenDACertV2_def)
  show "t = rlp_EigenDACertV2 x" if "EigenDACertV2_of_rlp t = Some x" for t x
    using that
    by (auto simp: rlp_EigenDACertV2_def EigenDACertV2_of_rlp_def bind_eq_Some_conv rlp_iffs
        split: rlp.splits list.splits)
qed

definition rlp_EigenDACertV3 :: "EigenDACertV3 \<Rightarrow> rlp" where
  "rlp_EigenDACertV3 v =
     RList [rlp_BatchHeaderV2 (v3_batch_header_v2 v), rlp_BlobInclusionInfo (v3_blob_inclusion_info v),
       rlp_NonSignerStakesAndSignature (v3_nonsigner_stake_and_signature v),
       RString (v3_signed_quorum_numbers v)]"

definition EigenDACertV3_of_rlp :: "rlp \<Rightarrow> EigenDACertV3 option" where
  "EigenDACertV3_of_rlp t =
     (case t of
        RList [x1, x2, x3, x4] \<Rightarrow>
          Option.bind (BatchHeaderV2_of_rlp x1) (\<lambda>x1.
          Option.bind (BlobInclusionInfo_of_rlp x2) (\<lambda>x2.
          Option.bind (NonSignerStakesAndSignature_of_rlp x3) (\<lambda>x3.
          Option.bind (bytes_of_rlp x4) (\<lambda>x4.
          Some \<lparr> v3_batch_header_v2 = x1, v3_blob_inclusion_info = x2,
                  v3_nonsigner_stake_and_signature = x3, v3_signed_quorum_numbers = x4 \<rparr>))))
      | _ \<Rightarrow> None)"

interpretation EigenDACertV3_form: rlp_form rlp_EigenDACertV3 EigenDACertV3_of_rlp
proof (rule rlp_formI)
  show "EigenDACertV3_of_rlp (rlp_EigenDACertV3 x) = Some x" for x
    by (cases x) (simp add: EigenDACertV3_of_rlp_def rlp_EigenDACertV3_def)
  show "t = rlp_EigenDACertV3 x" if "EigenDACertV3_of_rlp t = Some x" for t x
    using that
    by (auto simp: rlp_EigenDACertV3_def EigenDACertV3_of_rlp_def bind_eq_Some_conv rlp_iffs
        split: rlp.splits list.splits)
qed

definition rlp_EigenDACertV4 :: "EigenDACertV4 \<Rightarrow> rlp" where
  "rlp_EigenDACertV4 v =
     RList [rlp_BatchHeaderV2 (v4_batch_header_v2 v), rlp_BlobInclusionInfo (v4_blob_inclusion_info v),
       rlp_NonSignerStakesAndSignature (v4_nonsigner_stake_and_signature v),
       RString (v4_signed_quorum_numbers v), rlp_word (v4_offchain_derivation_version v)]"

definition EigenDACertV4_of_rlp :: "rlp \<Rightarrow> EigenDACertV4 option" where
  "EigenDACertV4_of_rlp t =
     (case t of
        RList [x1, x2, x3, x4, x5] \<Rightarrow>
          Option.bind (BatchHeaderV2_of_rlp x1) (\<lambda>x1.
          Option.bind (BlobInclusionInfo_of_rlp x2) (\<lambda>x2.
          Option.bind (NonSignerStakesAndSignature_of_rlp x3) (\<lambda>x3.
          Option.bind (bytes_of_rlp x4) (\<lambda>x4.
          Option.bind (word_of_rlp x5) (\<lambda>x5.
          Some \<lparr> v4_batch_header_v2 = x1, v4_blob_inclusion_info = x2,
                  v4_nonsigner_stake_and_signature = x3, v4_signed_quorum_numbers = x4,
                  v4_offchain_derivation_version = x5 \<rparr>)))))
      | _ \<Rightarrow> None)"

interpretation EigenDACertV4_form: rlp_form rlp_EigenDACertV4 EigenDACertV4_of_rlp
proof (rule rlp_formI)
  show "EigenDACertV4_of_rlp (rlp_EigenDACertV4 x) = Some x" for x
    by (cases x) (simp add: EigenDACertV4_of_rlp_def rlp_EigenDACertV4_def)
  show "t = rlp_EigenDACertV4 x" if "EigenDACertV4_of_rlp t = Some x" for t x
    using that
    by (auto simp: rlp_EigenDACertV4_def EigenDACertV4_of_rlp_def bind_eq_Some_conv rlp_iffs
        split: rlp.splits list.splits)
qed

section \<open>Fields that are written out\<close>

lemma unat_numeral_less:
  "(numeral m :: nat) < 2 ^ LENGTH('a) \<Longrightarrow> unat (numeral m :: 'a::len word) = numeral m"
  using unat_of_nat [of "numeral m", where 'a='a] by simp

lemma rlp_word_32:
  assumes "2 ^ 248 \<le> (numeral m :: nat)" "(numeral m :: nat) < 2 ^ 256"
  shows "rlp_word (numeral m :: u256) = RString (nat_be 32 (numeral m))"
  using min_be_nat_be [of 31 "numeral m"] assms unat_numeral_less [where 'a=256, of m] by (simp add: rlp_word_def)

lemma rlp_word_31:
  assumes "2 ^ 240 \<le> (numeral m :: nat)" "(numeral m :: nat) < 2 ^ 248"
  shows "rlp_word (numeral m :: u256) = RString (nat_be 31 (numeral m))"
proof -
  have "(numeral m :: nat) < 2 ^ 256" using assms(2) by (rule less_le_trans) simp
  then show ?thesis
    using min_be_nat_be [of 30 "numeral m"] assms unat_numeral_less [where 'a=256, of m] by (simp add: rlp_word_def)
qed

lemma rlp_b256_num:
  assumes "(numeral m :: nat) < 2 ^ 256"
  shows "rlp_b256 (numeral m) = RString (nat_be 32 (numeral m))"
  using unat_numeral_less [where 'a=256, of m] assms by (simp add: rlp_b256_def b256_be_def)

lemma rlp_small_words:
  "rlp_word 0 = RString []" "rlp_word 1 = RString [1]"
  "rlp_word (numeral m :: u32) = RString (min_be (unat (numeral m :: u32)))"
  by (simp_all add: rlp_word_def min_be_1)

section \<open>The functions of alloy\<close>

definition decode_form :: "(rlp \<Rightarrow> 'a option) \<Rightarrow> bytes \<Rightarrow> ('a \<times> bytes, rlp_error) result" where
  "decode_form of_rlp bs =
     (case rlp_decode bs of
        None \<Rightarrow> Inl ''invalid RLP''
      | Some (t, r) \<Rightarrow>
          (case of_rlp t of None \<Rightarrow> Inl ''not of this form'' | Some x \<Rightarrow> Inr (x, r)))"

text \<open>The hash stays a parameter. The texts of the errors are not those of the crate.\<close>

definition eth_alloy :: "(bytes \<Rightarrow> u256) \<Rightarrow> alloy_ops" where
  "eth_alloy keccak =
     \<lparr> keccak256 = keccak,
       rlp_encode_v2 = (\<lambda>c. rlp_encode (rlp_EigenDACertV2 c)),
       rlp_encode_v3 = (\<lambda>c. rlp_encode (rlp_EigenDACertV3 c)),
       rlp_encode_v4 = (\<lambda>c. rlp_encode (rlp_EigenDACertV4 c)),
       rlp_decode_v2 = decode_form EigenDACertV2_of_rlp,
       rlp_decode_v3 = decode_form EigenDACertV3_of_rlp,
       rlp_decode_v4 = decode_form EigenDACertV4_of_rlp \<rparr>"

context rlp_form begin

lemma decode_form_Inr:
  "decode_form of_rlp bs = Inr (x, r) \<longleftrightarrow> bs = rlp_encode (to_rlp x) @ r \<and> rlp_fits (to_rlp x)"
  by (auto simp: decode_form_def of_rlp_iff rlp_decode_encode dest: rlp_decode_Some split: option.splits)

end

definition rlp_of_cert :: "EigenDAVersionedCert \<Rightarrow> rlp" where
  "rlp_of_cert vc =
     (case vc of V2 c \<Rightarrow> rlp_EigenDACertV2 c | V3 c \<Rightarrow> rlp_EigenDACertV3 c | V4 c \<Rightarrow> rlp_EigenDACertV4 c)"

lemmas rlp_cert_defs = rlp_of_cert_def rlp_EigenDACertV2_def rlp_EigenDACertV3_def rlp_EigenDACertV4_def
  rlp_BatchHeaderV2_def rlp_BlobInclusionInfo_def rlp_BlobCertificate_def rlp_BlobHeaderV2_def
  rlp_BlobCommitment_def rlp_NonSignerStakesAndSignature_def rlp_G1Point_def rlp_G2Point_def rlp_Fp2_def
  rlp_vec_def

lemmas rlp_fields = rlp_cert_defs rlp_word_32 rlp_word_31 rlp_b256_num rlp_small_words min_be_1 min_be_2 min_be_3

text \<open>The law holds for every certificate that can be written.\<close>

lemma eth_rlp_law: "rlp_law (eth_alloy keccak) vc \<longleftrightarrow> rlp_fits (rlp_of_cert vc)"
  by (cases vc)
     (auto simp: rlp_law_def eth_alloy_def rlp_of_cert_def EigenDACertV2_form.decode_form_Inr
        EigenDACertV3_form.decode_form_Inr EigenDACertV4_form.decode_form_Inr)

lemma eth_rlp_canonical: "rlp_canonical (eth_alloy keccak)"
  by (auto simp: rlp_canonical_def rlp_law_def eth_alloy_def EigenDACertV2_form.decode_form_Inr
        EigenDACertV3_form.decode_form_Inr EigenDACertV4_form.decode_form_Inr)

end
