(* ===== verification/Sepolia_Data.thy ===== *)
theory Sepolia_Data
  imports Hex Rlp_Certs Encoded_Payload
begin

text \<open>
  The commitments and payloads from Sepolia that the tests of \<open>crates/eigenda/src/eigenda.rs\<close>,
  \<open>eigenda_preimage.rs\<close> and \<open>crates/eigenda-cert/src/altda_commitment.rs\<close> read, as the strings in the code,
  split at the items of their RLP form, and as certificates. The strings decode to the bytes of the
  certificates under Ethereum's RLP, so the parser returns exactly these certificates.
\<close>

section \<open>The strings\<close>

definition CALLDATA_1 :: string where
  "CALLDATA_1 =
     ''0x'' @ ''02f904f583aa36a78212f2843b9aca0084b2d05e00830105'' @
     ''7294000faef0a3d9711c3e9bbc4f3e2730dd75167da380b9'' @ ''0483'' @ ''01'' @ ''010002f9047ce5a0'' @
     ''4c617ac0dcf14f58a1d58e80c9902e2c199474989563dc59566d5bd5ad1b640a'' @
     ''838deb8cf901cef901c9f9018180820001f90159f842a0'' @
     ''2f79ec81c41b992e9dec0c96fe5d970657bd5699560b1eaca902b6d8d95b69d9'' @ ''a0'' @
     ''14aee8fa5e2bd3a23ce376c537248acce7c29a74962218a4cc19c483d962dcf7'' @ ''f888f842a0'' @
     ''1c4c0eec183bf264a5b96b2ddc64e400a3f03752fb9d4296f3b4729e237ea40d'' @ ''a0'' @
     ''1303695a7e9cba15f6ecb2e5da94826c94e557d94a491b61b42e2fb577bf5983'' @ ''f842a0'' @
     ''0c4bb24f65dd9d63401f8fb5aa680c36c3a18c06996511ce14544d77bc3659bb'' @ ''a0'' @
     ''1a201aef9dceb92540f58243194aeae5c4b5953dddf17925c5a56bcb57ec19ad'' @ ''f888f842a0'' @
     ''2a71a11141df9d0a5158602444003491763859afb77b1566a3eabafc162d4617'' @ ''a0'' @
     ''27bfbe487a7507ab70b6b42433850f8b7be21ab2c268f415cb68608506da9114'' @ ''f842a0'' @
     ''13002e07d4f2259193d9aa06a01866dc527221d65cc5c49c4c05cfc281d873c1'' @ ''a0'' @
     ''2d47dba83902698378718ab5c589eb9c7daa5f9641a5ce160f112bc65b402273'' @ ''08a0'' @
     ''731bd6915a6ccea1380db7f0695ad67ee03bfbd59ac8c7976ee25f7ec9515037'' @ ''b841'' @
     ''4cd74a3034296d0e2d63ce879dbe578e0715c29fd388c9babb38bd99ef45c64d548d60eec508758c6101b4b01ff2b65ff503fa485a8035a54edd1bc71d84430e00'' @
     ''c1808080f9027fc401808080f9010ff842a0'' @
     ''1cd040b326ae7cd372763fafb595470d3613f6fb3d824582bf02edcb735ccb0f'' @ ''a0'' @
     ''17bbe7ebc3167abad8710ecd335b37a1b63d1f0119569bcf3f84d2125810a294'' @ ''f842a0'' @
     ''297ac518058025f67f0c0cc4d735965f242540ddbf998491e5b66a5c9d56c712'' @ ''a0'' @
     ''0dc76d3bfe805d8ad41c96a5d3696ecd22c44049057fbb2b2f3e0c204f5dd745'' @ ''f8419f'' @
     ''9a9a3504786f979f4011c180069d0127599773df85c02f550c8bcd4336d150'' @ ''a0'' @
     ''2bf5de7c6791a70185eb0eef04661bbf6f3596569843dbd9172eea27ad484249'' @ ''f842a0'' @
     ''20304749b8c2e65c4a82035cf1c559ea8b8d7ab9a94b6dc7d4b79299be445ae9'' @ ''a0'' @
     ''2b4d5e4ecb245d94af3d6c279c1a86fb452401355be715ac4887fcdcf7642ce4'' @ ''f888f842a0'' @
     ''2099209289cdb7e5087d0401996d2fd9b52ce5cae39c547a039f126371a7f9bc'' @ ''a0'' @
     ''26139d9d30188c9d52468ce9dfb48c39d552243611d5b270f5497c2b8692c696'' @ ''f842a0'' @
     ''2b2dabbf32c0cb551d3ba9159ae5c985ebcd71d79b00fabd26a74d618065bfd6'' @ ''a0'' @
     ''1bef832bd3efaea9f61c0582fb123bb547546f0c5910a9dda96bcd0063d57a02'' @ ''f888f842a0'' @
     ''171e10f7d012c823ceb26e40245a97375804a82ca8f92e0dd49fc5f76c3b093e'' @ ''a0'' @
     ''28946cc01b7092bb709a72c07184d84821125632337d4c8f9a063afcefdc57c0'' @ ''f842a0'' @
     ''0df37a0480625fa5ab86d78e4664d2bacfed6c4e7562956bfc95f2b9efd1977c'' @ ''a0'' @
     ''121ae7669b68221699c6b4eb057acbf2e58d4fb4b4da7aa5e4deaaac513f6ce0'' @ ''f842a0'' @
     ''1abcc37d2cbe680d5d6d3ebeddc3f5b09f103e2fa3a20a887c573f2ac5ab6e36'' @ ''a0'' @
     ''1a23d0ac964f04643eb3206db5a81e678fc484f362d3c7442657735e678298c3'' @
     ''c20705c20805c9c3018080c480808080820001'' @ ''c001a0445ab87abefec130d63733b3bcafc7ee0c0f8367e6'' @
     ''1b580be4f0cf0c3d21a03aa02d054c857c76e9dbf47d63d0'' @ ''b70b58200e14e9f9ba2eb47343c3b67faab93a72''"

definition ALTDA_COMMITMENT_BYTES_1 :: string where
  "ALTDA_COMMITMENT_BYTES_1 =
     ''0x'' @ ''010002f9047ce5a0'' @ ''4c617ac0dcf14f58a1d58e80c9902e2c199474989563dc59566d5bd5ad1b640a'' @
     ''838deb8cf901cef901c9f9018180820001f90159f842a0'' @
     ''2f79ec81c41b992e9dec0c96fe5d970657bd5699560b1eaca902b6d8d95b69d9'' @ ''a0'' @
     ''14aee8fa5e2bd3a23ce376c537248acce7c29a74962218a4cc19c483d962dcf7'' @ ''f888f842a0'' @
     ''1c4c0eec183bf264a5b96b2ddc64e400a3f03752fb9d4296f3b4729e237ea40d'' @ ''a0'' @
     ''1303695a7e9cba15f6ecb2e5da94826c94e557d94a491b61b42e2fb577bf5983'' @ ''f842a0'' @
     ''0c4bb24f65dd9d63401f8fb5aa680c36c3a18c06996511ce14544d77bc3659bb'' @ ''a0'' @
     ''1a201aef9dceb92540f58243194aeae5c4b5953dddf17925c5a56bcb57ec19ad'' @ ''f888f842a0'' @
     ''2a71a11141df9d0a5158602444003491763859afb77b1566a3eabafc162d4617'' @ ''a0'' @
     ''27bfbe487a7507ab70b6b42433850f8b7be21ab2c268f415cb68608506da9114'' @ ''f842a0'' @
     ''13002e07d4f2259193d9aa06a01866dc527221d65cc5c49c4c05cfc281d873c1'' @ ''a0'' @
     ''2d47dba83902698378718ab5c589eb9c7daa5f9641a5ce160f112bc65b402273'' @ ''08a0'' @
     ''731bd6915a6ccea1380db7f0695ad67ee03bfbd59ac8c7976ee25f7ec9515037'' @ ''b841'' @
     ''4cd74a3034296d0e2d63ce879dbe578e0715c29fd388c9babb38bd99ef45c64d548d60eec508758c6101b4b01ff2b65ff503fa485a8035a54edd1bc71d84430e00'' @
     ''c1808080f9027fc401808080f9010ff842a0'' @
     ''1cd040b326ae7cd372763fafb595470d3613f6fb3d824582bf02edcb735ccb0f'' @ ''a0'' @
     ''17bbe7ebc3167abad8710ecd335b37a1b63d1f0119569bcf3f84d2125810a294'' @ ''f842a0'' @
     ''297ac518058025f67f0c0cc4d735965f242540ddbf998491e5b66a5c9d56c712'' @ ''a0'' @
     ''0dc76d3bfe805d8ad41c96a5d3696ecd22c44049057fbb2b2f3e0c204f5dd745'' @ ''f8419f'' @
     ''9a9a3504786f979f4011c180069d0127599773df85c02f550c8bcd4336d150'' @ ''a0'' @
     ''2bf5de7c6791a70185eb0eef04661bbf6f3596569843dbd9172eea27ad484249'' @ ''f842a0'' @
     ''20304749b8c2e65c4a82035cf1c559ea8b8d7ab9a94b6dc7d4b79299be445ae9'' @ ''a0'' @
     ''2b4d5e4ecb245d94af3d6c279c1a86fb452401355be715ac4887fcdcf7642ce4'' @ ''f888f842a0'' @
     ''2099209289cdb7e5087d0401996d2fd9b52ce5cae39c547a039f126371a7f9bc'' @ ''a0'' @
     ''26139d9d30188c9d52468ce9dfb48c39d552243611d5b270f5497c2b8692c696'' @ ''f842a0'' @
     ''2b2dabbf32c0cb551d3ba9159ae5c985ebcd71d79b00fabd26a74d618065bfd6'' @ ''a0'' @
     ''1bef832bd3efaea9f61c0582fb123bb547546f0c5910a9dda96bcd0063d57a02'' @ ''f888f842a0'' @
     ''171e10f7d012c823ceb26e40245a97375804a82ca8f92e0dd49fc5f76c3b093e'' @ ''a0'' @
     ''28946cc01b7092bb709a72c07184d84821125632337d4c8f9a063afcefdc57c0'' @ ''f842a0'' @
     ''0df37a0480625fa5ab86d78e4664d2bacfed6c4e7562956bfc95f2b9efd1977c'' @ ''a0'' @
     ''121ae7669b68221699c6b4eb057acbf2e58d4fb4b4da7aa5e4deaaac513f6ce0'' @ ''f842a0'' @
     ''1abcc37d2cbe680d5d6d3ebeddc3f5b09f103e2fa3a20a887c573f2ac5ab6e36'' @ ''a0'' @
     ''1a23d0ac964f04643eb3206db5a81e678fc484f362d3c7442657735e678298c3'' @
     ''c20705c20805c9c3018080c480808080820001''"

definition ENCODED_PAYLOAD_1 :: string where
  "ENCODED_PAYLOAD_1 =
     ''000000000091'' @ ''0000000000000000000000000000000000000000000000000000'' @ ''00'' @
     ''00ab80c99f814a3541886f8f4a65f61b67000000000079011b6501f88f532c'' @ ''00'' @
     ''998d4648d239b1ce87da27450caaab705a5c8412149720e6dd229a4b97d256'' @ ''00'' @
     ''ca7222a7ae434145a5d1440229000106a45bd00f3e0e33b07a5c23ad927eaa'' @ ''00'' @
     ''f98a77e7818ff59e2c3b2c03d5ffaeb6dba4cb08b9fa2d122e8acbe726c4a7'' @ ''00'' @
     ''09ae086496e0d3ac00d70438c034e1f1314b70c001'' @ ''00000000000000000000'' @ ''00'' @
     ''00000000000000000000000000000000000000000000000000000000000000'' @ ''00'' @
     ''00000000000000000000000000000000000000000000000000000000000000''"

definition CALLDATA_2 :: string where
  "CALLDATA_2 =
     ''0x'' @ ''02f903d883aa36a78226a8843b9aca0084b2d05e0082d930'' @
     ''94000faef0a3d9711c3e9bbc4f3e2730dd75167da380b903'' @ ''67'' @ ''01'' @ ''010002f90360e5a0'' @
     ''79b1d7d15095ff732f8443d96b6d293494b003e9b4377ac1c51375908afb2e9e'' @
     ''83916347f901cef901c9f9018180820001f90159f842a0'' @
     ''08d79f9a46a4183f1d64c45fdedc36be33efc4cd27ffc9f85ac02987c2a5dddc'' @ ''a0'' @
     ''04df46272276ced58d65a56b9a6dfa24102f066d3f0bba07e35992ede22aa4bc'' @ ''f888f842a0'' @
     ''018fe73cb24305b7df1fc808f65c15d0f7921758cef87d9f38d31db4236eb9f4'' @ ''a0'' @
     ''1125fd3aa13adb27759b01c954dd641ad2174374f8e4cb3333970eda9fa011ec'' @ ''f842a0'' @
     ''0a0dd6223eed09f283a20429a7e03449c7d38b4fe674913c67e0f02d16949a41'' @ ''a0'' @
     ''0f52bab320eeb037ad223e361512350e35e373c79cf7f2ba1ec2aa036b49adbe'' @ ''f888f842a0'' @
     ''2ecf0e30ff9ce9696c6c1ce5c341bfdfb56f589d3da7925fe54ee43a6667a09a'' @ ''a0'' @
     ''23a35883de2716167810bfca0c14af9530321908c4b78b572e9308161bb2d402'' @ ''f842a0'' @
     ''1fd1844a0e0f37f3c9edc39d0e14c8a4214afa7b017843dba1f467c8765df23f'' @ ''a0'' @
     ''04a01126fe1d6b57d7b985c61a3cb9a57f6c2e86d4dd0da956ad613bef0bcda7'' @ ''08a0'' @
     ''00feeb6796b97a3f0179ef436770791068b9fdc15866f53af08f6d649083952e'' @ ''b841'' @
     ''af27b4b47fd17adb76d6bb38831a19df88ee027ceaf22c88d846daff41ce2c7e5a814c8d0aa8034d1626e00d1c711087f412d4ccb35cacb0d490fbaa582493cb01'' @
     ''c1808080f90163c0c0f888f842a0'' @ ''2099209289cdb7e5087d0401996d2fd9b52ce5cae39c547a039f126371a7f9bc'' @
     ''a0'' @ ''26139d9d30188c9d52468ce9dfb48c39d552243611d5b270f5497c2b8692c696'' @ ''f842a0'' @
     ''2b2dabbf32c0cb551d3ba9159ae5c985ebcd71d79b00fabd26a74d618065bfd6'' @ ''a0'' @
     ''1bef832bd3efaea9f61c0582fb123bb547546f0c5910a9dda96bcd0063d57a02'' @ ''f888f842a0'' @
     ''27b90b5da16ef02417ad5820223e680d2c2d19a3f1d30566cfbb7b9aa30abf6d'' @ ''a0'' @
     ''22432d9b57d271b8dd84bfb4ccd9df36b84e422cb471b35d50d55ae83a03f16e'' @ ''f842a0'' @
     ''018ed79d6c0707cc6f4ec81bcea6c4cc0096f0e3635961caf3271c3c9a36a9df'' @ ''a0'' @
     ''179360dc4646a7c49bf730e1789c00622facd7836faa3c747be0f2d824cb1412'' @ ''f842a0'' @
     ''29273db955f9532f7b1ffe0eead7b85ac277534c892f73f0d9cf4403be36b5c6'' @ ''a0'' @
     ''22895e02ab90d618987ee5bf2818c93b9c5fac931d2af2b42a2d207c9d3d4966'' @ ''c20705c20805c2c0c0820001'' @
     ''c080a0d8bcdbee635bd0836d858f6da41e289529956b4637'' @ ''00fa1a886eee4019e2a2c0a045f9ddd72ebf7c56766a0bb9'' @
     ''fbcb234fa987859273a98df8ea9d5af199b494df''"

definition ALTDA_COMMITMENT_BYTES_2 :: string where
  "ALTDA_COMMITMENT_BYTES_2 =
     ''0x'' @ ''010002f90360e5a0'' @ ''79b1d7d15095ff732f8443d96b6d293494b003e9b4377ac1c51375908afb2e9e'' @
     ''83916347f901cef901c9f9018180820001f90159f842a0'' @
     ''08d79f9a46a4183f1d64c45fdedc36be33efc4cd27ffc9f85ac02987c2a5dddc'' @ ''a0'' @
     ''04df46272276ced58d65a56b9a6dfa24102f066d3f0bba07e35992ede22aa4bc'' @ ''f888f842a0'' @
     ''018fe73cb24305b7df1fc808f65c15d0f7921758cef87d9f38d31db4236eb9f4'' @ ''a0'' @
     ''1125fd3aa13adb27759b01c954dd641ad2174374f8e4cb3333970eda9fa011ec'' @ ''f842a0'' @
     ''0a0dd6223eed09f283a20429a7e03449c7d38b4fe674913c67e0f02d16949a41'' @ ''a0'' @
     ''0f52bab320eeb037ad223e361512350e35e373c79cf7f2ba1ec2aa036b49adbe'' @ ''f888f842a0'' @
     ''2ecf0e30ff9ce9696c6c1ce5c341bfdfb56f589d3da7925fe54ee43a6667a09a'' @ ''a0'' @
     ''23a35883de2716167810bfca0c14af9530321908c4b78b572e9308161bb2d402'' @ ''f842a0'' @
     ''1fd1844a0e0f37f3c9edc39d0e14c8a4214afa7b017843dba1f467c8765df23f'' @ ''a0'' @
     ''04a01126fe1d6b57d7b985c61a3cb9a57f6c2e86d4dd0da956ad613bef0bcda7'' @ ''08a0'' @
     ''00feeb6796b97a3f0179ef436770791068b9fdc15866f53af08f6d649083952e'' @ ''b841'' @
     ''af27b4b47fd17adb76d6bb38831a19df88ee027ceaf22c88d846daff41ce2c7e5a814c8d0aa8034d1626e00d1c711087f412d4ccb35cacb0d490fbaa582493cb01'' @
     ''c1808080f90163c0c0f888f842a0'' @ ''2099209289cdb7e5087d0401996d2fd9b52ce5cae39c547a039f126371a7f9bc'' @
     ''a0'' @ ''26139d9d30188c9d52468ce9dfb48c39d552243611d5b270f5497c2b8692c696'' @ ''f842a0'' @
     ''2b2dabbf32c0cb551d3ba9159ae5c985ebcd71d79b00fabd26a74d618065bfd6'' @ ''a0'' @
     ''1bef832bd3efaea9f61c0582fb123bb547546f0c5910a9dda96bcd0063d57a02'' @ ''f888f842a0'' @
     ''27b90b5da16ef02417ad5820223e680d2c2d19a3f1d30566cfbb7b9aa30abf6d'' @ ''a0'' @
     ''22432d9b57d271b8dd84bfb4ccd9df36b84e422cb471b35d50d55ae83a03f16e'' @ ''f842a0'' @
     ''018ed79d6c0707cc6f4ec81bcea6c4cc0096f0e3635961caf3271c3c9a36a9df'' @ ''a0'' @
     ''179360dc4646a7c49bf730e1789c00622facd7836faa3c747be0f2d824cb1412'' @ ''f842a0'' @
     ''29273db955f9532f7b1ffe0eead7b85ac277534c892f73f0d9cf4403be36b5c6'' @ ''a0'' @
     ''22895e02ab90d618987ee5bf2818c93b9c5fac931d2af2b42a2d207c9d3d4966'' @ ''c20705c20805c2c0c0820001''"

definition ENCODED_PAYLOAD_2 :: string where
  "ENCODED_PAYLOAD_2 =
     ''000000000095'' @ ''0000000000000000000000000000000000000000000000000000'' @ ''00'' @
     ''00bdcf2fd9b7d8767b4dff28e8fdba9a7200000000007d011b5e01f8bf1cc8'' @ ''00'' @
     ''6b5bd7432114a72c3aac44bf6f9d30f86ca72f2ae64aa3a769a9e84d0d4ab5'' @ ''00'' @
     ''e9e21b8dfff777693a3aaf83068082e7050b4c42007837016bf1b4266000e0'' @ ''00'' @
     ''9a2b83da791a259074888d35115a378d560e902075e06065876d315ba365f1'' @ ''00'' @
     ''4b83275c22c744560f3389561e2359a65f4150b0b1837a0001'' @ ''000000000000'' @ ''00'' @
     ''00000000000000000000000000000000000000000000000000000000000000'' @ ''00'' @
     ''00000000000000000000000000000000000000000000000000000000000000''"

definition CALLDATA_3 :: string where
  "CALLDATA_3 =
     ''0x'' @ ''02f9046683aa36a78226a7843b9aca0084b2d05e0082ef06'' @
     ''94000faef0a3d9711c3e9bbc4f3e2730dd75167da380b903'' @ ''f5'' @ ''01'' @ ''010002f903eee5a0'' @
     ''98eb692e5d190ff4458583187f335be454e47df2912152fe1200c9c3505ac420'' @
     ''8391631bf901cef901c9f9018180820001f90159f842a0'' @
     ''0b24de07075954f38be4b14a6321d98cbbc07fc19737263774c763fb900cc7e4'' @ ''a0'' @
     ''1a76894605331379abaf50fdff37828c6cbe638ebe5376eaa4c250e053328fa2'' @ ''f888f842a0'' @
     ''09f7e88880c8e646cd234a162fc07dd5dd298092a714e9b5c8f2f473ca1afa56'' @ ''a0'' @
     ''176c98504ed52e2dbc8fec1d1cd2c19f1f7d4c4a0d5584e479ce1034a571305d'' @ ''f842a0'' @
     ''18135e9b7e4a1821ad2607a3cdc801b2a4cb1c9d641767428e8bc96f4a9c77be'' @ ''a0'' @
     ''0eba497b2195b825b817876f24c08d11ae30f6712c9d19255ec8d2a10b970c68'' @ ''f888f842a0'' @
     ''08e8f0db2324bdfef9af18c94a7aab5d68e5a485728281a5276b6519b5e99e83'' @ ''a0'' @
     ''0d1d6a357bb7baa967608929c192da0e15086b44e8557c672bd0f82763d0a43a'' @ ''f842a0'' @
     ''02c20947d2e8628096d5ac30f0a48200f43960789064fe2f5c7c0b0e0c867a64'' @ ''a0'' @
     ''22b1240ea86dec625bb4a6db9c31769b7d7a894c4d2db565d5f215afaa8de110'' @ ''08a0'' @
     ''5f5f8a015a8ea873f35b68b5c829b2d8cb966785e50fb77b89da4dc177008f68'' @ ''b841'' @
     ''9dadf3f532d1ed8a986d5091476945242710d9ee38ed6aa91472ad8c37170d8820fb9b0d59b3ee08b1a5a9ed8c3c4728b5a9dbf74104cec747e7ff43ae42be8600'' @
     ''c1808080f901f1c28001f887f8419f'' @ ''9a9a3504786f979f4011c180069d0127599773df85c02f550c8bcd4336d150'' @
     ''a0'' @ ''2bf5de7c6791a70185eb0eef04661bbf6f3596569843dbd9172eea27ad484249'' @ ''f842a0'' @
     ''2b1528a6792412f62e605d184a86c5831f5eb62fe8b8a55ab734379af46ecd10'' @ ''a0'' @
     ''1c99445cf70539613357bf7770d2e9780abf080531bfdc8cc1e74171f7c43eb5'' @ ''f888f842a0'' @
     ''2099209289cdb7e5087d0401996d2fd9b52ce5cae39c547a039f126371a7f9bc'' @ ''a0'' @
     ''26139d9d30188c9d52468ce9dfb48c39d552243611d5b270f5497c2b8692c696'' @ ''f842a0'' @
     ''2b2dabbf32c0cb551d3ba9159ae5c985ebcd71d79b00fabd26a74d618065bfd6'' @ ''a0'' @
     ''1bef832bd3efaea9f61c0582fb123bb547546f0c5910a9dda96bcd0063d57a02'' @ ''f888f842a0'' @
     ''21a96430d1ee4b86b3dd912911a5a0128793f5d17242b49af0963126281656b2'' @ ''a0'' @
     ''2c138443b35d1038b341db4d3e3883efa7b335c91768c2796b852d3e747a2f3f'' @ ''f842a0'' @
     ''2517000c28dda7a87164dccc0cd1829bdd6014f5a020297f3cbed3993ce2107c'' @ ''a0'' @
     ''22591d582daa491dba1642862e37218d71d3492fa9ba22fec5347f22d72ae389'' @ ''f842a0'' @
     ''102d793353afc14a8c4faf4df2d013db0c8c03d0f00028a5f142182b8b13359c'' @ ''a0'' @
     ''29bb1669d1a25dbbd48b5de886200d3e8e01d40c1405c51f79d952f9cb540833'' @ ''c20705c20805c6c28001c28080820001'' @
     ''c001a00a05ee1c9e4e50490109af4853b1fe2d2822626159'' @ ''44260233b39cf513ab98bca00335594224e7c236c1651b9f'' @
     ''afb49f68299906c8c51a3512a7190f2ebb5d8059''"

definition ALTDA_COMMITMENT_BYTES_3 :: string where
  "ALTDA_COMMITMENT_BYTES_3 =
     ''0x'' @ ''010002f903eee5a0'' @ ''98eb692e5d190ff4458583187f335be454e47df2912152fe1200c9c3505ac420'' @
     ''8391631bf901cef901c9f9018180820001f90159f842a0'' @
     ''0b24de07075954f38be4b14a6321d98cbbc07fc19737263774c763fb900cc7e4'' @ ''a0'' @
     ''1a76894605331379abaf50fdff37828c6cbe638ebe5376eaa4c250e053328fa2'' @ ''f888f842a0'' @
     ''09f7e88880c8e646cd234a162fc07dd5dd298092a714e9b5c8f2f473ca1afa56'' @ ''a0'' @
     ''176c98504ed52e2dbc8fec1d1cd2c19f1f7d4c4a0d5584e479ce1034a571305d'' @ ''f842a0'' @
     ''18135e9b7e4a1821ad2607a3cdc801b2a4cb1c9d641767428e8bc96f4a9c77be'' @ ''a0'' @
     ''0eba497b2195b825b817876f24c08d11ae30f6712c9d19255ec8d2a10b970c68'' @ ''f888f842a0'' @
     ''08e8f0db2324bdfef9af18c94a7aab5d68e5a485728281a5276b6519b5e99e83'' @ ''a0'' @
     ''0d1d6a357bb7baa967608929c192da0e15086b44e8557c672bd0f82763d0a43a'' @ ''f842a0'' @
     ''02c20947d2e8628096d5ac30f0a48200f43960789064fe2f5c7c0b0e0c867a64'' @ ''a0'' @
     ''22b1240ea86dec625bb4a6db9c31769b7d7a894c4d2db565d5f215afaa8de110'' @ ''08a0'' @
     ''5f5f8a015a8ea873f35b68b5c829b2d8cb966785e50fb77b89da4dc177008f68'' @ ''b841'' @
     ''9dadf3f532d1ed8a986d5091476945242710d9ee38ed6aa91472ad8c37170d8820fb9b0d59b3ee08b1a5a9ed8c3c4728b5a9dbf74104cec747e7ff43ae42be8600'' @
     ''c1808080f901f1c28001f887f8419f'' @ ''9a9a3504786f979f4011c180069d0127599773df85c02f550c8bcd4336d150'' @
     ''a0'' @ ''2bf5de7c6791a70185eb0eef04661bbf6f3596569843dbd9172eea27ad484249'' @ ''f842a0'' @
     ''2b1528a6792412f62e605d184a86c5831f5eb62fe8b8a55ab734379af46ecd10'' @ ''a0'' @
     ''1c99445cf70539613357bf7770d2e9780abf080531bfdc8cc1e74171f7c43eb5'' @ ''f888f842a0'' @
     ''2099209289cdb7e5087d0401996d2fd9b52ce5cae39c547a039f126371a7f9bc'' @ ''a0'' @
     ''26139d9d30188c9d52468ce9dfb48c39d552243611d5b270f5497c2b8692c696'' @ ''f842a0'' @
     ''2b2dabbf32c0cb551d3ba9159ae5c985ebcd71d79b00fabd26a74d618065bfd6'' @ ''a0'' @
     ''1bef832bd3efaea9f61c0582fb123bb547546f0c5910a9dda96bcd0063d57a02'' @ ''f888f842a0'' @
     ''21a96430d1ee4b86b3dd912911a5a0128793f5d17242b49af0963126281656b2'' @ ''a0'' @
     ''2c138443b35d1038b341db4d3e3883efa7b335c91768c2796b852d3e747a2f3f'' @ ''f842a0'' @
     ''2517000c28dda7a87164dccc0cd1829bdd6014f5a020297f3cbed3993ce2107c'' @ ''a0'' @
     ''22591d582daa491dba1642862e37218d71d3492fa9ba22fec5347f22d72ae389'' @ ''f842a0'' @
     ''102d793353afc14a8c4faf4df2d013db0c8c03d0f00028a5f142182b8b13359c'' @ ''a0'' @
     ''29bb1669d1a25dbbd48b5de886200d3e8e01d40c1405c51f79d952f9cb540833'' @ ''c20705c20805c6c28001c28080820001''"

definition ENCODED_PAYLOAD_3 :: string where
  "ENCODED_PAYLOAD_3 =
     ''00000000009d'' @ ''0000000000000000000000000000000000000000000000000000'' @ ''00'' @
     ''00507e76bda9280c0c5571a765a841e93b000000000085011b6901f83f14d8'' @ ''00'' @
     ''c6b493fad51647317c089e5d748df8fb056c31e9b3bae60933979fbbbfa227'' @ ''00'' @
     ''79d4cef288030b6e1e51e4615b54cb5a4041c05f7e128071b6208854d03600'' @ ''00'' @
     ''0214d4017e83865a24ac735f375282ca4b51dbe044c0a6cdca01125223b4b2'' @ ''00'' @
     ''7573b0e5fb49d62b85df33fcef32d1ebd576d29ba2094d0167191834945c39'' @ ''00'' @ ''0401'' @
     ''0000000000000000000000000000000000000000000000000000000000'' @ ''00'' @
     ''00000000000000000000000000000000000000000000000000000000000000''"

text \<open>The V2 commitment of \<open>eigenda_preimage.rs\<close>, after its derivation version byte.\<close>

definition CALLDATA_HEX :: string where
  "CALLDATA_HEX =
     ''0x'' @ ''01010001f9035ef901cdf901c8f9018080820001f90158f842a0'' @
     ''13cb9a6e004f28a193672a95b2ee4a2addc14bfe705eb3c1695f34dccfdf4d7f'' @ ''a0'' @
     ''1de675df78f68e6f40643f148b7dcf7b30e7bbb5ec5ed66efcf82e02a148b45e'' @ ''f888f842a0'' @
     ''0ca1a4b18243aed65a6887cb3da7ab7a9b8138261ad5fa7a7ef61fcf45ad0f77'' @ ''a0'' @
     ''12969add06ec97e0b24ef9f69633114966952c02150f8bb28a55a5fac60c7644'' @ ''f842a0'' @
     ''0c137feb7cf2cf625b826eebd5a1ffd400446e03336c6ff07061b7a9adc32376'' @ ''a0'' @
     ''0cd9277cc3e8c2a6c896c4e7c045504d1cff34ec9e8a6648e8ef4f335ae5b943'' @ ''f887f842a0'' @
     ''2b977c12979aed6688323f70e2d5ca9e2640fe14bf0a5e26ddfac95134d9c09e'' @ ''a0'' @
     ''2c204a0405fb9c3cb890219c6fccff0a9a265415656c5896449884c6a64caede'' @ ''f841a0'' @
     ''0104c001661c0169aac0fb16db9f30b70f8e13da88c539904b61895d3494c788'' @ ''9f'' @
     ''ca145e3f25f772c7e951708a541d8d14bb923edea351eeb0bbc928ae5b7985'' @ ''08a0'' @
     ''676a73762570ea5c17427aed9db14a85b268fafc282cbbe0c3db9165487133c9'' @ ''b841'' @
     ''18cf5bd976613bb6a63009b15613d137f2555d2418da654a11781ac2cf5bf2fb63d44a580d2f15628f4b1cdb9526e1f774360b8ef2e5e451f18a80411d06b42b01'' @
     ''c1808080e5a0'' @ ''5e27869d58bd1fe21f34d0e9120abe775896df7c0829cf4d870f576f188cbe30'' @
     ''838a8d05f90162c0c0f888f842a0'' @ ''2099209289cdb7e5087d0401996d2fd9b52ce5cae39c547a039f126371a7f9bc'' @
     ''a0'' @ ''26139d9d30188c9d52468ce9dfb48c39d552243611d5b270f5497c2b8692c696'' @ ''f842a0'' @
     ''2b2dabbf32c0cb551d3ba9159ae5c985ebcd71d79b00fabd26a74d618065bfd6'' @ ''a0'' @
     ''1bef832bd3efaea9f61c0582fb123bb547546f0c5910a9dda96bcd0063d57a02'' @ ''f888f842a0'' @
     ''27b90b5da16ef02417ad5820223e680d2c2d19a3f1d30566cfbb7b9aa30abf6d'' @ ''a0'' @
     ''22432d9b57d271b8dd84bfb4ccd9df36b84e422cb471b35d50d55ae83a03f16e'' @ ''f842a0'' @
     ''018ed79d6c0707cc6f4ec81bcea6c4cc0096f0e3635961caf3271c3c9a36a9df'' @ ''a0'' @
     ''179360dc4646a7c49bf730e1789c00622facd7836faa3c747be0f2d824cb1412'' @ ''f841a0'' @
     ''2147a377c426a6b91bd27342dfe180882d130d9fbbdcb147477f025082135c18'' @ ''9f'' @
     ''468884960c4e83243b3aeb52ef2eb017fa81ec4b98f63bedc7c1dc27ec0bfe'' @ ''c20705c20805c2c0c0820001''"

section \<open>The certificates and payloads\<close>

definition sepolia_commitment_1 :: BlobCommitment where
  "sepolia_commitment_1 =
     \<lparr> bc_commitment = \<lparr> g1_x = 0x2f79ec81c41b992e9dec0c96fe5d970657bd5699560b1eaca902b6d8d95b69d9,
         g1_y = 0x14aee8fa5e2bd3a23ce376c537248acce7c29a74962218a4cc19c483d962dcf7 \<rparr>,
       bc_length_commitment = \<lparr> g2_x = Fp2 0x1c4c0eec183bf264a5b96b2ddc64e400a3f03752fb9d4296f3b4729e237ea40d
             0x1303695a7e9cba15f6ecb2e5da94826c94e557d94a491b61b42e2fb577bf5983,
         g2_y = Fp2 0xc4bb24f65dd9d63401f8fb5aa680c36c3a18c06996511ce14544d77bc3659bb
             0x1a201aef9dceb92540f58243194aeae5c4b5953dddf17925c5a56bcb57ec19ad \<rparr>,
       bc_length_proof = \<lparr> g2_x = Fp2 0x2a71a11141df9d0a5158602444003491763859afb77b1566a3eabafc162d4617
             0x27bfbe487a7507ab70b6b42433850f8b7be21ab2c268f415cb68608506da9114,
         g2_y = Fp2 0x13002e07d4f2259193d9aa06a01866dc527221d65cc5c49c4c05cfc281d873c1
             0x2d47dba83902698378718ab5c589eb9c7daa5f9641a5ce160f112bc65b402273 \<rparr>,
       bc_length = 0x8 \<rparr>"

definition sepolia_blob_1 :: BlobCertificate where
  "sepolia_blob_1 =
     \<lparr> bcert_blob_header =
         \<lparr> bh_version = 0, bh_quorum_numbers = [0, 1], bh_commitment = sepolia_commitment_1,
           bh_payment_header_hash = 0x731bd6915a6ccea1380db7f0695ad67ee03bfbd59ac8c7976ee25f7ec9515037 \<rparr>,
       bcert_signature =
         nat_be 65 0x4cd74a3034296d0e2d63ce879dbe578e0715c29fd388c9babb38bd99ef45c64d548d60eec508758c6101b4b01ff2b65ff503fa485a8035a54edd1bc71d84430e00,
       bcert_relay_keys = [0] \<rparr>"

definition sepolia_inclusion_1 :: BlobInclusionInfo where
  "sepolia_inclusion_1 =
     \<lparr> bii_blob_certificate = sepolia_blob_1, bii_blob_index = 0,
       bii_inclusion_proof =
         [] \<rparr>"

definition sepolia_batch_1 :: BatchHeaderV2 where
  "sepolia_batch_1 =
     \<lparr> bat_batch_root = 0x4c617ac0dcf14f58a1d58e80c9902e2c199474989563dc59566d5bd5ad1b640a,
       bat_reference_block_number = 9300876 \<rparr>"

definition sepolia_signatures_1 :: NonSignerStakesAndSignature where
  "sepolia_signatures_1 =
     \<lparr> ns_non_signer_quorum_bitmap_indices = [1, 0, 0, 0],
       ns_non_signer_pubkeys =
         [\<lparr> g1_x = 0x1cd040b326ae7cd372763fafb595470d3613f6fb3d824582bf02edcb735ccb0f,
            g1_y = 0x17bbe7ebc3167abad8710ecd335b37a1b63d1f0119569bcf3f84d2125810a294 \<rparr>,
          \<lparr> g1_x = 0x297ac518058025f67f0c0cc4d735965f242540ddbf998491e5b66a5c9d56c712,
            g1_y = 0xdc76d3bfe805d8ad41c96a5d3696ecd22c44049057fbb2b2f3e0c204f5dd745 \<rparr>,
          \<lparr> g1_x = 0x9a9a3504786f979f4011c180069d0127599773df85c02f550c8bcd4336d150,
            g1_y = 0x2bf5de7c6791a70185eb0eef04661bbf6f3596569843dbd9172eea27ad484249 \<rparr>,
          \<lparr> g1_x = 0x20304749b8c2e65c4a82035cf1c559ea8b8d7ab9a94b6dc7d4b79299be445ae9,
            g1_y = 0x2b4d5e4ecb245d94af3d6c279c1a86fb452401355be715ac4887fcdcf7642ce4 \<rparr>],
       ns_quorum_apks =
         [\<lparr> g1_x = 0x2099209289cdb7e5087d0401996d2fd9b52ce5cae39c547a039f126371a7f9bc,
            g1_y = 0x26139d9d30188c9d52468ce9dfb48c39d552243611d5b270f5497c2b8692c696 \<rparr>,
          \<lparr> g1_x = 0x2b2dabbf32c0cb551d3ba9159ae5c985ebcd71d79b00fabd26a74d618065bfd6,
            g1_y = 0x1bef832bd3efaea9f61c0582fb123bb547546f0c5910a9dda96bcd0063d57a02 \<rparr>],
       ns_apk_g2 = \<lparr> g2_x = Fp2 0x171e10f7d012c823ceb26e40245a97375804a82ca8f92e0dd49fc5f76c3b093e
             0x28946cc01b7092bb709a72c07184d84821125632337d4c8f9a063afcefdc57c0,
         g2_y = Fp2 0xdf37a0480625fa5ab86d78e4664d2bacfed6c4e7562956bfc95f2b9efd1977c
             0x121ae7669b68221699c6b4eb057acbf2e58d4fb4b4da7aa5e4deaaac513f6ce0 \<rparr>,
       ns_sigma = \<lparr> g1_x = 0x1abcc37d2cbe680d5d6d3ebeddc3f5b09f103e2fa3a20a887c573f2ac5ab6e36,
         g1_y = 0x1a23d0ac964f04643eb3206db5a81e678fc484f362d3c7442657735e678298c3 \<rparr>,
       ns_quorum_apk_indices = [0x7, 0x5], ns_total_stake_indices = [0x8, 0x5],
       ns_non_signer_stake_indices = [[1, 0, 0], [0, 0, 0, 0]] \<rparr>"

definition sepolia_cert_1 :: EigenDACertV3 where
  "sepolia_cert_1 =
     \<lparr> v3_batch_header_v2 = sepolia_batch_1, v3_blob_inclusion_info = sepolia_inclusion_1,
       v3_nonsigner_stake_and_signature = sepolia_signatures_1, v3_signed_quorum_numbers = [0, 1] \<rparr>"

definition sepolia_1 :: AltDACommitment where
  "sepolia_1 = \<lparr> commitment_type = 1, da_layer_byte = 0, versioned_cert = V3 sepolia_cert_1 \<rparr>"

lemmas sepolia_1_fields = sepolia_cert_1_def sepolia_inclusion_1_def sepolia_blob_1_def
  sepolia_commitment_1_def sepolia_batch_1_def sepolia_signatures_1_def

definition sepolia_commitment_2 :: BlobCommitment where
  "sepolia_commitment_2 =
     \<lparr> bc_commitment = \<lparr> g1_x = 0x8d79f9a46a4183f1d64c45fdedc36be33efc4cd27ffc9f85ac02987c2a5dddc,
         g1_y = 0x4df46272276ced58d65a56b9a6dfa24102f066d3f0bba07e35992ede22aa4bc \<rparr>,
       bc_length_commitment = \<lparr> g2_x = Fp2 0x18fe73cb24305b7df1fc808f65c15d0f7921758cef87d9f38d31db4236eb9f4
             0x1125fd3aa13adb27759b01c954dd641ad2174374f8e4cb3333970eda9fa011ec,
         g2_y = Fp2 0xa0dd6223eed09f283a20429a7e03449c7d38b4fe674913c67e0f02d16949a41
             0xf52bab320eeb037ad223e361512350e35e373c79cf7f2ba1ec2aa036b49adbe \<rparr>,
       bc_length_proof = \<lparr> g2_x = Fp2 0x2ecf0e30ff9ce9696c6c1ce5c341bfdfb56f589d3da7925fe54ee43a6667a09a
             0x23a35883de2716167810bfca0c14af9530321908c4b78b572e9308161bb2d402,
         g2_y = Fp2 0x1fd1844a0e0f37f3c9edc39d0e14c8a4214afa7b017843dba1f467c8765df23f
             0x4a01126fe1d6b57d7b985c61a3cb9a57f6c2e86d4dd0da956ad613bef0bcda7 \<rparr>,
       bc_length = 0x8 \<rparr>"

definition sepolia_blob_2 :: BlobCertificate where
  "sepolia_blob_2 =
     \<lparr> bcert_blob_header =
         \<lparr> bh_version = 0, bh_quorum_numbers = [0, 1], bh_commitment = sepolia_commitment_2,
           bh_payment_header_hash = 0xfeeb6796b97a3f0179ef436770791068b9fdc15866f53af08f6d649083952e \<rparr>,
       bcert_signature =
         nat_be 65 0xaf27b4b47fd17adb76d6bb38831a19df88ee027ceaf22c88d846daff41ce2c7e5a814c8d0aa8034d1626e00d1c711087f412d4ccb35cacb0d490fbaa582493cb01,
       bcert_relay_keys = [0] \<rparr>"

definition sepolia_inclusion_2 :: BlobInclusionInfo where
  "sepolia_inclusion_2 =
     \<lparr> bii_blob_certificate = sepolia_blob_2, bii_blob_index = 0,
       bii_inclusion_proof =
         [] \<rparr>"

definition sepolia_batch_2 :: BatchHeaderV2 where
  "sepolia_batch_2 =
     \<lparr> bat_batch_root = 0x79b1d7d15095ff732f8443d96b6d293494b003e9b4377ac1c51375908afb2e9e,
       bat_reference_block_number = 9528135 \<rparr>"

definition sepolia_signatures_2 :: NonSignerStakesAndSignature where
  "sepolia_signatures_2 =
     \<lparr> ns_non_signer_quorum_bitmap_indices = [],
       ns_non_signer_pubkeys =
         [],
       ns_quorum_apks =
         [\<lparr> g1_x = 0x2099209289cdb7e5087d0401996d2fd9b52ce5cae39c547a039f126371a7f9bc,
            g1_y = 0x26139d9d30188c9d52468ce9dfb48c39d552243611d5b270f5497c2b8692c696 \<rparr>,
          \<lparr> g1_x = 0x2b2dabbf32c0cb551d3ba9159ae5c985ebcd71d79b00fabd26a74d618065bfd6,
            g1_y = 0x1bef832bd3efaea9f61c0582fb123bb547546f0c5910a9dda96bcd0063d57a02 \<rparr>],
       ns_apk_g2 = \<lparr> g2_x = Fp2 0x27b90b5da16ef02417ad5820223e680d2c2d19a3f1d30566cfbb7b9aa30abf6d
             0x22432d9b57d271b8dd84bfb4ccd9df36b84e422cb471b35d50d55ae83a03f16e,
         g2_y = Fp2 0x18ed79d6c0707cc6f4ec81bcea6c4cc0096f0e3635961caf3271c3c9a36a9df
             0x179360dc4646a7c49bf730e1789c00622facd7836faa3c747be0f2d824cb1412 \<rparr>,
       ns_sigma = \<lparr> g1_x = 0x29273db955f9532f7b1ffe0eead7b85ac277534c892f73f0d9cf4403be36b5c6,
         g1_y = 0x22895e02ab90d618987ee5bf2818c93b9c5fac931d2af2b42a2d207c9d3d4966 \<rparr>,
       ns_quorum_apk_indices = [0x7, 0x5], ns_total_stake_indices = [0x8, 0x5],
       ns_non_signer_stake_indices = [[], []] \<rparr>"

definition sepolia_cert_2 :: EigenDACertV3 where
  "sepolia_cert_2 =
     \<lparr> v3_batch_header_v2 = sepolia_batch_2, v3_blob_inclusion_info = sepolia_inclusion_2,
       v3_nonsigner_stake_and_signature = sepolia_signatures_2, v3_signed_quorum_numbers = [0, 1] \<rparr>"

definition sepolia_2 :: AltDACommitment where
  "sepolia_2 = \<lparr> commitment_type = 1, da_layer_byte = 0, versioned_cert = V3 sepolia_cert_2 \<rparr>"

lemmas sepolia_2_fields = sepolia_cert_2_def sepolia_inclusion_2_def sepolia_blob_2_def
  sepolia_commitment_2_def sepolia_batch_2_def sepolia_signatures_2_def

definition sepolia_commitment_3 :: BlobCommitment where
  "sepolia_commitment_3 =
     \<lparr> bc_commitment = \<lparr> g1_x = 0xb24de07075954f38be4b14a6321d98cbbc07fc19737263774c763fb900cc7e4,
         g1_y = 0x1a76894605331379abaf50fdff37828c6cbe638ebe5376eaa4c250e053328fa2 \<rparr>,
       bc_length_commitment = \<lparr> g2_x = Fp2 0x9f7e88880c8e646cd234a162fc07dd5dd298092a714e9b5c8f2f473ca1afa56
             0x176c98504ed52e2dbc8fec1d1cd2c19f1f7d4c4a0d5584e479ce1034a571305d,
         g2_y = Fp2 0x18135e9b7e4a1821ad2607a3cdc801b2a4cb1c9d641767428e8bc96f4a9c77be
             0xeba497b2195b825b817876f24c08d11ae30f6712c9d19255ec8d2a10b970c68 \<rparr>,
       bc_length_proof = \<lparr> g2_x = Fp2 0x8e8f0db2324bdfef9af18c94a7aab5d68e5a485728281a5276b6519b5e99e83
             0xd1d6a357bb7baa967608929c192da0e15086b44e8557c672bd0f82763d0a43a,
         g2_y = Fp2 0x2c20947d2e8628096d5ac30f0a48200f43960789064fe2f5c7c0b0e0c867a64
             0x22b1240ea86dec625bb4a6db9c31769b7d7a894c4d2db565d5f215afaa8de110 \<rparr>,
       bc_length = 0x8 \<rparr>"

definition sepolia_blob_3 :: BlobCertificate where
  "sepolia_blob_3 =
     \<lparr> bcert_blob_header =
         \<lparr> bh_version = 0, bh_quorum_numbers = [0, 1], bh_commitment = sepolia_commitment_3,
           bh_payment_header_hash = 0x5f5f8a015a8ea873f35b68b5c829b2d8cb966785e50fb77b89da4dc177008f68 \<rparr>,
       bcert_signature =
         nat_be 65 0x9dadf3f532d1ed8a986d5091476945242710d9ee38ed6aa91472ad8c37170d8820fb9b0d59b3ee08b1a5a9ed8c3c4728b5a9dbf74104cec747e7ff43ae42be8600,
       bcert_relay_keys = [0] \<rparr>"

definition sepolia_inclusion_3 :: BlobInclusionInfo where
  "sepolia_inclusion_3 =
     \<lparr> bii_blob_certificate = sepolia_blob_3, bii_blob_index = 0,
       bii_inclusion_proof =
         [] \<rparr>"

definition sepolia_batch_3 :: BatchHeaderV2 where
  "sepolia_batch_3 =
     \<lparr> bat_batch_root = 0x98eb692e5d190ff4458583187f335be454e47df2912152fe1200c9c3505ac420,
       bat_reference_block_number = 9528091 \<rparr>"

definition sepolia_signatures_3 :: NonSignerStakesAndSignature where
  "sepolia_signatures_3 =
     \<lparr> ns_non_signer_quorum_bitmap_indices = [0, 1],
       ns_non_signer_pubkeys =
         [\<lparr> g1_x = 0x9a9a3504786f979f4011c180069d0127599773df85c02f550c8bcd4336d150,
            g1_y = 0x2bf5de7c6791a70185eb0eef04661bbf6f3596569843dbd9172eea27ad484249 \<rparr>,
          \<lparr> g1_x = 0x2b1528a6792412f62e605d184a86c5831f5eb62fe8b8a55ab734379af46ecd10,
            g1_y = 0x1c99445cf70539613357bf7770d2e9780abf080531bfdc8cc1e74171f7c43eb5 \<rparr>],
       ns_quorum_apks =
         [\<lparr> g1_x = 0x2099209289cdb7e5087d0401996d2fd9b52ce5cae39c547a039f126371a7f9bc,
            g1_y = 0x26139d9d30188c9d52468ce9dfb48c39d552243611d5b270f5497c2b8692c696 \<rparr>,
          \<lparr> g1_x = 0x2b2dabbf32c0cb551d3ba9159ae5c985ebcd71d79b00fabd26a74d618065bfd6,
            g1_y = 0x1bef832bd3efaea9f61c0582fb123bb547546f0c5910a9dda96bcd0063d57a02 \<rparr>],
       ns_apk_g2 = \<lparr> g2_x = Fp2 0x21a96430d1ee4b86b3dd912911a5a0128793f5d17242b49af0963126281656b2
             0x2c138443b35d1038b341db4d3e3883efa7b335c91768c2796b852d3e747a2f3f,
         g2_y = Fp2 0x2517000c28dda7a87164dccc0cd1829bdd6014f5a020297f3cbed3993ce2107c
             0x22591d582daa491dba1642862e37218d71d3492fa9ba22fec5347f22d72ae389 \<rparr>,
       ns_sigma = \<lparr> g1_x = 0x102d793353afc14a8c4faf4df2d013db0c8c03d0f00028a5f142182b8b13359c,
         g1_y = 0x29bb1669d1a25dbbd48b5de886200d3e8e01d40c1405c51f79d952f9cb540833 \<rparr>,
       ns_quorum_apk_indices = [0x7, 0x5], ns_total_stake_indices = [0x8, 0x5],
       ns_non_signer_stake_indices = [[0, 1], [0, 0]] \<rparr>"

definition sepolia_cert_3 :: EigenDACertV3 where
  "sepolia_cert_3 =
     \<lparr> v3_batch_header_v2 = sepolia_batch_3, v3_blob_inclusion_info = sepolia_inclusion_3,
       v3_nonsigner_stake_and_signature = sepolia_signatures_3, v3_signed_quorum_numbers = [0, 1] \<rparr>"

definition sepolia_3 :: AltDACommitment where
  "sepolia_3 = \<lparr> commitment_type = 1, da_layer_byte = 0, versioned_cert = V3 sepolia_cert_3 \<rparr>"

lemmas sepolia_3_fields = sepolia_cert_3_def sepolia_inclusion_3_def sepolia_blob_3_def
  sepolia_commitment_3_def sepolia_batch_3_def sepolia_signatures_3_def

definition sepolia_commitment_v2 :: BlobCommitment where
  "sepolia_commitment_v2 =
     \<lparr> bc_commitment = \<lparr> g1_x = 0x13cb9a6e004f28a193672a95b2ee4a2addc14bfe705eb3c1695f34dccfdf4d7f,
         g1_y = 0x1de675df78f68e6f40643f148b7dcf7b30e7bbb5ec5ed66efcf82e02a148b45e \<rparr>,
       bc_length_commitment = \<lparr> g2_x = Fp2 0xca1a4b18243aed65a6887cb3da7ab7a9b8138261ad5fa7a7ef61fcf45ad0f77
             0x12969add06ec97e0b24ef9f69633114966952c02150f8bb28a55a5fac60c7644,
         g2_y = Fp2 0xc137feb7cf2cf625b826eebd5a1ffd400446e03336c6ff07061b7a9adc32376
             0xcd9277cc3e8c2a6c896c4e7c045504d1cff34ec9e8a6648e8ef4f335ae5b943 \<rparr>,
       bc_length_proof = \<lparr> g2_x = Fp2 0x2b977c12979aed6688323f70e2d5ca9e2640fe14bf0a5e26ddfac95134d9c09e
             0x2c204a0405fb9c3cb890219c6fccff0a9a265415656c5896449884c6a64caede,
         g2_y = Fp2 0x104c001661c0169aac0fb16db9f30b70f8e13da88c539904b61895d3494c788
             0xca145e3f25f772c7e951708a541d8d14bb923edea351eeb0bbc928ae5b7985 \<rparr>,
       bc_length = 0x8 \<rparr>"

definition sepolia_blob_v2 :: BlobCertificate where
  "sepolia_blob_v2 =
     \<lparr> bcert_blob_header =
         \<lparr> bh_version = 0, bh_quorum_numbers = [0, 1], bh_commitment = sepolia_commitment_v2,
           bh_payment_header_hash = 0x676a73762570ea5c17427aed9db14a85b268fafc282cbbe0c3db9165487133c9 \<rparr>,
       bcert_signature =
         nat_be 65 0x18cf5bd976613bb6a63009b15613d137f2555d2418da654a11781ac2cf5bf2fb63d44a580d2f15628f4b1cdb9526e1f774360b8ef2e5e451f18a80411d06b42b01,
       bcert_relay_keys = [0] \<rparr>"

definition sepolia_inclusion_v2 :: BlobInclusionInfo where
  "sepolia_inclusion_v2 =
     \<lparr> bii_blob_certificate = sepolia_blob_v2, bii_blob_index = 0,
       bii_inclusion_proof =
         [] \<rparr>"

definition sepolia_batch_v2 :: BatchHeaderV2 where
  "sepolia_batch_v2 =
     \<lparr> bat_batch_root = 0x5e27869d58bd1fe21f34d0e9120abe775896df7c0829cf4d870f576f188cbe30,
       bat_reference_block_number = 9080069 \<rparr>"

definition sepolia_signatures_v2 :: NonSignerStakesAndSignature where
  "sepolia_signatures_v2 =
     \<lparr> ns_non_signer_quorum_bitmap_indices = [],
       ns_non_signer_pubkeys =
         [],
       ns_quorum_apks =
         [\<lparr> g1_x = 0x2099209289cdb7e5087d0401996d2fd9b52ce5cae39c547a039f126371a7f9bc,
            g1_y = 0x26139d9d30188c9d52468ce9dfb48c39d552243611d5b270f5497c2b8692c696 \<rparr>,
          \<lparr> g1_x = 0x2b2dabbf32c0cb551d3ba9159ae5c985ebcd71d79b00fabd26a74d618065bfd6,
            g1_y = 0x1bef832bd3efaea9f61c0582fb123bb547546f0c5910a9dda96bcd0063d57a02 \<rparr>],
       ns_apk_g2 = \<lparr> g2_x = Fp2 0x27b90b5da16ef02417ad5820223e680d2c2d19a3f1d30566cfbb7b9aa30abf6d
             0x22432d9b57d271b8dd84bfb4ccd9df36b84e422cb471b35d50d55ae83a03f16e,
         g2_y = Fp2 0x18ed79d6c0707cc6f4ec81bcea6c4cc0096f0e3635961caf3271c3c9a36a9df
             0x179360dc4646a7c49bf730e1789c00622facd7836faa3c747be0f2d824cb1412 \<rparr>,
       ns_sigma = \<lparr> g1_x = 0x2147a377c426a6b91bd27342dfe180882d130d9fbbdcb147477f025082135c18,
         g1_y = 0x468884960c4e83243b3aeb52ef2eb017fa81ec4b98f63bedc7c1dc27ec0bfe \<rparr>,
       ns_quorum_apk_indices = [0x7, 0x5], ns_total_stake_indices = [0x8, 0x5],
       ns_non_signer_stake_indices = [[], []] \<rparr>"

definition sepolia_cert_v2 :: EigenDACertV2 where
  "sepolia_cert_v2 =
     \<lparr> v2_blob_inclusion_info = sepolia_inclusion_v2, v2_batch_header_v2 = sepolia_batch_v2,
       v2_nonsigner_stake_and_signature = sepolia_signatures_v2, v2_signed_quorum_numbers = [0, 1] \<rparr>"

definition sepolia_v2 :: AltDACommitment where
  "sepolia_v2 = \<lparr> commitment_type = 1, da_layer_byte = 0, versioned_cert = V2 sepolia_cert_v2 \<rparr>"

lemmas sepolia_v2_fields = sepolia_cert_v2_def sepolia_inclusion_v2_def sepolia_blob_v2_def
  sepolia_commitment_v2_def sepolia_batch_v2_def sepolia_signatures_v2_def

definition sepolia_payload_1 :: bytes where
  "sepolia_payload_1 =
     nat_be 31 0x00ab80c99f814a3541886f8f4a65f61b67000000000079011b6501f88f532c @
     nat_be 31 0x998d4648d239b1ce87da27450caaab705a5c8412149720e6dd229a4b97d256 @
     nat_be 31 0xca7222a7ae434145a5d1440229000106a45bd00f3e0e33b07a5c23ad927eaa @
     nat_be 31 0xf98a77e7818ff59e2c3b2c03d5ffaeb6dba4cb08b9fa2d122e8acbe726c4a7 @
     [9, 174, 8, 100, 150, 224, 211, 172, 0, 215, 4, 56, 192, 52, 225, 241, 49, 75, 112, 192, 1]"

definition sepolia_payload_2 :: bytes where
  "sepolia_payload_2 =
     nat_be 31 0x00bdcf2fd9b7d8767b4dff28e8fdba9a7200000000007d011b5e01f8bf1cc8 @
     nat_be 31 0x6b5bd7432114a72c3aac44bf6f9d30f86ca72f2ae64aa3a769a9e84d0d4ab5 @
     nat_be 31 0xe9e21b8dfff777693a3aaf83068082e7050b4c42007837016bf1b4266000e0 @
     nat_be 31 0x9a2b83da791a259074888d35115a378d560e902075e06065876d315ba365f1 @
     [75, 131, 39, 92, 34, 199, 68, 86, 15, 51, 137, 86, 30, 35, 89, 166, 95, 65, 80, 176, 177, 131, 122, 0, 1]"

definition sepolia_payload_3 :: bytes where
  "sepolia_payload_3 =
     nat_be 31 0x00507e76bda9280c0c5571a765a841e93b000000000085011b6901f83f14d8 @
     nat_be 31 0xc6b493fad51647317c089e5d748df8fb056c31e9b3bae60933979fbbbfa227 @
     nat_be 31 0x79d4cef288030b6e1e51e4615b54cb5a4041c05f7e128071b6208854d03600 @
     nat_be 31 0x0214d4017e83865a24ac735f375282ca4b51dbe044c0a6cdca01125223b4b2 @
     nat_be 31 0x7573b0e5fb49d62b85df33fcef32d1ebd576d29ba2094d0167191834945c39 @
     [4, 1]"

section \<open>The strings are the bytes of the certificates\<close>

lemma sepolia_bytes_1: "hex_decode ALTDA_COMMITMENT_BYTES_1 = Inr (to_rlp_bytes (eth_alloy keccak) sepolia_1)"
proof -
  have "to_rlp_bytes (eth_alloy keccak) sepolia_1 = 1 # 0 # 2 # rlp_encode (rlp_EigenDACertV3 sepolia_cert_1)"
    by (simp add: to_rlp_bytes_def sepolia_1_def eth_alloy_def)
  also have "Inr \<dots> = hex_decode ALTDA_COMMITMENT_BYTES_1"
    unfolding sepolia_1_fields
    by (simp add: rlp_fields, simp add: rlp_eval, simp only: ALTDA_COMMITMENT_BYTES_1_def hex_split,
        simp add: hex_rules del: hex_pairs.simps)
  finally show ?thesis by simp
qed

lemma sepolia_bytes_2: "hex_decode ALTDA_COMMITMENT_BYTES_2 = Inr (to_rlp_bytes (eth_alloy keccak) sepolia_2)"
proof -
  have "to_rlp_bytes (eth_alloy keccak) sepolia_2 = 1 # 0 # 2 # rlp_encode (rlp_EigenDACertV3 sepolia_cert_2)"
    by (simp add: to_rlp_bytes_def sepolia_2_def eth_alloy_def)
  also have "Inr \<dots> = hex_decode ALTDA_COMMITMENT_BYTES_2"
    unfolding sepolia_2_fields
    by (simp add: rlp_fields, simp add: rlp_eval, simp only: ALTDA_COMMITMENT_BYTES_2_def hex_split,
        simp add: hex_rules del: hex_pairs.simps)
  finally show ?thesis by simp
qed

lemma sepolia_bytes_3: "hex_decode ALTDA_COMMITMENT_BYTES_3 = Inr (to_rlp_bytes (eth_alloy keccak) sepolia_3)"
proof -
  have "to_rlp_bytes (eth_alloy keccak) sepolia_3 = 1 # 0 # 2 # rlp_encode (rlp_EigenDACertV3 sepolia_cert_3)"
    by (simp add: to_rlp_bytes_def sepolia_3_def eth_alloy_def)
  also have "Inr \<dots> = hex_decode ALTDA_COMMITMENT_BYTES_3"
    unfolding sepolia_3_fields
    by (simp add: rlp_fields, simp add: rlp_eval, simp only: ALTDA_COMMITMENT_BYTES_3_def hex_split,
        simp add: hex_rules del: hex_pairs.simps)
  finally show ?thesis by simp
qed

lemma sepolia_bytes_v2: "hex_decode CALLDATA_HEX = Inr (1 # to_rlp_bytes (eth_alloy keccak) sepolia_v2)"
proof -
  have "1 # to_rlp_bytes (eth_alloy keccak) sepolia_v2 = 1 # 1 # 0 # 1 # rlp_encode (rlp_EigenDACertV2 sepolia_cert_v2)"
    by (simp add: to_rlp_bytes_def sepolia_v2_def eth_alloy_def)
  also have "Inr \<dots> = hex_decode CALLDATA_HEX"
    unfolding sepolia_v2_fields
    by (simp add: rlp_fields, simp add: rlp_eval, simp only: CALLDATA_HEX_def hex_split,
        simp add: hex_rules del: hex_pairs.simps)
  finally show ?thesis by simp
qed

text \<open>The calldata of a transaction holds the commitment after a version byte.\<close>

lemma sepolia_calldata_1:
  "\<exists>a b. hex_decode CALLDATA_1 = Inr (a @ 1 # to_rlp_bytes (eth_alloy keccak) sepolia_1 @ b)"
proof (rule hex_decode_inside [OF sepolia_bytes_1 [unfolded ALTDA_COMMITMENT_BYTES_1_def]])
  show "CALLDATA_1 = ''0x'' @
    (''02f904f583aa36a78212f2843b9aca0084b2d05e00830105'' @
    ''7294000faef0a3d9711c3e9bbc4f3e2730dd75167da380b9'' @ ''0483'' @ ''01'') @
    (''010002f9047ce5a0'' @ ''4c617ac0dcf14f58a1d58e80c9902e2c199474989563dc59566d5bd5ad1b640a'' @
     ''838deb8cf901cef901c9f9018180820001f90159f842a0'' @
     ''2f79ec81c41b992e9dec0c96fe5d970657bd5699560b1eaca902b6d8d95b69d9'' @ ''a0'' @
     ''14aee8fa5e2bd3a23ce376c537248acce7c29a74962218a4cc19c483d962dcf7'' @ ''f888f842a0'' @
     ''1c4c0eec183bf264a5b96b2ddc64e400a3f03752fb9d4296f3b4729e237ea40d'' @ ''a0'' @
     ''1303695a7e9cba15f6ecb2e5da94826c94e557d94a491b61b42e2fb577bf5983'' @ ''f842a0'' @
     ''0c4bb24f65dd9d63401f8fb5aa680c36c3a18c06996511ce14544d77bc3659bb'' @ ''a0'' @
     ''1a201aef9dceb92540f58243194aeae5c4b5953dddf17925c5a56bcb57ec19ad'' @ ''f888f842a0'' @
     ''2a71a11141df9d0a5158602444003491763859afb77b1566a3eabafc162d4617'' @ ''a0'' @
     ''27bfbe487a7507ab70b6b42433850f8b7be21ab2c268f415cb68608506da9114'' @ ''f842a0'' @
     ''13002e07d4f2259193d9aa06a01866dc527221d65cc5c49c4c05cfc281d873c1'' @ ''a0'' @
     ''2d47dba83902698378718ab5c589eb9c7daa5f9641a5ce160f112bc65b402273'' @ ''08a0'' @
     ''731bd6915a6ccea1380db7f0695ad67ee03bfbd59ac8c7976ee25f7ec9515037'' @ ''b841'' @
     ''4cd74a3034296d0e2d63ce879dbe578e0715c29fd388c9babb38bd99ef45c64d548d60eec508758c6101b4b01ff2b65ff503fa485a8035a54edd1bc71d84430e00'' @
     ''c1808080f9027fc401808080f9010ff842a0'' @
     ''1cd040b326ae7cd372763fafb595470d3613f6fb3d824582bf02edcb735ccb0f'' @ ''a0'' @
     ''17bbe7ebc3167abad8710ecd335b37a1b63d1f0119569bcf3f84d2125810a294'' @ ''f842a0'' @
     ''297ac518058025f67f0c0cc4d735965f242540ddbf998491e5b66a5c9d56c712'' @ ''a0'' @
     ''0dc76d3bfe805d8ad41c96a5d3696ecd22c44049057fbb2b2f3e0c204f5dd745'' @ ''f8419f'' @
     ''9a9a3504786f979f4011c180069d0127599773df85c02f550c8bcd4336d150'' @ ''a0'' @
     ''2bf5de7c6791a70185eb0eef04661bbf6f3596569843dbd9172eea27ad484249'' @ ''f842a0'' @
     ''20304749b8c2e65c4a82035cf1c559ea8b8d7ab9a94b6dc7d4b79299be445ae9'' @ ''a0'' @
     ''2b4d5e4ecb245d94af3d6c279c1a86fb452401355be715ac4887fcdcf7642ce4'' @ ''f888f842a0'' @
     ''2099209289cdb7e5087d0401996d2fd9b52ce5cae39c547a039f126371a7f9bc'' @ ''a0'' @
     ''26139d9d30188c9d52468ce9dfb48c39d552243611d5b270f5497c2b8692c696'' @ ''f842a0'' @
     ''2b2dabbf32c0cb551d3ba9159ae5c985ebcd71d79b00fabd26a74d618065bfd6'' @ ''a0'' @
     ''1bef832bd3efaea9f61c0582fb123bb547546f0c5910a9dda96bcd0063d57a02'' @ ''f888f842a0'' @
     ''171e10f7d012c823ceb26e40245a97375804a82ca8f92e0dd49fc5f76c3b093e'' @ ''a0'' @
     ''28946cc01b7092bb709a72c07184d84821125632337d4c8f9a063afcefdc57c0'' @ ''f842a0'' @
     ''0df37a0480625fa5ab86d78e4664d2bacfed6c4e7562956bfc95f2b9efd1977c'' @ ''a0'' @
     ''121ae7669b68221699c6b4eb057acbf2e58d4fb4b4da7aa5e4deaaac513f6ce0'' @ ''f842a0'' @
     ''1abcc37d2cbe680d5d6d3ebeddc3f5b09f103e2fa3a20a887c573f2ac5ab6e36'' @ ''a0'' @
     ''1a23d0ac964f04643eb3206db5a81e678fc484f362d3c7442657735e678298c3'' @
     ''c20705c20805c9c3018080c480808080820001'') @
    ''c001a0445ab87abefec130d63733b3bcafc7ee0c0f8367e6'' @
    ''1b580be4f0cf0c3d21a03aa02d054c857c76e9dbf47d63d0'' @ ''b70b58200e14e9f9ba2eb47343c3b67faab93a72''"
    by (simp only: CALLDATA_1_def append_assoc)
qed (simp_all only: hex_split, simp_all add: hex_rules del: hex_pairs.simps)

lemma sepolia_calldata_2:
  "\<exists>a b. hex_decode CALLDATA_2 = Inr (a @ 1 # to_rlp_bytes (eth_alloy keccak) sepolia_2 @ b)"
proof (rule hex_decode_inside [OF sepolia_bytes_2 [unfolded ALTDA_COMMITMENT_BYTES_2_def]])
  show "CALLDATA_2 = ''0x'' @
    (''02f903d883aa36a78226a8843b9aca0084b2d05e0082d930'' @
    ''94000faef0a3d9711c3e9bbc4f3e2730dd75167da380b903'' @ ''67'' @ ''01'') @
    (''010002f90360e5a0'' @ ''79b1d7d15095ff732f8443d96b6d293494b003e9b4377ac1c51375908afb2e9e'' @
     ''83916347f901cef901c9f9018180820001f90159f842a0'' @
     ''08d79f9a46a4183f1d64c45fdedc36be33efc4cd27ffc9f85ac02987c2a5dddc'' @ ''a0'' @
     ''04df46272276ced58d65a56b9a6dfa24102f066d3f0bba07e35992ede22aa4bc'' @ ''f888f842a0'' @
     ''018fe73cb24305b7df1fc808f65c15d0f7921758cef87d9f38d31db4236eb9f4'' @ ''a0'' @
     ''1125fd3aa13adb27759b01c954dd641ad2174374f8e4cb3333970eda9fa011ec'' @ ''f842a0'' @
     ''0a0dd6223eed09f283a20429a7e03449c7d38b4fe674913c67e0f02d16949a41'' @ ''a0'' @
     ''0f52bab320eeb037ad223e361512350e35e373c79cf7f2ba1ec2aa036b49adbe'' @ ''f888f842a0'' @
     ''2ecf0e30ff9ce9696c6c1ce5c341bfdfb56f589d3da7925fe54ee43a6667a09a'' @ ''a0'' @
     ''23a35883de2716167810bfca0c14af9530321908c4b78b572e9308161bb2d402'' @ ''f842a0'' @
     ''1fd1844a0e0f37f3c9edc39d0e14c8a4214afa7b017843dba1f467c8765df23f'' @ ''a0'' @
     ''04a01126fe1d6b57d7b985c61a3cb9a57f6c2e86d4dd0da956ad613bef0bcda7'' @ ''08a0'' @
     ''00feeb6796b97a3f0179ef436770791068b9fdc15866f53af08f6d649083952e'' @ ''b841'' @
     ''af27b4b47fd17adb76d6bb38831a19df88ee027ceaf22c88d846daff41ce2c7e5a814c8d0aa8034d1626e00d1c711087f412d4ccb35cacb0d490fbaa582493cb01'' @
     ''c1808080f90163c0c0f888f842a0'' @
     ''2099209289cdb7e5087d0401996d2fd9b52ce5cae39c547a039f126371a7f9bc'' @ ''a0'' @
     ''26139d9d30188c9d52468ce9dfb48c39d552243611d5b270f5497c2b8692c696'' @ ''f842a0'' @
     ''2b2dabbf32c0cb551d3ba9159ae5c985ebcd71d79b00fabd26a74d618065bfd6'' @ ''a0'' @
     ''1bef832bd3efaea9f61c0582fb123bb547546f0c5910a9dda96bcd0063d57a02'' @ ''f888f842a0'' @
     ''27b90b5da16ef02417ad5820223e680d2c2d19a3f1d30566cfbb7b9aa30abf6d'' @ ''a0'' @
     ''22432d9b57d271b8dd84bfb4ccd9df36b84e422cb471b35d50d55ae83a03f16e'' @ ''f842a0'' @
     ''018ed79d6c0707cc6f4ec81bcea6c4cc0096f0e3635961caf3271c3c9a36a9df'' @ ''a0'' @
     ''179360dc4646a7c49bf730e1789c00622facd7836faa3c747be0f2d824cb1412'' @ ''f842a0'' @
     ''29273db955f9532f7b1ffe0eead7b85ac277534c892f73f0d9cf4403be36b5c6'' @ ''a0'' @
     ''22895e02ab90d618987ee5bf2818c93b9c5fac931d2af2b42a2d207c9d3d4966'' @ ''c20705c20805c2c0c0820001'') @
    ''c080a0d8bcdbee635bd0836d858f6da41e289529956b4637'' @
    ''00fa1a886eee4019e2a2c0a045f9ddd72ebf7c56766a0bb9'' @ ''fbcb234fa987859273a98df8ea9d5af199b494df''"
    by (simp only: CALLDATA_2_def append_assoc)
qed (simp_all only: hex_split, simp_all add: hex_rules del: hex_pairs.simps)

lemma sepolia_calldata_3:
  "\<exists>a b. hex_decode CALLDATA_3 = Inr (a @ 1 # to_rlp_bytes (eth_alloy keccak) sepolia_3 @ b)"
proof (rule hex_decode_inside [OF sepolia_bytes_3 [unfolded ALTDA_COMMITMENT_BYTES_3_def]])
  show "CALLDATA_3 = ''0x'' @
    (''02f9046683aa36a78226a7843b9aca0084b2d05e0082ef06'' @
    ''94000faef0a3d9711c3e9bbc4f3e2730dd75167da380b903'' @ ''f5'' @ ''01'') @
    (''010002f903eee5a0'' @ ''98eb692e5d190ff4458583187f335be454e47df2912152fe1200c9c3505ac420'' @
     ''8391631bf901cef901c9f9018180820001f90159f842a0'' @
     ''0b24de07075954f38be4b14a6321d98cbbc07fc19737263774c763fb900cc7e4'' @ ''a0'' @
     ''1a76894605331379abaf50fdff37828c6cbe638ebe5376eaa4c250e053328fa2'' @ ''f888f842a0'' @
     ''09f7e88880c8e646cd234a162fc07dd5dd298092a714e9b5c8f2f473ca1afa56'' @ ''a0'' @
     ''176c98504ed52e2dbc8fec1d1cd2c19f1f7d4c4a0d5584e479ce1034a571305d'' @ ''f842a0'' @
     ''18135e9b7e4a1821ad2607a3cdc801b2a4cb1c9d641767428e8bc96f4a9c77be'' @ ''a0'' @
     ''0eba497b2195b825b817876f24c08d11ae30f6712c9d19255ec8d2a10b970c68'' @ ''f888f842a0'' @
     ''08e8f0db2324bdfef9af18c94a7aab5d68e5a485728281a5276b6519b5e99e83'' @ ''a0'' @
     ''0d1d6a357bb7baa967608929c192da0e15086b44e8557c672bd0f82763d0a43a'' @ ''f842a0'' @
     ''02c20947d2e8628096d5ac30f0a48200f43960789064fe2f5c7c0b0e0c867a64'' @ ''a0'' @
     ''22b1240ea86dec625bb4a6db9c31769b7d7a894c4d2db565d5f215afaa8de110'' @ ''08a0'' @
     ''5f5f8a015a8ea873f35b68b5c829b2d8cb966785e50fb77b89da4dc177008f68'' @ ''b841'' @
     ''9dadf3f532d1ed8a986d5091476945242710d9ee38ed6aa91472ad8c37170d8820fb9b0d59b3ee08b1a5a9ed8c3c4728b5a9dbf74104cec747e7ff43ae42be8600'' @
     ''c1808080f901f1c28001f887f8419f'' @
     ''9a9a3504786f979f4011c180069d0127599773df85c02f550c8bcd4336d150'' @ ''a0'' @
     ''2bf5de7c6791a70185eb0eef04661bbf6f3596569843dbd9172eea27ad484249'' @ ''f842a0'' @
     ''2b1528a6792412f62e605d184a86c5831f5eb62fe8b8a55ab734379af46ecd10'' @ ''a0'' @
     ''1c99445cf70539613357bf7770d2e9780abf080531bfdc8cc1e74171f7c43eb5'' @ ''f888f842a0'' @
     ''2099209289cdb7e5087d0401996d2fd9b52ce5cae39c547a039f126371a7f9bc'' @ ''a0'' @
     ''26139d9d30188c9d52468ce9dfb48c39d552243611d5b270f5497c2b8692c696'' @ ''f842a0'' @
     ''2b2dabbf32c0cb551d3ba9159ae5c985ebcd71d79b00fabd26a74d618065bfd6'' @ ''a0'' @
     ''1bef832bd3efaea9f61c0582fb123bb547546f0c5910a9dda96bcd0063d57a02'' @ ''f888f842a0'' @
     ''21a96430d1ee4b86b3dd912911a5a0128793f5d17242b49af0963126281656b2'' @ ''a0'' @
     ''2c138443b35d1038b341db4d3e3883efa7b335c91768c2796b852d3e747a2f3f'' @ ''f842a0'' @
     ''2517000c28dda7a87164dccc0cd1829bdd6014f5a020297f3cbed3993ce2107c'' @ ''a0'' @
     ''22591d582daa491dba1642862e37218d71d3492fa9ba22fec5347f22d72ae389'' @ ''f842a0'' @
     ''102d793353afc14a8c4faf4df2d013db0c8c03d0f00028a5f142182b8b13359c'' @ ''a0'' @
     ''29bb1669d1a25dbbd48b5de886200d3e8e01d40c1405c51f79d952f9cb540833'' @
     ''c20705c20805c6c28001c28080820001'') @
    ''c001a00a05ee1c9e4e50490109af4853b1fe2d2822626159'' @
    ''44260233b39cf513ab98bca00335594224e7c236c1651b9f'' @ ''afb49f68299906c8c51a3512a7190f2ebb5d8059''"
    by (simp only: CALLDATA_3_def append_assoc)
qed (simp_all only: hex_split, simp_all add: hex_rules del: hex_pairs.simps)

section \<open>They are parsed\<close>

lemma sepolia_parsed_form_1: "parsed_form (eth_alloy keccak) sepolia_1"
proof -
  have "rlp_weight (rlp_of_cert (versioned_cert sepolia_1)) < 2 ^ 64"
    unfolding sepolia_1_def sepolia_1_fields by (simp add: rlp_fields)
  then show ?thesis using rlp_weight_fits by (auto simp: parsed_form_def eth_rlp_law sepolia_1_def)
qed

lemma sepolia_parsed_form_2: "parsed_form (eth_alloy keccak) sepolia_2"
proof -
  have "rlp_weight (rlp_of_cert (versioned_cert sepolia_2)) < 2 ^ 64"
    unfolding sepolia_2_def sepolia_2_fields by (simp add: rlp_fields)
  then show ?thesis using rlp_weight_fits by (auto simp: parsed_form_def eth_rlp_law sepolia_2_def)
qed

lemma sepolia_parsed_form_3: "parsed_form (eth_alloy keccak) sepolia_3"
proof -
  have "rlp_weight (rlp_of_cert (versioned_cert sepolia_3)) < 2 ^ 64"
    unfolding sepolia_3_def sepolia_3_fields by (simp add: rlp_fields)
  then show ?thesis using rlp_weight_fits by (auto simp: parsed_form_def eth_rlp_law sepolia_3_def)
qed

lemma sepolia_parsed_form_v2: "parsed_form (eth_alloy keccak) sepolia_v2"
proof -
  have "rlp_weight (rlp_of_cert (versioned_cert sepolia_v2)) < 2 ^ 64"
    unfolding sepolia_v2_def sepolia_v2_fields by (simp add: rlp_fields)
  then show ?thesis using rlp_weight_fits by (auto simp: parsed_form_def eth_rlp_law sepolia_v2_def)
qed

lemma sepolia_length_1: "length (to_rlp_bytes (eth_alloy keccak) sepolia_1) = 1154"
proof -
  have "length (rlp_encode (rlp_EigenDACertV3 sepolia_cert_1)) = 1151"
    unfolding sepolia_1_fields by (simp add: rlp_fields, simp add: rlp_eval)
  then show ?thesis by (simp add: to_rlp_bytes_def sepolia_1_def eth_alloy_def)
qed

lemma sepolia_length_2: "length (to_rlp_bytes (eth_alloy keccak) sepolia_2) = 870"
proof -
  have "length (rlp_encode (rlp_EigenDACertV3 sepolia_cert_2)) = 867"
    unfolding sepolia_2_fields by (simp add: rlp_fields, simp add: rlp_eval)
  then show ?thesis by (simp add: to_rlp_bytes_def sepolia_2_def eth_alloy_def)
qed

lemma sepolia_length_3: "length (to_rlp_bytes (eth_alloy keccak) sepolia_3) = 1012"
proof -
  have "length (rlp_encode (rlp_EigenDACertV3 sepolia_cert_3)) = 1009"
    unfolding sepolia_3_fields by (simp add: rlp_fields, simp add: rlp_eval)
  then show ?thesis by (simp add: to_rlp_bytes_def sepolia_3_def eth_alloy_def)
qed

lemma sepolia_length_v2: "length (to_rlp_bytes (eth_alloy keccak) sepolia_v2) = 868"
proof -
  have "length (rlp_encode (rlp_EigenDACertV2 sepolia_cert_v2)) = 865"
    unfolding sepolia_v2_fields by (simp add: rlp_fields, simp add: rlp_eval)
  then show ?thesis by (simp add: to_rlp_bytes_def sepolia_v2_def eth_alloy_def)
qed

section \<open>The payloads\<close>

lemma encode_ref_rows:
  assumes "concat cs = payload @ replicate z 0" "\<forall>c\<in>set cs. length c = 31" "length payload + z = 31 * (2 ^ k - 1)"
  shows "encode_ref k payload = header_ref (length payload) @ concat (map ((#) 0) cs)"
proof -
  have "31 * (2 ^ k - 1) - length payload = z" using assms(3) by simp
  then show ?thesis using chunks_concat [of 31 cs] assms(1,2) by (simp add: encode_ref_def body_ref_def)
qed

lemma nat_be_4:
  assumes "n < 256"
  shows "nat_be 4 n = [0, 0, 0, of_nat n]"
proof -
  have "nat_be (Suc (Suc (Suc (Suc 0)))) n = [0, 0, 0, of_nat n]" using assms by simp
  moreover have "Suc (Suc (Suc (Suc 0))) = 4" by simp
  ultimately show ?thesis by (simp only:)
qed

lemma replicate_numeral: "replicate (numeral k) x = x # replicate (pred_numeral k) x"
  by (simp add: numeral_eq_Suc)

lemma sepolia_payload_bytes_1: "hex_decode ENCODED_PAYLOAD_1 = Inr (encode_ref 3 sepolia_payload_1)"
proof -
  have "encode_ref 3 sepolia_payload_1 = header_ref (length sepolia_payload_1) @ concat (map ((#) 0)
    [nat_be 31 0x00ab80c99f814a3541886f8f4a65f61b67000000000079011b6501f88f532c,
     nat_be 31 0x998d4648d239b1ce87da27450caaab705a5c8412149720e6dd229a4b97d256,
     nat_be 31 0xca7222a7ae434145a5d1440229000106a45bd00f3e0e33b07a5c23ad927eaa,
     nat_be 31 0xf98a77e7818ff59e2c3b2c03d5ffaeb6dba4cb08b9fa2d122e8acbe726c4a7,
     [9, 174, 8, 100, 150, 224, 211, 172, 0, 215, 4, 56, 192, 52, 225, 241, 49, 75, 112, 192, 1] @ replicate 10 0,
     replicate 31 0,
     replicate 31 0])"
    by (rule encode_ref_rows [where z = 72]) (simp_all add: sepolia_payload_1_def replicate_numeral)
  moreover have "length sepolia_payload_1 = 145" by (simp add: sepolia_payload_1_def)
  ultimately show ?thesis
    by (simp only: ENCODED_PAYLOAD_1_def hex_split)
       (simp add: hex_rules header_ref_def nat_be_4 replicate_numeral del: hex_pairs.simps)
qed

lemma sepolia_payload_bytes_2: "hex_decode ENCODED_PAYLOAD_2 = Inr (encode_ref 3 sepolia_payload_2)"
proof -
  have "encode_ref 3 sepolia_payload_2 = header_ref (length sepolia_payload_2) @ concat (map ((#) 0)
    [nat_be 31 0x00bdcf2fd9b7d8767b4dff28e8fdba9a7200000000007d011b5e01f8bf1cc8,
     nat_be 31 0x6b5bd7432114a72c3aac44bf6f9d30f86ca72f2ae64aa3a769a9e84d0d4ab5,
     nat_be 31 0xe9e21b8dfff777693a3aaf83068082e7050b4c42007837016bf1b4266000e0,
     nat_be 31 0x9a2b83da791a259074888d35115a378d560e902075e06065876d315ba365f1,
     [75, 131, 39, 92, 34, 199, 68, 86, 15, 51, 137, 86, 30, 35, 89, 166, 95, 65, 80, 176, 177, 131, 122, 0, 1] @ replicate 6 0,
     replicate 31 0,
     replicate 31 0])"
    by (rule encode_ref_rows [where z = 68]) (simp_all add: sepolia_payload_2_def replicate_numeral)
  moreover have "length sepolia_payload_2 = 149" by (simp add: sepolia_payload_2_def)
  ultimately show ?thesis
    by (simp only: ENCODED_PAYLOAD_2_def hex_split)
       (simp add: hex_rules header_ref_def nat_be_4 replicate_numeral del: hex_pairs.simps)
qed

lemma sepolia_payload_bytes_3: "hex_decode ENCODED_PAYLOAD_3 = Inr (encode_ref 3 sepolia_payload_3)"
proof -
  have "encode_ref 3 sepolia_payload_3 = header_ref (length sepolia_payload_3) @ concat (map ((#) 0)
    [nat_be 31 0x00507e76bda9280c0c5571a765a841e93b000000000085011b6901f83f14d8,
     nat_be 31 0xc6b493fad51647317c089e5d748df8fb056c31e9b3bae60933979fbbbfa227,
     nat_be 31 0x79d4cef288030b6e1e51e4615b54cb5a4041c05f7e128071b6208854d03600,
     nat_be 31 0x0214d4017e83865a24ac735f375282ca4b51dbe044c0a6cdca01125223b4b2,
     nat_be 31 0x7573b0e5fb49d62b85df33fcef32d1ebd576d29ba2094d0167191834945c39,
     [4, 1] @ replicate 29 0,
     replicate 31 0])"
    by (rule encode_ref_rows [where z = 60]) (simp_all add: sepolia_payload_3_def replicate_numeral)
  moreover have "length sepolia_payload_3 = 157" by (simp add: sepolia_payload_3_def)
  ultimately show ?thesis
    by (simp only: ENCODED_PAYLOAD_3_def hex_split)
       (simp add: hex_rules header_ref_def nat_be_4 replicate_numeral del: hex_pairs.simps)
qed

end
