(* ===== verification/Commitment_Properties.thy ===== *)
theory Commitment_Properties
  imports Sample_Data Sepolia_Data
begin

text \<open>
  The properties of the data formats: the AltDA commitment and its addresses, the encoded payload,
  the recency rule, the witness and the hints.
\<close>

section \<open>The encoded payload\<close>

text \<open>C3. Decoding an encoded payload never panics, and it succeeds with \<open>payload\<close> exactly on the byte
  strings that are the version 0 encoding of \<open>payload\<close> with a power of two of field elements: a
  header with its length, the payload in 31 bytes per field element, and zeros everywhere else.\<close>

theorem decode_exactly_inverts_encoding:
  "(\<exists>r. EncodedPayload_decode p = Ret r) \<and>
   (EncodedPayload_decode p = Ret (Inr payload) \<longleftrightarrow>
      (\<exists>k. fits k payload \<and> encoded_payload p = encode_ref k payload))"
  using decode_Ret decode_iff_encode_ref by blast

text \<open>The bit test for powers of two is right for every number of field elements, zero included.\<close>

lemma power_of_two_test: "is_power_of_two n \<longleftrightarrow> (\<exists>k. n = 2 ^ k)"
  by (rule is_power_of_two_iff)

section \<open>The commitment\<close>

text \<open>C11. Parser and printer of commitments are inverse to each other: the parser returns a commitment
  exactly on the byte form of that commitment, whatever follows it, and only for commitments of its own
  form, for every RLP code that is strict: what decodes is the encoding of the result and decodes again.
  The code of Ethereum is strict.\<close>

theorem parser_inverts_printer:
  assumes "rlp_canonical A"
  shows "AltDACommitment_try_from A value = Inr a \<longleftrightarrow>
           parsed_form A a \<and> (\<exists>rest. value = to_rlp_bytes A a @ rest)"
  using assms by (rule try_from_canonical)

theorem parser_inverts_printer_witness:
  "\<exists>bs. hex_decode ALTDA_COMMITMENT_BYTES_1 = Inr bs \<and>
     AltDACommitment_try_from (eth_alloy be_b256) (bs @ [0, 0]) = Inr sepolia_1"
proof -
  have "AltDACommitment_try_from (eth_alloy be_b256) (to_rlp_bytes (eth_alloy be_b256) sepolia_1 @ [0, 0]) = Inr sepolia_1"
    using parser_inverts_printer [OF eth_rlp_canonical] sepolia_parsed_form_1 by blast
  then show ?thesis using sepolia_bytes_1 [of be_b256] by blast
qed

text \<open>For one commitment it is enough that its own certificate decodes from its encoding.\<close>

lemma commitment_round_trip:
  assumes "commitment_type a = 1" "da_layer_byte a = 0" "rlp_law A (versioned_cert a)"
  shows "AltDACommitment_try_from A (to_rlp_bytes A a @ rest) = Inr a"
  using assms by (intro try_from_to_rlp_bytes_append) (simp add: parsed_form_def)

text \<open>Without an assumption on RLP, the parser accepts exactly the strings of at least four bytes that start with 1, 0 and a
  known version byte and whose rest decodes as a certificate of that version; what follows the
  certificate is ignored.\<close>

lemma parser_accepts_exactly:
  "AltDACommitment_try_from A value = Inr a \<longleftrightarrow>
     4 \<le> length value \<and> commitment_type a = 1 \<and> da_layer_byte a = 0 \<and>
     take 2 value = [1, 0] \<and>
     (\<exists>r. (case versioned_cert a of
            V2 c \<Rightarrow> value ! 2 = 1 \<and> rlp_decode_v2 A (drop 3 value) = Inr (c, r)
          | V3 c \<Rightarrow> value ! 2 = 2 \<and> rlp_decode_v3 A (drop 3 value) = Inr (c, r)
          | V4 c \<Rightarrow> value ! 2 = 3 \<and> rlp_decode_v4 A (drop 3 value) = Inr (c, r)))"
  by (rule try_from_Inr_iff)

text \<open>C13. The 80-byte preimage addresses of a commitment keep everything apart: the address of a
  validity is never the address of a field element, field element addresses are equal only for equal
  digests and indices, and validity addresses only for equal digests.\<close>

theorem addresses_never_meet:
  "length (validity_address A c) = 80 \<and> length (field_element_address A c i) = 80 \<and>
   validity_address A c \<noteq> field_element_address A d j \<and>
   (field_element_address A c i = field_element_address A d j \<longleftrightarrow>
      to_digest A c = to_digest A d \<and> i = j) \<and>
   (validity_address A c = validity_address A d \<longleftrightarrow> to_digest A c = to_digest A d)"
  using validity_not_field_element field_element_address_inj validity_address_inj
  by (simp add: validity_address_def length_digest_template)

section \<open>Recency\<close>

text \<open>C14. The recency step of the preimage source decides on unbounded numbers: the 64-bit sum of the
  reference block and the window does not wrap, a V4 certificate with derivation version 0 passes
  exactly up to 14400 blocks after its reference block, another version is an error that stops the
  derivation, and V2 and V3 certificates always pass.\<close>

theorem recency_rule:
  "unat (get_rbn c + 14400) = unat (get_rbn c) + 14400 \<and>
   rbind (recency_window_of (versioned_cert c)) (\<lambda>w. recency_check bn (get_rbn c) w) =
     (case versioned_cert c of
        V4 cert \<Rightarrow>
          if v4_offchain_derivation_version cert \<noteq> 0
          then Inl (UnsupportedOffchainDerivationVersion (v4_offchain_derivation_version cert))
          else if unat bn \<le> unat (bat_reference_block_number (v4_batch_header_v2 cert)) + 14400
          then Inr () else Inl (RecencyCheckError NotRecentCert)
      | _ \<Rightarrow> Inr ())"
proof -
  have "unat (ucast w :: u64) = unat w" for w :: u32
    using unat_lt2p [of w] by (simp add: unsigned_ucast_eq take_bit_nat_eq_self)
  then show ?thesis
    unfolding recency_window_check using rbn_window_no_wrap [of c]
    by (auto simp: unsupported_version_def recent_enough_def get_rbn_def
        split: EigenDAVersionedCert.splits)
qed

text \<open>Of the errors of pure data processing, an unsupported derivation version alone is critical;
  all others discard the commitment, and none asks for a retry. An error of the preimage oracle
  never discards a commitment.\<close>

lemma error_kinds:
  "(is_Discard (HokuleaErrorKind_from_stateless e) \<longleftrightarrow>
      (\<forall>v. e \<noteq> UnsupportedOffchainDerivationVersion v)) \<and>
   HokuleaErrorKind_from_stateless e \<noteq> Temporary m \<and>
   is_Discard (HokuleaErrorKind_from_preimage f) \<and>
   \<not> is_Discard (HokuleaErrorKind_from_oracle g)"
  using stateless_kind stateless_never_temporary
  by (cases f) (auto simp: HokuleaErrorKind_from_preimage_def)

section \<open>Witness and hints\<close>

text \<open>A witness built by \<open>from_preimage\<close> is taken apart by \<open>into_preimage\<close> into the very preimage,
  KZG proofs and Canoe proof it was built from.\<close>

lemma witness_round_trip:
  assumes "from_preimage pre kzg_proofs canoe_proof = Inr w"
  shows "into_preimage w = (pre, kzg_proofs, canoe_proof)"
  using assms into_preimage_from_unchecked
  by (auto simp: from_preimage_def split: if_splits)

text \<open>The name of a hint parses back to it, for the EigenDA hint and for every kona hint whose own
  name parses back and is not the EigenDA name.\<close>

lemma hint_name_round_trip:
  assumes "\<And>t. h = Original t \<Longrightarrow> from (into t) = Inr t \<and> into t \<noteq> ''eigenda-certificate''"
  shows "hint_from_str from (hint_to_str into h) = Inr h"
  using assms by (rule hint_round_trip)

end
