(* ===== verification/Derivation_Properties.thy ===== *)
theory Derivation_Properties
  imports Sample_Data
begin

text \<open>
  The properties of the derivation: what the pipeline receives from the data source when it runs on
  the preimage oracle, that calls return, that retries are lossless, and that the host stores what
  the client reads. Each theorem is applied to the values of \<open>Sample_Data\<close>.
\<close>

section \<open>A channel that answers from constants\<close>

definition const_channel :: "(unit, u256) comms_ops" where
  "const_channel =
     \<lparr> co_key = (\<lambda>h. h), co_write = (\<lambda>ch _. (Inr (), ch)),
       co_get = (\<lambda>ch _. (Inr [1], ch)), co_get_exact = (\<lambda>ch _. (Inr 0, ch)) \<rparr>"

abbreviation sample_block :: BlockInfo where
  "sample_block \<equiv> \<lparr> bi_number = 200 \<rparr>"

lemma const_channel_answers [simp]:
  "oracle_answers sample_alloy const_channel (\<lambda>_. True) (\<lambda>_ _. 0) p"
  "oracle_consistent sample_alloy const_channel (\<lambda>_. True) (\<lambda>_ _. 0) p"
  by (auto simp: oracle_answers_def oracle_consistent_def channel_serves_def const_channel_def)

lemma b256_be_0 [simp]: "b256_be 0 = replicate 32 0"
  by (simp add: b256_be_def)

lemma sample_elements [simp]:
  "elements sample_c3 (\<lambda>_. 0) = sample_payload" "elements sample_c4 (\<lambda>_. 0) = sample_payload"
  by (simp_all add: elements_def sample_payload_def)

lemma const_channel_next:
  assumes "c = sample_c3 \<or> c = sample_c4"
  shows "preimage_source_next (oracle_provider sample_alloy const_channel)
     \<lparr> eigenda_fetcher = \<lparr> oracle_client = () \<rparr> \<rparr> c 200 =
   Ret (Inr sample_payload, \<lparr> eigenda_fetcher = \<lparr> oracle_client = () \<rparr> \<rparr>)"
  using oracle_total.next_total [of sample_alloy const_channel "\<lambda>_. True" "\<lambda>_ _. 0"
      "\<lparr> eigenda_fetcher = \<lparr> oracle_client = () \<rparr> \<rparr>" c 200] assms
  by (auto simp: derive_commitment_def)

definition sample_inbox :: "bytes list" where
  "sample_inbox = [[5, 6], [1, 1, 0, 2, 7], []]"

definition sample_source where
  "sample_source ds =
     EigenDADataSource_new ds (EigenDAPreimageSource_new (oracle_provider_new ()))"

abbreviation sample_next where
  "sample_next s \<equiv>
     data_source_next sample_alloy list_eth (oracle_provider sample_alloy const_channel) s sample_block 0"

lemma sample_source_load:
  "data_source_load sample_alloy list_eth (sample_source []) b a =
     (Inl (Inl (PTemporary Eof)), sample_source [])"
  "data_source_load sample_alloy list_eth (sample_source ([] # ds)) b a =
     (Inl (Inl (PTemporary NotEnoughData)), sample_source ds)"
  "x \<noteq> 1 \<Longrightarrow> data_source_load sample_alloy list_eth (sample_source ((x # xs) # ds)) b a =
     (Inl (Inr (x # xs)), sample_source ds)"
  "data_source_load sample_alloy list_eth (sample_source ([1, 1, 0, 2, 7] # ds)) b a =
     (Inr sample_c3, sample_source ds\<lparr> altda_commitment := Some sample_c3 \<rparr>)"
  by (simp_all add: data_source_load_def sample_source_def EigenDADataSource_new_def Let_def
      data_source_clear_def list_eth_def preimage_source_parse_def)

lemma sample_next_steps:
  "sample_next (sample_source []) = Some (Ret (Inl (PTemporary Eof), sample_source []))"
  "sample_next (sample_source ([] # ds)) =
     Some (Ret (Inl (PTemporary NotEnoughData), sample_source ds))"
  "x \<noteq> 1 \<Longrightarrow> sample_next (sample_source ((x # xs) # ds)) = Some (Ret (Inr (x # xs), sample_source ds))"
  "sample_next (sample_source ([1, 1, 0, 2, 7] # ds)) = Some (Ret (Inr [], sample_source ds))"
proof -
  show "sample_next (sample_source []) = Some (Ret (Inl (PTemporary Eof), sample_source []))"
    "sample_next (sample_source ([] # ds)) =
       Some (Ret (Inl (PTemporary NotEnoughData), sample_source ds))"
    by (rule data_source_next_early, rule sample_source_load)+
  show "x \<noteq> 1 \<Longrightarrow> sample_next (sample_source ((x # xs) # ds)) = Some (Ret (Inr (x # xs), sample_source ds))"
    by (rule data_source_next_early, rule sample_source_load)
  have "preimage_source_next (oracle_provider sample_alloy const_channel)
      (eigenda_source (sample_source ds\<lparr> altda_commitment := Some sample_c3 \<rparr>)) sample_c3 (bi_number sample_block) =
      Ret (Inr sample_payload, \<lparr> eigenda_fetcher = \<lparr> oracle_client = () \<rparr> \<rparr>)"
    using const_channel_next [of sample_c3]
    by (simp add: sample_source_def EigenDADataSource_new_def EigenDAPreimageSource_new_def
        oracle_provider_new_def)
  from data_source_next_at [OF sample_source_load(4) this]
  show "sample_next (sample_source ([1, 1, 0, 2, 7] # ds)) = Some (Ret (Inr [], sample_source ds))"
    by (simp add: sample_source_def EigenDADataSource_new_def EigenDAPreimageSource_new_def
        oracle_provider_new_def)
qed

lemma sample_pulls:
  "pulls sample_alloy list_eth (oracle_provider sample_alloy const_channel) sample_block 0
     (sample_source sample_inbox) [[5, 6], []]"
  unfolding sample_inbox_def
  by (rule pulls.data, rule sample_next_steps(3), simp)
     (rule pulls.data, rule sample_next_steps(4),
      rule pulls.again, rule sample_next_steps(2), simp, rule pulls.finish, rule sample_next_steps(1))

section \<open>Deriving a block\<close>

text \<open>C2. Over a preimage oracle that answers from fixed data, a sequence of \<open>next\<close> calls that ends
  with \<open>Eof\<close> has delivered, in inbox order, exactly the data not meant for AltDA and the decoded
  payloads of the commitments that are valid and recent, however many calls failed in between.\<close>

theorem oracle_block_derivation:
  assumes "oracle_consistent A CO V F p" "eth_drains E items b a"
    and "pulls A E (oracle_provider A CO) b a (EigenDADataSource_new g (EigenDAPreimageSource_new p)) xs"
  shows "xs = spec_outputs (spec_item A V (\<lambda>c. elements c (F c)) (bi_number b)) (map Calldata (items g))"
  using oracle_sound.pulls_spec [OF assms(3,2)] assms(1)
  by (simp add: EigenDADataSource_new_def EigenDAPreimageSource_new_def pending_def)

theorem oracle_block_derivation_witness:
  "[[5, 6], []] = spec_outputs (spec_item sample_alloy (\<lambda>_. True) (\<lambda>c. elements c (\<lambda>_. 0)) 200)
     (map Calldata sample_inbox)"
  using oracle_block_derivation [of sample_alloy const_channel "\<lambda>_. True" "\<lambda>_ _. 0"
      "oracle_provider_new ()" list_eth "\<lambda>ds. ds" sample_block 0 sample_inbox "[[5, 6], []]"]
    sample_pulls
  by (simp add: sample_source_def)

text \<open>C6. A call of \<open>next\<close> returns, for any provider, when every item the ethereum source hands out
  for the block makes it smaller: the self-calls after discarded commitments come to an end.\<close>

theorem next_returns:
  assumes "eth_measure E m b a"
  shows "\<exists>y. data_source_next A E PO s b a = Some y"
  using assms by (rule data_source_next_returns)

theorem next_returns_witness:
  "\<exists>y. data_source_next sample_alloy list_eth (oracle_provider sample_alloy const_channel)
         (sample_source sample_inbox) sample_block 0 = Some y"
  using next_returns [of list_eth "length \<circ> (\<lambda>ds. ds)" sample_block 0 sample_alloy
      "oracle_provider sample_alloy const_channel" "sample_source sample_inbox"]
    eth_drains_measure [of list_eth "\<lambda>ds. ds" sample_block 0]
  by simp

text \<open>C7. A call that fails, other than at the end of the block or on unusable inbox data, loses
  nothing: what the next call should return is what this one should have returned.\<close>

theorem retry_loses_nothing:
  assumes "oracle_consistent A CO V F (eigenda_fetcher (eigenda_source s))" "eth_drains E items b a"
    and "data_source_next A E (oracle_provider A CO) s b a = Some (Ret (Inl e, s'))"
    and "e \<noteq> PTemporary Eof" "e \<noteq> PTemporary NotEnoughData"
  shows "spec_next (spec_item A V (\<lambda>c. elements c (F c)) (bi_number b)) (pending items s') =
         spec_next (spec_item A V (\<lambda>c. elements c (F c)) (bi_number b)) (pending items s)"
proof -
  let ?v = "spec_item A V (\<lambda>c. elements c (F c)) (bi_number b)"
  have "in_step ?v (pending items s) (Inl e) (pending items s')"
    using oracle_sound.next_in_step [OF assms(3,2,1)] by blast
  then consider "spec_next ?v (pending items s) = (Inl e, pending items s')"
    | "spec_next ?v (pending items s') = spec_next ?v (pending items s)"
    using assms(4) by (cases "spec_next ?v (pending items s)") (auto simp: in_step_def)
  then show ?thesis
    using spec_next_again [OF _ assms(4,5)] by cases auto
qed

definition failing_channel :: "(unit, u256) comms_ops" where
  "failing_channel = const_channel\<lparr> co_write := (\<lambda>ch _. (Inl (OtherOracleError ''timeout''), ch)) \<rparr>"

lemma failing_channel_consistent:
  "oracle_consistent sample_alloy failing_channel (\<lambda>_. True) (\<lambda>_ _. 0) p"
  by (auto simp: failing_channel_def oracle_consistent_def channel_serves_def const_channel_def)

lemma failing_channel_next:
  "data_source_next sample_alloy list_eth (oracle_provider sample_alloy failing_channel)
     (sample_source ([1, 1, 0, 2, 7] # ds)) sample_block 0 =
   Some (Ret (Inl (PTemporary (Provider ''HokuleaOracleProviderError::Preimage: timeout'')),
     sample_source ds\<lparr> altda_commitment := Some sample_c3 \<rparr>))"
proof -
  have "preimage_source_next (oracle_provider sample_alloy failing_channel)
      (eigenda_source (sample_source ds\<lparr> altda_commitment := Some sample_c3 \<rparr>)) sample_c3
      (bi_number sample_block) =
    Ret (Inl (Temporary ''HokuleaOracleProviderError::Preimage: timeout''),
      \<lparr> eigenda_fetcher = \<lparr> oracle_client = () \<rparr> \<rparr>)"
    by (simp add: preimage_source_next_unfold oracle_provider_def oracle_get_validity_def
        failing_channel_def HokuleaErrorKind_from_oracle_def)
  from data_source_next_at [OF sample_source_load(4) this] show ?thesis
    by (simp add: sample_source_def EigenDADataSource_new_def EigenDAPreimageSource_new_def
        oracle_provider_new_def)
qed

theorem retry_loses_nothing_witness:
  "spec_next (spec_item sample_alloy (\<lambda>_. True) (\<lambda>c. elements c (\<lambda>_. 0)) 200)
     (pending (\<lambda>ds. ds) (sample_source [[5]]\<lparr> altda_commitment := Some sample_c3 \<rparr>)) =
   spec_next (spec_item sample_alloy (\<lambda>_. True) (\<lambda>c. elements c (\<lambda>_. 0)) 200)
     (pending (\<lambda>ds. ds) (sample_source [[1, 1, 0, 2, 7], [5]]))"
  using retry_loses_nothing [OF failing_channel_consistent list_eth_drains failing_channel_next]
  by simp

text \<open>C8. When the oracle always answers and the ethereum source only ever reports the end of its
  items, the derivation of a block runs to its end and delivers the specified data, unless some
  commitment has a derivation version this code does not support.\<close>

theorem block_derivation_completes:
  assumes "oracle_answers A CO V F p" "eth_drains E items b a" "eth_quiet E b a"
    and "\<forall>i\<in>set (map Calldata (items g)). \<forall>c e.
           spec_item A V (\<lambda>c. elements c (F c)) (bi_number b) i \<noteq> Stuck c e"
  shows "pulls A E (oracle_provider A CO) b a (EigenDADataSource_new g (EigenDAPreimageSource_new p))
           (spec_outputs (spec_item A V (\<lambda>c. elements c (F c)) (bi_number b)) (map Calldata (items g)))"
proof -
  let ?s = "EigenDADataSource_new g (EigenDAPreimageSource_new p)"
  have pend: "pending items ?s = map Calldata (items g)"
    by (simp add: EigenDADataSource_new_def pending_def)
  have inv: "oracle_answers A CO V F (eigenda_fetcher (eigenda_source ?s))"
    using assms(1) by (simp add: EigenDADataSource_new_def EigenDAPreimageSource_new_def)
  obtain xs where "pulls A E (oracle_provider A CO) b a ?s xs"
    using oracle_total.pulls_exists [OF assms(2,3) inv] assms(4) unfolding pend by blast
  then show ?thesis
    using oracle_total.pulls_spec [OF _ assms(2) inv] unfolding pend by blast
qed

theorem block_derivation_completes_witness:
  "pulls sample_alloy list_eth (oracle_provider sample_alloy const_channel) sample_block 0
     (sample_source sample_inbox)
     (spec_outputs (spec_item sample_alloy (\<lambda>_. True) (\<lambda>c. elements c (\<lambda>_. 0)) 200)
        (map Calldata sample_inbox))"
proof -
  have "\<forall>i\<in>set (map Calldata sample_inbox). \<forall>c e.
      spec_item sample_alloy (\<lambda>_. True) (\<lambda>c. elements c (\<lambda>_. 0)) 200 i \<noteq> Stuck c e"
    by (simp add: sample_inbox_def spec_item_def preimage_source_parse_def spec_commitment_def
        derive_commitment_def)
  then show ?thesis
    using block_derivation_completes [of sample_alloy const_channel "\<lambda>_. True" "\<lambda>_ _. 0"
        "oracle_provider_new ()" list_eth "\<lambda>ds. ds" sample_block 0 sample_inbox]
    by (simp add: sample_source_def)
qed

section \<open>Host and client\<close>

definition map_kv :: "(u256 \<Rightarrow> bytes option, u256) kv_ops" where
  "map_kv = \<lparr> kv_key = (\<lambda>h. h), kv_set = (\<lambda>s k v. (Inr (), s(k \<mapsto> v))), kv_get = (\<lambda>s. s) \<rparr>"

definition map_channel :: "(u256 \<Rightarrow> bytes option, u256) comms_ops" where
  "map_channel =
     \<lparr> co_key = (\<lambda>h. h), co_write = (\<lambda>s _. (Inr (), s)),
       co_get = (\<lambda>s k. (case s k of Some v \<Rightarrow> Inr v | None \<Rightarrow> Inl (OtherOracleError ''missing''), s)),
       co_get_exact = (\<lambda>s k. (case s k of
          Some v \<Rightarrow> if length v = 32 then Inr (be_b256 v) else Inl (OtherOracleError ''length'')
        | None \<Rightarrow> Inl (OtherOracleError ''missing''), s)) \<rparr>"

definition proxy_with :: "http_response \<Rightarrow> (unit, unit) http_ops" where
  "proxy_with r = \<lparr> ho_join = (\<lambda>u _. Inr u), ho_set_query = (\<lambda>u _. u), ho_send = (\<lambda>w _. (Inr r, w)) \<rparr>"

definition ok_response :: http_response where
  "ok_response = \<lparr> resp_status = 200, resp_json = Inl [], resp_bytes = Inr (replicate 32 0), resp_debug = [] \<rparr>"

definition teapot :: "u8 \<Rightarrow> http_response" where
  "teapot code = \<lparr> resp_status = 418, resp_json = Inr \<lparr> status_code = code, msg = [] \<rparr>,
                   resp_bytes = Inl [], resp_debug = [] \<rparr>"

lemma map_kv_lawful [simp]: "kv_lawful map_kv"
  by (simp add: kv_lawful_def map_kv_def)

lemma map_kv_get [simp]: "kv_get map_kv s = s"
  by (simp add: map_kv_def)

lemma map_channel_backed [simp]: "channel_backed map_channel map_kv"
  by (simp add: channel_backed_def map_channel_def map_kv_def split: option.splits)

lemma sample_keys_distinct [simp]: "keys_distinct sample_alloy (kv_key map_kv) sample_c3"
proof -
  have "validity_address sample_alloy sample_c3 ! 32 = 1"
    "drop 72 (validity_address sample_alloy sample_c3) = replicate 8 0"
    by (simp_all add: validity_address_eq nth_append)
  moreover have "field_element_address sample_alloy sample_c3 0 ! 32 = 0"
    "drop 72 (field_element_address sample_alloy sample_c3 0) = replicate 8 0"
    by (simp_all add: field_element_address_eq nth_append u64_be_def)
  moreover have "length (validity_address sample_alloy sample_c3) = 80"
    "length (field_element_address sample_alloy sample_c3 0) = 80"
    by (simp_all add: validity_address_def length_digest_template)
  ultimately show ?thesis
    by (simp add: keys_distinct_def addresses_def map_kv_def sample_alloy_def)
qed

lemma proxy_answers:
  "fetch_data_from_proxy (proxy_with ok_response) p bs =
     (Inr \<lparr> is_valid_cert = True, pass_recency_check = True, stage_encoded_payload = replicate 32 0 \<rparr>, p)"
  "fetch_data_from_proxy (proxy_with (teapot 3)) p bs =
     (Inr \<lparr> is_valid_cert = False, pass_recency_check = True, stage_encoded_payload = [] \<rparr>, p)"
  "fetch_data_from_proxy (proxy_with (teapot 2)) p bs =
     (Inr \<lparr> is_valid_cert = True, pass_recency_check = False, stage_encoded_payload = [] \<rparr>, p)"
  by (simp_all add: fetch_data_from_proxy_def proxy_with_def handle_response_def is_success_def
      ok_response_def teapot_def HostHandlerError_from_def)

lemma zeros_well_formed [simp]: "well_formed_payload (replicate 32 0)"
proof -
  have "chunks 32 (replicate 32 (0 :: u8)) = [replicate 32 0]"
    using chunks_append [of "replicate 32 (0 :: u8)" 32 "[]"] by simp
  then show ?thesis by (simp add: well_formed_payload_def)
qed

text \<open>C5. When the proxy serves a valid and recent commitment, the hint handler of the host
  succeeds, and the client then reads through the oracle that the certificate is valid and a payload
  that is the proxy's, cut or padded with zeros to the length the certificate states.\<close>

theorem host_serves_client:
  assumes "parsed_form A c" "kv_lawful KO" "channel_backed CO KO" "keys_distinct A (kv_key KO) c"
    and "fetch_data_from_proxy HO pr (to_rlp_bytes A c) = (Inr stage, pr')"
    and "is_valid_cert stage" "pass_recency_check stage"
    and "well_formed_payload (stage_encoded_payload stage)"
  shows "\<exists>s'. fetch_eigenda_hint A HO KO (to_rlp_bytes A c) pr s = Ret (Inr (), pr', s') \<and>
     oracle_get_validity A CO (oracle_provider_new s') c = Ret (Inr True, oracle_provider_new s') \<and>
     oracle_get_encoded_payload A CO (oracle_provider_new s') c =
       Ret (Inr \<lparr> encoded_payload = served_payload c (stage_encoded_payload stage) \<rparr>,
            oracle_provider_new s')"
proof -
  obtain s' where s': "fetch_eigenda_hint A HO KO (to_rlp_bytes A c) pr s = Ret (Inr (), pr', s')"
    "kv_get KO s' (kv_key KO (keccak256 A (validity_address A c))) = Some [1]"
    "\<And>i. i < unat (get_num_field_element c) \<Longrightarrow>
      kv_get KO s' (fe_key A (kv_key KO) c i) = Some (stored_element (stage_encoded_payload stage) i)"
    using fetch_eigenda_hint_valid [OF assms(1,2,4-8)] by blast
  have "length (stage_encoded_payload stage) = (length (stage_encoded_payload stage) div 32) * 32"
    using assms(8) by (auto simp: well_formed_payload_def)
  then show ?thesis
    using s'(1) oracle_get_validity_stored [OF assms(3), of s' A c True]
      oracle_get_encoded_payload_stored [OF assms(3) _ s'(3)] s'(2)
    by (auto simp: oracle_provider_new_def)
qed

theorem host_serves_client_witness:
  "\<exists>s'. fetch_eigenda_hint sample_alloy (proxy_with ok_response) map_kv [1, 0, 2, 7]
           (new_http () ()) Map.empty = Ret (Inr (), new_http () (), s') \<and>
     oracle_get_validity sample_alloy map_channel (oracle_provider_new s') sample_c3 =
       Ret (Inr True, oracle_provider_new s') \<and>
     oracle_get_encoded_payload sample_alloy map_channel (oracle_provider_new s') sample_c3 =
       Ret (Inr \<lparr> encoded_payload = replicate 32 0 \<rparr>, oracle_provider_new s')"
  using host_serves_client [of sample_alloy sample_c3 map_kv map_channel "proxy_with ok_response"
      "new_http () ()" _ "new_http () ()" Map.empty]
  by (simp add: proxy_answers served_payload_def)

text \<open>C24. When the proxy answers that the certificate is invalid, the handler succeeds, writes
  nothing but the validity byte, and the client reads that the certificate is invalid and discards
  the commitment.\<close>

theorem invalid_certificate_is_discarded:
  assumes "parsed_form A c" "kv_lawful KO" "channel_backed CO KO"
    and "fetch_data_from_proxy HO pr (to_rlp_bytes A c) = (Inr stage, pr')" "\<not> is_valid_cert stage"
  shows "\<exists>s'. fetch_eigenda_hint A HO KO (to_rlp_bytes A c) pr s = Ret (Inr (), pr', s') \<and>
     (\<forall>k. k = kv_key KO (keccak256 A (validity_address A c)) \<or> kv_get KO s' k = kv_get KO s k) \<and>
     preimage_source_next (oracle_provider A CO) (EigenDAPreimageSource_new (oracle_provider_new s')) c bn =
       Ret (Inl (Discard ''da cert is invalid or inconsistent offchain code version''),
            EigenDAPreimageSource_new (oracle_provider_new s'))"
proof -
  obtain s' where s': "fetch_eigenda_hint A HO KO (to_rlp_bytes A c) pr s = Ret (Inr (), pr', s')"
    "kv_get KO s' = (kv_get KO s)(kv_key KO (keccak256 A (validity_address A c)) \<mapsto> [0])"
    using fetch_eigenda_hint_only_validity [OF assms(1,2,4)] assms(5) by auto
  have "oracle_get_validity A CO (oracle_provider_new s') c = Ret (Inr False, oracle_provider_new s')"
    using oracle_get_validity_stored [OF assms(3), of s' A c False] s'(2)
    by (simp add: oracle_provider_new_def)
  then show ?thesis
    using s' by (intro exI [of _ s'])
      (simp add: preimage_source_next_unfold oracle_provider_def EigenDAPreimageSource_new_def
        derive_commitment_def HokuleaErrorKind_from_preimage_def)
qed

theorem invalid_certificate_is_discarded_witness:
  "\<exists>s'. fetch_eigenda_hint sample_alloy (proxy_with (teapot 3)) map_kv [1, 0, 2, 7]
           (new_http () ()) Map.empty = Ret (Inr (), new_http () (), s') \<and>
     preimage_source_next (oracle_provider sample_alloy map_channel)
       (EigenDAPreimageSource_new (oracle_provider_new s')) sample_c3 200 =
       Ret (Inl (Discard ''da cert is invalid or inconsistent offchain code version''),
            EigenDAPreimageSource_new (oracle_provider_new s'))"
  using invalid_certificate_is_discarded [of sample_alloy sample_c3 map_kv map_channel
      "proxy_with (teapot 3)" "new_http () ()" _ "new_http () ()" Map.empty 200]
  by (auto simp: proxy_answers)

text \<open>C25. When the proxy answers a request with status 418 and the code of a failed recency check, the hint
  handler succeeds and writes nothing but the validity byte, which says valid. Whether the client then
  requests anything further is decided by its own recency rule alone: a commitment the rule rejects is
  discarded without a payload request, whatever the payload request would do, and a commitment it accepts,
  as it does every V2 and V3 certificate, is answered with what the payload request returns.\<close>

theorem stale_certificate_needs_own_rule:
  assumes "parsed_form A c" "kv_lawful KO" "channel_backed CO KO"
    and "ho_join HO (base pr) (''get/'' @ hex_encode (to_rlp_bytes A c)) = Inr url"
    and "ho_send HO (inner pr) (ho_set_query HO url GET_QUERY_PARAMS_ENCODED_PAYLOAD) = (Inr response, net)"
    and "resp_status response = 418" "resp_json response = Inr err" "status_code err = 2"
    and "unsupported_version c = None"
  shows "\<exists>s'. fetch_eigenda_hint A HO KO (to_rlp_bytes A c) pr s = Ret (Inr (), pr\<lparr> inner := net \<rparr>, s') \<and>
     (\<forall>k. k = kv_key KO (keccak256 A (validity_address A c)) \<or> kv_get KO s' k = kv_get KO s k) \<and>
     (\<forall>payload. preimage_source_next ((oracle_provider A CO)\<lparr> pv_get_encoded_payload := payload \<rparr>)
         (EigenDAPreimageSource_new (oracle_provider_new s')) c bn =
       (if recent_enough c bn
        then obind (payload (oracle_provider_new s') c) (\<lambda>(r, p).
               Ret (map_err HokuleaErrorKind_from_oracle r, EigenDAPreimageSource_new p))
        else Ret (Inl (Discard ''da cert is not recent enough''),
                  EigenDAPreimageSource_new (oracle_provider_new s'))))"
proof -
  let ?vk = "kv_key KO (keccak256 A (validity_address A c))"
  have "fetch_data_from_proxy HO pr (to_rlp_bytes A c) =
      (Inr \<lparr> is_valid_cert = True, pass_recency_check = False, stage_encoded_payload = [] \<rparr>, pr\<lparr> inner := net \<rparr>)"
    using assms(4-8) by (simp add: fetch_data_from_proxy_def handle_response_def is_success_def HostHandlerError_from_def)
  from fetch_eigenda_hint_only_validity [OF assms(1,2) this]
  obtain s' where s': "fetch_eigenda_hint A HO KO (to_rlp_bytes A c) pr s = Ret (Inr (), pr\<lparr> inner := net \<rparr>, s')"
    "kv_get KO s' = (kv_get KO s)(?vk \<mapsto> [1])" by auto
  have "oracle_get_validity A CO (oracle_provider_new s') c = Ret (Inr True, oracle_provider_new s')"
    using oracle_get_validity_stored [OF assms(3), of s' A c True] s'(2)
    by (simp add: oracle_provider_new_def)
  then show ?thesis
    using s' assms(9) by (intro exI [of _ s'])
      (simp add: preimage_source_next_unfold oracle_provider_def EigenDAPreimageSource_new_def derive_commitment_def
        HokuleaErrorKind_from_stateless_def RecencyCheckError_to_string_def)
qed

theorem stale_certificate_needs_own_rule_witness:
  "\<exists>s'. fetch_eigenda_hint sample_alloy (proxy_with (teapot 2)) map_kv [1, 0, 3, 9]
           (new_http () ()) Map.empty = Ret (Inr (), new_http () (), s') \<and>
     (\<forall>payload. preimage_source_next ((oracle_provider sample_alloy map_channel)\<lparr> pv_get_encoded_payload := payload \<rparr>)
       (EigenDAPreimageSource_new (oracle_provider_new s')) sample_c4 14501 =
       Ret (Inl (Discard ''da cert is not recent enough''),
            EigenDAPreimageSource_new (oracle_provider_new s')))"
proof -
  have "versioned_cert sample_c4 = V4 sample_v4" by (simp add: sample_c4_def)
  then have "\<not> recent_enough sample_c4 14501" by (simp add: recent_enough_def)
  then show ?thesis
    using stale_certificate_needs_own_rule [of sample_alloy sample_c4 map_kv map_channel "proxy_with (teapot 2)"
        "new_http () ()" "()" "teapot 2" "()" "\<lparr> status_code = 2, msg = [] \<rparr>" Map.empty 14501]
    by (auto simp: proxy_with_def teapot_def new_http_def)
qed

text \<open>C20. The online provider answers \<open>get_validity\<close> and the \<open>get_encoded_payload\<close> that follows for
  the same commitment from one response of the proxy: the second call sends nothing and fails never.\<close>

theorem online_cache_serves_payload:
  assumes "online_get_validity A HO p c = Ret (Inr valid, p')"
  shows "\<exists>stage. last_entry p' = Some (c, stage) \<and> valid = is_valid_cert stage \<and>
     online_get_encoded_payload A HO p' c =
       Ret (Inr \<lparr> encoded_payload = stage_encoded_payload stage \<rparr>, p')"
proof -
  obtain stage where g: "get_or_fetch_payload A HO p c = (Inr stage, p')" "valid = is_valid_cert stage"
    using assms by (auto simp: online_get_validity_def rbind_eq_Inr split: prod.splits)
  then have "last_entry p' = Some (c, stage)"
    by (auto simp: get_or_fetch_payload_def Let_def split: option.splits prod.splits sum.splits if_splits)
  then show ?thesis
    using g(2) by (simp add: online_get_encoded_payload_def get_or_fetch_payload_def)
qed

theorem online_cache_serves_payload_witness:
  "\<exists>p'. online_get_validity sample_alloy (proxy_with ok_response) (new_http () ()) sample_c3 =
          Ret (Inr True, p') \<and>
     (\<exists>stage. last_entry p' = Some (sample_c3, stage) \<and> True = is_valid_cert stage \<and>
       online_get_encoded_payload sample_alloy (proxy_with ok_response) p' sample_c3 =
         Ret (Inr \<lparr> encoded_payload = stage_encoded_payload stage \<rparr>, p'))"
proof -
  let ?p = "(new_http () ())\<lparr> last_entry := Some (sample_c3,
    \<lparr> is_valid_cert = True, pass_recency_check = True, stage_encoded_payload = replicate 32 0 \<rparr>) \<rparr>"
  have "online_get_validity sample_alloy (proxy_with ok_response) (new_http () ()) sample_c3 =
      Ret (Inr True, ?p)"
    by (simp add: online_get_validity_def get_or_fetch_payload_def proxy_answers new_http_def)
  from online_cache_serves_payload [OF this] this show ?thesis by blast
qed

end
