(* ===== verification/Zkvm_Soundness.thy ===== *)
theory Zkvm_Soundness
  imports Witgen
begin

text \<open>
  What a witness accepted by \<open>from_witness\<close> says about the chain, and from there about the data the
  derivation delivers inside the zkVM. The assumptions about Canoe proofs are named here: a proof
  accepted for the pinned guest is a proof of a run of the guest, and bincode does not identify two
  lists of journals. That the payloads are the committed ones is what \<open>Kzg_Binding\<close> shows of the KZG
  check, and a hypothesis of the lemmas here.
\<close>

definition bincode_injective :: "(Journal list \<Rightarrow> bytes option) \<Rightarrow> bool" where
  "bincode_injective ser \<longleftrightarrow> (\<forall>js ks b. ser js = Some b \<longrightarrow> ser ks = Some b \<longrightarrow> js = ks)"

text \<open>Journals that some run of the guest has committed to.\<close>

definition steel_attested ::
    "alloy_ops \<Rightarrow> abi_ops \<Rightarrow> fork_ops \<Rightarrow> 'r steel_ops \<Rightarrow> ('i, 'e) steel_guest_ops \<Rightarrow> bytes \<Rightarrow> bool" where
  "steel_attested A B FO SO GO j \<longleftrightarrow>
     (\<exists>evm_input inputs. steel_guest_main A B FO (so_bincode SO) GO evm_input inputs = Ret j \<and>
        (\<forall>i\<in>set inputs. rlp_law A (versioned_cert (ci_altda_commitment i))))"

definition sp1_attested ::
    "alloy_ops \<Rightarrow> abi_ops \<Rightarrow> 'g sp1_ops \<Rightarrow> ('s, 'x, 'g) sp1_guest_ops \<Rightarrow> bytes \<Rightarrow> bool" where
  "sp1_attested A B PP XO j \<longleftrightarrow>
     (\<exists>sketch inputs. sp1_guest_main A B PP XO sketch inputs = Ret j \<and>
        (\<forall>i\<in>set inputs. rlp_law A (versioned_cert (ci_altda_commitment i))))"

text \<open>The environment of a guest run, on the chain with the given id, at the given block.\<close>

definition run_env :: "('i, 'e) steel_guest_ops \<Rightarrow> u64 \<Rightarrow> u256 \<Rightarrow> u64 \<Rightarrow> 'e \<Rightarrow> bool" where
  "run_env GO chain_id hash num env \<longleftrightarrow>
     (\<exists>evm_input chain. l1_chain_of chain_id = Some chain \<and> env = go_into_env GO evm_input chain) \<and>
     go_header_seal GO env = hash \<and> go_header_number GO env = num"

abbreviation claim_env :: "('i, 'e) steel_guest_ops \<Rightarrow> CertValidity \<Rightarrow> 'e \<Rightarrow> bool" where
  "claim_env GO cv env \<equiv>
     run_env GO (cv_l1_chain_id cv) (cv_l1_head_block_hash cv) (cv_l1_head_block_number cv) env"

lemma steel_claims_true:
  assumes "vo_validate_cert_receipt (CanoeSteelVerifier zkvm A FO SO) pairs pf = Ret (Inr ())"
    and "\<forall>j. steel_proven zkvm SO j \<longrightarrow> steel_attested A B FO SO GO j"
    and "bincode_injective (so_bincode SO)"
    and "\<forall>pair\<in>set pairs. rlp_law A (versioned_cert (fst pair))"
  shows "\<exists>env. \<forall>(c, cv)\<in>set pairs. claim_env GO cv env \<and>
     cv_claimed_validity cv = steel_is_valid B GO env (cv_verifier_address cv) c"
proof -
  obtain j where v: "vo_to_journals_bytes (CanoeSteelVerifier zkvm A FO SO) pairs = Ret j"
    and a: "steel_attested A B FO SO GO j"
    using steel_secure.accepts_sound [OF assms(1), of "steel_attested A B FO SO GO"] assms(2) by blast
  have j: "steel_to_journals_bytes A FO SO pairs = Ret j"
    using v by (simp add: CanoeSteelVerifier_def)
  obtain evm inputs where g: "steel_guest_main A B FO (so_bincode SO) GO evm inputs = Ret j"
      "\<forall>i\<in>set inputs. rlp_law A (versioned_cert (ci_altda_commitment i))"
    using a unfolding steel_attested_def by blast
  have "\<exists>chain. l1_chain_of (ci_l1_chain_id (hd inputs)) = Some chain \<and>
     list_all2 (\<lambda>pair i. fst pair = ci_altda_commitment i \<and>
        claim_holds B GO (go_into_env GO evm chain) pair \<and>
        cv_l1_chain_id (snd pair) = ci_l1_chain_id (hd inputs)) pairs inputs"
    using assms(3) unfolding bincode_injective_def
    by (intro steel_journals_agree [OF j g(1) _ assms(4) g(2)]) blast
  then obtain chain where ch: "l1_chain_of (ci_l1_chain_id (hd inputs)) = Some chain"
    and l: "list_all2 (\<lambda>pair i. fst pair = ci_altda_commitment i \<and>
        claim_holds B GO (go_into_env GO evm chain) pair \<and>
        cv_l1_chain_id (snd pair) = ci_l1_chain_id (hd inputs)) pairs inputs" by blast
  show ?thesis
    using list_all2_left [OF l] ch
    by (intro exI [of _ "go_into_env GO evm chain"]) (fastforce simp: run_env_def claim_holds_def)
qed

lemma sp1_claims_true:
  assumes "vo_validate_cert_receipt (CanoeSp1CCVerifier zkvm A FO PP) pairs pf = Ret (Inr ())"
    and "\<forall>j. sp1_proven PP j \<longrightarrow> sp1_attested A B PP XO j"
    and "bincode_injective (pp_bincode PP)"
    and "\<forall>pair\<in>set pairs. rlp_law A (versioned_cert (fst pair))"
  shows "\<exists>executor. \<forall>pair\<in>set pairs. sp1_claim_holds A B FO PP XO executor pair"
proof -
  obtain j where v: "vo_to_journals_bytes (CanoeSp1CCVerifier zkvm A FO PP) pairs = Ret j"
    and a: "sp1_attested A B PP XO j"
    using sp1_secure.accepts_sound [OF assms(1), of "sp1_attested A B PP XO"] assms(2) by blast
  have j: "sp1_to_journals_bytes A FO PP pairs = Ret j"
    using v by (simp add: CanoeSp1CCVerifier_def)
  obtain sk inputs where g: "sp1_guest_main A B PP XO sk inputs = Ret j"
      "\<forall>i\<in>set inputs. rlp_law A (versioned_cert (ci_altda_commitment i))"
    using a unfolding sp1_attested_def by blast
  have "\<exists>s x. xo_deserialize XO sk = Inr s \<and> xo_executor XO s = Inr x \<and>
     list_all2 (\<lambda>pair i. fst pair = ci_altda_commitment i \<and> sp1_claim_holds A B FO PP XO x pair) pairs inputs"
    using assms(3) unfolding bincode_injective_def
    by (intro sp1_journals_agree [OF j g(1) _ assms(4) g(2)]) blast
  then obtain x where "list_all2 (\<lambda>pair i. fst pair = ci_altda_commitment i \<and>
      sp1_claim_holds A B FO PP XO x pair) pairs inputs" by blast
  from list_all2_left [OF this] show ?thesis by blast
qed

text \<open>The payload of a certificate, for the data its KZG commitment of a number of field elements was made of.\<close>

definition committed_payload :: "(G1Point \<Rightarrow> u64 \<Rightarrow> bytes) \<Rightarrow> AltDACommitment \<Rightarrow> EncodedPayload" where
  "committed_payload D c = \<lparr> encoded_payload = D (get_kzg_commitment c) (get_num_field_element c) \<rparr>"

definition chain_validity ::
    "abi_ops \<Rightarrow> ('i, 'e) steel_guest_ops \<Rightarrow> address_fetch \<Rightarrow> u64 \<Rightarrow> 'e \<Rightarrow> AltDACommitment \<Rightarrow> bool" where
  "chain_validity B GO fetch chain env c =
     (case fetch chain (versioned_cert c) of
        Inr address \<Rightarrow> steel_is_valid B GO env address c
      | Inl _ \<Rightarrow> False)"

lemma from_witness_validities:
  assumes "from_witness (CanoeSteelVerifier zkvm A FO SO) fetch BV w hash num ts chain = Ret p"
    and "\<forall>j. steel_proven zkvm SO j \<longrightarrow> steel_attested A B FO SO GO j"
    and "bincode_injective (so_bincode SO)"
    and "\<forall>(c, b)\<in>set (wit_validities w). rlp_law A (versioned_cert c)"
  shows "\<exists>env. \<forall>(c, b)\<in>set (wit_validities w).
     run_env GO chain hash num env \<and> b = chain_validity B GO fetch chain env c"
proof (cases "wit_validities w = []")
  case False
  with assms(1) obtain claims where
    l: "list_all2 (\<lambda>e pair. cert_validity_of fetch hash num ts chain e = Ret pair) (wit_validities w) claims"
    and v: "vo_validate_cert_receipt (CanoeSteelVerifier zkvm A FO SO) claims (wit_canoe_proof_bytes w) = Ret (Inr ())"
    by (rule from_witness_claims)
  have "\<forall>pair\<in>set claims. rlp_law A (versioned_cert (fst pair))"
    using l assms(4) by (induction rule: list_all2_induct) (auto simp: cert_validity_of_Ret_iff)
  from steel_claims_true [OF v assms(2,3) this]
  obtain env where env: "\<forall>(c, cv)\<in>set claims. claim_env GO cv env \<and>
      cv_claimed_validity cv = steel_is_valid B GO env (cv_verifier_address cv) c" by blast
  have "run_env GO chain hash num env \<and> b = chain_validity B GO fetch chain env c" if cb: "(c, b) \<in> set (wit_validities w)" for c b
  proof -
    obtain pair where pair: "pair \<in> set claims" "cert_validity_of fetch hash num ts chain (c, b) = Ret pair"
      using list_all2_left [OF l cb] by blast
    then show ?thesis
      using env by (auto simp: cert_validity_of_Ret_iff chain_validity_def)
  qed
  then show ?thesis by blast
qed simp

lemma entries_agree_ofI:
  assumes "\<And>c b. (c, b) \<in> set vs \<Longrightarrow> b = V c" "\<And>c x. (c, x) \<in> set ps \<Longrightarrow> x = P c"
  shows "entries_agree V P (preloaded_of vs ps)"
  using assms unfolding entries_agree_of by blast

lemma from_witness_entries:
  assumes "from_witness (CanoeSteelVerifier zkvm A FO SO) fetch BV w hash num ts chain = Ret p"
    and "\<forall>j. steel_proven zkvm SO j \<longrightarrow> steel_attested A B FO SO GO j"
    and "bincode_injective (so_bincode SO)"
    and "\<forall>(c, b)\<in>set (wit_validities w). rlp_law A (versioned_cert c)"
    and "\<forall>(c, x, k)\<in>set (wit_encoded_payloads w). x = committed_payload D c"
  shows "\<exists>env. entries_agree (chain_validity B GO fetch chain env) (committed_payload D) p \<and>
     (wit_validities w = [] \<or> run_env GO chain hash num env)"
proof -
  obtain env where env: "\<forall>(c, b)\<in>set (wit_validities w).
      run_env GO chain hash num env \<and> b = chain_validity B GO fetch chain env c"
    using from_witness_validities [OF assms(1-4)] by blast
  have p: "p = preloaded_of (wit_validities w) (map (\<lambda>(ac, ep, _). (ac, ep)) (wit_encoded_payloads w))"
    using assms(1) unfolding from_witness_Ret_iff by blast
  have "entries_agree (chain_validity B GO fetch chain env) (committed_payload D) p"
    unfolding p
  proof (rule entries_agree_ofI)
    show "b = chain_validity B GO fetch chain env c" if "(c, b) \<in> set (wit_validities w)" for c b
      using env that by auto
    show "x = committed_payload D c"
      if "(c, x) \<in> set (map (\<lambda>(ac, ep, _). (ac, ep)) (wit_encoded_payloads w))" for c x
      using assms(5) that by auto
  qed
  moreover have "wit_validities w = [] \<or> run_env GO chain hash num env"
    using env by (cases "wit_validities w") auto
  ultimately show ?thesis by blast
qed

end
