(* ===== verification/Zkvm_Properties.thy ===== *)
theory Zkvm_Properties
  imports Zkvm_Soundness Sample_Data
begin

text \<open>
  The properties of the zkVM side: what the two Canoe verifiers accept and in
  which order the preloaded provider answers. The theorems are applied to a proof about one
  certificate, for each of the two proof systems.
\<close>

section \<open>A proof about one certificate\<close>

definition sample_forks :: fork_ops where
  "sample_forks =
     \<lparr> fo_spec_by_timestamp_and_block_number = (\<lambda>_ _ _. ''Prague''),
       fo_steel_active_fork = (\<lambda>_ _ _. Inr ''Prague''), fo_PRAGUE = ''Prague'', fo_OSAKA = ''Osaka'' \<rparr>"

definition sample_abi :: abi_ops where
  "sample_abi = \<lparr> abi_encode_v3 = (\<lambda>_. [3]), abi_encode_v4 = (\<lambda>_. [4]) \<rparr>"

definition sample_claims :: claims where
  "sample_claims =
     [(sample_c3, \<lparr> cv_claimed_validity = True, cv_l1_head_block_hash = 7, cv_l1_head_block_number = 200,
                    cv_l1_head_block_timestamp = 50, cv_l1_chain_id = 1, cv_verifier_address = 9 \<rparr>)]"

definition sample_input :: CanoeInput where
  "sample_input =
     \<lparr> ci_altda_commitment = sample_c3, ci_claimed_validity = True, ci_l1_head_block_hash = 7,
       ci_l1_head_block_number = 200, ci_l1_chain_id = 1, ci_verifier_address = 9 \<rparr>"

definition sample_journal :: "u256 \<Rightarrow> u256 \<Rightarrow> Journal" where
  "sample_journal config spec =
     \<lparr> j_blockNumber = 200, j_blockhash = 7, j_certVerifierAddress = 9, j_input = [1, 0, 2, 7],
       j_output = True, j_l1ChainId = 1, j_chainConfigHash = config, j_chainSpecHash = spec \<rparr>"

text \<open>An encoding that is defined on one list only.\<close>

definition sample_bincode :: "Journal \<Rightarrow> Journal list \<Rightarrow> bytes option" where
  "sample_bincode j js = (if js = [j] then Some [1] else None)"

lemma sample_bincode_injective [simp]: "bincode_injective (sample_bincode j)"
  by (simp add: bincode_injective_def sample_bincode_def)

definition sample_steel :: "unit steel_ops" where
  "sample_steel =
     \<lparr> so_bincode = sample_bincode (sample_journal (keccak256 sample_alloy (str_bytes ''Prague'')) 0),
       so_env_verify = (\<lambda>j. if j = [1] then Inr () else Inl ''verify''),
       so_receipt_from_slice = (\<lambda>_. Inl ''receipt''), so_receipt_verify = (\<lambda>_. Inl ''receipt''),
       so_receipt_journal = (\<lambda>_. []) \<rparr>"

definition sample_env :: "(unit, unit) steel_guest_ops" where
  "sample_env =
     \<lparr> go_into_env = (\<lambda>_ _. ()), go_header_number = (\<lambda>_. 200), go_header_timestamp = (\<lambda>_. 50),
       go_header_seal = (\<lambda>_. 7), go_call = (\<lambda>_ _ _. 1) \<rparr>"

lemma sample_steel_guest:
  "steel_guest_main sample_alloy sample_abi sample_forks (so_bincode sample_steel) sample_env () [sample_input] =
     Ret [1]"
proof -
  have b: "CertVerifierCall_build sample_abi sample_c3 = ABIEncodeInterface [3]"
    by (simp add: CertVerifierCall_build_def sample_abi_def sample_c3_def)
  show ?thesis
    by (simp add: steel_guest_main_def steel_guest_journal_def sample_input_def sample_env_def
        sample_forks_def l1_chain_of_def b Let_def bincode_serialize_def sample_steel_def
        sample_bincode_def sample_journal_def)
qed

lemma sample_rlp_law [simp]: "rlp_law sample_alloy (versioned_cert sample_c3)"
  using sample_parsed_form(1) by (simp add: parsed_form_def)

lemma sample_steel_proven:
  "\<forall>j. steel_proven True sample_steel j \<longrightarrow>
     steel_attested sample_alloy sample_abi sample_forks sample_steel sample_env j"
proof (intro allI impI)
  fix j
  assume "steel_proven True sample_steel j"
  then have "j = [1]" by (simp add: steel_proven_def sample_steel_def split: if_splits)
  then show "steel_attested sample_alloy sample_abi sample_forks sample_steel sample_env j"
    unfolding steel_attested_def using sample_steel_guest
    by (intro exI [of _ "()"] exI [of _ "[sample_input]"]) (simp add: sample_input_def)
qed

lemma sample_steel_accepts:
  "vo_validate_cert_receipt (CanoeSteelVerifier True sample_alloy sample_forks sample_steel)
     sample_claims None = Ret (Inr ())"
  by (simp add: CanoeSteelVerifier_def steel_validate_cert_receipt_def steel_validate_cert_receipt_inner_def
      steel_to_journals_bytes_def steel_journal_def get_steel_active_fork_def derive_chain_spec_id_def
      l1_chain_of_def sample_claims_def sample_forks_def bincode_serialize_def sample_steel_def
      sample_bincode_def sample_journal_def Let_def)

definition sample_sp1 :: "unit sp1_ops" where
  "sample_sp1 =
     \<lparr> pp_bincode = sample_bincode (sample_journal (keccak256 sample_alloy [8]) (keccak256 sample_alloy [6])),
       pp_genesis_try_from = (\<lambda>_. Inr ()), pp_bincode_genesis = (\<lambda>_. Some [6]),
       pp_abi_encode_packed = (\<lambda>_ _. [8]), pp_sha256 = (\<lambda>bs. if bs = [1] then 257 else 0),
       pp_verify_sp1_proof = (\<lambda>key digest. key = V_KEY \<and> digest = 257) \<rparr>"

definition sample_executor :: "(unit, unit, unit) sp1_guest_ops" where
  "sample_executor =
     \<lparr> xo_deserialize = (\<lambda>_. Inr ()), xo_genesis = (\<lambda>_. ()), xo_executor = (\<lambda>_. Inr ()),
       xo_header_number = (\<lambda>_. 200), xo_chain_id = (\<lambda>_. 1),
       xo_execute = (\<lambda>_ _ _ _. Inr \<lparr> pub_contractOutput = [1], pub_anchorHash = 7,
          pub_anchorType = BlockHash, pub_chainConfigHash = keccak256 sample_alloy [8] \<rparr>),
       xo_status_abi_decode = (\<lambda>_. Inr SUCCESS) \<rparr>"

lemma sample_sp1_guest:
  "sp1_guest_main sample_alloy sample_abi sample_sp1 sample_executor [] [sample_input] = Ret [1]"
  by (simp add: sp1_guest_main_def sp1_guest_journal_def sample_input_def sample_executor_def
      sp1_validity_def serialize_genesis_def Let_def bincode_serialize_def sample_sp1_def
      sample_bincode_def sample_journal_def)

lemma sample_sp1_proven:
  "\<forall>j. sp1_proven sample_sp1 j \<longrightarrow> sp1_attested sample_alloy sample_abi sample_sp1 sample_executor j"
proof (intro allI impI)
  fix j
  assume "sp1_proven sample_sp1 j"
  then have "j = [1]" by (simp add: sp1_proven_def sample_sp1_def split: if_splits)
  then show "sp1_attested sample_alloy sample_abi sample_sp1 sample_executor j"
    unfolding sp1_attested_def using sample_sp1_guest
    by (intro exI [of _ "[]"] exI [of _ "[sample_input]"]) (simp add: sample_input_def)
qed

lemma sample_sp1_accepts:
  "vo_validate_cert_receipt (CanoeSp1CCVerifier True sample_alloy sample_forks sample_sp1)
     sample_claims None = Ret (Inr ())"
  by (simp add: CanoeSp1CCVerifier_def sp1_validate_cert_receipt_def sp1_to_journals_bytes_def
      sp1_journal_def derive_chain_config_hash_def hash_chain_config_def derive_chain_spec_id_def
      rsp_genesis_hash_def serialize_genesis_def l1_chain_of_def sample_claims_def sample_forks_def
      bincode_serialize_def sample_sp1_def sample_bincode_def sample_journal_def)

lemma sample_claims_rlp [simp]: "\<forall>pair\<in>set sample_claims. rlp_law sample_alloy (versioned_cert (fst pair))"
  by (simp add: sample_claims_def)

section \<open>The verifiers\<close>

text \<open>C9. When the steel verifier accepts a list of claims, and a proof that risc0 accepts is a proof of
  a run of the guest, there is one EVM environment, of the claims' chain, block hash and block number,
  in which every claimed validity is what the certificate verifier contract answers; no claim is about
  the kurtosis devnet.\<close>

theorem steel_accepts_only_true_claims:
  assumes "vo_validate_cert_receipt (CanoeSteelVerifier zkvm A FO SO) pairs pf = Ret (Inr ())"
    and "\<forall>j. steel_proven zkvm SO j \<longrightarrow> steel_attested A B FO SO GO j"
    and "bincode_injective (so_bincode SO)"
    and "\<forall>pair\<in>set pairs. rlp_law A (versioned_cert (fst pair))"
  shows "(\<exists>env. \<forall>(c, cv)\<in>set pairs. claim_env GO cv env \<and>
      cv_claimed_validity cv = steel_is_valid B GO env (cv_verifier_address cv) c) \<and>
    (\<forall>(c, cv)\<in>set pairs. cv_l1_chain_id cv \<noteq> 3151908)"
proof
  show "\<forall>(c, cv)\<in>set pairs. cv_l1_chain_id cv \<noteq> 3151908"
    using assms(1) by (auto simp: CanoeSteelVerifier_def steel_validate_cert_receipt_def split: if_splits)
qed (rule steel_claims_true [OF assms])

theorem steel_accepts_only_true_claims_witness:
  "\<exists>env. run_env sample_env 1 7 200 env \<and> steel_is_valid sample_abi sample_env env 9 sample_c3"
proof -
  have "bincode_injective (so_bincode sample_steel)" by (simp add: sample_steel_def)
  from steel_accepts_only_true_claims [OF sample_steel_accepts sample_steel_proven this sample_claims_rlp]
  show ?thesis by (simp add: sample_claims_def)
qed

text \<open>C10. When the sp1-cc verifier accepts a list of claims, it runs in the zkVM on a non-empty list
  and, with a proof under the pinned key being a proof of a run of the guest, there is one executor,
  at the claims' chain, block hash and block number and under the fork the verifier derives for that
  block, in which every claimed validity is what the contract answers.\<close>

theorem sp1_accepts_only_true_claims:
  assumes "vo_validate_cert_receipt (CanoeSp1CCVerifier zkvm A FO PP) pairs pf = Ret (Inr ())"
    and "\<forall>j. sp1_proven PP j \<longrightarrow> sp1_attested A B PP XO j"
    and "bincode_injective (pp_bincode PP)"
    and "\<forall>pair\<in>set pairs. rlp_law A (versioned_cert (fst pair))"
  shows "(\<exists>executor. \<forall>pair\<in>set pairs. sp1_claim_holds A B FO PP XO executor pair) \<and> zkvm \<and> pairs \<noteq> []"
proof
  show "zkvm \<and> pairs \<noteq> []"
    using assms(1) by (auto simp: CanoeSp1CCVerifier_def sp1_validate_cert_receipt_def obind_eq_Ret
        split: if_splits)
qed (rule sp1_claims_true [OF assms])

theorem sp1_accepts_only_true_claims_witness:
  "\<exists>executor. sp1_claim_holds sample_alloy sample_abi sample_forks sample_sp1 sample_executor executor
     (hd sample_claims)"
proof -
  have "bincode_injective (pp_bincode sample_sp1)" by (simp add: sample_sp1_def)
  from sp1_accepts_only_true_claims [OF sample_sp1_accepts sample_sp1_proven this sample_claims_rlp]
  show ?thesis by (simp add: sample_claims_def)
qed

section \<open>The preloaded provider\<close>

definition sample_witness :: EigenDAWitness where
  "sample_witness =
     \<lparr> wit_validities = [(sample_c3, True)], wit_encoded_payloads = [(sample_c3, sample_payload, 0)],
       wit_canoe_proof_bytes = None \<rparr>"

definition sample_batch_verify :: batch_verifier where
  "sample_batch_verify blobs commitments proofs =
     Ret (length blobs = length commitments \<and> (\<forall>blob\<in>set blobs. blob = replicate 32 0))"

abbreviation sample_verifier :: canoe_verifier_ops where
  "sample_verifier \<equiv> CanoeSteelVerifier True sample_alloy sample_forks sample_steel"

lemma sample_from_witness:
  "from_witness sample_verifier (static_fetch_address 9) sample_batch_verify sample_witness 7 200 50 1 =
     Ret (preloaded_of [(sample_c3, True)] [(sample_c3, sample_payload)])"
proof -
  have "mapM (cert_validity_of (static_fetch_address 9) 7 200 50 1) [(sample_c3, True)] = Ret sample_claims"
    by (simp add: cert_validity_of_def static_fetch_address_def sample_claims_def)
  moreover have "num_field_element sample_payload = 1"
    by (simp add: num_field_element_def sample_payload_def)
  ultimately show ?thesis
    unfolding from_witness_Ret_iff
    using sample_steel_accepts
    by (simp add: sample_witness_def sample_batch_verify_def serialize_def sample_payload_def
        del: mapM.simps)
qed

text \<open>The answers to a sequence of validity requests.\<close>

fun ask_validities :: "PreloadedEigenDAPreimageProvider \<Rightarrow> AltDACommitment list \<Rightarrow> bool list outcome" where
  "ask_validities p [] = Ret []"
| "ask_validities p (c # cs) =
     obind (preloaded_get_validity p c) (\<lambda>(r, p').
       case r of
         Inr b \<Rightarrow> obind (ask_validities p' cs) (\<lambda>bs. Ret (b # bs))
       | Inl e \<Rightarrow> Panic ''validity'')"

lemma case_sum_Panic_eq_Ret:
  "(case r of Inl e \<Rightarrow> Panic m | Inr b \<Rightarrow> f b) = Ret y \<longleftrightarrow> (\<exists>b. r = Inr b \<and> f b = Ret y)"
  by (cases r) simp_all

lemma ask_validities_of:
  "ask_validities (preloaded_of vs ps) cs = Ret bs \<longleftrightarrow>
     length bs = length cs \<and> (\<exists>rest. vs = zip cs bs @ rest)"
proof (induction cs arbitrary: vs bs)
  case (Cons c cs)
  show ?case
  proof (cases bs)
    case (Cons b bs')
    have "ask_validities (preloaded_of vs ps) (c # cs) = Ret bs \<longleftrightarrow>
        (\<exists>vs'. vs = (c, b) # vs' \<and> ask_validities (preloaded_of vs' ps) cs = Ret bs')"
      using Cons by (auto simp: obind_eq_Ret preloaded_get_validity_Ret_iff case_sum_Panic_eq_Ret)
    then show ?thesis using Cons Cons.IH [of _ bs'] by auto
  next
    case Nil
    then show ?thesis by (auto simp: obind_eq_Ret case_sum_Panic_eq_Ret)
  qed
qed auto

text \<open>C21. The provider made from a witness answers a sequence of validity requests exactly when the
  requests are the first commitments of the witness, in its order, and with the values the witness
  has; any other sequence aborts.\<close>

theorem preloaded_answers_in_order:
  assumes "from_witness VO fetch BV w hash num ts chain = Ret p"
  shows "ask_validities p cs = Ret bs \<longleftrightarrow>
     length bs = length cs \<and> (\<exists>rest. wit_validities w = zip cs bs @ rest)"
  using assms unfolding from_witness_Ret_iff by (simp add: ask_validities_of)

theorem preloaded_answers_in_order_witness:
  "ask_validities (preloaded_of [(sample_c3, True)] [(sample_c3, sample_payload)]) [sample_c3] = Ret [True]"
  unfolding preloaded_answers_in_order [OF sample_from_witness]
  by (simp add: sample_witness_def)

end
