(* ===== verification/Sample_Runs.thy ===== *)
theory Sample_Runs
  imports Derivation_Properties Zkvm_Properties
begin

text \<open>
  Runs of the derivation on one commitment: over the preimage oracle, recorded, and over the preloaded
  provider.
\<close>

lemma sample_load_one:
  "data_source_load sample_alloy list_eth (EigenDADataSource_new [[1, 1, 0, 2, 7]] src) b a =
     (Inr sample_c3, EigenDADataSource_new [] src\<lparr> altda_commitment := Some sample_c3 \<rparr>)"
  "data_source_load sample_alloy list_eth (EigenDADataSource_new [] src) b a =
     (Inl (Inl (PTemporary Eof)), EigenDADataSource_new [] src)"
  by (simp_all add: data_source_load_def EigenDADataSource_new_def Let_def data_source_clear_def
      list_eth_def preimage_source_parse_def)

lemma sample_next_one:
  assumes "preimage_source_next PO src sample_c3 (bi_number b) = Ret (Inr sample_payload, src')"
  shows "data_source_next sample_alloy list_eth PO (EigenDADataSource_new [[1, 1, 0, 2, 7]] src) b a =
     Some (Ret (Inr [], EigenDADataSource_new [] src'))"
proof -
  have "preimage_source_next PO
      (eigenda_source (EigenDADataSource_new [] src\<lparr> altda_commitment := Some sample_c3 \<rparr>)) sample_c3 (bi_number b) =
      Ret (Inr sample_payload, src')"
    using assms by (simp add: EigenDADataSource_new_def)
  from data_source_next_at [OF sample_load_one(1) this] show ?thesis
    by (simp add: EigenDADataSource_new_def)
qed

lemma sample_preloaded_next:
  "preimage_source_next preloaded_provider
     (EigenDAPreimageSource_new (preloaded_of [(sample_c3, True)] [(sample_c3, sample_payload)])) sample_c3 200 =
   Ret (Inr sample_payload, EigenDAPreimageSource_new (preloaded_of [] []))"
  by (simp add: preimage_source_next_unfold preloaded_provider_def preloaded_get_validity_hit
      preloaded_get_encoded_payload_hit derive_commitment_def EigenDAPreimageSource_new_def)

lemma sample_preloaded_pulls:
  "pulls sample_alloy list_eth preloaded_provider sample_block 0
     (EigenDADataSource_new [[1, 1, 0, 2, 7]] (EigenDAPreimageSource_new
        (preloaded_of [(sample_c3, True)] [(sample_c3, sample_payload)]))) [[]]"
proof (rule pulls.data)
  show "data_source_next sample_alloy list_eth preloaded_provider
      (EigenDADataSource_new [[1, 1, 0, 2, 7]] (EigenDAPreimageSource_new
        (preloaded_of [(sample_c3, True)] [(sample_c3, sample_payload)]))) sample_block 0 =
     Some (Ret (Inr [], EigenDADataSource_new [] (EigenDAPreimageSource_new (preloaded_of [] []))))"
    by (rule sample_next_one) (simp add: sample_preloaded_next)
  show "pulls sample_alloy list_eth preloaded_provider sample_block 0
      (EigenDADataSource_new [] (EigenDAPreimageSource_new (preloaded_of [] []))) []"
    by (rule pulls.finish, rule data_source_next_early, rule sample_load_one(2))
qed

abbreviation sample_oracle where
  "sample_oracle \<equiv> oracle_provider sample_alloy const_channel"

lemma const_fetch_loop: "fst (fetch_loop A const_channel ch is key buf) \<noteq> Inl e"
  by (induction A "const_channel" ch "is" key buf rule: fetch_loop.induct)
     (auto simp: const_channel_def Let_def)

lemma sample_oracle_never_errs: "never_errs sample_oracle"
proof -
  have "fetch_encoded_payload A const_channel ch key n buf \<noteq> (Inl e, ch')" for A ch key n buf e ch'
    using const_fetch_loop [of A ch "map of_nat [0..<unat n]" key buf e]
    by (auto simp: fetch_encoded_payload_def)
  moreover have "oracle_get_validity sample_alloy const_channel p c \<noteq> Ret (Inl e, p')" for p c e p'
    by (simp add: oracle_get_validity_def const_channel_def)
  moreover have "co_write const_channel ch h = (Inr (), ch)" for ch h
    by (simp add: const_channel_def)
  ultimately show ?thesis
    by (auto simp: never_errs_def oracle_provider_def oracle_get_encoded_payload_def Let_def
        split: prod.splits sum.splits)
qed

lemma sample_oracle_answers:
  "pv_get_validity sample_oracle (oracle_provider_new ()) sample_c3 = Ret (Inr True, oracle_provider_new ())"
  "pv_get_encoded_payload sample_oracle (oracle_provider_new ()) sample_c3 =
     Ret (Inr sample_payload, oracle_provider_new ())"
  by (simp_all add: oracle_provider_def oracle_provider_new_def oracle_get_validity_def
      oracle_get_encoded_payload_def fetch_encoded_payload_def const_channel_def write_at_def
      sample_payload_def Let_def)

definition sample_recording :: EigenDAPreimage where
  "sample_recording =
     \<lparr> pre_validities = [(sample_c3, True)], pre_encoded_payloads = [(sample_c3, sample_payload)] \<rparr>"

definition sample_recorded where
  "sample_recorded =
     EigenDADataSource_new [] (EigenDAPreimageSource_new
       \<lparr> rec_provider = oracle_provider_new (), rec_preimage = sample_recording \<rparr>)"

lemma sample_recorded_recording [simp]: "recording sample_recorded = sample_recording"
  by (simp add: sample_recorded_def EigenDADataSource_new_def EigenDAPreimageSource_new_def)

lemma sample_recorded_next:
  "data_source_next sample_alloy list_eth (recorder sample_oracle)
      (EigenDADataSource_new [[1, 1, 0, 2, 7]] (EigenDAPreimageSource_new (recorder_new (oracle_provider_new ()))))
      sample_block 0 = Some (Ret (Inr [], sample_recorded))"
  unfolding sample_recorded_def
proof (rule sample_next_one)
  show "preimage_source_next (recorder sample_oracle)
      (EigenDAPreimageSource_new (recorder_new (oracle_provider_new ()))) sample_c3 (bi_number sample_block) =
      Ret (Inr sample_payload, EigenDAPreimageSource_new
       \<lparr> rec_provider = oracle_provider_new (), rec_preimage = sample_recording \<rparr>)"
    using recorder_next_fetched [OF sample_oracle_answers sample_recency(1) sample_recency(3) [of 200], of "[]" "[]"]
    by (simp add: EigenDAPreimageSource_new_def recorder_new_def sample_recording_def)
qed

lemma sample_recorded_calls:
  "calls sample_alloy list_eth (recorder sample_oracle)
     (EigenDADataSource_new [[1, 1, 0, 2, 7]] (EigenDAPreimageSource_new (recorder_new (oracle_provider_new ()))))
     [(sample_block, 0, Inr [])] sample_recorded"
  by (rule calls.call [OF sample_recorded_next calls.stop])

lemma sample_recorded_witness:
  "from_preimage sample_recording [0] (Some []) = Inr (sample_witness\<lparr> wit_canoe_proof_bytes := Some [] \<rparr>)"
  "from_witness CanoeNoOpVerifier eigenlabs_fetch_address sample_batch_verify
     (sample_witness\<lparr> wit_canoe_proof_bytes := Some [] \<rparr>) 7 200 50 1 =
   Ret (preloaded_of [(sample_c3, True)] [(sample_c3, sample_payload)])"
proof -
  show "from_preimage sample_recording [0] (Some []) = Inr (sample_witness\<lparr> wit_canoe_proof_bytes := Some [] \<rparr>)"
    by (simp add: from_preimage_def from_preimage_unchecked_def sample_recording_def sample_witness_def)
  have "num_field_element sample_payload = 1"
    by (simp add: num_field_element_def sample_payload_def)
  moreover have "\<exists>claims. mapM (cert_validity_of eigenlabs_fetch_address 7 200 50 1) [(sample_c3, True)] = Ret claims"
    by (simp add: cert_validity_of_def eigenlabs_fetch_address_def cert_verifier_address_def sample_c3_def
        cert_verifier_address_abi_encode_interface_def)
  ultimately show "from_witness CanoeNoOpVerifier eigenlabs_fetch_address sample_batch_verify
     (sample_witness\<lparr> wit_canoe_proof_bytes := Some [] \<rparr>) 7 200 50 1 =
   Ret (preloaded_of [(sample_c3, True)] [(sample_c3, sample_payload)])"
    unfolding from_witness_Ret_iff
    by (simp add: sample_witness_def sample_batch_verify_def serialize_def sample_payload_def
        CanoeNoOpVerifier_def del: mapM.simps)
qed

end
