(* ===== verification/Honest_Witness.thy ===== *)
theory Honest_Witness
  imports Zkvm_Soundness
begin

text \<open>
  Completeness of witness generation: the recording of a derivation over the preimage oracle passes
  the checks of \<open>from_witness\<close> that do not involve cryptography, whatever errors occurred on the way.
\<close>

text \<open>What a provider's payloads satisfy, for instance that they have the length their certificate
  states.\<close>

definition payloads_satisfy ::
    "(AltDACommitment \<Rightarrow> EncodedPayload \<Rightarrow> bool) \<Rightarrow> ('p, 'e) provider_ops \<Rightarrow> bool" where
  "payloads_satisfy R PO \<longleftrightarrow>
     (\<forall>p c x p'. pv_get_encoded_payload PO p c = Ret (Inr x, p') \<longrightarrow> R c x)"

abbreviation right_length :: "AltDACommitment \<Rightarrow> EncodedPayload \<Rightarrow> bool" where
  "right_length c x \<equiv> num_field_element x = get_num_field_element c"

lemma fetch_loop_length:
  assumes "fetch_loop A CO ch is key buf = (Inr res, ch')" "\<forall>i\<in>set is. unat i * 32 + 32 \<le> length buf"
  shows "length res = length buf"
  using assms
proof (induction A CO ch "is" key buf rule: fetch_loop.induct)
  case (2 A CO ch i rest key buf)
  then show ?case by (auto simp: Let_def split: prod.splits sum.splits)
qed simp

lemma oracle_exact_lengths: "payloads_satisfy right_length (oracle_provider A CO)"
  unfolding payloads_satisfy_def
proof (intro allI impI)
  fix p c x p'
  assume g: "pv_get_encoded_payload (oracle_provider A CO) p c = Ret (Inr x, p')"
  let ?n = "unat (get_num_field_element c)"
  obtain o1 buf o2 where f: "fetch_loop A CO o1 (map of_nat [0..<?n]) (digest_template A c)
        (replicate (?n * 32) 0) = (Inr buf, o2)"
    and x: "x = \<lparr> encoded_payload = buf \<rparr>"
    using g unfolding oracle_provider_def oracle_get_encoded_payload_def fetch_encoded_payload_def
    by (auto simp: Let_def split: prod.splits sum.splits)
  have "unat (of_nat i :: u64) = i" if "i < ?n" for i
    using that unat_lt2p [of "get_num_field_element c"] by (simp add: unat_of_nat)
  then have "length buf = ?n * 32"
    using fetch_loop_length [OF f] by simp
  then show "num_field_element x = get_num_field_element c"
    by (simp add: x num_field_element_def)
qed

text \<open>What every recording satisfies.\<close>

definition well_recorded :: "(AltDACommitment \<Rightarrow> EncodedPayload \<Rightarrow> bool) \<Rightarrow> EigenDAPreimage \<Rightarrow> bool" where
  "well_recorded R pre \<longleftrightarrow>
     length (pre_encoded_payloads pre) \<le> length (pre_validities pre) \<and>
     (\<forall>(c, x)\<in>set (pre_encoded_payloads pre). R c x)"

lemma recorder_validity_records:
  assumes "pv_get_validity (recorder PO) p c = Ret (r, p')"
  shows "rec_preimage p' = (case r of
     Inr b \<Rightarrow> (rec_preimage p)\<lparr> pre_validities := pre_validities (rec_preimage p) @ [(c, b)] \<rparr>
   | Inl _ \<Rightarrow> rec_preimage p)"
proof -
  obtain q p1 where q: "pv_get_validity PO (rec_provider p) c = Ret (q, p1)"
    using assms by (auto simp: recorder_def recorder_get_validity_def obind_eq_Ret)
  then show ?thesis
    using assms by (cases q) (auto simp: recorder_def recorder_get_validity_def Let_def)
qed

lemma recorder_payload_records:
  assumes "pv_get_encoded_payload (recorder PO) p c = Ret (r, p')" "payloads_satisfy R PO"
  shows "rec_preimage p' = rec_preimage p \<or>
     (\<exists>x. R c x \<and> rec_preimage p' = (rec_preimage p)\<lparr> pre_encoded_payloads := pre_encoded_payloads (rec_preimage p) @ [(c, x)] \<rparr>)"
proof -
  obtain q p1 where q: "pv_get_encoded_payload PO (rec_provider p) c = Ret (q, p1)"
    using assms(1) by (auto simp: recorder_def recorder_get_encoded_payload_def obind_eq_Ret)
  then have "q = Inr x \<Longrightarrow> R c x" for x
    using assms(2) unfolding payloads_satisfy_def by blast
  then show ?thesis
    using assms(1) q by (cases q) (auto simp: recorder_def recorder_get_encoded_payload_def Let_def)
qed

lemma preimage_source_well_recorded:
  assumes nx: "preimage_source_next (recorder PO) s c bn = Ret (r, s')"
    and ex: "payloads_satisfy R PO" and wr: "well_recorded R (rec_preimage (eigenda_fetcher s))"
  shows "well_recorded R (rec_preimage (eigenda_fetcher s'))"
  using nx
proof (cases rule: preimage_source_next_cases)
  case (validity_error e)
  then show ?thesis using recorder_validity_records [OF validity_error(1)] wr by simp
next
  case (rejected b k)
  then show ?thesis using recorder_validity_records [OF rejected(1)] wr by (simp add: well_recorded_def)
next
  case (fetched b p' y x)
  show ?thesis
    using recorder_validity_records [OF fetched(1)] recorder_payload_records [OF fetched(3) ex] wr
    by (auto simp: well_recorded_def)
qed

lemma data_source_well_recorded:
  assumes "data_source_next A E (recorder PO) s b a = Some y" "payloads_satisfy R PO"
  shows "well_recorded R (recording s) \<longrightarrow> (\<forall>r s'. y = Ret (r, s') \<longrightarrow> well_recorded R (recording s'))"
  using assms(1)
proof (induction rule: data_source_next_induct)
  case (early s r s')
  then show ?case using load_replaying(2) by fastforce
next
  case (skip s c s1 r src y)
  then show ?case
    using preimage_source_well_recorded [OF skip(2) assms(2)] load_replaying(2) [OF skip(1)] by simp
qed (use preimage_source_well_recorded [OF _ assms(2)] load_replaying(2) in fastforce)+

lemma calls_well_recorded:
  assumes "calls A E (recorder PO) s rs s'" "payloads_satisfy R PO" "well_recorded R (recording s)"
  shows "well_recorded R (recording s')"
  using assms(1,3)
proof (induction rule: calls.induct)
  case (call s b a r s1 rs s2)
  then show ?case using data_source_well_recorded [OF call(1) assms(2)] by simp
qed

lemma well_recorded_new:
  "well_recorded R (recording (EigenDADataSource_new g (EigenDAPreimageSource_new (recorder_new p))))"
  by (simp add: well_recorded_def EigenDADataSource_new_def EigenDAPreimageSource_new_def recorder_new_def)

text \<open>The entries of the witness made of a recording.\<close>

lemma from_preimage_entries:
  assumes "from_preimage pre kzg pf = Inr w"
  shows "wit_validities w = pre_validities pre" "wit_canoe_proof_bytes w = pf"
    "map (\<lambda>(ac, ep, _). (ac, ep)) (wit_encoded_payloads w) = pre_encoded_payloads pre"
    "map (\<lambda>(_, _, k). k) (wit_encoded_payloads w) = kzg"
    "pre_validities pre = [] \<or> pf \<noteq> None"
proof -
  have l: "length kzg = length (pre_encoded_payloads pre)"
    and w: "w = from_preimage_unchecked pre kzg pf"
    using assms by (auto simp: from_preimage_def split: if_splits)
  have "map (\<lambda>(ac, ep, _). (ac, ep)) (map (\<lambda>((c, p), k). (c, p, k)) (zip ps ks)) = ps"
    "map (\<lambda>(_, _, k). k) (map (\<lambda>((c, p), k). (c, p, k)) (zip ps ks)) = ks"
    if "length ks = length ps" for ps :: "(AltDACommitment \<times> EncodedPayload) list" and ks :: "u512 list"
    using that by (induction ks ps rule: list_induct2) auto
  from this [OF l]
  show "map (\<lambda>(ac, ep, _). (ac, ep)) (wit_encoded_payloads w) = pre_encoded_payloads pre"
    "map (\<lambda>(_, _, k). k) (wit_encoded_payloads w) = kzg"
    unfolding w from_preimage_unchecked_def by simp_all
  show "wit_validities w = pre_validities pre" "wit_canoe_proof_bytes w = pf"
    by (simp_all add: w from_preimage_unchecked_def)
  show "pre_validities pre = [] \<or> pf \<noteq> None"
    using assms by (auto simp: from_preimage_def split: if_splits)
qed

lemma witness_columns:
  assumes "map (\<lambda>(ac, ep, _). (ac, ep)) es = ps"
  shows "map (\<lambda>(_, ep, _). f ep) es = map (f \<circ> snd) ps" "map (\<lambda>(ac, _, _). g ac) es = map (g \<circ> fst) ps"
    "(\<forall>(c, x, _)\<in>set es. R c x) \<longleftrightarrow> (\<forall>(c, x)\<in>set ps. R c x)" "length es = length ps"
  using assms by (induction es arbitrary: ps) auto

lemma honest_from_witness:
  assumes "from_preimage pre kzg pf = Inr w" "well_recorded right_length pre"
    and "mapM (cert_validity_of fetch hash num ts chain) (pre_validities pre) = Ret claims"
    and "pre_validities pre = [] \<or> vo_validate_cert_receipt VO claims pf = Ret (Inr ())"
    and "BV (map (\<lambda>(_, x). serialize x) (pre_encoded_payloads pre))
            (map (\<lambda>(c, _). get_kzg_commitment c) (pre_encoded_payloads pre)) kzg = Ret True"
  shows "from_witness VO fetch BV w hash num ts chain =
     Ret (preloaded_of (pre_validities pre) (pre_encoded_payloads pre))"
proof -
  note e = from_preimage_entries [OF assms(1)]
  note c = witness_columns [OF e(3)]
  show ?thesis
    using assms(2-5) unfolding from_witness_Ret_iff c e well_recorded_def
    by (auto simp: comp_def case_prod_beta')
qed

end
