(* ===== verification/Fault_Proof_Client.thy ===== *)
theory Fault_Proof_Client
  imports Witgen
begin

text \<open>
  The fault proof client, \<open>crates/client/src/fp_client.rs\<close>, and its instance over the preimage oracle,
  \<open>bin/client/src/client.rs\<close>.

  Kona's pipeline, executor and driver are one parameter: code that, after every answer of the data
  source, either calls \<open>next\<close> or \<open>clear\<close> on it or is finished. So they may be any deterministic
  client of the data source. Two facts about a whole run follow from the facts about single calls: a
  run over a recorder is repeated by the preloaded provider of its recording, and a run over a
  provider is repeated by any other that simulates it (locale \<open>provider_simulation\<close>).
\<close>

section \<open>Kona\<close>

datatype FaultProofProgramError = InvalidClaim u256 u256 | OtherProgramError string

text \<open>What the driver has seen of the data source, and what it does next.\<close>

datatype dap_event = NextResult "(bytes, PipelineErrorKind) result" | Cleared

datatype driver_step =
    CallNext BlockInfo u160
  | CallClear
  | Finish "(u64 \<times> u256, FaultProofProgramError) result"

record ('g, 'cur) kona_ops =
  ko_boot_load :: "(BootInfo, FaultProofProgramError) result"
  ko_fetch_safe_head_hash :: "u256 \<Rightarrow> (u256, FaultProofProgramError) result"
  ko_l2_header_number :: "BootInfo \<Rightarrow> u256 \<Rightarrow> (u64, FaultProofProgramError) result"
  ko_new_pipeline_cursor :: "BootInfo \<Rightarrow> u256 \<Rightarrow> u64 \<Rightarrow> ('cur, FaultProofProgramError) result"
  ko_ethereum_source :: "BootInfo \<Rightarrow> 'g"
  ko_driver :: "BootInfo \<Rightarrow> 'cur \<Rightarrow> dap_event list \<Rightarrow> driver_step"

text \<open>The driver at work on the data source. It may not return.\<close>

partial_function (option) run_driver ::
    "alloy_ops \<Rightarrow> 'g eth_ops \<Rightarrow> ('p, 'e) provider_ops \<Rightarrow> (dap_event list \<Rightarrow> driver_step) \<Rightarrow>
     dap_event list \<Rightarrow> ('g, 'p) EigenDADataSource \<Rightarrow>
     ((u64 \<times> u256, FaultProofProgramError) result \<times> ('g, 'p) EigenDADataSource) outcome option" where
  "run_driver A E PO driver seen dap =
     (case driver seen of
        Finish r \<Rightarrow> Some (Ret (r, dap))
      | CallClear \<Rightarrow> run_driver A E PO driver (seen @ [Cleared]) (data_source_clear E dap)
      | CallNext b a \<Rightarrow>
          Option.bind (data_source_next A E PO dap b a) (\<lambda>y.
            case y of
              Panic m \<Rightarrow> Some (Panic m)
            | Ret (r, dap) \<Rightarrow> run_driver A E PO driver (seen @ [NextResult r]) dap))"

section \<open>The client\<close>

text \<open>The prologue: nothing is left to do for a claim that is already agreed on.\<close>

definition fp_prologue :: "('g, 'cur) kona_ops \<Rightarrow> (BootInfo \<times> 'cur option, FaultProofProgramError) result" where
  "fp_prologue K =
     rbind (ko_boot_load K) (\<lambda>boot.
     rbind (ko_fetch_safe_head_hash K (boot_agreed_l2_output_root boot)) (\<lambda>safe_head_hash.
     rbind (ko_l2_header_number K boot safe_head_hash) (\<lambda>safe_head_number.
       if boot_claimed_l2_block_number boot < safe_head_number
       then Inl (InvalidClaim (boot_agreed_l2_output_root boot) (boot_claimed_l2_output_root boot))
       else if boot_agreed_l2_output_root boot = boot_claimed_l2_output_root boot then Inr (boot, None)
       else rbind (ko_new_pipeline_cursor K boot safe_head_hash safe_head_number) (\<lambda>cursor.
              Inr (boot, Some cursor)))))"

definition fp_epilogue :: "BootInfo \<Rightarrow> (u64 \<times> u256, FaultProofProgramError) result \<Rightarrow>
    (unit, FaultProofProgramError) result" where
  "fp_epilogue boot r =
     rbind r (\<lambda>(number, output_root).
       if output_root \<noteq> boot_claimed_l2_output_root boot
       then Inl (InvalidClaim output_root (boot_claimed_l2_output_root boot)) else Inr ())"

text \<open>The client returns its verdict and the provider as it left it.\<close>

definition run_fp_client ::
    "alloy_ops \<Rightarrow> 'g eth_ops \<Rightarrow> ('g, 'cur) kona_ops \<Rightarrow> ('p, 'e) provider_ops \<Rightarrow> 'p \<Rightarrow>
     ((unit, FaultProofProgramError) result \<times> 'p) outcome option" where
  "run_fp_client A E K PO eigenda =
     (case fp_prologue K of
        Inl e \<Rightarrow> Some (Ret (Inl e, eigenda))
      | Inr (boot, None) \<Rightarrow> Some (Ret (Inr (), eigenda))
      | Inr (boot, Some cursor) \<Rightarrow>
          let dap = EigenDADataSource_new (ko_ethereum_source K boot) (EigenDAPreimageSource_new eigenda)
          in Option.bind (run_driver A E PO (ko_driver K boot cursor) [] dap) (\<lambda>y.
               Some (obind y (\<lambda>(r, dap).
                 Ret (fp_epilogue boot r, eigenda_fetcher (eigenda_source dap))))))"

definition run_direct_client ::
    "alloy_ops \<Rightarrow> 'g eth_ops \<Rightarrow> ('g, 'cur) kona_ops \<Rightarrow> ('c, 'k) comms_ops \<Rightarrow> 'c \<Rightarrow>
     ((unit, FaultProofProgramError) result \<times> 'c OracleEigenDAPreimageProvider) outcome option" where
  "run_direct_client A E K CO oracle =
     run_fp_client A E K (oracle_provider A CO) (oracle_provider_new oracle)"

section \<open>Runs of the driver\<close>

lemma run_driver_induct [consumes 1, case_names finish clear panic step]:
  assumes "run_driver A E PO driver seen s = Some y"
    and finish: "\<And>seen s r. driver seen = Finish r \<Longrightarrow> Q seen s (Ret (r, s))"
    and clear: "\<And>seen s y. driver seen = CallClear \<Longrightarrow>
          Q (seen @ [Cleared]) (data_source_clear E s) y \<Longrightarrow> Q seen s y"
    and panic: "\<And>seen s b a m. driver seen = CallNext b a \<Longrightarrow>
          data_source_next A E PO s b a = Some (Panic m) \<Longrightarrow> Q seen s (Panic m)"
    and step: "\<And>seen s b a r s1 y. driver seen = CallNext b a \<Longrightarrow>
          data_source_next A E PO s b a = Some (Ret (r, s1)) \<Longrightarrow>
          Q (seen @ [NextResult r]) s1 y \<Longrightarrow> Q seen s y"
  shows "Q seen s y"
proof -
  have "A' = A \<longrightarrow> E' = E \<longrightarrow> PO' = PO \<longrightarrow> driver' = driver \<longrightarrow> Q seen' s' y'"
    if "run_driver A' E' PO' driver' seen' s' = Some y'" for A' E' PO' driver' seen' s' y'
    using that
  proof (induction rule: run_driver.raw_induct [rotated 1, consumes 1, case_names 1])
    case (1 run A' E' PO' driver' seen' s' y')
    show ?case
    proof (intro impI)
      assume eqs: "A' = A" "E' = E" "PO' = PO" "driver' = driver"
      have IH: "run A E PO driver seen s = Some y \<Longrightarrow> Q seen s y" for seen s y
        using 1(1) [of A E PO driver seen s y] by simp
      show "Q seen' s' y'"
      proof (cases "driver seen'")
        case (CallNext b a)
        then obtain x where x: "data_source_next A E PO s' b a = Some x"
          "(case x of Panic m \<Rightarrow> Some (Panic m)
            | Ret (r, dap) \<Rightarrow> run A E PO driver (seen' @ [NextResult r]) dap) = Some y'"
          using 1(2) eqs by (auto simp: Option.bind_eq_Some_conv)
        show ?thesis
        proof (cases x)
          case (Ret rs)
          then show ?thesis using x step [OF CallNext] IH by (cases rs) auto
        qed (use x panic [OF CallNext] in auto)
      next
        case CallClear
        then show ?thesis using 1(2) eqs clear [OF CallClear IH] by simp
      next
        case (Finish r)
        then show ?thesis using 1(2) eqs finish [OF Finish, of s'] by auto
      qed
    qed
  qed
  then show ?thesis using assms(1) by simp
qed

lemma run_driver_steps:
  "driver seen = Finish r \<Longrightarrow> run_driver A E PO driver seen s = Some (Ret (r, s))"
  "driver seen = CallClear \<Longrightarrow> run_driver A E PO driver seen s =
     run_driver A E PO driver (seen @ [Cleared]) (data_source_clear E s)"
  "driver seen = CallNext b a \<Longrightarrow> data_source_next A E PO s b a = Some (Ret (x, s1)) \<Longrightarrow>
     run_driver A E PO driver seen s = run_driver A E PO driver (seen @ [NextResult x]) s1"
  by (simp_all add: run_driver.simps)

section \<open>Replay of a run\<close>

lemma clear_replaying: "data_source_clear E (replaying s vs ps) = replaying (data_source_clear E s) vs ps"
  by (simp add: data_source_clear_def replaying_def)

lemma clear_recording: "recording (data_source_clear E s) = recording s"
  by (simp add: data_source_clear_def)

lemma run_driver_replay:
  assumes "run_driver A E (recorder PO) driver seen s = Some y" "never_errs PO" "y = Ret (r, s')"
  shows "\<exists>vs ps. extends (recording s) vs ps (recording s') \<and>
     (\<forall>vs' ps'. run_driver A E preloaded_provider driver seen (replaying s (vs @ vs') (ps @ ps')) =
        Some (Ret (r, replaying s' vs' ps')))"
  using assms(1,3)
proof (induction rule: run_driver_induct)
  case (finish seen s r)
  then show ?case by (intro exI [of _ "[]"]) (simp add: extends_refl run_driver_steps(1))
next
  case (clear seen s y)
  then show ?case by (simp add: run_driver_steps(2) clear_replaying clear_recording)
next
  case (step seen s b a x s1 y)
  obtain vs ps where 1: "extends (recording s) vs ps (recording s1)"
    "\<And>vs' ps'. data_source_next A E preloaded_provider (replaying s (vs @ vs') (ps @ ps')) b a =
       Some (Ret (x, replaying s1 vs' ps'))"
    using data_source_replay [OF assms(2) step(2)] unfolding replays_def by auto
  obtain vs2 ps2 where 2: "extends (recording s1) vs2 ps2 (recording s')"
    "\<And>vs' ps'. run_driver A E preloaded_provider driver (seen @ [NextResult x])
       (replaying s1 (vs2 @ vs') (ps2 @ ps')) = Some (Ret (r, replaying s' vs' ps'))"
    using step(3,4) by auto
  show ?case
    using extends_trans [OF 1(1) 2(1)] 1(2) 2(2)
    by (intro exI [of _ "vs @ vs2"] exI [of _ "ps @ ps2"]) (simp add: run_driver_steps(3) [of driver, OF step(1)])
qed simp

lemma run_fp_client_replay:
  assumes "run_fp_client A E K (recorder PO) (recorder_new p) = Some (Ret (r, q))" "never_errs PO"
  shows "\<exists>t. run_fp_client A E K preloaded_provider
      (preloaded_of (pre_validities (rec_preimage q)) (pre_encoded_payloads (rec_preimage q))) = Some (Ret (r, t))"
proof (cases "fp_prologue K")
  case (Inl e)
  then show ?thesis using assms(1) by (simp add: run_fp_client_def)
next
  case (Inr bc)
  obtain boot c where bc: "bc = (boot, c)" by fastforce
  show ?thesis
  proof (cases c)
    case None
    then show ?thesis using assms(1) Inr bc by (simp add: run_fp_client_def)
  next
    case (Some cursor)
    let ?s = "EigenDADataSource_new (ko_ethereum_source K boot) (EigenDAPreimageSource_new (recorder_new p))"
    obtain x s' where x: "run_driver A E (recorder PO) (ko_driver K boot cursor) [] ?s = Some (Ret (x, s'))"
      and r: "r = fp_epilogue boot x" "q = eigenda_fetcher (eigenda_source s')"
      using assms(1) Inr bc Some
      by (auto simp: run_fp_client_def Let_def Option.bind_eq_Some_conv obind_eq_Ret)
    obtain vs ps where e: "extends (recording ?s) vs ps (recording s')"
      and y: "run_driver A E preloaded_provider (ko_driver K boot cursor) [] (replaying ?s (vs @ []) (ps @ [])) =
        Some (Ret (x, replaying s' [] []))"
      using run_driver_replay [OF x assms(2) refl] by blast
    have "vs = pre_validities (rec_preimage q)" "ps = pre_encoded_payloads (rec_preimage q)"
      using e r(2) by (simp_all add: extends_def EigenDADataSource_new_def EigenDAPreimageSource_new_def recorder_new_def)
    moreover have "replaying ?s vs ps =
        EigenDADataSource_new (ko_ethereum_source K boot) (EigenDAPreimageSource_new (preloaded_of vs ps))"
      by (simp add: replaying_def EigenDADataSource_new_def EigenDAPreimageSource_new_def)
    ultimately show ?thesis using y Inr bc Some r(1) by (simp add: run_fp_client_def Let_def)
  qed
qed

section \<open>Simulation\<close>

text \<open>The answers of the first provider, which reports no errors, are answers of the second.\<close>

locale provider_simulation =
  fixes PO1 :: "('p, 'e) provider_ops" and PO2 :: "('q, 'f) provider_ops" and V :: "AltDACommitment \<Rightarrow> bool"
    and rel :: "'p \<Rightarrow> 'q \<Rightarrow> bool"
  assumes sim_validity: "rel p q \<Longrightarrow> pv_get_validity PO1 p c = Ret (x, p') \<Longrightarrow>
      x = Inr (V c) \<and> (\<exists>q'. pv_get_validity PO2 q c = Ret (Inr (V c), q') \<and> rel p' q')"
    and sim_payload: "rel p q \<Longrightarrow> V c \<Longrightarrow> pv_get_encoded_payload PO1 p c = Ret (y, p') \<Longrightarrow>
      \<exists>v q'. y = Inr v \<and> pv_get_encoded_payload PO2 q c = Ret (Inr v, q') \<and> rel p' q'"
begin

definition moved :: "('g, 'p) EigenDADataSource \<Rightarrow> 'q \<Rightarrow> ('g, 'q) EigenDADataSource" where
  "moved s q = \<lparr> ethereum_source = ethereum_source s, eigenda_source = \<lparr> eigenda_fetcher = q \<rparr>,
     altda_commitment = altda_commitment s \<rparr>"

abbreviation related :: "('g, 'p) EigenDADataSource \<Rightarrow> 'q \<Rightarrow> bool" where
  "related s q \<equiv> rel (eigenda_fetcher (eigenda_source s)) q"

lemma source_simulation:
  assumes "rel (eigenda_fetcher src) q" "preimage_source_next PO1 src c bn = Ret (r, src')"
  obtains q' where "preimage_source_next PO2 \<lparr> eigenda_fetcher = q \<rparr> c bn = Ret (r, \<lparr> eigenda_fetcher = q' \<rparr>)"
    "rel (eigenda_fetcher src') q'"
proof -
  obtain x p1 where x: "pv_get_validity PO1 (eigenda_fetcher src) c = Ret (x, p1)"
    using assms(2) by (auto simp: preimage_source_next_def obind_eq_Ret)
  from sim_validity [OF assms(1) x]
  obtain q1 where v: "x = Inr (V c)" "pv_get_validity PO2 q c = Ret (Inr (V c), q1)" "rel p1 q1" by blast
  let ?d = "derive_commitment (\<lambda>_. V c) (\<lambda>_. undefined) c bn"
  show thesis
  proof (cases ?d)
    case (Inl e)
    then show thesis
      using that [of q1] assms(2) x v by (auto simp: preimage_source_next_unfold)
  next
    case (Inr u)
    then obtain y p2 where y: "pv_get_encoded_payload PO1 p1 c = Ret (y, p2)"
      using assms(2) x v by (auto simp: preimage_source_next_unfold obind_eq_Ret)
    have "V c" using Inr by (auto simp: derive_commitment_def split: if_splits)
    from sim_payload [OF v(3) this y]
    obtain w q2 where "y = Inr w" "pv_get_encoded_payload PO2 q1 c = Ret (Inr w, q2)" "rel p2 q2" by blast
    then show thesis
      using that [of q2] assms(2) x v y Inr by (auto simp: preimage_source_next_unfold)
  qed
qed

lemma load_moved:
  assumes "data_source_load A E s b a = (l, s')"
  shows "data_source_load A E (moved s q) b a = (l, moved s' q)" "eigenda_source s' = eigenda_source s"
  using assms
  by (auto simp: data_source_load_def data_source_clear_def moved_def Let_def
      split: option.splits prod.splits sum.splits if_splits)

lemma moved_update:
  "moved s q\<lparr> eigenda_source := \<lparr> eigenda_fetcher = q' \<rparr> \<rparr> = moved (s\<lparr> eigenda_source := src \<rparr>) q'"
  "moved s q\<lparr> eigenda_source := \<lparr> eigenda_fetcher = q' \<rparr>, altda_commitment := None \<rparr> =
     moved (s\<lparr> eigenda_source := src, altda_commitment := None \<rparr>) q'"
  "eigenda_source (moved s q) = \<lparr> eigenda_fetcher = q \<rparr>"
  by (simp_all add: moved_def)

lemma moved_none [simp]: "moved s q\<lparr> altda_commitment := None \<rparr> = moved (s\<lparr> altda_commitment := None \<rparr>) q"
  by (simp add: moved_def)

lemma loaded_simulation:
  assumes "related s q" "data_source_load A E s b a = (Inr c, s1)"
    and "preimage_source_next PO1 (eigenda_source s1) c (bi_number b) = Ret (r, src)"
  obtains q' where "data_source_load A E (moved s q) b a = (Inr c, moved s1 q)"
    "preimage_source_next PO2 (eigenda_source (moved s1 q)) c (bi_number b) = Ret (r, \<lparr> eigenda_fetcher = q' \<rparr>)"
    "rel (eigenda_fetcher src) q'"
proof -
  have "rel (eigenda_fetcher (eigenda_source s1)) q" using assms(1) load_moved(2) [OF assms(2)] by simp
  from source_simulation [OF this assms(3)] show thesis
    using that load_moved(1) [OF assms(2)] by (metis moved_update(3))
qed

lemma next_simulation:
  assumes "data_source_next A E PO1 s b a = Some y" "y = Ret (r, s')" "related s q"
  shows "\<exists>q'. data_source_next A E PO2 (moved s q) b a = Some (Ret (r, moved s' q')) \<and> related s' q'"
  using assms
proof (induction arbitrary: q rule: data_source_next_induct)
  case (early s x s1)
  then show ?case
    using load_moved [OF early(1)] by (auto simp: data_source_next_early)
next
  case (temporary s c s1 e src)
  from loaded_simulation [OF temporary(4,1,2)] obtain q' where
    q: "data_source_load A E (moved s q) b a = (Inr c, moved s1 q)"
    "preimage_source_next PO2 (eigenda_source (moved s1 q)) c (bi_number b) =
       Ret (Inl (Temporary e), \<lparr> eigenda_fetcher = q' \<rparr>)" "rel (eigenda_fetcher src) q'" .
  then show ?case using temporary(3)
    by (auto simp: data_source_next_at [OF q(1,2)] Let_def moved_update(1,2) [where src = src])
next
  case (critical s c s1 e src)
  from loaded_simulation [OF critical(4,1,2)] obtain q' where
    q: "data_source_load A E (moved s q) b a = (Inr c, moved s1 q)"
    "preimage_source_next PO2 (eigenda_source (moved s1 q)) c (bi_number b) =
       Ret (Inl (Critical e), \<lparr> eigenda_fetcher = q' \<rparr>)" "rel (eigenda_fetcher src) q'" .
  then show ?case using critical(3)
    by (auto simp: data_source_next_at [OF q(1,2)] Let_def moved_update(1,2) [where src = src])
next
  case (decoded s c s1 p x src)
  from loaded_simulation [OF decoded(5,1,2)] obtain q' where
    q: "data_source_load A E (moved s q) b a = (Inr c, moved s1 q)"
    "preimage_source_next PO2 (eigenda_source (moved s1 q)) c (bi_number b) =
       Ret (Inr p, \<lparr> eigenda_fetcher = q' \<rparr>)" "rel (eigenda_fetcher src) q'" .
  then show ?case using decoded(3,4)
    by (auto simp: data_source_next_at [OF q(1,2)] Let_def moved_update(1,2) [where src = src])
next
  case (skip s c s1 x src y)
  from loaded_simulation [OF skip(6,1,2)] obtain q' where
    q: "data_source_load A E (moved s q) b a = (Inr c, moved s1 q)"
    "preimage_source_next PO2 (eigenda_source (moved s1 q)) c (bi_number b) =
       Ret (x, \<lparr> eigenda_fetcher = q' \<rparr>)" "rel (eigenda_fetcher src) q'" .
  have "data_source_next A E PO2 (moved s q) b a =
      data_source_next A E PO2 (moved (s1\<lparr> eigenda_source := src, altda_commitment := None \<rparr>) q') b a"
    using skip(3)
    by (auto simp: data_source_next_at [OF q(1,2)] Let_def moved_update(1,2) [where src = src]
        split: sum.splits HokuleaErrorKind.splits)
  then show ?case using skip(4) [OF skip(5), of q'] q(3) by simp
qed simp

lemma run_simulation:
  assumes "run_driver A E PO1 driver seen s = Some y" "y = Ret (r, s')" "related s q"
  shows "\<exists>q'. run_driver A E PO2 driver seen (moved s q) = Some (Ret (r, moved s' q')) \<and> related s' q'"
  using assms
proof (induction arbitrary: q rule: run_driver_induct)
  case (clear seen s y)
  have "data_source_clear E (moved s q) = moved (data_source_clear E s) q"
    by (simp add: data_source_clear_def moved_def)
  moreover have "related (data_source_clear E s) q" using clear(4) by (simp add: data_source_clear_def)
  ultimately show ?case using clear(2) [OF clear(3)] by (simp add: run_driver_steps(2) [of driver, OF clear(1)])
next
  case (step seen s b a x s1 y)
  obtain q1 where q1: "data_source_next A E PO2 (moved s q) b a = Some (Ret (x, moved s1 q1))" "related s1 q1"
    using next_simulation [OF step(2) refl step(5)] by blast
  then show ?case using step(3) [OF step(4) q1(2)] by (simp add: run_driver_steps(3) [of driver, OF step(1) q1(1)])
qed (auto simp: run_driver_steps(1))

lemma fp_client_simulation:
  assumes "run_fp_client A E K PO1 p = Some (Ret (r, p'))" "rel p q"
  shows "\<exists>q'. run_fp_client A E K PO2 q = Some (Ret (r, q')) \<and> rel p' q'"
proof (cases "fp_prologue K")
  case (Inl e)
  then show ?thesis using assms by (simp add: run_fp_client_def)
next
  case (Inr bc)
  obtain boot c where bc: "bc = (boot, c)" by fastforce
  show ?thesis
  proof (cases c)
    case None
    then show ?thesis using assms Inr bc by (simp add: run_fp_client_def)
  next
    case (Some cursor)
    let ?s = "EigenDADataSource_new (ko_ethereum_source K boot) (EigenDAPreimageSource_new p)"
    obtain x s' where x: "run_driver A E PO1 (ko_driver K boot cursor) [] ?s = Some (Ret (x, s'))"
      and r: "r = fp_epilogue boot x" "p' = eigenda_fetcher (eigenda_source s')"
      using assms(1) Inr bc Some
      by (auto simp: run_fp_client_def Let_def Option.bind_eq_Some_conv obind_eq_Ret)
    have m: "moved ?s q = EigenDADataSource_new (ko_ethereum_source K boot) (EigenDAPreimageSource_new q)"
      by (simp add: moved_def EigenDADataSource_new_def EigenDAPreimageSource_new_def)
    have "related ?s q" using assms(2) by (simp add: EigenDADataSource_new_def EigenDAPreimageSource_new_def)
    from run_simulation [OF x refl this] show ?thesis
      using Inr bc Some r unfolding m by (auto simp: run_fp_client_def Let_def moved_def)
  qed
qed

end

text \<open>The provider that answers from fixed functions, and the preloaded provider below it.\<close>

definition ideal_provider ::
    "(AltDACommitment \<Rightarrow> bool) \<Rightarrow> (AltDACommitment \<Rightarrow> EncodedPayload) \<Rightarrow> (unit, unit) provider_ops" where
  "ideal_provider V P =
     \<lparr> pv_get_validity = (\<lambda>u c. Ret (Inr (V c), u)), pv_get_encoded_payload = (\<lambda>u c. Ret (Inr (P c), u)),
       pv_into_kind = (\<lambda>_. Critical ''no error'') \<rparr>"

interpretation preloaded_ideal:
  provider_simulation preloaded_provider "ideal_provider V P" V "\<lambda>p _. entries_agree V P p" for V P
proof unfold_locales
  fix p q c x p'
  assume "entries_agree V P p" "pv_get_validity preloaded_provider p c = Ret (x, p')"
  then show "x = Inr (V c) \<and> (\<exists>q'. pv_get_validity (ideal_provider V P) q c = Ret (Inr (V c), q') \<and> entries_agree V P p')"
    using preloaded_of_surj [of p]
    by (auto simp: preloaded_provider_def ideal_provider_def preloaded_get_validity_Ret_iff entries_agree_of)
next
  fix p q c y p'
  assume "entries_agree V P p" "V c" "pv_get_encoded_payload preloaded_provider p c = Ret (y, p')"
  then show "\<exists>v q'. y = Inr v \<and> pv_get_encoded_payload (ideal_provider V P) q c = Ret (Inr v, q') \<and> entries_agree V P p'"
    using preloaded_of_surj [of p]
    by (auto simp: preloaded_provider_def ideal_provider_def preloaded_get_encoded_payload_Ret_iff entries_agree_of)
qed

end
