(* ===== verification/Zkvm_Entry.thy ===== *)
theory Zkvm_Entry
  imports Fault_Proof_Client Zkvm_Soundness Honest_Witness
begin

text \<open>
  The program of the zkVM: \<open>eigenda_witness_to_preloaded_provider\<close> of \<open>crates/zkvm-verification/src/lib.rs\<close>
  gives the witness checks the L1 head of the boot information and its header, and the fault proof
  client then runs on the resulting provider (\<open>run_within_zkvm_assume_oracle_verified\<close> of
  \<open>example/preloader/src/main.rs\<close>).

  Reading the header is kona's, a parameter that returns its number and timestamp.
\<close>

record l1_header =
  hd_number :: u64
  hd_timestamp :: u64

definition eigenda_witness_to_preloaded_provider ::
    "(u256 \<Rightarrow> (l1_header, string) result) \<Rightarrow> BootInfo \<Rightarrow> canoe_verifier_ops \<Rightarrow> address_fetch \<Rightarrow>
     batch_verifier \<Rightarrow> EigenDAWitness \<Rightarrow> (PreloadedEigenDAPreimageProvider, FaultProofProgramError) result outcome" where
  "eigenda_witness_to_preloaded_provider header_by_hash boot_info VO fetch BV witness =
     (let l1_head = boot_l1_head boot_info in
      obind (unwrap ''should be able to get header for l1 header using oracle'' (header_by_hash l1_head)) (\<lambda>header.
      obind (from_witness VO fetch BV witness l1_head (hd_number header) (hd_timestamp header)
               (boot_l1_chain_id boot_info)) (\<lambda>p.
        Ret (Inr p))))"

definition run_within_zkvm_assume_oracle_verified ::
    "alloy_ops \<Rightarrow> 'g eth_ops \<Rightarrow> ('g, 'cur) kona_ops \<Rightarrow> (u256 \<Rightarrow> (l1_header, string) result) \<Rightarrow>
     canoe_verifier_ops \<Rightarrow> address_fetch \<Rightarrow> batch_verifier \<Rightarrow> EigenDAWitness \<Rightarrow>
     (unit, FaultProofProgramError) result outcome option" where
  "run_within_zkvm_assume_oracle_verified A E K header_by_hash VO fetch BV witness =
     (case ko_boot_load K of
        Inl e \<Rightarrow> Some (Ret (Inl e))
      | Inr boot_info \<Rightarrow>
          (case eigenda_witness_to_preloaded_provider header_by_hash boot_info VO fetch BV witness of
             Panic m \<Rightarrow> Some (Panic m)
           | Ret (Inl e) \<Rightarrow> Some (Ret (Inl e))
           | Ret (Inr provider) \<Rightarrow>
               map_option (\<lambda>y. obind y (\<lambda>(r, _). Ret r)) (run_fp_client A E K preloaded_provider provider)))"

text \<open>What a run that gives a verdict went through.\<close>

lemma zkvm_run_Ret:
  assumes "run_within_zkvm_assume_oracle_verified A E K header_by_hash VO fetch BV w = Some (Ret r)"
  obtains (no_boot) e where "ko_boot_load K = Inl e" "r = Inl e"
  | (ran) boot h p p' where "ko_boot_load K = Inr boot" "header_by_hash (boot_l1_head boot) = Inr h"
      "from_witness VO fetch BV w (boot_l1_head boot) (hd_number h) (hd_timestamp h) (boot_l1_chain_id boot) = Ret p"
      "run_fp_client A E K preloaded_provider p = Some (Ret (r, p'))"
proof (cases "ko_boot_load K")
  case (Inl e)
  then show thesis using assms no_boot by (simp add: run_within_zkvm_assume_oracle_verified_def)
next
  case (Inr boot)
  let ?e = "eigenda_witness_to_preloaded_provider header_by_hash boot VO fetch BV w"
  have "no_panic ?e"
    using assms Inr by (cases ?e) (simp_all add: run_within_zkvm_assume_oracle_verified_def)
  then obtain h p where h: "header_by_hash (boot_l1_head boot) = Inr h"
    "from_witness VO fetch BV w (boot_l1_head boot) (hd_number h) (hd_timestamp h) (boot_l1_chain_id boot) = Ret p"
    "?e = Ret (Inr p)"
    by (cases "header_by_hash (boot_l1_head boot)")
       (auto simp: eigenda_witness_to_preloaded_provider_def Let_def no_panic_iff obind_eq_Ret)
  then have "\<exists>p'. run_fp_client A E K preloaded_provider p = Some (Ret (r, p'))"
    using assms Inr
    by (auto simp: run_within_zkvm_assume_oracle_verified_def obind_eq_Ret)
  then show thesis using ran Inr h by blast
qed

text \<open>The verdict in the zkVM is the verdict over the chain's validities and the committed payloads.\<close>

lemma zkvm_verdict_ideal:
  assumes "run_within_zkvm_assume_oracle_verified A E K header_by_hash
      (CanoeSteelVerifier zkvm A FO SO) fetch BV w = Some (Ret r)"
    and "\<forall>j. steel_proven zkvm SO j \<longrightarrow> steel_attested A B FO SO GO j"
    and "bincode_injective (so_bincode SO)"
    and "\<forall>(c, b)\<in>set (wit_validities w). rlp_law A (versioned_cert c)"
    and "\<forall>(c, x, k)\<in>set (wit_encoded_payloads w). x = committed_payload D c" "ko_boot_load K = Inr boot" "header_by_hash (boot_l1_head boot) = Inr h"
  shows "\<exists>env. run_fp_client A E K (ideal_provider (chain_validity B GO fetch (boot_l1_chain_id boot) env)
        (committed_payload D)) () = Some (Ret (r, ())) \<and>
     (wit_validities w = [] \<or> run_env GO (boot_l1_chain_id boot) (boot_l1_head boot) (hd_number h) env)"
  using assms(1)
proof (cases rule: zkvm_run_Ret)
  case (no_boot e)
  then show ?thesis using assms(6) by simp
next
  case (ran boot' h' p p')
  then have b: "boot' = boot" "h' = h" using assms(6,7) by simp_all
  obtain env where e: "entries_agree (chain_validity B GO fetch (boot_l1_chain_id boot) env) (committed_payload D) p"
    and r: "wit_validities w = [] \<or> run_env GO (boot_l1_chain_id boot) (boot_l1_head boot) (hd_number h) env"
    using from_witness_entries [OF ran(3) [unfolded b] assms(2-5)] by blast
  from preloaded_ideal.fp_client_simulation [OF ran(4) e]
  show ?thesis using r by auto
qed

end
