(* ===== verification/Kzg_Field.thy ===== *)
theory Kzg_Field
  imports Prelude "HOL-Library.Numeral_Type"
begin

text \<open>
  The scalar field of BN254 and the constants of the KZG verifier,
  \<open>crates/sp1-bn-verifier/src/consts.rs\<close> and \<open>errors.rs\<close>.

  \<open>Fr\<close> is the ring of integers modulo the group order. That the order is prime is not needed: the
  verifier divides only by elements it has obtained an inverse for. The table of roots of unity is
  checked entry by entry: each is a square root of the one before and the second is \<open>-1\<close>, so the
  \<open>n\<close>-th entry has order \<open>2 ^ n\<close>.
\<close>

section \<open>The scalar field\<close>

definition FR_ORDER :: int where
  "FR_ORDER = 21888242871839275222246405745257275088548364400416034343698204186575808495617"

typedef Fr = "{0..<FR_ORDER}"
  by (rule exI [of _ 0]) (simp add: FR_ORDER_def)

instantiation Fr :: "{zero, one, plus, times, uminus, minus}"
begin

definition zero_Fr :: Fr where "zero_Fr = Abs_Fr 0"
definition one_Fr :: Fr where "one_Fr = Abs_Fr 1"
definition plus_Fr :: "Fr \<Rightarrow> Fr \<Rightarrow> Fr" where "plus_Fr x y = Abs_Fr ((Rep_Fr x + Rep_Fr y) mod FR_ORDER)"
definition times_Fr :: "Fr \<Rightarrow> Fr \<Rightarrow> Fr" where "times_Fr x y = Abs_Fr ((Rep_Fr x * Rep_Fr y) mod FR_ORDER)"
definition minus_Fr :: "Fr \<Rightarrow> Fr \<Rightarrow> Fr" where "minus_Fr x y = Abs_Fr ((Rep_Fr x - Rep_Fr y) mod FR_ORDER)"
definition uminus_Fr :: "Fr \<Rightarrow> Fr" where "uminus_Fr x = Abs_Fr ((- Rep_Fr x) mod FR_ORDER)"

instance ..

end

lemma FR_ORDER_gt_1: "1 < FR_ORDER"
  by (simp add: FR_ORDER_def)

interpretation fr_type: mod_type FR_ORDER Rep_Fr Abs_Fr
  by (rule mod_type.intro)
     (rule type_definition_Fr FR_ORDER_gt_1 zero_Fr_def one_Fr_def plus_Fr_def times_Fr_def
       minus_Fr_def uminus_Fr_def)+

instance Fr :: comm_ring_1
  by (rule fr_type.comm_ring_1)

interpretation fr_ring: mod_ring FR_ORDER Rep_Fr Abs_Fr
  by unfold_locales

text \<open>The canonical value of an element (\<open>into_u256\<close>) and the element of a number
  (\<open>from_str\<close>, \<open>from_bytes_be_mod_order\<close>).\<close>

definition fr_to_nat :: "Fr \<Rightarrow> nat" where
  "fr_to_nat x = nat (Rep_Fr x)"

definition fr_from_bytes_be_mod_order :: "bytes \<Rightarrow> Fr" where
  "fr_from_bytes_be_mod_order bs = of_nat (be_nat bs)"

lemma FR_ORDER_bounds: "2 ^ 253 < FR_ORDER" "FR_ORDER < 2 ^ 256"
  by (simp_all add: FR_ORDER_def)

lemma fr_of_nat_eq_iff: "(of_nat m :: Fr) = of_nat n \<longleftrightarrow> int m mod FR_ORDER = int n mod FR_ORDER"
  by (simp add: fr_ring.of_nat_eq fr_type.Rep_inject_sym fr_type.Rep_Abs_mod)

lemma fr_to_nat_of_nat: "fr_to_nat (of_nat n) = n mod nat FR_ORDER"
proof -
  have "0 \<le> FR_ORDER" by (simp add: FR_ORDER_def)
  then show ?thesis
    by (simp add: fr_to_nat_def fr_ring.of_nat_eq fr_type.Rep_Abs_mod nat_mod_distrib)
qed

lemma fr_of_nat_to_nat [simp]: "of_nat (fr_to_nat x) = x"
proof -
  have "0 \<le> Rep_Fr x" using Rep_Fr [of x] by simp
  then show ?thesis
    by (simp add: fr_to_nat_def fr_ring.of_nat_eq fr_type.Rep_mod fr_type.Rep_inverse)
qed

lemma fr_to_nat_less: "fr_to_nat x < nat FR_ORDER"
  using Rep_Fr [of x] by (simp add: fr_to_nat_def)

lemma fr_to_nat_inj: "fr_to_nat x = fr_to_nat y \<longleftrightarrow> x = y"
  by (metis fr_of_nat_to_nat)

section \<open>Constants and errors\<close>

definition SIZE_OF_G1_AFFINE_COMPRESSED :: nat where
  "SIZE_OF_G1_AFFINE_COMPRESSED = 32"

definition FIAT_SHAMIR_PROTOCOL_DOMAIN :: string where
  "FIAT_SHAMIR_PROTOCOL_DOMAIN = ''EIGENDA_FSBLOBVERIFY_V1_''"

definition RANDOM_CHALLENGE_KZG_BATCH_DOMAIN :: string where
  "RANDOM_CHALLENGE_KZG_BATCH_DOMAIN = ''EIGENDA_RCKZGBATCH___V1_''"

definition MAINNET_SRS_G1_SIZE :: nat where
  "MAINNET_SRS_G1_SIZE = 268435456"

datatype KzgError =
    InvalidInputLength
  | InvalidFieldElement
  | NotOnCurveError string
  | SerializationError
  | DomainError
  | InvalidDenominator
  | GenericError string

definition PRIMITIVE_ROOTS_OF_UNITY_DEC :: "nat list" where
  "PRIMITIVE_ROOTS_OF_UNITY_DEC =
     [1,
      21888242871839275222246405745257275088548364400416034343698204186575808495616,
      21888242871839275217838484774961031246007050428528088939761107053157389710902,
      19540430494807482326159819597004422086093766032135589407132600596362845576832,
      14940766826517323942636479241147756311199852622225275649687664389641784935947,
      4419234939496763621076330863786513495701855246241724391626358375488475697872,
      9088801421649573101014283686030284801466796108869023335878462724291607593530,
      10359452186428527605436343203440067497552205259388878191021578220384701716497,
      3478517300119284901893091970156912948790432420133812234316178878452092729974,
      6837567842312086091520287814181175430087169027974246751610506942214842701774,
      3161067157621608152362653341354432744960400845131437947728257924963983317266,
      1120550406532664055539694724667294622065367841900378087843176726913374367458,
      4158865282786404163413953114870269622875596290766033564087307867933865333818,
      197302210312744933010843010704445784068657690384188106020011018676818793232,
      20619701001583904760601357484951574588621083236087856586626117568842480512645,
      20402931748843538985151001264530049874871572933694634836567070693966133783803,
      421743594562400382753388642386256516545992082196004333756405989743524594615,
      12650941915662020058015862023665998998969191525479888727406889100124684769509,
      11699596668367776675346610687704220591435078791727316319397053191800576917728,
      15549849457946371566896172786938980432421851627449396898353380550861104573629,
      17220337697351015657950521176323262483320249231368149235373741788599650842711,
      13536764371732269273912573961853310557438878140379554347802702086337840854307,
      12143866164239048021030917283424216263377309185099704096317235600302831912062,
      934650972362265999028062457054462628285482693704334323590406443310927365533,
      5709868443893258075976348696661355716898495876243883251619397131511003808859,
      19200870435978225707111062059747084165650991997241425080699860725083300967194,
      7419588552507395652481651088034484897579724952953562618697845598160172257810,
      2082940218526944230311718225077035922214683169814847712455127909555749686340,
      19103219067921713944291392827692070036145651957329286315305642004821462161904]"

definition get_primitive_root_of_unity :: "nat \<Rightarrow> Fr option" where
  "get_primitive_root_of_unity n =
     (if n < length PRIMITIVE_ROOTS_OF_UNITY_DEC
      then Some (of_nat (PRIMITIVE_ROOTS_OF_UNITY_DEC ! n)) else None)"

definition primitive_roots_of_unity :: "Fr list" where
  "primitive_roots_of_unity = map of_nat PRIMITIVE_ROOTS_OF_UNITY_DEC"

section \<open>The table\<close>

lemma fr_of_nat_square:
  assumes "a * a = q * nat FR_ORDER + b"
  shows "(of_nat a :: Fr) ^ 2 = of_nat b"
proof -
  have "int (a * a) = int q * FR_ORDER + int b"
    using assms by (simp add: FR_ORDER_def)
  then have "int (a * a) mod FR_ORDER = int b mod FR_ORDER" by simp
  then have "(of_nat (a * a) :: Fr) = of_nat b" by (simp only: fr_of_nat_eq_iff)
  then show ?thesis by (simp add: power2_eq_square)
qed

lemma nat_FR_ORDER: "nat FR_ORDER = 21888242871839275222246405745257275088548364400416034343698204186575808495617"
  by (simp add: FR_ORDER_def)

lemma root_square_1:
  "(21888242871839275222246405745257275088548364400416034343698204186575808495616::nat) * 21888242871839275222246405745257275088548364400416034343698204186575808495616 =
   21888242871839275222246405745257275088548364400416034343698204186575808495615 * nat FR_ORDER + 1"
  unfolding nat_FR_ORDER by simp

lemma root_square_2:
  "(21888242871839275217838484774961031246007050428528088939761107053157389710902::nat) * 21888242871839275217838484774961031246007050428528088939761107053157389710902 =
   21888242871839275213430563804664787404353416997930879449828600104561791390564 * nat FR_ORDER + 21888242871839275222246405745257275088548364400416034343698204186575808495616"
  unfolding nat_FR_ORDER by simp

lemma root_square_3:
  "(19540430494807482326159819597004422086093766032135589407132600596362845576832::nat) * 19540430494807482326159819597004422086093766032135589407132600596362845576832 =
   17444452995066617625487937660570427516240463878249347913698484080455254673866 * nat FR_ORDER + 21888242871839275217838484774961031246007050428528088939761107053157389710902"
  unfolding nat_FR_ORDER by simp

lemma root_square_4:
  "(14940766826517323942636479241147756311199852622225275649687664389641784935947::nat) * 14940766826517323942636479241147756311199852622225275649687664389641784935947 =
   10198466577303779716174263455274497776553713679034007698197024499811553945081 * nat FR_ORDER + 19540430494807482326159819597004422086093766032135589407132600596362845576832"
  unfolding nat_FR_ORDER by simp

lemma root_square_5:
  "(4419234939496763621076330863786513495701855246241724391626358375488475697872::nat) * 4419234939496763621076330863786513495701855246241724391626358375488475697872 =
   892243272555933727136496954981132583515142470848341894421126000032742089461 * nat FR_ORDER + 14940766826517323942636479241147756311199852622225275649687664389641784935947"
  unfolding nat_FR_ORDER by simp

lemma root_square_6:
  "(9088801421649573101014283686030284801466796108869023335878462724291607593530::nat) * 9088801421649573101014283686030284801466796108869023335878462724291607593530 =
   3774003777546619915214788881498883203705823661196401766653898994770377433684 * nat FR_ORDER + 4419234939496763621076330863786513495701855246241724391626358375488475697872"
  unfolding nat_FR_ORDER by simp

lemma root_square_7:
  "(10359452186428527605436343203440067497552205259388878191021578220384701716497::nat) * 10359452186428527605436343203440067497552205259388878191021578220384701716497 =
   4903008899858795211276705245240256617044142993777020929384679199057145376487 * nat FR_ORDER + 9088801421649573101014283686030284801466796108869023335878462724291607593530"
  unfolding nat_FR_ORDER by simp

lemma root_square_8:
  "(3478517300119284901893091970156912948790432420133812234316178878452092729974::nat) * 3478517300119284901893091970156912948790432420133812234316178878452092729974 =
   552811967505931911077480175926022109607232560434870357042358802337152341587 * nat FR_ORDER + 10359452186428527605436343203440067497552205259388878191021578220384701716497"
  unfolding nat_FR_ORDER by simp

lemma root_square_9:
  "(6837567842312086091520287814181175430087169027974246751610506942214842701774::nat) * 6837567842312086091520287814181175430087169027974246751610506942214842701774 =
   2135956470876446593359947062647111995017670062556736186509066251312223760206 * nat FR_ORDER + 3478517300119284901893091970156912948790432420133812234316178878452092729974"
  unfolding nat_FR_ORDER by simp

lemma root_square_10:
  "(3161067157621608152362653341354432744960400845131437947728257924963983317266::nat) * 3161067157621608152362653341354432744960400845131437947728257924963983317266 =
   456516570722531153192819861264884875902520782487157749003120722497387113846 * nat FR_ORDER + 6837567842312086091520287814181175430087169027974246751610506942214842701774"
  unfolding nat_FR_ORDER by simp

lemma root_square_11:
  "(1120550406532664055539694724667294622065367841900378087843176726913374367458::nat) * 1120550406532664055539694724667294622065367841900378087843176726913374367458 =
   57365646979181544077046827509516816920958182236918040098956763040731604594 * nat FR_ORDER + 3161067157621608152362653341354432744960400845131437947728257924963983317266"
  unfolding nat_FR_ORDER by simp

lemma root_square_12:
  "(4158865282786404163413953114870269622875596290766033564087307867933865333818::nat) * 4158865282786404163413953114870269622875596290766033564087307867933865333818 =
   790203240234451776713197109817938542187136886744547052794430954663220997698 * nat FR_ORDER + 1120550406532664055539694724667294622065367841900378087843176726913374367458"
  unfolding nat_FR_ORDER by simp

lemma root_square_13:
  "(197302210312744933010843010704445784068657690384188106020011018676818793232::nat) * 197302210312744933010843010704445784068657690384188106020011018676818793232 =
   1778496447715242687608028032830735818407159063530376256336898723078507718 * nat FR_ORDER + 4158865282786404163413953114870269622875596290766033564087307867933865333818"
  unfolding nat_FR_ORDER by simp

lemma root_square_14:
  "(20619701001583904760601357484951574588621083236087856586626117568842480512645::nat) * 20619701001583904760601357484951574588621083236087856586626117568842480512645 =
   19424677982796567728361873563865850263252824252129332680410457715389974494729 * nat FR_ORDER + 197302210312744933010843010704445784068657690384188106020011018676818793232"
  unfolding nat_FR_ORDER by simp

lemma root_square_15:
  "(20402931748843538985151001264530049874871572933694634836567070693966133783803::nat) * 20402931748843538985151001264530049874871572933694634836567070693966133783803 =
   19018412139584760463302058803488828214798745105558745409486914808582576230292 * nat FR_ORDER + 20619701001583904760601357484951574588621083236087856586626117568842480512645"
  unfolding nat_FR_ORDER by simp

lemma root_square_16:
  "(421743594562400382753388642386256516545992082196004333756405989743524594615::nat) * 421743594562400382753388642386256516545992082196004333756405989743524594615 =
   8126173516799436175753176591810588407911105611305434511656385899525726166 * nat FR_ORDER + 20402931748843538985151001264530049874871572933694634836567070693966133783803"
  unfolding nat_FR_ORDER by simp

lemma root_square_17:
  "(12650941915662020058015862023665998998969191525479888727406889100124684769509::nat) * 12650941915662020058015862023665998998969191525479888727406889100124684769509 =
   7311977132680887666919112337312485366035861344977569222884081406616502008098 * nat FR_ORDER + 421743594562400382753388642386256516545992082196004333756405989743524594615"
  unfolding nat_FR_ORDER by simp

lemma root_square_18:
  "(11699596668367776675346610687704220591435078791727316319397053191800576917728::nat) * 11699596668367776675346610687704220591435078791727316319397053191800576917728 =
   6253611265369711584577570298389666242657110490156066321537873852415837563675 * nat FR_ORDER + 12650941915662020058015862023665998998969191525479888727406889100124684769509"
  unfolding nat_FR_ORDER by simp

lemma root_square_19:
  "(15549849457946371566896172786938980432421851627449396898353380550861104573629::nat) * 15549849457946371566896172786938980432421851627449396898353380550861104573629 =
   11046926863000251731949665838047889186531977171501126998425904394322351506089 * nat FR_ORDER + 11699596668367776675346610687704220591435078791727316319397053191800576917728"
  unfolding nat_FR_ORDER by simp

lemma root_square_20:
  "(17220337697351015657950521176323262483320249231368149235373741788599650842711::nat) * 17220337697351015657950521176323262483320249231368149235373741788599650842711 =
   13547913925622945070431920400596411406900026260347035540648758368232353317076 * nat FR_ORDER + 15549849457946371566896172786938980432421851627449396898353380550861104573629"
  unfolding nat_FR_ORDER by simp

lemma root_square_21:
  "(13536764371732269273912573961853310557438878140379554347802702086337840854307::nat) * 13536764371732269273912573961853310557438878140379554347802702086337840854307 =
   8371799907774053986441269690360542829230568067858398985743985845792998361714 * nat FR_ORDER + 17220337697351015657950521176323262483320249231368149235373741788599650842711"
  unfolding nat_FR_ORDER by simp

lemma root_square_22:
  "(12143866164239048021030917283424216263377309185099704096317235600302831912062::nat) * 12143866164239048021030917283424216263377309185099704096317235600302831912062 =
   6737566202935584050794569747950519725015498739685143347432835735052917569761 * nat FR_ORDER + 13536764371732269273912573961853310557438878140379554347802702086337840854307"
  unfolding nat_FR_ORDER by simp

lemma root_square_23:
  "(934650972362265999028062457054462628285482693704334323590406443310927365533::nat) * 934650972362265999028062457054462628285482693704334323590406443310927365533 =
   39910578718113555993165701453307131754816696752738973614033766035366198731 * nat FR_ORDER + 12143866164239048021030917283424216263377309185099704096317235600302831912062"
  unfolding nat_FR_ORDER by simp

lemma root_square_24:
  "(5709868443893258075976348696661355716898495876243883251619397131511003808859::nat) * 5709868443893258075976348696661355716898495876243883251619397131511003808859 =
   1489502736124766463390393674700237947022058754416888917930396911647706067644 * nat FR_ORDER + 934650972362265999028062457054462628285482693704334323590406443310927365533"
  unfolding nat_FR_ORDER by simp

lemma root_square_25:
  "(19200870435978225707111062059747084165650991997241425080699860725083300967194::nat) * 19200870435978225707111062059747084165650991997241425080699860725083300967194 =
   16843445481571583430227885364460874020001252829742532869269498935021226449481 * nat FR_ORDER + 5709868443893258075976348696661355716898495876243883251619397131511003808859"
  unfolding nat_FR_ORDER by simp

lemma root_square_26:
  "(7419588552507395652481651088034484897579724952953562618697845598160172257810::nat) * 7419588552507395652481651088034484897579724952953562618697845598160172257810 =
   2515062292155245027069864333963322505919293137084736079961582785656570533418 * nat FR_ORDER + 19200870435978225707111062059747084165650991997241425080699860725083300967194"
  unfolding nat_FR_ORDER by simp

lemma root_square_27:
  "(2082940218526944230311718225077035922214683169814847712455127909555749686340::nat) * 2082940218526944230311718225077035922214683169814847712455127909555749686340 =
   198217827687714114126275464786318396108164869989857940457871390719981903870 * nat FR_ORDER + 7419588552507395652481651088034484897579724952953562618697845598160172257810"
  unfolding nat_FR_ORDER by simp

lemma root_square_28:
  "(19103219067921713944291392827692070036145651957329286315305642004821462161904::nat) * 19103219067921713944291392827692070036145651957329286315305642004821462161904 =
   16672557084356874012651953139829525463057504866793717780751343799479068144828 * nat FR_ORDER + 2082940218526944230311718225077035922214683169814847712455127909555749686340"
  unfolding nat_FR_ORDER by simp

lemmas root_squares = root_square_1 [THEN fr_of_nat_square]
  root_square_2 [THEN fr_of_nat_square]
  root_square_3 [THEN fr_of_nat_square]
  root_square_4 [THEN fr_of_nat_square]
  root_square_5 [THEN fr_of_nat_square]
  root_square_6 [THEN fr_of_nat_square]
  root_square_7 [THEN fr_of_nat_square]
  root_square_8 [THEN fr_of_nat_square]
  root_square_9 [THEN fr_of_nat_square]
  root_square_10 [THEN fr_of_nat_square]
  root_square_11 [THEN fr_of_nat_square]
  root_square_12 [THEN fr_of_nat_square]
  root_square_13 [THEN fr_of_nat_square]
  root_square_14 [THEN fr_of_nat_square]
  root_square_15 [THEN fr_of_nat_square]
  root_square_16 [THEN fr_of_nat_square]
  root_square_17 [THEN fr_of_nat_square]
  root_square_18 [THEN fr_of_nat_square]
  root_square_19 [THEN fr_of_nat_square]
  root_square_20 [THEN fr_of_nat_square]
  root_square_21 [THEN fr_of_nat_square]
  root_square_22 [THEN fr_of_nat_square]
  root_square_23 [THEN fr_of_nat_square]
  root_square_24 [THEN fr_of_nat_square]
  root_square_25 [THEN fr_of_nat_square]
  root_square_26 [THEN fr_of_nat_square]
  root_square_27 [THEN fr_of_nat_square]
  root_square_28 [THEN fr_of_nat_square]

lemma length_roots [simp]: "length PRIMITIVE_ROOTS_OF_UNITY_DEC = 29"
  by (simp add: PRIMITIVE_ROOTS_OF_UNITY_DEC_def)

fun square_chain :: "nat list \<Rightarrow> bool" where
  "square_chain (a # b # xs) \<longleftrightarrow> (of_nat b :: Fr) ^ 2 = of_nat a \<and> square_chain (b # xs)"
| "square_chain xs \<longleftrightarrow> True"

lemma square_chain_nth:
  "square_chain xs \<Longrightarrow> Suc k < length xs \<Longrightarrow> (of_nat (xs ! Suc k) :: Fr) ^ 2 = of_nat (xs ! k)"
proof (induction xs arbitrary: k rule: square_chain.induct)
  case (1 a b xs)
  then show ?case by (cases k) auto
qed auto

lemma root_table_chain: "square_chain PRIMITIVE_ROOTS_OF_UNITY_DEC"
  unfolding PRIMITIVE_ROOTS_OF_UNITY_DEC_def
  by (simp only: square_chain.simps root_squares)

lemma root_table_squares:
  assumes "k < 28"
  shows "(of_nat (PRIMITIVE_ROOTS_OF_UNITY_DEC ! Suc k) :: Fr) ^ 2 = of_nat (PRIMITIVE_ROOTS_OF_UNITY_DEC ! k)"
  using assms by (intro square_chain_nth [OF root_table_chain]) simp

lemma root_table_start:
  "of_nat (PRIMITIVE_ROOTS_OF_UNITY_DEC ! 0) = (1 :: Fr)"
  "of_nat (PRIMITIVE_ROOTS_OF_UNITY_DEC ! 1) = (- 1 :: Fr)"
proof -
  show "of_nat (PRIMITIVE_ROOTS_OF_UNITY_DEC ! 0) = (1 :: Fr)"
    by (simp add: PRIMITIVE_ROOTS_OF_UNITY_DEC_def)
  have "(of_nat (PRIMITIVE_ROOTS_OF_UNITY_DEC ! 1 + 1) :: Fr) = of_nat 0"
    unfolding fr_of_nat_eq_iff by (simp add: PRIMITIVE_ROOTS_OF_UNITY_DEC_def FR_ORDER_def)
  then have "(of_nat (PRIMITIVE_ROOTS_OF_UNITY_DEC ! 1) :: Fr) + 1 = 0"
    by (simp only: of_nat_add of_nat_1 semiring_1_class.of_nat_0)
  then show "of_nat (PRIMITIVE_ROOTS_OF_UNITY_DEC ! 1) = (- 1 :: Fr)"
    by (simp only: eq_neg_iff_add_eq_0)
qed

lemma fr_minus_one_neq_one: "(- 1 :: Fr) \<noteq> 1"
proof
  assume "(- 1 :: Fr) = 1"
  then have "(of_nat 2 :: Fr) = of_nat 0"
    by (simp add: eq_neg_iff_add_eq_0 [symmetric])
  then show False unfolding fr_of_nat_eq_iff by (simp add: FR_ORDER_def)
qed

end
