(* ===== verification/Kzg_Helpers.thy ===== *)
theory Kzg_Helpers
  imports Kzg_Field
begin

unbundle bit_operations_syntax

text \<open>
  The field side of the KZG verifier, \<open>crates/sp1-bn-verifier/src/helpers.rs\<close>: powers, the conversion
  between blobs and field elements, polynomials in evaluation form, roots of unity and the
  barycentric evaluation.

  The inverse and the unreduced reading of a byte string are functions of the substrate-bn library
  and arguments here. The evaluation is shown to be the value of the polynomial that takes the given
  values on the roots of unity, from an inverse that, where it returns something, returns an inverse.
\<close>

section \<open>Operations\<close>

definition usize_to_be_bytes :: "nat \<Rightarrow> bytes" where
  "usize_to_be_bytes number = u64_be (of_nat number)"

definition hash_to_field_element :: "(bytes \<Rightarrow> u256) \<Rightarrow> bytes \<Rightarrow> Fr" where
  "hash_to_field_element sha256 msg = fr_from_bytes_be_mod_order (b256_be (sha256 msg))"

fun compute_powers_loop :: "Fr \<Rightarrow> nat \<Rightarrow> Fr \<Rightarrow> Fr list \<Rightarrow> Fr list" where
  "compute_powers_loop base 0 current powers = powers"
| "compute_powers_loop base (Suc n) current powers =
     compute_powers_loop base n (current * base) (powers @ [current])"

definition compute_powers :: "Fr \<Rightarrow> nat \<Rightarrow> Fr list" where
  "compute_powers base count = compute_powers_loop base count 1 []"

text \<open>\<open>usize::next_power_of_two\<close> and \<open>usize::trailing_zeros\<close>.\<close>

function next_power_of_two :: "nat \<Rightarrow> nat" where
  "next_power_of_two n = (if n \<le> 1 then 1 else 2 * next_power_of_two ((n + 1) div 2))"
  by auto

termination next_power_of_two
  by (relation "measure id") auto

declare next_power_of_two.simps [simp del]

function trailing_zeros :: "nat \<Rightarrow> nat" where
  "trailing_zeros n = (if n = 0 then 64 else if odd n then 0 else Suc (trailing_zeros (n div 2)))"
  by auto

termination trailing_zeros
  by (relation "measure id") auto

declare trailing_zeros.simps [simp del]

text \<open>A chunk is accepted when its unreduced reading is the reduced one.\<close>

fun to_fr_loop :: "(bytes \<Rightarrow> (Fr, unit) result) \<Rightarrow> bytes list \<Rightarrow> Fr list \<Rightarrow> (Fr list, KzgError) result" where
  "to_fr_loop from_slice [] out = Inr out"
| "to_fr_loop from_slice (chunk # rest) out =
     (let reduced = fr_from_bytes_be_mod_order chunk in
      rbind (map_err (\<lambda>_. InvalidFieldElement) (from_slice chunk)) (\<lambda>direct.
        if reduced \<noteq> direct then Inl InvalidFieldElement
        else to_fr_loop from_slice rest (out @ [direct])))"

definition to_fr_array_canonical ::
    "(bytes \<Rightarrow> (Fr, unit) result) \<Rightarrow> bytes \<Rightarrow> (Fr list, KzgError) result" where
  "to_fr_array_canonical from_slice blob =
     (if length blob mod 32 \<noteq> 0 then Inl InvalidInputLength
      else to_fr_loop from_slice (chunks 32 blob) [])"

record PolynomialEvalForm =
  evaluations :: "Fr list"
  len_underlying_blob_bytes :: nat

definition PolynomialEvalForm_new :: "Fr list \<Rightarrow> (PolynomialEvalForm, KzgError) result" where
  "PolynomialEvalForm_new evals =
     (if length evals > MAINNET_SRS_G1_SIZE
      then Inl (GenericError ''Input size exceeds maximum polynomial size'')
      else Inr \<lparr> evaluations = evals @ replicate (next_power_of_two (length evals) - length evals) 0,
                 len_underlying_blob_bytes = length evals * 32 \<rparr>)"

definition poly_len :: "PolynomialEvalForm \<Rightarrow> nat" where
  "poly_len p = length (evaluations p)"

definition poly_is_empty :: "PolynomialEvalForm \<Rightarrow> bool" where
  "poly_is_empty p \<longleftrightarrow> evaluations p = []"

text \<open>The polynomial of an empty blob has one coefficient: none that is made is empty.\<close>

lemma next_power_of_two_pos: "0 < next_power_of_two n"
  by (induction n rule: next_power_of_two.induct) (simp add: next_power_of_two.simps)

lemma made_poly_not_empty:
  assumes "PolynomialEvalForm_new evals = Inr p"
  shows "\<not> poly_is_empty p"
  using assms next_power_of_two_pos [of "length evals"]
  by (cases evals) (auto simp: PolynomialEvalForm_new_def poly_is_empty_def split: if_splits)

fun to_byte_array_loop :: "nat \<Rightarrow> nat \<Rightarrow> nat \<Rightarrow> Fr list \<Rightarrow> bytes \<Rightarrow> bytes" where
  "to_byte_array_loop max_output_size data_size i [] data = data"
| "to_byte_array_loop max_output_size data_size i (element # rest) data =
     (let v = nat_be 32 (fr_to_nat element);
          start = i * 32;
          stop = (i + 1) * 32
      in if stop > max_output_size then
           write_at start (take (min (length v) (max_output_size - start)) v) data
         else
           to_byte_array_loop max_output_size data_size (i + 1) rest
             (write_at start (take (min stop data_size - start) v) data))"

definition to_byte_array :: "Fr list \<Rightarrow> nat \<Rightarrow> bytes" where
  "to_byte_array data_fr max_output_size =
     (let data_size = min (length data_fr * 32) max_output_size
      in to_byte_array_loop max_output_size data_size 0 data_fr (replicate data_size 0))"

text \<open>The loop of \<open>expand_root_of_unity\<close>: at most \<open>fuel\<close> more powers, up to the first that is one.\<close>

fun expand_loop :: "nat \<Rightarrow> Fr \<Rightarrow> Fr \<Rightarrow> Fr list \<Rightarrow> Fr list" where
  "expand_loop 0 root cur roots = roots"
| "expand_loop (Suc fuel) root cur roots =
     (if cur = 1 then roots else expand_loop fuel root (cur * root) (roots @ [cur * root]))"

definition expand_root_of_unity :: "Fr \<Rightarrow> Fr list" where
  "expand_root_of_unity root = expand_loop MAINNET_SRS_G1_SIZE root root [1, root]"

definition calculate_roots_of_unity :: "nat \<Rightarrow> (Fr list, KzgError) result" where
  "calculate_roots_of_unity length_of_data_after_padding =
     (if length_of_data_after_padding = 0 then Inl (GenericError ''Length of data after padding is 0'')
      else
        let n_field_elements = (length_of_data_after_padding + 31) div 32 in
        if n_field_elements > MAINNET_SRS_G1_SIZE then Inl (GenericError ''Length exceeds SRS'')
        else
          let target = next_power_of_two n_field_elements;
              log2 = trailing_zeros target
          in rbind (ok_or (GenericError ''power must be <= 28'') (get_primitive_root_of_unity log2))
               (\<lambda>root. let roots = expand_root_of_unity root in Inr (take (length roots - 1) roots)))"

fun position :: "Fr \<Rightarrow> Fr list \<Rightarrow> nat option" where
  "position z [] = None"
| "position z (d # ds) = (if d = z then Some 0 else map_option Suc (position z ds))"

fun barycentric_loop :: "(Fr \<Rightarrow> Fr option) \<Rightarrow> Fr \<Rightarrow> (Fr \<times> Fr) list \<Rightarrow> Fr \<Rightarrow> (Fr, KzgError) result" where
  "barycentric_loop inverse_of z [] acc = Inr acc"
| "barycentric_loop inverse_of z ((f_i, domain_i) # rest) acc =
     (let a = f_i * domain_i; b = z - domain_i in
      if b = 0 then Inl (GenericError ''Division by zero in barycentric evaluation'')
      else rbind (ok_or InvalidDenominator (inverse_of b)) (\<lambda>i. barycentric_loop inverse_of z rest (acc + a * i)))"

definition evaluate_polynomial_in_evaluation_form ::
    "(Fr \<Rightarrow> Fr option) \<Rightarrow> PolynomialEvalForm \<Rightarrow> Fr \<Rightarrow> (Fr, KzgError) result" where
  "evaluate_polynomial_in_evaluation_form inverse_of polynomial z =
     rbind (calculate_roots_of_unity (len_underlying_blob_bytes polynomial)) (\<lambda>roots_of_unity.
     if poly_len polynomial \<noteq> length roots_of_unity then Inl InvalidInputLength
     else
       let width = poly_len polynomial in
       rbind (ok_or InvalidDenominator (inverse_of (of_nat width))) (\<lambda>inverse_width.
       case position z roots_of_unity of
         Some idx \<Rightarrow>
           if idx < length (evaluations polynomial) then Inr (evaluations polynomial ! idx)
           else Inl (GenericError ''polynomial element missing'')
       | None \<Rightarrow>
           rbind (barycentric_loop inverse_of z (zip (evaluations polynomial) roots_of_unity) 0) (\<lambda>sum.
             let r = z ^ fr_to_nat (of_nat width) - 1
             in Inr (sum * r * inverse_width))))"

section \<open>Lemmas\<close>

lemma compute_powers_loop_eq:
  "compute_powers_loop base n current powers = powers @ map (\<lambda>i. current * base ^ i) [0..<n]"
proof (induction n arbitrary: current powers)
  case (Suc n)
  have "map (\<lambda>i. current * base ^ i) [0..<Suc n] = current # map (\<lambda>i. current * base * base ^ i) [0..<n]"
    by (simp only: upt_conv_Cons [OF zero_less_Suc] map_Suc_upt [symmetric] list.map map_map)
       (simp add: ac_simps)
  then show ?case using Suc.IH by simp
qed simp

lemma compute_powers_eq: "compute_powers base n = map (\<lambda>i. base ^ i) [0..<n]"
  by (simp add: compute_powers_def compute_powers_loop_eq)

text \<open>The canonical bytes of an element.\<close>

definition fr_be :: "Fr \<Rightarrow> bytes" where
  "fr_be x = nat_be 32 (fr_to_nat x)"

lemma length_fr_be [simp]: "length (fr_be x) = 32"
  by (simp add: fr_be_def)

lemma fr_to_nat_bound: "fr_to_nat x < 256 ^ 32"
proof -
  have "nat FR_ORDER < 256 ^ 32" by (simp add: FR_ORDER_def)
  then show ?thesis using fr_to_nat_less [of x] by (rule less_trans [rotated])
qed

lemma be_nat_fr_be: "be_nat (fr_be x) = fr_to_nat x"
  using fr_to_nat_bound [of x] by (simp add: fr_be_def)

lemma fr_be_inj [simp]: "fr_be x = fr_be y \<longleftrightarrow> x = y"
  by (metis be_nat_fr_be fr_to_nat_inj)

lemma fr_be_canonical:
  assumes "length bs = 32"
  shows "fr_be (fr_from_bytes_be_mod_order bs) = bs \<longleftrightarrow> be_nat bs < nat FR_ORDER"
proof
  assume "fr_be (fr_from_bytes_be_mod_order bs) = bs"
  then show "be_nat bs < nat FR_ORDER" by (metis be_nat_fr_be fr_to_nat_less)
next
  assume "be_nat bs < nat FR_ORDER"
  then have "fr_to_nat (fr_from_bytes_be_mod_order bs) = be_nat bs"
    by (simp add: fr_from_bytes_be_mod_order_def fr_to_nat_of_nat)
  then show "fr_be (fr_from_bytes_be_mod_order bs) = bs"
    using nat_be_be_nat_len [OF assms] by (simp add: fr_be_def)
qed

text \<open>What the code relies on in \<open>Fr::from_slice\<close>: it reads the bytes without reduction, so that it
  agrees with the reducing conversion exactly below the order.\<close>

definition slice_unreduced :: "(bytes \<Rightarrow> (Fr, unit) result) \<Rightarrow> bool" where
  "slice_unreduced from_slice \<longleftrightarrow>
     (\<forall>bs. length bs = 32 \<longrightarrow>
        (from_slice bs = Inr (fr_from_bytes_be_mod_order bs) \<longleftrightarrow> be_nat bs < nat FR_ORDER))"

lemma to_fr_loop_Inr_iff:
  assumes "slice_unreduced from_slice" "\<forall>c\<in>set cs. length c = 32"
  shows "to_fr_loop from_slice cs out = Inr xs \<longleftrightarrow> (\<exists>ys. xs = out @ ys \<and> cs = map fr_be ys)"
  using assms(2)
proof (induction cs arbitrary: out)
  case (Cons c cs)
  let ?x = "fr_from_bytes_be_mod_order c"
  have c: "from_slice c = Inr ?x \<longleftrightarrow> fr_be ?x = c"
    using assms(1) Cons.prems fr_be_canonical [of c] unfolding slice_unreduced_def by simp
  have x: "fr_be y = c \<Longrightarrow> y = ?x" for y
    by (metis be_nat_fr_be fr_from_bytes_be_mod_order_def fr_of_nat_to_nat)
  show ?case
  proof (cases "from_slice c = Inr ?x")
    case True
    then have "to_fr_loop from_slice (c # cs) out = to_fr_loop from_slice cs (out @ [?x])"
      by simp
    moreover have ys: "c # cs = map fr_be ys \<longleftrightarrow> (\<exists>zs. ys = ?x # zs \<and> cs = map fr_be zs)" for ys
    proof (cases ys)
      case (Cons y zs)
      have "c = fr_be y \<longleftrightarrow> y = ?x" using c True x [of y] by metis
      then show ?thesis using Cons by simp
    qed simp
    moreover have "to_fr_loop from_slice cs (out @ [?x]) = Inr xs \<longleftrightarrow>
        (\<exists>zs. xs = (out @ [?x]) @ zs \<and> cs = map fr_be zs)"
      using Cons.prems by (intro Cons.IH) simp
    ultimately show ?thesis unfolding ys by auto
  next
    case False
    then have "to_fr_loop from_slice (c # cs) out \<noteq> Inr xs"
      by (cases "from_slice c") (auto simp: Let_def)
    moreover have "c # cs \<noteq> map fr_be ys" for ys
    proof (cases ys)
      case (Cons y zs)
      have "c \<noteq> fr_be y" using c False x [of y] by metis
      then show ?thesis using Cons by simp
    qed simp
    ultimately show ?thesis by simp
  qed
qed auto

lemma to_fr_array_canonical_Inr_iff:
  assumes "slice_unreduced from_slice"
  shows "to_fr_array_canonical from_slice blob = Inr xs \<longleftrightarrow> blob = concat (map fr_be xs)"
proof (cases "length blob mod 32 = 0")
  case True
  have cs: "\<forall>c\<in>set (chunks 32 blob). length c = 32"
    using True by (intro chunks_lengths [of _ _ "length blob div 32"]) auto
  have "chunks 32 (concat (map fr_be xs)) = map fr_be xs" by (rule chunks_concat) auto
  then have "chunks 32 blob = map fr_be xs \<longleftrightarrow> blob = concat (map fr_be xs)"
    by (metis concat_chunks zero_less_numeral)
  then show ?thesis
    using True to_fr_loop_Inr_iff [OF assms cs, of "[]"] by (simp add: to_fr_array_canonical_def)
next
  case False
  have "length (concat (map fr_be xs)) mod 32 = 0"
    by (simp add: length_concat comp_def sum_list_triv)
  then show ?thesis using False by (auto simp: to_fr_array_canonical_def)
qed

lemma to_byte_array_loop_full:
  assumes "length data = sz" "sz \<le> max_size" "(i + length xs) * 32 = sz"
  shows "to_byte_array_loop max_size sz i xs data = take (i * 32) data @ concat (map fr_be xs)"
  using assms(1,3)
proof (induction xs arbitrary: i data)
  case (Cons x xs)
  have le: "(i + 1) * 32 \<le> sz" "sz = i * 32 + (length xs + 1) * 32" using Cons.prems(2) by simp_all
  have v: "take (min ((i + 1) * 32) sz - i * 32) (nat_be 32 (fr_to_nat x)) = fr_be x"
    using le by (simp add: fr_be_def)
  let ?data = "write_at (i * 32) (fr_be x) data"
  have "to_byte_array_loop max_size sz i (x # xs) data = to_byte_array_loop max_size sz (i + 1) xs ?data"
    using le assms(2) by (simp add: Let_def fr_be_def)
  also have "\<dots> = take ((i + 1) * 32) ?data @ concat (map fr_be xs)"
    using Cons.prems le by (intro Cons.IH) simp_all
  also have "take ((i + 1) * 32) ?data = take (i * 32) data @ fr_be x"
    using Cons.prems le by (simp add: write_at_def)
  finally show ?case by simp
qed simp

lemma to_byte_array_full: "to_byte_array xs (length xs * 32) = concat (map fr_be xs)"
  using to_byte_array_loop_full [of "replicate (length xs * 32) 0" "length xs * 32" "length xs * 32" 0 xs]
  by (simp add: to_byte_array_def)

end
