(* ===== verification/Kzg_Evaluation.thy ===== *)
theory Kzg_Evaluation
  imports Kzg_Helpers
begin

text \<open>
  Correctness of the roots of unity and of the barycentric evaluation. Nothing here needs division
  in \<open>Fr\<close>: sums over the roots of unity vanish because the powers come in pairs of opposite sign.
\<close>

section \<open>Powers of two\<close>

lemma next_power_of_two_power: "\<exists>k. next_power_of_two n = 2 ^ k"
proof (induction n rule: next_power_of_two.induct)
  case (1 n)
  show ?case
  proof (cases "n \<le> 1")
    case True
    then show ?thesis by (intro exI [of _ 0]) (simp add: next_power_of_two.simps)
  next
    case False
    then obtain k where "next_power_of_two ((n + 1) div 2) = 2 ^ k" using 1 by blast
    then show ?thesis using False
      by (intro exI [of _ "Suc k"]) (simp add: next_power_of_two.simps [of n])
  qed
qed

lemma next_power_of_two_ge: "n \<le> next_power_of_two n"
proof (induction n rule: next_power_of_two.induct)
  case (1 n)
  show ?case
  proof (cases "n \<le> 1")
    case False
    then have "(n + 1) div 2 \<le> next_power_of_two ((n + 1) div 2)" by (rule 1)
    then show ?thesis using False by (simp add: next_power_of_two.simps [of n])
  qed (simp add: next_power_of_two.simps)
qed

lemma next_power_of_two_le: "n \<le> 2 ^ k \<Longrightarrow> next_power_of_two n \<le> 2 ^ k"
proof (induction k arbitrary: n)
  case 0
  then show ?case by (simp add: next_power_of_two.simps)
next
  case (Suc k)
  then have "next_power_of_two ((n + 1) div 2) \<le> 2 ^ k" by simp
  then show ?case by (simp add: next_power_of_two.simps [of n])
qed

lemma trailing_zeros_power: "trailing_zeros (2 ^ k) = k"
  by (induction k) (simp_all add: trailing_zeros.simps)

section \<open>Elements of order a power of two\<close>

text \<open>\<open>root_level k w\<close>: the element \<open>w\<close> is a root of unity of order \<open>2 ^ k\<close>.\<close>

definition root_level :: "nat \<Rightarrow> Fr \<Rightarrow> bool" where
  "root_level k w \<longleftrightarrow> (case k of 0 \<Rightarrow> w = 1 | Suc j \<Rightarrow> w ^ (2 ^ j) = - 1)"

lemma root_level_square: "root_level (Suc k) w \<Longrightarrow> root_level k (w ^ 2)"
  by (cases k) (simp_all add: root_level_def power_even_eq [symmetric] flip: power_mult)

lemma root_level_one: "root_level k w \<Longrightarrow> w ^ (2 ^ k) = 1"
  by (cases k) (simp_all add: root_level_def mult.commute [of 2] power_mult)

lemma root_level_multiple: "root_level k w \<Longrightarrow> w ^ (2 ^ k * m) = 1"
  by (simp add: power_mult root_level_one)

lemma root_level_dvd:
  assumes "root_level k w" "w ^ i = 1"
  shows "2 ^ k dvd i"
  using assms
proof (induction k arbitrary: w)
  case (Suc k)
  have "(w ^ 2) ^ i = 1" using Suc.prems(2) by (simp add: power_commutes flip: power_mult) (simp add: mult.commute power_mult)
  then have "2 ^ k dvd i" using Suc.IH [OF root_level_square [OF Suc.prems(1)]] by simp
  then obtain t where t: "i = 2 ^ k * t" by blast
  have "(- 1 :: Fr) ^ t = 1"
    using Suc.prems unfolding t by (simp add: root_level_def power_mult)
  then have "even t" using fr_minus_one_neq_one by (cases "even t") simp_all
  then show ?case unfolding t by auto
qed simp

lemma root_table_level:
  assumes "k \<le> 28"
  shows "root_level k (of_nat (PRIMITIVE_ROOTS_OF_UNITY_DEC ! k))"
proof (cases k)
  case 0
  then show ?thesis using root_table_start(1) by (simp add: root_level_def)
next
  case (Suc j)
  have "(of_nat (PRIMITIVE_ROOTS_OF_UNITY_DEC ! Suc j) :: Fr) ^ (2 ^ j) = - 1"
    using assms unfolding Suc
  proof (induction j)
    case 0
    then show ?case using root_table_start(2) by simp
  next
    case (Suc i)
    have "(of_nat (PRIMITIVE_ROOTS_OF_UNITY_DEC ! Suc (Suc i)) :: Fr) ^ (2 ^ Suc i) =
        ((of_nat (PRIMITIVE_ROOTS_OF_UNITY_DEC ! Suc (Suc i)) :: Fr) ^ 2) ^ (2 ^ i)"
      by (simp flip: power_mult)
    also have "\<dots> = of_nat (PRIMITIVE_ROOTS_OF_UNITY_DEC ! Suc i) ^ (2 ^ i)"
      using Suc.prems by (simp add: root_table_squares)
    finally show ?case using Suc by simp
  qed
  then show ?thesis using Suc by (simp add: root_level_def)
qed

section \<open>The list of roots\<close>

lemma expand_loop_powers:
  assumes "w ^ n = 1" "\<And>i. 0 < i \<Longrightarrow> i < n \<Longrightarrow> w ^ i \<noteq> 1"
    and "0 < j" "j \<le> n" "n - j < fuel"
  shows "expand_loop fuel w (w ^ j) (map (\<lambda>i. w ^ i) [0..<Suc j]) = map (\<lambda>i. w ^ i) [0..<Suc n]"
  using assms(3-5)
proof (induction fuel arbitrary: j)
  case (Suc fuel)
  show ?case
  proof (cases "j = n")
    case False
    then have "w ^ j \<noteq> 1" using assms(2) Suc.prems by simp
    moreover have "expand_loop fuel w (w ^ Suc j) (map (\<lambda>i. w ^ i) [0..<Suc (Suc j)]) =
        map (\<lambda>i. w ^ i) [0..<Suc n]"
      using Suc.prems False by (intro Suc.IH) auto
    ultimately show ?thesis by (simp add: mult.commute)
  qed (simp add: assms(1))
qed simp

lemma expand_root_of_unity_powers:
  assumes "root_level k w" "k \<le> 28"
  shows "expand_root_of_unity w = map (\<lambda>i. w ^ i) [0..<Suc (2 ^ k)]"
proof -
  have "(2::nat) ^ k \<le> 2 ^ 28" using assms(2) by (intro power_increasing) simp_all
  then have "2 ^ k - 1 < MAINNET_SRS_G1_SIZE" by (simp add: MAINNET_SRS_G1_SIZE_def)
  moreover have "w ^ i \<noteq> 1" if "0 < i" "i < 2 ^ k" for i
    using root_level_dvd [OF assms(1)] that nat_dvd_not_less by blast
  ultimately show ?thesis
    using expand_loop_powers [of w "2 ^ k" 1 MAINNET_SRS_G1_SIZE] root_level_one [OF assms(1)]
    by (simp add: expand_root_of_unity_def)
qed

lemma calculate_roots_of_unity_powers:
  assumes "0 < len" "(len + 31) div 32 \<le> MAINNET_SRS_G1_SIZE"
  obtains k w where "root_level k w" "next_power_of_two ((len + 31) div 32) = 2 ^ k"
    "calculate_roots_of_unity len = Inr (map (\<lambda>i. w ^ i) [0..<2 ^ k])"
    "get_primitive_root_of_unity k = Some w" "k \<le> 28"
proof -
  obtain k where k: "next_power_of_two ((len + 31) div 32) = 2 ^ k"
    using next_power_of_two_power by blast
  have "(2::nat) ^ k \<le> 2 ^ 28"
    using next_power_of_two_le [of "(len + 31) div 32" 28] assms(2) k by (simp add: MAINNET_SRS_G1_SIZE_def)
  then have k28: "k \<le> 28" by (rule power_le_imp_le_exp [rotated]) simp
  let ?w = "of_nat (PRIMITIVE_ROOTS_OF_UNITY_DEC ! k) :: Fr"
  have "calculate_roots_of_unity len = Inr (map (\<lambda>i. ?w ^ i) [0..<2 ^ k])"
    using assms k28
    by (simp add: calculate_roots_of_unity_def Let_def k trailing_zeros_power
        get_primitive_root_of_unity_def expand_root_of_unity_powers [OF root_table_level [OF k28] k28]
        take_map del: upt_Suc)
  moreover have "get_primitive_root_of_unity k = Some ?w"
    using k28 by (simp add: get_primitive_root_of_unity_def)
  ultimately show thesis using that root_table_level [OF k28] k k28 by blast
qed

lemma root_powers_distinct:
  assumes "root_level k w"
  shows "distinct (map (\<lambda>i. w ^ i) [0..<2 ^ k])"
proof -
  have "i = j" if "w ^ i = w ^ j" "i < 2 ^ k" "j < 2 ^ k" "i \<le> j" for i j
  proof -
    have "w ^ (2 ^ k - i) * w ^ j = w ^ (2 ^ k - i) * w ^ i" using that(1) by simp
    also have "\<dots> = 1" using that(2) root_level_one [OF assms] by (simp flip: power_add)
    finally have "w ^ (2 ^ k + (j - i)) = 1" using that(2,4) by (simp flip: power_add)
    then have "w ^ (j - i) = 1" using root_level_one [OF assms] by (simp add: power_add)
    then have "2 ^ k dvd j - i" by (rule root_level_dvd [OF assms])
    then show ?thesis using that(3,4) by (metis diff_is_0_eq less_imp_diff_less nat_dvd_not_less not_gr_zero order_antisym)
  qed
  then have "inj_on (\<lambda>i. w ^ i) (set [0..<2 ^ k])"
    by (intro inj_onI) (metis atLeastLessThan_iff nle_le set_upt)
  then show ?thesis by (simp add: distinct_map)
qed

section \<open>Sums over the roots\<close>

lemma sum_lessThan_split: "(\<Sum>i<a + b. f i) = (\<Sum>i<a. f i) + (\<Sum>i<b. f (i + a))"
  for f :: "nat \<Rightarrow> 'a :: comm_monoid_add"
  by (induction b) (simp_all add: ac_simps)

lemma root_sum:
  assumes "root_level k w"
  shows "(\<Sum>i<2 ^ k. w ^ (i * m)) = (if 2 ^ k dvd m then of_nat (2 ^ k) else 0)"
  using assms
proof (induction k arbitrary: w m)
  case 0
  then show ?case by simp
next
  case (Suc k)
  have minus: "w ^ (2 ^ k) = - 1" using Suc.prems by (simp add: root_level_def)
  have "(\<Sum>i<2 ^ Suc k. w ^ (i * m)) = (\<Sum>i<2 ^ k. w ^ (i * m)) + (\<Sum>i<2 ^ k. w ^ ((i + 2 ^ k) * m))"
    using sum_lessThan_split [of "\<lambda>i. w ^ (i * m)" "2 ^ k" "2 ^ k"] by (simp add: mult_2)
  also have "(\<Sum>i<2 ^ k. w ^ ((i + 2 ^ k) * m)) = (\<Sum>i<2 ^ k. w ^ (i * m) * (- 1) ^ m)"
    by (simp add: distrib_right power_add power_mult minus)
  finally have s: "(\<Sum>i<2 ^ Suc k. w ^ (i * m)) =
      (\<Sum>i<2 ^ k. w ^ (i * m)) + (\<Sum>i<2 ^ k. w ^ (i * m)) * (- 1) ^ m"
    by (simp only: sum_distrib_right)
  show ?case
  proof (cases "even m")
    case True
    then obtain t where t: "m = 2 * t" by blast
    have "(\<Sum>i<2 ^ k. w ^ (i * m)) = (\<Sum>i<2 ^ k. (w ^ 2) ^ (i * t))"
      by (simp add: t mult.left_commute flip: power_mult)
    also have "\<dots> = (if 2 ^ k dvd t then of_nat (2 ^ k) else 0)"
      by (rule Suc.IH [OF root_level_square [OF Suc.prems]])
    finally show ?thesis unfolding s by (simp add: t)
  next
    case False
    then have "\<not> 2 ^ Suc k dvd m" by auto
    then show ?thesis unfolding s using False by simp
  qed
qed

lemma dvd_shifted:
  fixes n :: nat
  assumes "j < n" "p < n"
  shows "n dvd n - p + j \<longleftrightarrow> p = j"
proof
  assume "n dvd n - p + j"
  then obtain t where t: "n - p + j = n * t" by blast
  have "0 < n - p + j" "n - p + j < n * 2" using assms by auto
  then have "t = 1" using t by (cases t; cases "t - 1") auto
  then show "p = j" using t assms by simp
qed (use assms in simp)

lemma root_sum_shifted:
  assumes "root_level k w" "n = 2 ^ k" "j < n" "p < n"
  shows "(\<Sum>i<n. w ^ (i * (n - p + j))) = (if p = j then of_nat n else 0)"
  unfolding dvd_shifted [OF assms(3,4), symmetric] using root_sum [OF assms(1)] assms(2) by simp

section \<open>Barycentric evaluation\<close>

text \<open>The polynomial with the coefficients \<open>c\<close>, of degree below \<open>n\<close>.\<close>

definition poly_value :: "(nat \<Rightarrow> Fr) \<Rightarrow> nat \<Rightarrow> Fr \<Rightarrow> Fr" where
  "poly_value c n z = (\<Sum>j<n. c j * z ^ j)"

definition inverse_sound :: "(Fr \<Rightarrow> Fr option) \<Rightarrow> bool" where
  "inverse_sound inverse_of \<longleftrightarrow> (\<forall>x y. inverse_of x = Some y \<longrightarrow> x * y = 1)"

lemma barycentric_loop_scaled:
  assumes "inverse_sound inverse_of" "barycentric_loop inverse_of z fds acc = Inr y"
    and "\<And>f d. (f, d) \<in> set fds \<Longrightarrow> D = (z - d) * Q d"
  shows "y * D = acc * D + (\<Sum>(f, d)\<leftarrow>fds. f * d * Q d)"
  using assms(2,3)
proof (induction fds arbitrary: acc)
  case (Cons fd fds)
  obtain f d where fd: "fd = (f, d)" by (cases fd)
  obtain i where i: "inverse_of (z - d) = Some i"
    and rest: "barycentric_loop inverse_of z fds (acc + f * d * i) = Inr y"
    using Cons.prems(1) unfolding fd
    by (cases "inverse_of (z - d)") (auto simp: Let_def split: if_splits)
  have "(z - d) * i = 1" using assms(1) i unfolding inverse_sound_def by blast
  then have "i * ((z - d) * Q d) = Q d" by (simp add: mult.commute flip: mult.assoc)
  then have "f * d * i * D = f * d * Q d"
    using Cons.prems(2) [of f d] fd by (simp add: mult.assoc)
  moreover have "y * D = (acc + f * d * i) * D + (\<Sum>(f, d)\<leftarrow>fds. f * d * Q d)"
    by (rule Cons.IH [OF rest], rule Cons.prems(2)) (rule list.set_intros(2))
  ultimately show ?case by (simp add: fd distrib_right add.assoc)
qed simp

lemma power_minus_one_split:
  fixes z w :: Fr
  assumes "w ^ n = 1" "0 < n"
  shows "z ^ n - 1 = (z - w) * (\<Sum>p<n. z ^ p * w ^ (n - 1 - p))"
  using diff_power_eq_sum [of z "n - 1" w] assms by simp

lemma barycentric_sum:
  assumes "root_level k w" "n = 2 ^ k" "\<And>i. i < n \<Longrightarrow> f i = poly_value c n (w ^ i)"
  shows "(\<Sum>i<n. f i * w ^ i * (\<Sum>p<n. z ^ p * (w ^ i) ^ (n - 1 - p))) = of_nat n * poly_value c n z"
proof -
  have e: "(w ^ i) ^ j * (w ^ i * (w ^ i) ^ (n - 1 - p)) = w ^ (i * (n - p + j))" if "p < n" for i j p
  proof -
    have "(w ^ i) ^ j * (w ^ i * (w ^ i) ^ (n - 1 - p)) = (w ^ i) ^ (j + Suc (n - 1 - p))"
      by (simp add: power_add)
    then show ?thesis using that by (simp add: Suc_diff_Suc add.commute flip: power_mult)
  qed
  have "f i * w ^ i * (\<Sum>p<n. z ^ p * (w ^ i) ^ (n - 1 - p)) =
      (\<Sum>j<n. \<Sum>p<n. c j * z ^ p * w ^ (i * (n - p + j)))" if "i < n" for i
  proof -
    have "f i * w ^ i * (\<Sum>p<n. z ^ p * (w ^ i) ^ (n - 1 - p)) =
        (\<Sum>j<n. \<Sum>p<n. c j * (w ^ i) ^ j * (w ^ i * (z ^ p * (w ^ i) ^ (n - 1 - p))))"
      using that by (simp only: assms(3) poly_value_def mult.assoc sum_distrib_left [of "w ^ i"] sum_product)
    also have "\<dots> = (\<Sum>j<n. \<Sum>p<n. c j * z ^ p * ((w ^ i) ^ j * (w ^ i * (w ^ i) ^ (n - 1 - p))))"
      by (simp only: ac_simps)
    also have "\<dots> = (\<Sum>j<n. \<Sum>p<n. c j * z ^ p * w ^ (i * (n - p + j)))"
      by (intro sum.cong refl) (simp only: e lessThan_iff)
    finally show ?thesis .
  qed
  then have "(\<Sum>i<n. f i * w ^ i * (\<Sum>p<n. z ^ p * (w ^ i) ^ (n - 1 - p))) =
      (\<Sum>i<n. \<Sum>j<n. \<Sum>p<n. c j * z ^ p * w ^ (i * (n - p + j)))"
    by (intro sum.cong refl) (simp only: lessThan_iff)
  also have "\<dots> = (\<Sum>j<n. \<Sum>p<n. c j * z ^ p * (\<Sum>i<n. w ^ (i * (n - p + j))))"
    unfolding sum_distrib_left
    by (subst sum.swap, rule sum.cong [OF refl], rule sum.swap)
  also have "\<dots> = (\<Sum>j<n. \<Sum>p<n. if p = j then of_nat n * (c j * z ^ j) else 0)"
    by (intro sum.cong refl, simp only: root_sum_shifted [OF assms(1,2)] lessThan_iff)
       (simp add: mult.commute)
  also have "\<dots> = of_nat n * poly_value c n z"
    by (simp add: poly_value_def sum_distrib_left sum.delta)
  finally show ?thesis .
qed

lemma interpolation_exists:
  assumes "root_level k w" "n = 2 ^ k" "of_nat n * u = (1 :: Fr)"
  obtains c where "\<And>i. i < n \<Longrightarrow> f i = poly_value c n (w ^ i)"
proof
  fix l
  assume l: "l < n"
  let ?c = "\<lambda>j. u * (\<Sum>i<n. f i * w ^ ((n - i) * j))"
  have e: "w ^ ((n - i) * j) * (w ^ l) ^ j = w ^ (j * (n - i + l))" for i j
    by (simp add: distrib_left power_add mult.commute flip: power_mult)
  have "poly_value ?c n (w ^ l) = (\<Sum>j<n. \<Sum>i<n. u * f i * (w ^ ((n - i) * j) * (w ^ l) ^ j))"
    unfolding poly_value_def by (simp only: sum_distrib_left sum_distrib_right mult.assoc)
  also have "\<dots> = (\<Sum>j<n. \<Sum>i<n. u * f i * w ^ (j * (n - i + l)))"
    by (simp only: e)
  also have "\<dots> = (\<Sum>i<n. u * f i * (\<Sum>j<n. w ^ (j * (n - i + l))))"
    by (subst sum.swap) (simp add: sum_distrib_left)
  also have "\<dots> = (\<Sum>i<n. if i = l then u * f i * of_nat n else 0)"
    by (intro sum.cong refl, simp only: root_sum_shifted [OF assms(1,2) l] lessThan_iff) simp
  also have "\<dots> = f l * (of_nat n * u)"
    using l by (simp add: sum.delta mult.commute mult.left_commute)
  finally show "f l = poly_value ?c n (w ^ l)" using assms(3) by simp
qed

lemma position_Some: "position z ds = Some i \<Longrightarrow> i < length ds \<and> ds ! i = z"
  by (induction ds arbitrary: i) (auto split: if_splits)

lemma position_None: "position z ds = None \<longleftrightarrow> z \<notin> set ds"
  by (induction ds) auto

lemma sum_list_zip_powers:
  "length fs = n \<Longrightarrow>
     (\<Sum>(f, d)\<leftarrow>zip fs (map g [0..<n]). h f d) = (\<Sum>i<n. h (fs ! i) (g i))"
  for h :: "'a \<Rightarrow> 'b \<Rightarrow> 'c :: comm_monoid_add"
proof -
  assume "length fs = n"
  then have "map (\<lambda>(f, d). h f d) (zip fs (map g [0..<n])) = map (\<lambda>i. h (fs ! i) (g i)) [0..<n]"
    by (intro nth_equalityI) simp_all
  then show ?thesis by (simp add: interv_sum_list_conv_sum_set_nat atLeast0LessThan)
qed

lemma fr_of_nat_small: "n < nat FR_ORDER \<Longrightarrow> fr_to_nat (of_nat n) = n"
  by (simp add: fr_to_nat_of_nat)

lemma two_power_less_order:
  assumes "k \<le> 28"
  shows "2 ^ k < nat FR_ORDER"
proof -
  have "(2::nat) ^ k \<le> 2 ^ 28" using assms by (intro power_increasing) simp_all
  also have "\<dots> < nat FR_ORDER" by (simp add: FR_ORDER_def)
  finally show ?thesis .
qed

text \<open>A successful evaluation, taken apart.\<close>

lemma evaluate_cases:
  assumes "evaluate_polynomial_in_evaluation_form inverse_of p z = Inr y"
    and "calculate_roots_of_unity (len_underlying_blob_bytes p) = Inr (map (\<lambda>i. w ^ i) [0..<n])"
  obtains
    (at_root) i where "length (evaluations p) = n" "i < n" "z = w ^ i" "y = evaluations p ! i"
  | (barycentric) acc u where "length (evaluations p) = n" "inverse_of (of_nat n) = Some u"
      "barycentric_loop inverse_of z (zip (evaluations p) (map (\<lambda>i. w ^ i) [0..<n])) 0 = Inr acc"
      "y = acc * (z ^ fr_to_nat (of_nat n) - 1) * u"
proof -
  let ?ds = "map (\<lambda>i. w ^ i) [0..<n]"
  have l: "length (evaluations p) = n"
    using assms by (auto simp: evaluate_polynomial_in_evaluation_form_def poly_len_def Let_def split: if_splits)
  then have u: "inverse_of (of_nat n) \<noteq> None"
    using assms by (cases "inverse_of (of_nat n)")
      (auto simp: evaluate_polynomial_in_evaluation_form_def poly_len_def Let_def)
  show thesis
  proof (cases "position z ?ds")
    case None
    then show thesis using assms l u barycentric
      by (auto simp: evaluate_polynomial_in_evaluation_form_def poly_len_def Let_def rbind_eq_Inr)
  next
    case (Some i)
    then have "i < n" "z = w ^ i" using position_Some [OF Some] by auto
    then show thesis using assms l u Some at_root [of i]
      by (auto simp: evaluate_polynomial_in_evaluation_form_def poly_len_def Let_def split: if_splits)
  qed
qed

lemma evaluate_interpolates:
  assumes "inverse_sound inverse_of" "evaluate_polynomial_in_evaluation_form inverse_of p z = Inr y"
    and "root_level k w" "k \<le> 28"
    and r: "calculate_roots_of_unity (len_underlying_blob_bytes p) = Inr (map (\<lambda>i. w ^ i) [0..<2 ^ k])"
    and c: "\<And>i. i < 2 ^ k \<Longrightarrow> evaluations p ! i = poly_value c (2 ^ k) (w ^ i)"
  shows "y = poly_value c (2 ^ k) z"
  using assms(2) r
proof (cases rule: evaluate_cases)
  case (at_root i)
  then show ?thesis using c by simp
next
  case (barycentric acc u)
  let ?n = "2 ^ k :: nat" and ?D = "z ^ (2 ^ k) - 1"
  let ?Q = "\<lambda>d. \<Sum>p<?n. z ^ p * d ^ (?n - 1 - p)"
  have n: "fr_to_nat (of_nat ?n) = ?n" by (rule fr_of_nat_small [OF two_power_less_order [OF assms(4)]])
  have u: "of_nat ?n * u = 1" using assms(1) barycentric(2) unfolding inverse_sound_def by blast
  have D: "?D = (z - d) * ?Q d"
    if fd: "(f, d) \<in> set (zip (evaluations p) (map (\<lambda>i. w ^ i) [0..<?n]))" for f d
  proof -
    obtain i where "d = w ^ i" using set_zip_rightD [OF fd] by auto
    then have "d ^ ?n = 1" using root_level_multiple [OF assms(3), of i] by (simp add: mult.commute flip: power_mult)
    then show ?thesis by (rule power_minus_one_split) simp
  qed
  have "acc * ?D = (\<Sum>(f, d)\<leftarrow>zip (evaluations p) (map (\<lambda>i. w ^ i) [0..<?n]). f * d * ?Q d)"
    using barycentric_loop_scaled [OF assms(1) barycentric(3) D] by simp
  also have "\<dots> = (\<Sum>i<?n. evaluations p ! i * w ^ i * ?Q (w ^ i))"
    by (rule sum_list_zip_powers [OF barycentric(1)])
  also have "\<dots> = of_nat ?n * poly_value c ?n z"
    by (rule barycentric_sum [OF assms(3) refl c])
  finally have "acc * ?D * u = (of_nat ?n * u) * poly_value c ?n z" by (simp only: ac_simps)
  then show ?thesis using barycentric(4) u n by simp
qed

section \<open>When the evaluation fails\<close>

lemma barycentric_loop_error:
  assumes "barycentric_loop inverse_of z fds acc = Inl e" "\<And>f d. (f, d) \<in> set fds \<Longrightarrow> z \<noteq> d"
  shows "e = InvalidDenominator \<and> (\<exists>x. x \<noteq> 0 \<and> inverse_of x = None)"
  using assms
proof (induction inverse_of z fds acc rule: barycentric_loop.induct)
  case (2 inverse_of z f d rest acc)
  have "z \<noteq> d" by (rule 2(3) [of f]) simp
  then have b: "z - d \<noteq> 0" by simp
  show ?case
  proof (cases "inverse_of (z - d)")
    case None
    then have "e = InvalidDenominator" using 2(2) b by (simp add: Let_def)
    then show ?thesis using None b by blast
  next
    case (Some i)
    then have "barycentric_loop inverse_of z rest (acc + f * d * i) = Inl e"
      using 2(2) b by (simp add: Let_def)
    moreover have "z \<noteq> d'" if "(f', d') \<in> set rest" for f' d'
      by (rule 2(3) [of f']) (use that in simp)
    ultimately show ?thesis using b by (intro 2(1) [of "f * d" "z - d" i]) auto
  qed
qed simp

lemma PolynomialEvalForm_new_roots:
  assumes "PolynomialEvalForm_new evals = Inr p" "evals \<noteq> []"
  obtains k w where "root_level k w" "k \<le> 28" "length (evaluations p) = 2 ^ k"
    "calculate_roots_of_unity (len_underlying_blob_bytes p) = Inr (map (\<lambda>i. w ^ i) [0..<2 ^ k])"
    "get_primitive_root_of_unity k = Some w" "next_power_of_two (length evals) = 2 ^ k"
proof -
  have le: "length evals \<le> MAINNET_SRS_G1_SIZE"
    and p: "p = \<lparr> evaluations = evals @ replicate (next_power_of_two (length evals) - length evals) 0,
                 len_underlying_blob_bytes = length evals * 32 \<rparr>"
    using assms(1) by (auto simp: PolynomialEvalForm_new_def split: if_splits)
  have len: "(length evals * 32 + 31) div 32 = length evals" by simp
  obtain k w where k: "root_level k w" "next_power_of_two (length evals) = 2 ^ k"
    "calculate_roots_of_unity (length evals * 32) = Inr (map (\<lambda>i. w ^ i) [0..<2 ^ k])"
    "get_primitive_root_of_unity k = Some w" "k \<le> 28"
    using calculate_roots_of_unity_powers [of "length evals * 32"] le assms(2) unfolding len by auto
  moreover have "length (evaluations p) = 2 ^ k"
    using next_power_of_two_ge [of "length evals"] k(2) by (simp add: p)
  ultimately show thesis using that p by simp
qed

lemma fr_to_nat_0: "fr_to_nat 0 = 0"
  by (simp add: fr_to_nat_def fr_type.Rep_0)

lemma evaluate_error:
  assumes "PolynomialEvalForm_new evals = Inr p" "evals \<noteq> []"
    and "evaluate_polynomial_in_evaluation_form inverse_of p z = Inl e"
  shows "e = InvalidDenominator \<and> (\<exists>x. x \<noteq> 0 \<and> inverse_of x = None)"
proof -
  obtain k w where k: "k \<le> 28" "length (evaluations p) = 2 ^ k"
    "calculate_roots_of_unity (len_underlying_blob_bytes p) = Inr (map (\<lambda>i. w ^ i) [0..<2 ^ k])"
    using PolynomialEvalForm_new_roots [OF assms(1,2)] by blast
  let ?n = "2 ^ k :: nat" and ?ds = "map (\<lambda>i. w ^ i) [0..<2 ^ k]"
  have "fr_to_nat (of_nat ?n) \<noteq> 0"
    by (subst fr_of_nat_small [OF two_power_less_order [OF k(1)]]) simp
  then have n: "of_nat ?n \<noteq> (0 :: Fr)" by (metis fr_to_nat_0)
  show ?thesis
  proof (cases "inverse_of (of_nat ?n)")
    case None
    then show ?thesis using assms(3) k n
      by (auto simp: evaluate_polynomial_in_evaluation_form_def poly_len_def Let_def simp del: of_nat_power)
  next
    case (Some u)
    have pos: "position z ?ds = None"
      using position_Some [of z ?ds] assms(3) k Some
      by (cases "position z ?ds")
         (auto simp: evaluate_polynomial_in_evaluation_form_def poly_len_def Let_def simp del: of_nat_power)
    have "barycentric_loop inverse_of z (zip (evaluations p) ?ds) 0 = Inl e"
      using assms(3) k Some pos
      by (auto simp: evaluate_polynomial_in_evaluation_form_def poly_len_def Let_def rbind_eq_Inl
          simp del: of_nat_power)
    moreover have "z \<notin> set ?ds" using pos by (simp only: position_None not_False_eq_True)
    ultimately show ?thesis using set_zip_rightD by (intro barycentric_loop_error) fastforce+
  qed
qed

lemma evaluate_inverts_width:
  assumes "inverse_sound inverse_of" "evaluate_polynomial_in_evaluation_form inverse_of p z = Inr y"
    and "length (evaluations p) = n"
    and "calculate_roots_of_unity (len_underlying_blob_bytes p) = Inr (map (\<lambda>i. w ^ i) [0..<n])"
  obtains u where "of_nat n * u = (1 :: Fr)"
proof -
  obtain u where "inverse_of (of_nat n) = Some u"
    using assms(2-4)
    by (cases "inverse_of (of_nat n)")
       (auto simp: evaluate_polynomial_in_evaluation_form_def poly_len_def Let_def)
  then show thesis using that assms(1) unfolding inverse_sound_def by blast
qed

end
