(* ===== verification/Kzg_Batch.thy ===== *)
theory Kzg_Batch
  imports Complex_Main Kzg_Evaluation Eigenda_Cert
begin

unbundle bit_operations_syntax

text \<open>
  The group side of the KZG verifier: the remaining part of \<open>crates/sp1-bn-verifier/src/helpers.rs\<close>
  and \<open>batch.rs\<close>.

  Curve arithmetic, pairings and SHA-256 come from substrate-bn and sha2 and are the record
  \<open>bn_ops\<close>; the affine and the projective form of a G1 point are one type. What the verifier relies
  on is \<open>bn_lawful\<close>: G1 is a module over \<open>Fr\<close> and the pairing is bilinear and non-degenerate on the
  G2 generator.
\<close>

section \<open>The library\<close>

record ('q, 'g, 'h, 't) bn_ops =
  bn_fq_from_be_bytes_mod_order :: "bytes \<Rightarrow> ('q, unit) result"
  bn_fq_to_big_endian :: "'q \<Rightarrow> bytes"
  bn_fq_neg :: "'q \<Rightarrow> 'q"
  bn_fq_greater :: "'q \<Rightarrow> 'q \<Rightarrow> bool"
  bn_affine_new :: "'q \<Rightarrow> 'q \<Rightarrow> ('g, unit) result"
  bn_x :: "'g \<Rightarrow> 'q"
  bn_y :: "'g \<Rightarrow> 'q"
  bn_affine_default :: 'g
  bn_from_jacobian :: "'g \<Rightarrow> 'g option"
  bn_scale :: "Fr \<Rightarrow> 'g \<Rightarrow> 'g"
  bn_g1_one :: 'g
  bn_msm :: "'g list \<Rightarrow> Fr list \<Rightarrow> 'g outcome"
  bn_pairing_batch :: "('g \<times> 'h) list \<Rightarrow> 't"
  bn_gt_one :: 't
  bn_g2_new_unchecked :: "nat \<Rightarrow> nat \<Rightarrow> nat \<Rightarrow> nat \<Rightarrow> 'h"
  bn_g2_one :: 'h
  bn_fr_inverse :: "Fr \<Rightarrow> Fr option"
  bn_fr_from_slice :: "bytes \<Rightarrow> (Fr, unit) result"
  bn_sha256 :: "bytes \<Rightarrow> u256"

text \<open>The coordinates of the point, as \<open>c0\<close> and \<open>c1\<close> of \<open>x\<close> and of \<open>y\<close>.\<close>

definition G2_TAU :: "('q, 'g, 'h, 't) bn_ops \<Rightarrow> 'h" where
  "G2_TAU BN =
     bn_g2_new_unchecked BN
       19394299006376106554626551996044114846855237028623244664226757033024550999552
       10478571113809844268398751534081669357808742555529167819607714577862447855483
       9205262336805673656533560220225620941045451042642528799409071118332922267006
       10552783866161062341197740743287753408530108186218052255509661543860392060676"

definition g2_tau :: "('q, 'g, 'h, 't) bn_ops \<Rightarrow> 'h" where
  "g2_tau BN = G2_TAU BN"

section \<open>Points and transcripts\<close>

definition validate_g1_point ::
    "('q, 'g::ab_group_add, 'h, 't) bn_ops \<Rightarrow> 'g \<Rightarrow> (unit, KzgError) result" where
  "validate_g1_point BN point =
     (if point = 0 then Inr ()
      else rbind (ok_or (NotOnCurveError ''g1 point not on curve'') (bn_from_jacobian BN point)) (\<lambda>_. Inr ()))"

definition g1_lincomb ::
    "('q, 'g, 'h, 't) bn_ops \<Rightarrow> 'g list \<Rightarrow> Fr list \<Rightarrow> ('g, KzgError) result outcome" where
  "g1_lincomb BN points scalars =
     (if length points \<noteq> length scalars
      then Ret (Inl (GenericError ''g1_lincomb: points and scalars have mismatched lengths''))
      else obind (bn_msm BN points scalars) (\<lambda>p. Ret (Inr p)))"

definition pairings_verify ::
    "('q, 'g::ab_group_add, 'h, 't) bn_ops \<Rightarrow> 'g \<Rightarrow> 'h \<Rightarrow> 'g \<Rightarrow> 'h \<Rightarrow> bool" where
  "pairings_verify BN a1 a2 b1 b2 \<longleftrightarrow> bn_pairing_batch BN [(a1, a2), (- b1, b2)] = bn_gt_one BN"

definition fq_to_le_bytes :: "('q, 'g, 'h, 't) bn_ops \<Rightarrow> 'q \<Rightarrow> bytes" where
  "fq_to_le_bytes BN v = rev (bn_fq_to_big_endian BN v)"

definition fq_is_negative :: "('q, 'g, 'h, 't) bn_ops \<Rightarrow> 'q \<Rightarrow> bool" where
  "fq_is_negative BN y = bn_fq_greater BN y (bn_fq_neg BN y)"

definition serialize_g1_compressed :: "('q, 'g::ab_group_add, 'h, 't) bn_ops \<Rightarrow> 'g \<Rightarrow> bytes" where
  "serialize_g1_compressed BN point =
     (if point = 0 then (replicate 32 0)[31 := push_bit 6 1]
      else
        let bs = fq_to_le_bytes BN (bn_x BN point)
        in if fq_is_negative BN (bn_y BN point) then bs[31 := bs ! 31 OR push_bit 7 1] else bs)"

definition serialize_fr_le :: "Fr \<Rightarrow> bytes" where
  "serialize_fr_le x = rev (nat_be 32 (fr_to_nat x))"

definition ascii_bytes :: "string \<Rightarrow> bytes" where
  "ascii_bytes s = map (\<lambda>c. of_nat (of_char c)) s"

definition challenge_input ::
    "('q, 'g::ab_group_add, 'h, 't) bn_ops \<Rightarrow> PolynomialEvalForm \<Rightarrow> 'g \<Rightarrow> bytes" where
  "challenge_input BN blob_poly commitment =
     (let domain_bytes = ascii_bytes FIAT_SHAMIR_PROTOCOL_DOMAIN;
          challenge_input_size =
            length domain_bytes + 8 + poly_len blob_poly * 32 + SIZE_OF_G1_AFFINE_COMPRESSED;
          buf = replicate challenge_input_size 0;
          offset = 0;
          buf = write_at offset domain_bytes buf;
          offset = offset + length domain_bytes;
          buf = write_at offset (usize_to_be_bytes (poly_len blob_poly)) buf;
          offset = offset + 8;
          blob_bytes = to_byte_array (evaluations blob_poly) (poly_len blob_poly * 32);
          buf = write_at offset blob_bytes buf;
          offset = offset + length blob_bytes
      in write_at offset (serialize_g1_compressed BN commitment) buf)"

definition compute_challenge ::
    "('q, 'g::ab_group_add, 'h, 't) bn_ops \<Rightarrow> PolynomialEvalForm \<Rightarrow> 'g \<Rightarrow> (Fr, KzgError) result" where
  "compute_challenge BN blob_poly commitment =
     rbind (validate_g1_point BN commitment) (\<lambda>_.
       Inr (hash_to_field_element (bn_sha256 BN) (challenge_input BN blob_poly commitment)))"

fun challenges_loop ::
    "('q, 'g::ab_group_add, 'h, 't) bn_ops \<Rightarrow> (PolynomialEvalForm \<times> 'g) list \<Rightarrow> Fr list \<Rightarrow> Fr list \<Rightarrow>
     (Fr list \<times> Fr list, KzgError) result" where
  "challenges_loop BN [] zs ys = Inr (zs, ys)"
| "challenges_loop BN ((poly, commit) # rest) zs ys =
     rbind (compute_challenge BN poly commit) (\<lambda>z.
     rbind (evaluate_polynomial_in_evaluation_form (bn_fr_inverse BN) poly z) (\<lambda>y.
       challenges_loop BN rest (zs @ [z]) (ys @ [y])))"

definition compute_challenges_and_evaluate_polynomial ::
    "('q, 'g::ab_group_add, 'h, 't) bn_ops \<Rightarrow> PolynomialEvalForm list \<Rightarrow> 'g list \<Rightarrow>
     (Fr list \<times> Fr list, KzgError) result" where
  "compute_challenges_and_evaluate_polynomial BN blobs_data commitments =
     (if length blobs_data \<noteq> length commitments \<and> blobs_data \<noteq> []
      then Inl (GenericError ''length's of the input are not the same or is empty'')
      else challenges_loop BN (zip blobs_data commitments) [] [])"

section \<open>The batch\<close>

definition g1_point_to_affine :: "('q, 'g, 'h, 't) bn_ops \<Rightarrow> G1Point \<Rightarrow> ('g, KzgError) result" where
  "g1_point_to_affine BN commitment =
     rbind (map_err (\<lambda>_. SerializationError) (bn_fq_from_be_bytes_mod_order BN (b256_be (g1_x commitment)))) (\<lambda>x.
     rbind (map_err (\<lambda>_. SerializationError) (bn_fq_from_be_bytes_mod_order BN (b256_be (g1_y commitment)))) (\<lambda>y.
       map_err (\<lambda>_. NotOnCurveError ''commitment not on curve'') (bn_affine_new BN x y)))"

definition proof_bytes_to_affine :: "('q, 'g, 'h, 't) bn_ops \<Rightarrow> u512 \<Rightarrow> ('g, KzgError) result" where
  "proof_bytes_to_affine BN p =
     (let bs = nat_be 64 (unat p) in
      rbind (map_err (\<lambda>_. SerializationError) (bn_fq_from_be_bytes_mod_order BN (take 32 bs))) (\<lambda>x.
      rbind (map_err (\<lambda>_. SerializationError) (bn_fq_from_be_bytes_mod_order BN (drop 32 bs))) (\<lambda>y.
        map_err (\<lambda>_. NotOnCurveError ''proof not on curve'') (bn_affine_new BN x y))))"

text \<open>The transcript of the batch. The loops run over lists of one length, which the caller checks.\<close>

fun write_lengths :: "nat \<Rightarrow> u64 list \<Rightarrow> bytes \<Rightarrow> bytes" where
  "write_lengths i [] buf = buf"
| "write_lengths i (len # rest) buf = write_lengths (i + 1) rest (write_at (24 + 8 * i) (u64_be len) buf)"

fun write_entries ::
    "('q, 'g::ab_group_add, 'h, 't) bn_ops \<Rightarrow> nat \<Rightarrow> ('g \<times> Fr \<times> Fr \<times> 'g) list \<Rightarrow> bytes \<Rightarrow> bytes \<times> nat" where
  "write_entries BN offset [] buf = (buf, offset)"
| "write_entries BN offset ((c, z, y, p) # rest) buf =
     (let buf = write_at offset (serialize_g1_compressed BN c) buf;
          offset = offset + 32;
          buf = write_at offset (serialize_fr_le z) buf;
          offset = offset + 32;
          buf = write_at offset (serialize_fr_le y) buf;
          offset = offset + 32;
          buf = write_at offset (serialize_g1_compressed BN p) buf;
          offset = offset + 32
      in write_entries BN offset rest buf)"

definition r_transcript ::
    "('q, 'g::ab_group_add, 'h, 't) bn_ops \<Rightarrow> 'g list \<Rightarrow> Fr list \<Rightarrow> Fr list \<Rightarrow> 'g list \<Rightarrow> u64 list \<Rightarrow> bytes \<times> nat" where
  "r_transcript BN commitments zs ys proofs blob_lengths =
     (let n = length commitments;
          input_size = 40 + n * (32 + 2 * 32 + 32 + 8);
          buf = replicate input_size 0;
          buf = write_at 0 (ascii_bytes RANDOM_CHALLENGE_KZG_BATCH_DOMAIN) buf;
          buf = write_at 32 (usize_to_be_bytes n) buf;
          buf = write_lengths 0 (take n blob_lengths) buf
      in write_entries BN (40 + n * 8) (zip commitments (zip zs (zip ys proofs))) buf)"

definition compute_r_powers ::
    "('q, 'g::ab_group_add, 'h, 't) bn_ops \<Rightarrow> 'g list \<Rightarrow> Fr list \<Rightarrow> Fr list \<Rightarrow> 'g list \<Rightarrow> u64 list \<Rightarrow>
     (Fr list, KzgError) result" where
  "compute_r_powers BN commitments zs ys proofs blob_lengths =
     (case r_transcript BN commitments zs ys proofs blob_lengths of (buf, offset) \<Rightarrow>
        if offset \<noteq> 40 + length commitments * (32 + 2 * 32 + 32 + 8) then Inl InvalidInputLength
        else Inr (compute_powers (hash_to_field_element (bn_sha256 BN) buf) (length commitments)))"

fun validate_all ::
    "('q, 'g::ab_group_add, 'h, 't) bn_ops \<Rightarrow> 'g list \<Rightarrow> (unit, KzgError) result" where
  "validate_all BN [] = Inr ()"
| "validate_all BN (c # cs) = rbind (validate_g1_point BN c) (\<lambda>_. validate_all BN cs)"

fun c_minus_y_loop ::
    "('q, 'g::ab_group_add, 'h, 't) bn_ops \<Rightarrow> ('g \<times> Fr) list \<Rightarrow> 'g list outcome" where
  "c_minus_y_loop BN [] = Ret []"
| "c_minus_y_loop BN ((c, y) # rest) =
     (let diff = c - bn_scale BN y (bn_g1_one BN) in
      obind (if diff = 0 then Ret (bn_affine_default BN)
             else case bn_from_jacobian BN diff of
                    Some a \<Rightarrow> Ret a
                  | None \<Rightarrow> Panic ''diff has an affine representation'') (\<lambda>diff_aff.
      obind (c_minus_y_loop BN rest) (\<lambda>ds. Ret (diff_aff # ds))))"

definition verify_kzg_proof_batch ::
    "('q, 'g::ab_group_add, 'h, 't) bn_ops \<Rightarrow> 'g list \<Rightarrow> Fr list \<Rightarrow> Fr list \<Rightarrow> 'g list \<Rightarrow> u64 list \<Rightarrow>
     (bool, KzgError) result outcome" where
  "verify_kzg_proof_batch BN commitments zs ys proofs blob_lengths =
     (if \<not> (length commitments = length zs \<and> length zs = length ys \<and> length ys = length proofs)
      then Ret (Inl (GenericError ''length's of the input are not the same''))
      else
        orbind (Ret (validate_all BN commitments)) (\<lambda>_.
        orbind (Ret (validate_all BN proofs)) (\<lambda>_.
        orbind (Ret (compute_r_powers BN commitments zs ys proofs blob_lengths)) (\<lambda>r_powers.
        orbind (g1_lincomb BN proofs r_powers) (\<lambda>proof_lincomb.
        obind (c_minus_y_loop BN (zip commitments ys)) (\<lambda>c_minus_y.
        let r_times_z = map (\<lambda>(r, z). r * z) (zip r_powers zs) in
        orbind (g1_lincomb BN proofs r_times_z) (\<lambda>proof_z_lincomb.
        orbind (g1_lincomb BN c_minus_y r_powers) (\<lambda>c_minus_y_lincomb.
        let rhs_g1 = c_minus_y_lincomb + proof_z_lincomb in
        Ret (Inr (pairings_verify BN proof_lincomb (g2_tau BN) rhs_g1 (bn_g2_one BN)))))))))))"

text \<open>\<open>collect\<close> into a \<open>Result\<close>: the first error, or all values.\<close>

fun collect_results :: "('a \<Rightarrow> ('b, 'e) result) \<Rightarrow> 'a list \<Rightarrow> ('b list, 'e) result" where
  "collect_results f [] = Inr []"
| "collect_results f (x # xs) = rbind (f x) (\<lambda>y. rbind (collect_results f xs) (\<lambda>ys. Inr (y # ys)))"

definition blob_to_poly ::
    "('q, 'g, 'h, 't) bn_ops \<Rightarrow> bytes \<Rightarrow> (PolynomialEvalForm, KzgError) result" where
  "blob_to_poly BN b = rbind (to_fr_array_canonical (bn_fr_from_slice BN) b) PolynomialEvalForm_new"

definition verify_blob_kzg_proof_batch ::
    "('q, 'g::ab_group_add, 'h, 't) bn_ops \<Rightarrow> bytes list \<Rightarrow> G1Point list \<Rightarrow> u512 list \<Rightarrow>
     (bool, KzgError) result outcome" where
  "verify_blob_kzg_proof_batch BN blobs commitments proofs =
     orbind (Ret (collect_results (blob_to_poly BN) blobs)) (\<lambda>polys.
     orbind (Ret (collect_results (g1_point_to_affine BN) commitments)) (\<lambda>commitments_aff.
     orbind (Ret (collect_results (proof_bytes_to_affine BN) proofs)) (\<lambda>proofs_aff.
       if length commitments_aff \<noteq> length polys \<or> length proofs_aff \<noteq> length polys
       then Ret (Inl (GenericError ''length's of the input are not the same''))
       else if polys = [] then Ret (Inr True)
       else
         orbind (Ret (compute_challenges_and_evaluate_polynomial BN polys commitments_aff)) (\<lambda>(zs, ys).
           let blob_lengths = map (\<lambda>poly. of_nat (poly_len poly)) polys
           in verify_kzg_proof_batch BN commitments_aff zs ys proofs_aff blob_lengths))))"

definition batch_verify ::
    "('q, 'g::ab_group_add, 'h, 't) bn_ops \<Rightarrow> bytes list \<Rightarrow> G1Point list \<Rightarrow> u512 list \<Rightarrow> bool outcome" where
  "batch_verify BN blobs commitments proofs =
     obind (verify_blob_kzg_proof_batch BN blobs commitments proofs) (\<lambda>r.
       Ret (case r of Inr b \<Rightarrow> b | Inl _ \<Rightarrow> False))"

section \<open>What the library promises\<close>

text \<open>G1 is a module over \<open>Fr\<close>; points have one representation; \<open>msm\<close> is the linear combination,
  on non-empty slices; the product of two pairings is computed in the target group, where the pairing
  with \<open>[\<tau>]\<close> on the right is the pairing of the \<open>\<tau>\<close>-multiple with the generator and is one only for
  the identity.\<close>

definition pairing_lawful :: "('q, 'g::ab_group_add, 'h, 't) bn_ops \<Rightarrow> Fr \<Rightarrow> bool" where
  "pairing_lawful BN \<tau> \<longleftrightarrow>
     (\<exists>e mul.
        (\<forall>P Q R S. bn_pairing_batch BN [(P, Q), (R, S)] = mul (e P Q) (e R S)) \<and>
        (\<forall>P R Q. e (P + R) Q = mul (e P Q) (e R Q)) \<and>
        (\<forall>P. e P (G2_TAU BN) = e (bn_scale BN \<tau> P) (bn_g2_one BN)) \<and>
        (\<forall>P. e P (bn_g2_one BN) = bn_gt_one BN \<longleftrightarrow> P = 0))"

definition bn_lawful :: "('q, 'g::ab_group_add, 'h, 't) bn_ops \<Rightarrow> Fr \<Rightarrow> bool" where
  "bn_lawful BN \<tau> \<longleftrightarrow>
     module (bn_scale BN) \<and> bn_affine_default BN = 0 \<and>
     (\<forall>P. P \<noteq> 0 \<longrightarrow> bn_from_jacobian BN P = Some P) \<and>
     (\<forall>ps ss. length ps = length ss \<longrightarrow> ps \<noteq> [] \<longrightarrow>
        bn_msm BN ps ss = Ret (\<Sum>(p, s)\<leftarrow>zip ps ss. bn_scale BN s p)) \<and>
     pairing_lawful BN \<tau>"

lemma bn_lawful_module: "bn_lawful BN \<tau> \<Longrightarrow> module (bn_scale BN)"
  by (simp add: bn_lawful_def)

lemma bn_lawful_validate: "bn_lawful BN \<tau> \<Longrightarrow> validate_g1_point BN P = Inr ()"
  by (simp add: bn_lawful_def validate_g1_point_def)

lemma bn_lawful_validate_all: "bn_lawful BN \<tau> \<Longrightarrow> validate_all BN Ps = Inr ()"
  by (induction Ps) (simp_all add: bn_lawful_validate)

lemma bn_lawful_lincomb:
  assumes "bn_lawful BN \<tau>" "length ps = n" "length ss = n" "0 < n"
  shows "g1_lincomb BN ps ss = Ret (Inr (\<Sum>i<n. bn_scale BN (ss ! i) (ps ! i)))"
proof -
  have "map (\<lambda>(p, s). bn_scale BN s p) (zip ps ss) = map (\<lambda>i. bn_scale BN (ss ! i) (ps ! i)) [0..<n]"
    using assms(2,3) by (intro nth_equalityI) simp_all
  moreover have "bn_msm BN ps ss = Ret (\<Sum>(p, s)\<leftarrow>zip ps ss. bn_scale BN s p)"
    using assms unfolding bn_lawful_def by auto
  ultimately show ?thesis
    using assms(2,3) by (simp add: g1_lincomb_def interv_sum_list_conv_sum_set_nat atLeast0LessThan)
qed

lemma bn_lawful_pairings:
  assumes "bn_lawful BN \<tau>"
  shows "pairings_verify BN P (g2_tau BN) R (bn_g2_one BN) \<longleftrightarrow> bn_scale BN \<tau> P = R"
proof -
  obtain e mul where
    b: "bn_pairing_batch BN [(A, B), (C, D)] = mul (e A B) (e C D)" and
    a: "e (A + C) B = mul (e A B) (e C B)" and
    t: "e A (G2_TAU BN) = e (bn_scale BN \<tau> A) (bn_g2_one BN)" and
    o: "e A (bn_g2_one BN) = bn_gt_one BN \<longleftrightarrow> A = 0" for A B C D
    using assms unfolding bn_lawful_def pairing_lawful_def by blast
  have "pairings_verify BN P (g2_tau BN) R (bn_g2_one BN) \<longleftrightarrow> bn_scale BN \<tau> P + - R = 0"
    unfolding pairings_verify_def g2_tau_def b t a [symmetric] o ..
  then show ?thesis by simp
qed

lemma c_minus_y_loop_eq:
  assumes "bn_lawful BN \<tau>"
  shows "c_minus_y_loop BN cys = Ret (map (\<lambda>(c, y). c - bn_scale BN y (bn_g1_one BN)) cys)"
proof (induction cys)
  case (Cons cy cys)
  obtain c y where "cy = (c, y)" by fastforce
  then show ?case using assms Cons.IH by (auto simp: Let_def bn_lawful_def)
qed simp

section \<open>The batch equation\<close>

text \<open>How far an opening \<open>(C, z, y, \<pi>)\<close> is from the KZG equation \<open>(\<tau> - z)\<pi> = C - yG\<close>.\<close>

definition kzg_residual :: "('q, 'g::ab_group_add, 'h, 't) bn_ops \<Rightarrow> Fr \<Rightarrow> 'g \<Rightarrow> Fr \<Rightarrow> Fr \<Rightarrow> 'g \<Rightarrow> 'g" where
  "kzg_residual BN \<tau> C z y P = bn_scale BN (\<tau> - z) P - (C - bn_scale BN y (bn_g1_one BN))"

definition batch_challenge ::
    "('q, 'g::ab_group_add, 'h, 't) bn_ops \<Rightarrow> 'g list \<Rightarrow> Fr list \<Rightarrow> Fr list \<Rightarrow> 'g list \<Rightarrow> u64 list \<Rightarrow> Fr" where
  "batch_challenge BN commitments zs ys proofs blob_lengths =
     hash_to_field_element (bn_sha256 BN) (fst (r_transcript BN commitments zs ys proofs blob_lengths))"

lemma write_entries_offset: "snd (write_entries BN offset es buf) = offset + 128 * length es"
  by (induction BN offset es buf rule: write_entries.induct) (simp_all add: Let_def)

lemma compute_r_powers_eq:
  assumes "length zs = length commitments" "length ys = length commitments" "length proofs = length commitments"
  shows "compute_r_powers BN commitments zs ys proofs blob_lengths =
    Inr (map (\<lambda>i. batch_challenge BN commitments zs ys proofs blob_lengths ^ i) [0..<length commitments])"
  using assms
  by (simp add: write_entries_offset compute_r_powers_def batch_challenge_def split_beta compute_powers_eq r_transcript_def Let_def)

lemma verify_kzg_proof_batch_eq:
  assumes "bn_lawful BN \<tau>" "length commitments = n" "length zs = n" "length ys = n" "length proofs = n" "0 < n"
  shows "verify_kzg_proof_batch BN commitments zs ys proofs blob_lengths =
    Ret (Inr ((\<Sum>i<n. bn_scale BN (batch_challenge BN commitments zs ys proofs blob_lengths ^ i)
      (kzg_residual BN \<tau> (commitments ! i) (zs ! i) (ys ! i) (proofs ! i))) = 0))"
proof -
  let ?r = "batch_challenge BN commitments zs ys proofs blob_lengths"
  let ?s = "bn_scale BN" and ?d = "\<lambda>i. commitments ! i - bn_scale BN (ys ! i) (bn_g1_one BN)"
  note M = bn_lawful_module [OF assms(1)]
  note L = bn_lawful_lincomb [OF assms(1), of _ n, OF _ _ assms(6)]
  have P: "g1_lincomb BN proofs (map (\<lambda>i. ?r ^ i) [0..<n]) = Ret (Inr (\<Sum>i<n. ?s (?r ^ i) (proofs ! i)))"
    using L [of proofs] assms by simp
  have Z: "g1_lincomb BN proofs (map (\<lambda>(r, z). r * z) (zip (map (\<lambda>i. ?r ^ i) [0..<n]) zs)) =
      Ret (Inr (\<Sum>i<n. ?s (?r ^ i * zs ! i) (proofs ! i)))"
    using L [of proofs] assms by simp
  have Y: "g1_lincomb BN (map (\<lambda>(c, y). c - ?s y (bn_g1_one BN)) (zip commitments ys)) (map (\<lambda>i. ?r ^ i) [0..<n]) =
      Ret (Inr (\<Sum>i<n. ?s (?r ^ i) (?d i)))"
    using L [of "map (\<lambda>(c, y). c - ?s y (bn_g1_one BN)) (zip commitments ys)"] assms by simp
  have "?s (?r ^ i) (kzg_residual BN \<tau> (commitments ! i) (zs ! i) (ys ! i) (proofs ! i)) =
      ?s \<tau> (?s (?r ^ i) (proofs ! i)) - (?s (?r ^ i) (?d i) + ?s (?r ^ i * zs ! i) (proofs ! i))" for i
    by (simp add: kzg_residual_def module.scale_right_diff_distrib [OF M]
        module.scale_left_diff_distrib [OF M] module.scale_scale [OF M] mult.commute)
  then have "(\<Sum>i<n. ?s (?r ^ i) (kzg_residual BN \<tau> (commitments ! i) (zs ! i) (ys ! i) (proofs ! i))) =
      ?s \<tau> (\<Sum>i<n. ?s (?r ^ i) (proofs ! i)) -
      ((\<Sum>i<n. ?s (?r ^ i) (?d i)) + (\<Sum>i<n. ?s (?r ^ i * zs ! i) (proofs ! i)))"
    by (simp add: sum_subtractf sum.distrib module.scale_sum_right [OF M])
  then show ?thesis
    using assms compute_r_powers_eq [of zs commitments ys proofs BN blob_lengths]
    by (simp add: verify_kzg_proof_batch_def bn_lawful_validate_all [OF assms(1)] c_minus_y_loop_eq [OF assms(1)]
        P Y Z Let_def bn_lawful_pairings [OF assms(1)])
qed

end
