(* ===== verification/Kzg_Prover.thy ===== *)
theory Kzg_Prover
  imports Kzg_Batch Eigenda_Witness Preloaded_Provider
begin

text \<open>
  KZG proofs for recorded payloads, \<open>crates/compute-proof/src\<close>, and the choice of the verifier backend,
  \<open>batch_verify\<close> of \<open>crates/proof/src/preloaded_eigenda_provider.rs\<close>.

  The rust-kzg-bn254 prover and verifier, arkworks and num's big integers are parameters; a point that
  arkworks rejects aborts the program. The bytes the prover writes for a point are the bytes both
  backends read.
\<close>

section \<open>The setup\<close>

text \<open>The constant that \<open>build.rs\<close> generates.\<close>

definition POINTS_TO_LOAD :: nat where
  "POINTS_TO_LOAD = 16 * 1024 * 1024 div 32"

record 'pt SRS =
  srs_g1 :: "'pt list"
  srs_order :: u32

definition G1_SRS :: "(bytes \<Rightarrow> ('pt list, string) result) \<Rightarrow> bytes \<Rightarrow> 'pt SRS outcome" where
  "G1_SRS deserialize_uncompressed SRS_BYTES =
     obind (unwrap ''Failed to deserialize SRS points'' (deserialize_uncompressed SRS_BYTES)) (\<lambda>g1_points.
     obind (oassert (length g1_points = POINTS_TO_LOAD) ''Deserialized point count mismatch'') (\<lambda>_.
       Ret \<lparr> srs_g1 = g1_points, srs_order = of_nat (POINTS_TO_LOAD * 32) \<rparr>))"

section \<open>The prover\<close>

record ('b, 'p, 'pt) kzg_prover_ops =
  kp_calculate_and_store_roots_of_unity :: "u64 \<Rightarrow> (unit, string) result"
  kp_blob_new :: "bytes \<Rightarrow> ('b, string) result"
  kp_to_polynomial_eval_form :: "'b \<Rightarrow> ('p, string) result"
  kp_commit_eval_form :: "'p \<Rightarrow> 'pt SRS \<Rightarrow> ('pt, string) result"
  kp_compute_blob_proof :: "'b \<Rightarrow> 'pt \<Rightarrow> 'pt SRS \<Rightarrow> ('pt, string) result"
  kp_x :: "'pt \<Rightarrow> nat"
  kp_y :: "'pt \<Rightarrow> nat"
  kp_to_bytes_be :: "nat \<Rightarrow> bytes"

text \<open>\<open>32 - be_bytes.len()\<close> aborts when it would be negative.\<close>

definition convert_biguint_to_be_32_bytes :: "(nat \<Rightarrow> bytes) \<Rightarrow> nat \<Rightarrow> bytes outcome" where
  "convert_biguint_to_be_32_bytes to_bytes_be biguint =
     (let be_bytes = to_bytes_be biguint in
      if length be_bytes > 32 then Panic ''attempt to subtract with overflow''
      else let padding = 32 - length be_bytes in Ret (write_at padding be_bytes (replicate 32 0)))"

definition compute_kzg_proof_with_srs ::
    "('b, 'p, 'pt) kzg_prover_ops \<Rightarrow> bytes \<Rightarrow> 'pt SRS \<Rightarrow> (bytes, string) result outcome" where
  "compute_kzg_proof_with_srs KP payload srs =
     obind (unwrap ''called `Result::unwrap()` on an `Err` value''
              (kp_calculate_and_store_roots_of_unity KP (of_nat (length payload)))) (\<lambda>_.
     obind (unwrap ''should be able to construct a blob'' (kp_blob_new KP payload)) (\<lambda>blob.
     orbind (Ret (kp_to_polynomial_eval_form KP blob)) (\<lambda>input_poly.
     orbind (Ret (kp_commit_eval_form KP input_poly srs)) (\<lambda>commitment.
     orbind (Ret (kp_compute_blob_proof KP blob commitment srs)) (\<lambda>proof.
     obind (convert_biguint_to_be_32_bytes (kp_to_bytes_be KP) (kp_x KP proof)) (\<lambda>proof_x_bytes.
     obind (convert_biguint_to_be_32_bytes (kp_to_bytes_be KP) (kp_y KP proof)) (\<lambda>proof_y_bytes.
       Ret (Inr (proof_x_bytes @ proof_y_bytes)))))))))"

definition compute_kzg_proof ::
    "('b, 'p, 'pt) kzg_prover_ops \<Rightarrow> 'pt SRS outcome \<Rightarrow> bytes \<Rightarrow> (bytes, string) result outcome" where
  "compute_kzg_proof KP srs payload = obind srs (compute_kzg_proof_with_srs KP payload)"

text \<open>The 64 bytes of a proof as one number, as in witnesses.\<close>

fun create_kzg_proofs_for_eigenda_preimage ::
    "('b, 'p, 'pt) kzg_prover_ops \<Rightarrow> 'pt SRS outcome \<Rightarrow> (AltDACommitment \<times> EncodedPayload) list \<Rightarrow>
     u512 list outcome" where
  "create_kzg_proofs_for_eigenda_preimage KP srs [] = Ret []"
| "create_kzg_proofs_for_eigenda_preimage KP srs ((c, payload) # rest) =
     obind (compute_kzg_proof KP srs (serialize payload)) (\<lambda>r.
     obind (case r of Inr p \<Rightarrow> Ret p | Inl e \<Rightarrow> Panic (''cannot generate a kzg proof: '' @ e)) (\<lambda>kzg_proof.
     obind (if length kzg_proof = 64 then Ret (of_nat (be_nat kzg_proof))
            else Panic ''assertion failed: FixedBytes::from_slice'') (\<lambda>fixed_bytes.
     obind (create_kzg_proofs_for_eigenda_preimage KP srs rest) (\<lambda>kzg_proofs.
       Ret (fixed_bytes # kzg_proofs)))))"

section \<open>Backends\<close>

record ('b, 'q, 'pt) ark_ops =
  ak_blob_new :: "bytes \<Rightarrow> ('b, string) result"
  ak_fq_from_be_bytes_mod_order :: "bytes \<Rightarrow> 'q"
  ak_g1_new :: "'q \<Rightarrow> 'q \<Rightarrow> 'pt outcome"
  ak_verify_blob_kzg_proof_batch :: "'b list \<Rightarrow> 'pt list \<Rightarrow> 'pt list \<Rightarrow> (bool, string) result"

definition ark_batch_verify :: "('b, 'q, 'pt) ark_ops \<Rightarrow> batch_verifier" where
  "ark_batch_verify AK blobs commitments proofs =
     obind (mapM (\<lambda>b. unwrap ''should be able to construct blob'' (ak_blob_new AK b)) blobs) (\<lambda>lib_blobs.
     obind (mapM (\<lambda>c. ak_g1_new AK (ak_fq_from_be_bytes_mod_order AK (b256_be (g1_x c)))
                        (ak_fq_from_be_bytes_mod_order AK (b256_be (g1_y c)))) commitments) (\<lambda>lib_commitments.
     obind (mapM (\<lambda>p. let bs = nat_be 64 (unat p) in
                      ak_g1_new AK (ak_fq_from_be_bytes_mod_order AK (take 32 bs))
                        (ak_fq_from_be_bytes_mod_order AK (subslice 32 64 bs))) proofs) (\<lambda>lib_proofs.
       Ret (case ak_verify_blob_kzg_proof_batch AK lib_blobs lib_commitments lib_proofs of
              Inr b \<Rightarrow> b | Inl _ \<Rightarrow> False))))"

text \<open>The backend is chosen at compile time; \<open>sp1-bn\<close> wins.\<close>

definition proof_batch_verify ::
    "bool \<Rightarrow> ('b, 'q, 'pt) ark_ops \<Rightarrow> ('f, 'g::ab_group_add, 'h, 't) bn_ops \<Rightarrow> batch_verifier" where
  "proof_batch_verify sp1_bn AK BN = (if sp1_bn then batch_verify BN else ark_batch_verify AK)"

section \<open>The bytes of a proof\<close>

text \<open>num's \<open>to_bytes_be\<close> writes the value without leading zeros, at least one byte.\<close>

definition bytes_be_law :: "(nat \<Rightarrow> bytes) \<Rightarrow> bool" where
  "bytes_be_law to_bytes_be \<longleftrightarrow>
     (\<forall>n. be_nat (to_bytes_be n) = n) \<and> (\<forall>n. n < 256 ^ 32 \<longrightarrow> length (to_bytes_be n) \<le> 32)"

lemma convert_biguint:
  assumes "bytes_be_law to_bytes_be" "n < 256 ^ 32"
  shows "convert_biguint_to_be_32_bytes to_bytes_be n = Ret (nat_be 32 n)"
proof -
  let ?bs = "to_bytes_be n"
  have l: "length ?bs \<le> 32" and v: "be_nat ?bs = n" using assms by (simp_all add: bytes_be_law_def)
  let ?out = "replicate (32 - length ?bs) 0 @ ?bs"
  have "be_nat ?out = n" using v by (simp add: be_nat_append be_nat_zeros)
  moreover have "length ?out = 32" using l by simp
  ultimately have "?out = nat_be 32 n" by (metis nat_be_be_nat_len)
  then show ?thesis using l by (simp add: convert_biguint_to_be_32_bytes_def Let_def write_at_def)
qed

text \<open>The coordinates of proofs fit their 32 bytes.\<close>

definition coordinates_fit :: "('b, 'p, 'pt) kzg_prover_ops \<Rightarrow> bool" where
  "coordinates_fit KP \<longleftrightarrow> (\<forall>pt. kp_x KP pt < 256 ^ 32 \<and> kp_y KP pt < 256 ^ 32)"

lemma compute_kzg_proof_bytes:
  assumes "bytes_be_law (kp_to_bytes_be KP)" "coordinates_fit KP"
    and "compute_kzg_proof_with_srs KP bs srs = Ret (Inr out)"
  obtains blob poly C P where "kp_blob_new KP bs = Inr blob" "kp_to_polynomial_eval_form KP blob = Inr poly"
    "kp_commit_eval_form KP poly srs = Inr C" "kp_compute_blob_proof KP blob C srs = Inr P"
    "out = nat_be 32 (kp_x KP P) @ nat_be 32 (kp_y KP P)"
proof -
  have c: "convert_biguint_to_be_32_bytes (kp_to_bytes_be KP) (kp_x KP P) = Ret (nat_be 32 (kp_x KP P))"
    "convert_biguint_to_be_32_bytes (kp_to_bytes_be KP) (kp_y KP P) = Ret (nat_be 32 (kp_y KP P))" for P
    using convert_biguint [OF assms(1)] assms(2) by (simp_all add: coordinates_fit_def)
  show thesis
    using assms(3) that
    by (auto simp: compute_kzg_proof_with_srs_def c obind_eq_Ret orbind_eq_RetInr unwrap_def split: sum.splits)
qed

lemma proof_word_bytes:
  assumes "length out = 64"
  shows "nat_be 64 (unat (of_nat (be_nat out) :: u512)) = out"
proof -
  have "be_nat out < 256 ^ 64" using be_nat_bound [of out] assms by simp
  then have "unat (of_nat (be_nat out) :: u512) = be_nat out" by (simp add: unat_of_nat)
  then show ?thesis using nat_be_be_nat_len [OF assms] by simp
qed

end
