(* ===== verification/Canoe_Host.thy ===== *)
theory Canoe_Host
  imports Zkvm_Soundness
begin

text \<open>
  The programs that make Canoe proofs: \<open>canoe/steel/apps/src/apps.rs\<close> and
  \<open>canoe/sp1-cc/host/src/lib.rs\<close>. Both check that the inputs share one L1 head, build an EVM environment
  at that block, make every call once outside the zkVM and abort when an answer is not the claimed
  one, and then run the prover on the recorded state and the inputs.

  RPC access, EVM execution, the provers, the process environment and bincode are parameters. What a
  prover promises is that a receipt comes from a complete run of the guest; from it, every receipt the
  steel host returns is accepted by the verifier for the claims the inputs stand for.
\<close>

section \<open>Chain specifications\<close>

text \<open>reth's chain specifications, of which the genesis hash is used: the three known ones, and the one built
  for the kurtosis devnet, with every fork up to Prague active from the start
  (\<open>canoe/verifier/src/chain_spec.rs\<close>).\<close>

datatype hardfork = Homestead | Byzantium | Constantinople | Petersburg | Istanbul | Berlin | London | Shanghai
  | Cancun | Prague

record built_chain_spec =
  bs_chain_id :: u64
  bs_default_genesis :: bool
  bs_activated :: "hardfork list"

datatype eth_chain_spec = KnownSpec l1_chain | BuiltSpec built_chain_spec

definition create_kurtosis_chain_spec :: eth_chain_spec where
  "create_kurtosis_chain_spec = BuiltSpec
     \<lparr> bs_chain_id = 3151908, bs_default_genesis = True,
       bs_activated = [Homestead, Byzantium, Constantinople, Petersburg, Istanbul, Berlin, London, Shanghai,
                       Cancun, Prague] \<rparr>"

definition derive_chain_spec_genesis_hash :: "(eth_chain_spec \<Rightarrow> u256) \<Rightarrow> u64 \<Rightarrow> u256 outcome" where
  "derive_chain_spec_genesis_hash genesis_hash l1_chain_id =
     (if l1_chain_id = 1 then Ret (genesis_hash (KnownSpec MAINNET))
      else if l1_chain_id = 11155111 then Ret (genesis_hash (KnownSpec SEPOLIA))
      else if l1_chain_id = 17000 then Ret (genesis_hash (KnownSpec HOLESKY))
      else if l1_chain_id = 3151908 then
        (let chain_spec = create_kurtosis_chain_spec in Ret (genesis_hash chain_spec))
      else Panic ''unsupported chain id'')"

text \<open>It knows the chains the active fork can be derived for.\<close>

lemma genesis_hash_supported:
  "no_panic (derive_chain_spec_genesis_hash gh chain) \<longleftrightarrow> no_panic (derive_chain_spec_id FO chain ts num)"
  by (simp add: derive_chain_spec_genesis_hash_def derive_chain_spec_id_def l1_chain_of_def Let_def no_panic_def)

section \<open>Checks both hosts share\<close>

text \<open>The asserts of the loop over the inputs; \<open>canoe_inputs[0]\<close> aborts on an empty list.\<close>

definition inputs_share_head :: "CanoeInput list \<Rightarrow> CanoeInput outcome" where
  "inputs_share_head canoe_inputs =
     (case canoe_inputs of
        [] \<Rightarrow> Panic ''index out of bounds''
      | first # _ \<Rightarrow>
          obind (oassert (\<forall>i\<in>set canoe_inputs. ci_l1_chain_id i = ci_l1_chain_id first \<and>
                     ci_l1_head_block_number i = ci_l1_head_block_number first \<and>
                     ci_l1_head_block_hash i = ci_l1_head_block_hash first)
                   ''assertion failed: canoe inputs share one L1 head'') (\<lambda>_. Ret first))"

section \<open>Steel\<close>

text \<open>The chain specification steel builds the environment with.\<close>

datatype steel_chain_spec = EthChainSpec l1_chain | NewSingle u64

definition steel_host_chain_spec :: "u64 \<Rightarrow> steel_chain_spec" where
  "steel_host_chain_spec l1_chain_id =
     (if l1_chain_id = 1 then EthChainSpec MAINNET
      else if l1_chain_id = 11155111 then EthChainSpec SEPOLIA
      else if l1_chain_id = 17000 then EthChainSpec HOLESKY
      else NewSingle l1_chain_id)"

record ('u, 'h, 'i, 'w, 'r) steel_host_ops =
  sh_parse_url :: "string \<Rightarrow> ('u, string) result"
  sh_build_env :: "'u \<Rightarrow> steel_chain_spec \<Rightarrow> u64 \<Rightarrow> ('h, string) result"
  sh_header_seal :: "'h \<Rightarrow> u256"
  sh_preflight_call :: "'h \<Rightarrow> u160 \<Rightarrow> CertVerifierCall \<Rightarrow> (u8, string) result \<times> 'h"
  sh_into_input :: "'h \<Rightarrow> ('i, string) result"
  sh_executor_env :: "'i \<Rightarrow> CanoeInput list \<Rightarrow> ('w, string) result"
  sh_prove :: "'w \<Rightarrow> ('r, string) result"

text \<open>The preflight calls, each of which extends the recorded state.\<close>

fun steel_preflight ::
    "abi_ops \<Rightarrow> ('u, 'h, 'i, 'w, 'r) steel_host_ops \<Rightarrow> 'h \<Rightarrow> CanoeInput list \<Rightarrow> ('h, string) result outcome" where
  "steel_preflight B SH env [] = Ret (Inr env)"
| "steel_preflight B SH env (canoe_input # rest) =
     (case CertVerifierCall_build B (ci_altda_commitment canoe_input) of
        ABIEncodeInterface call \<Rightarrow>
          (case sh_preflight_call SH env (ci_verifier_address canoe_input) (ABIEncodeInterface call) of
             (Inl e, env) \<Rightarrow> Ret (Inl e)
           | (Inr status, env) \<Rightarrow>
               let is_valid = (status = 1) in
               if ci_claimed_validity canoe_input \<noteq> is_valid
               then Panic ''in the preflight part, zkvm arrives to a different answer than claimed value''
               else steel_preflight B SH env rest))"

text \<open>The prover runs in a task of its own: what fails or panics there is an error here.\<close>

definition get_steel_proof ::
    "abi_ops \<Rightarrow> ('u, 'h, 'i, 'w, 'r) steel_host_ops \<Rightarrow> CanoeInput list \<Rightarrow> string \<Rightarrow> ('r, string) result outcome" where
  "get_steel_proof B SH canoe_inputs eth_rpc_url =
     obind (inputs_share_head canoe_inputs) (\<lambda>first.
     orbind (Ret (sh_parse_url SH eth_rpc_url)) (\<lambda>url.
     orbind (Ret (sh_build_env SH url (steel_host_chain_spec (ci_l1_chain_id first))
              (ci_l1_head_block_number first))) (\<lambda>env.
     obind (oassert (sh_header_seal SH env = ci_l1_head_block_hash first)
              ''assertion failed: derived_l1_head_block_hash == l1_head_block_hash'') (\<lambda>_.
     orbind (steel_preflight B SH env canoe_inputs) (\<lambda>env.
     orbind (Ret (sh_into_input SH env)) (\<lambda>evm_input.
       Ret (rbind (sh_executor_env SH evm_input canoe_inputs) (sh_prove SH))))))))"

definition CanoeSteelProvider ::
    "abi_ops \<Rightarrow> ('u, 'h, 'i, 'w, 'r) steel_host_ops \<Rightarrow> string \<Rightarrow> 'r canoe_provider" where
  "CanoeSteelProvider B SH eth_rpc_url canoe_inputs =
     (if canoe_inputs = [] then Ret None
      else obind (get_steel_proof B SH canoe_inputs eth_rpc_url) (\<lambda>r. Ret (Some r)))"

section \<open>sp1-cc\<close>

datatype FulfillmentStrategy = UnspecifiedFulfillmentStrategy | Hosted | Reserved | Auction

datatype NetworkMode = ModeReserved | ModeMainnet

datatype host_genesis = KnownGenesis u64 | HoleskyGenesis | KurtosisGenesis

type_synonym process_env = "string \<Rightarrow> string option"

record ('c, 's, 'cl, 'pf) sp1_host_ops =
  ph_genesis_known :: "u64 \<Rightarrow> bool"
  ph_build_sketch :: "'c \<Rightarrow> host_genesis \<Rightarrow> u64 \<Rightarrow> ('s, string) result"
  ph_header_hash :: "'s \<Rightarrow> u256"
  ph_call_raw :: "'s \<Rightarrow> u160 \<Rightarrow> u160 \<Rightarrow> CertVerifierCall \<Rightarrow> (bytes, string) result \<times> 's"
  ph_abi_decode :: "bytes \<Rightarrow> (StatusCode, string) result"
  ph_finalize :: "'s \<Rightarrow> ('s, string) result"
  ph_serialize :: "'s \<Rightarrow> (bytes, string) result"
  ph_strategy_from_str_name :: "string \<Rightarrow> FulfillmentStrategy option"
  ph_to_uppercase :: "string \<Rightarrow> string"
  ph_parse_u64 :: "string \<Rightarrow> (u64, string) result"
  ph_client :: "NetworkMode \<Rightarrow> string \<Rightarrow> ('cl, string) result"
  ph_execute_mock :: "'cl \<Rightarrow> bytes \<times> CanoeInput list \<Rightarrow> ('pf, string) result"
  ph_prove :: "'cl \<Rightarrow> bytes \<times> CanoeInput list \<Rightarrow> FulfillmentStrategy \<Rightarrow> u64 \<Rightarrow> (u64 \<times> u64) option \<Rightarrow>
    ('pf, string) result"

definition DEFAULT_NETWORK_PRIVATE_KEY :: string where
  "DEFAULT_NETWORK_PRIVATE_KEY = ''0x0000000000000000000000000000000000000000000000000000000000000001''"

definition sp1_host_genesis :: "('c, 's, 'cl, 'pf) sp1_host_ops \<Rightarrow> u64 \<Rightarrow> host_genesis outcome" where
  "sp1_host_genesis PH l1_chain_id =
     (if ph_genesis_known PH l1_chain_id then Ret (KnownGenesis l1_chain_id)
      else if l1_chain_id = 17000 then Ret HoleskyGenesis
      else if l1_chain_id = 3151908 then Ret KurtosisGenesis
      else Panic ''chain id is not supported by canoe sp1 cc'')"

fun sp1_prepopulate ::
    "abi_ops \<Rightarrow> ('c, 's, 'cl, 'pf) sp1_host_ops \<Rightarrow> 's \<Rightarrow> CanoeInput list \<Rightarrow> ('s, string) result outcome" where
  "sp1_prepopulate B PH sketch [] = Ret (Inr sketch)"
| "sp1_prepopulate B PH sketch (canoe_input # rest) =
     (case ph_call_raw PH sketch (ci_verifier_address canoe_input) 0
             (CertVerifierCall_build B (ci_altda_commitment canoe_input)) of
        (Inl e, sketch) \<Rightarrow> Ret (Inl e)
      | (Inr returns_bytes, sketch) \<Rightarrow>
          obind (unwrap ''deserialize returns_bytes'' (ph_abi_decode PH returns_bytes)) (\<lambda>returns.
            let is_valid = (returns = SUCCESS) in
            if is_valid \<noteq> ci_claimed_validity canoe_input
            then Panic ''in the host executor part, executor arrives to a different answer than the claimed answer''
            else sp1_prepopulate B PH sketch rest))"

text \<open>The standard input of the guest: the serialised sketch and the inputs.\<close>

definition canoe_proof_stdin ::
    "abi_ops \<Rightarrow> ('c, 's, 'cl, 'pf) sp1_host_ops \<Rightarrow> CanoeInput list \<Rightarrow> 'c \<Rightarrow>
     (bytes \<times> CanoeInput list, string) result outcome" where
  "canoe_proof_stdin B PH canoe_inputs eth_rpc_client =
     obind (inputs_share_head canoe_inputs) (\<lambda>first.
     obind (sp1_host_genesis PH (ci_l1_chain_id first)) (\<lambda>genesis.
     orbind (Ret (ph_build_sketch PH eth_rpc_client genesis (ci_l1_head_block_number first))) (\<lambda>sketch.
     obind (oassert (ci_l1_head_block_hash first = ph_header_hash PH sketch)
              ''assertion failed: l1_head_block_hash == derived_l1_header_hash'') (\<lambda>_.
     orbind (sp1_prepopulate B PH sketch canoe_inputs) (\<lambda>sketch.
     orbind (Ret (ph_finalize PH sketch)) (\<lambda>evm_state_sketch.
     obind (unwrap ''bincode should have serialized the EVM sketch'' (ph_serialize PH evm_state_sketch)) (\<lambda>input_bytes.
       Ret (Inr (input_bytes, canoe_inputs)))))))))"

text \<open>A variable that is set and not empty.\<close>

definition env_nonempty :: "process_env \<Rightarrow> string \<Rightarrow> string option" where
  "env_nonempty env name = (case env name of Some raw \<Rightarrow> if raw = '''' then None else Some raw | None \<Rightarrow> None)"

definition env_u64 :: "('c, 's, 'cl, 'pf) sp1_host_ops \<Rightarrow> process_env \<Rightarrow> string \<Rightarrow> u64 \<Rightarrow> (u64, string) result" where
  "env_u64 PH env name dflt =
     (case env_nonempty env name of Some raw \<Rightarrow> ph_parse_u64 PH raw | None \<Rightarrow> Inr dflt)"

definition sp1_cc_proof_strategy ::
    "('c, 's, 'cl, 'pf) sp1_host_ops \<Rightarrow> process_env \<Rightarrow> (FulfillmentStrategy, string) result" where
  "sp1_cc_proof_strategy PH env =
     (case env_nonempty env ''SP1_CC_PROOF_STRATEGY'' of
        Some raw \<Rightarrow> ok_or (''Invalid FulfillmentStrategy: '' @ raw)
                      (ph_strategy_from_str_name PH (ph_to_uppercase PH raw))
      | None \<Rightarrow> Inr Reserved)"

definition sp1_network_mode :: "FulfillmentStrategy \<Rightarrow> (NetworkMode, string) result" where
  "sp1_network_mode strategy =
     (case strategy of
        UnspecifiedFulfillmentStrategy \<Rightarrow> Inl ''The sp1-cc proof fulfillment strategy must be specified''
      | Hosted \<Rightarrow> Inr ModeReserved
      | Reserved \<Rightarrow> Inr ModeReserved
      | Auction \<Rightarrow> Inr ModeMainnet)"

definition generate_canoe_proof ::
    "('c, 's, 'cl, 'pf) sp1_host_ops \<Rightarrow> process_env \<Rightarrow> bytes \<times> CanoeInput list \<Rightarrow> bool \<Rightarrow>
     ('pf, string) result outcome" where
  "generate_canoe_proof PH env stdin mock_mode =
     orbind (Ret (sp1_cc_proof_strategy PH env)) (\<lambda>strategy.
     orbind (Ret (sp1_network_mode strategy)) (\<lambda>network_mode.
     let network_private_key =
           (case env ''NETWORK_PRIVATE_KEY'' of Some k \<Rightarrow> k | None \<Rightarrow> DEFAULT_NETWORK_PRIVATE_KEY) in
     obind (unwrap ''called `Result::unwrap()` on an `Err` value'' (ph_client PH network_mode network_private_key))
       (\<lambda>client.
     if mock_mode then
       obind (unwrap ''sp1-cc should have executed the ELF'' (ph_execute_mock PH client stdin)) (\<lambda>proof. Ret (Inr proof))
     else
       orbind (Ret (env_u64 PH env ''SP1_CC_CYCLE_LIMIT'' 1000000000000)) (\<lambda>cycle_limit.
       orbind (Ret (env_u64 PH env ''SP1_CC_GAS_LIMIT'' 1000000000000)) (\<lambda>gas_limit.
       orbind (Ret (env_u64 PH env ''SP1_CC_TIMEOUT_SECONDS'' (4 * 60 * 60))) (\<lambda>timeout_seconds.
       obind (if cycle_limit > 0 \<and> gas_limit > 0 then Ret (Some (cycle_limit, gas_limit))
              else obind (oassert (cycle_limit = 0 \<and> gas_limit = 0)
                     ''cycle_limit and gas_limit must both be zero or both be non-zero'') (\<lambda>_. Ret None)) (\<lambda>limits.
       obind (unwrap ''sp1-cc should have produced a compressed proof''
                (ph_prove PH client stdin strategy timeout_seconds limits)) (\<lambda>proof.
         Ret (Inr proof)))))))))"

definition get_sp1_cc_proof ::
    "abi_ops \<Rightarrow> ('c, 's, 'cl, 'pf) sp1_host_ops \<Rightarrow> process_env \<Rightarrow> CanoeInput list \<Rightarrow> 'c \<Rightarrow> bool \<Rightarrow>
     ('pf, string) result outcome" where
  "get_sp1_cc_proof B PH env canoe_inputs eth_rpc_client mock_mode =
     (if canoe_inputs = [] then Panic ''index out of bounds''
      else orbind (canoe_proof_stdin B PH canoe_inputs eth_rpc_client) (\<lambda>stdin.
             generate_canoe_proof PH env stdin mock_mode))"

definition CanoeSp1CCProvider ::
    "abi_ops \<Rightarrow> ('c, 's, 'cl, 'pf) sp1_host_ops \<Rightarrow> process_env \<Rightarrow> 'c \<Rightarrow> bool \<Rightarrow> 'pf canoe_provider" where
  "CanoeSp1CCProvider B PH env eth_rpc_client mock_mode canoe_inputs =
     (if canoe_inputs = [] then Ret None
      else obind (get_sp1_cc_proof B PH env canoe_inputs eth_rpc_client mock_mode) (\<lambda>r. Ret (Some r)))"

text \<open>\<open>compressed\<close> is the proof inside a compressed \<open>SP1Proof\<close>.\<close>

definition CanoeSp1CCReducedProofProvider ::
    "abi_ops \<Rightarrow> ('c, 's, 'cl, 'pf) sp1_host_ops \<Rightarrow> process_env \<Rightarrow> ('pf \<Rightarrow> 'rp option) \<Rightarrow> 'c \<Rightarrow> bool \<Rightarrow>
     'rp canoe_provider" where
  "CanoeSp1CCReducedProofProvider B PH env compressed eth_rpc_client mock_mode canoe_inputs =
     (if canoe_inputs = [] then Ret None
      else obind (get_sp1_cc_proof B PH env canoe_inputs eth_rpc_client mock_mode) (\<lambda>r.
             case r of
               Inl e \<Rightarrow> Ret (Some (Inl e))
             | Inr proof \<Rightarrow>
                 (case compressed proof of
                    Some p \<Rightarrow> Ret (Some (Inr p))
                  | None \<Rightarrow> Panic ''cannot get Sp1ReducedProof'')))"

section \<open>What a proof took\<close>

lemma inputs_share_head_Ret:
  "inputs_share_head inputs = Ret first \<longleftrightarrow>
     inputs \<noteq> [] \<and> first = hd inputs \<and>
     (\<forall>i\<in>set inputs. ci_l1_chain_id i = ci_l1_chain_id first \<and>
        ci_l1_head_block_number i = ci_l1_head_block_number first \<and>
        ci_l1_head_block_hash i = ci_l1_head_block_hash first)"
  by (cases inputs) (auto simp: inputs_share_head_def obind_eq_Ret)

lemma get_steel_proof_Ret:
  assumes "get_steel_proof B SH inputs url = Ret (Inr r)"
  obtains env env' evm_input w where
    "inputs_share_head inputs = Ret (hd inputs)" "sh_header_seal SH env = ci_l1_head_block_hash (hd inputs)"
    "steel_preflight B SH env inputs = Ret (Inr env')" "sh_into_input SH env' = Inr evm_input"
    "sh_executor_env SH evm_input inputs = Inr w" "sh_prove SH w = Inr r"
proof -
  obtain first where f: "inputs_share_head inputs = Ret first"
    using assms by (auto simp: get_steel_proof_def obind_eq_Ret)
  then have "first = hd inputs" by (simp add: inputs_share_head_Ret)
  with f show thesis
    using assms that by (auto simp: get_steel_proof_def obind_eq_Ret orbind_eq_RetInr rbind_eq_Inr)
qed

text \<open>A receipt of the prover attests a complete run of the guest on the input it was made from.\<close>

definition steel_prover_runs ::
    "alloy_ops \<Rightarrow> abi_ops \<Rightarrow> fork_ops \<Rightarrow> 'r steel_ops \<Rightarrow> ('i, 'e) steel_guest_ops \<Rightarrow>
     ('u, 'h, 'i, 'w, 'r) steel_host_ops \<Rightarrow> bool" where
  "steel_prover_runs A B FO SO GO SH \<longleftrightarrow>
     (\<forall>evm_input inputs w r. sh_executor_env SH evm_input inputs = Inr w \<longrightarrow> sh_prove SH w = Inr r \<longrightarrow>
        steel_guest_main A B FO (so_bincode SO) GO evm_input inputs = Ret (so_receipt_journal SO r) \<and>
        so_receipt_verify SO r = Inr ())"

text \<open>The claim an input stands for, at the timestamp of the L1 head.\<close>

definition claim_of_input :: "u64 \<Rightarrow> CanoeInput \<Rightarrow> AltDACommitment \<times> CertValidity" where
  "claim_of_input ts i =
     (ci_altda_commitment i,
      \<lparr> cv_claimed_validity = ci_claimed_validity i, cv_l1_head_block_hash = ci_l1_head_block_hash i,
        cv_l1_head_block_number = ci_l1_head_block_number i, cv_l1_head_block_timestamp = ts,
        cv_l1_chain_id = ci_l1_chain_id i, cv_verifier_address = ci_verifier_address i \<rparr>)"

text \<open>The two fork tables give the same fork for a block, or steel gives one that is allowed.\<close>

definition forks_agree :: "fork_ops \<Rightarrow> u64 \<Rightarrow> u64 \<Rightarrow> u64 \<Rightarrow> bool" where
  "forks_agree FO chain_id ts number \<longleftrightarrow>
     (\<forall>chain f. l1_chain_of chain_id = Some chain \<longrightarrow> fo_steel_active_fork FO chain number ts = Inr f \<longrightarrow>
        f \<in> {fo_spec_by_timestamp_and_block_number FO chain ts number, fo_PRAGUE FO, fo_OSAKA FO})"

lemma steel_journal_claim:
  assumes "l1_chain_of (ci_l1_chain_id i) = Some chain"
    and "fo_steel_active_fork FO chain (ci_l1_head_block_number i) ts = Inr f"
    and "forks_agree FO (ci_l1_chain_id i) ts (ci_l1_head_block_number i)"
  shows "steel_journal A FO (claim_of_input ts i) =
    Ret \<lparr> j_blockNumber = ci_l1_head_block_number i, j_blockhash = ci_l1_head_block_hash i,
          j_certVerifierAddress = ci_verifier_address i, j_input = to_rlp_bytes A (ci_altda_commitment i),
          j_output = ci_claimed_validity i, j_l1ChainId = ci_l1_chain_id i,
          j_chainConfigHash = keccak256 A (str_bytes f), j_chainSpecHash = 0 \<rparr>"
proof -
  have "f \<in> {fo_spec_by_timestamp_and_block_number FO chain ts (ci_l1_head_block_number i), fo_PRAGUE FO, fo_OSAKA FO}"
    using assms unfolding forks_agree_def by blast
  then show ?thesis
    using assms(1,2)
    by (auto simp: steel_journal_def claim_of_input_def Let_def get_steel_active_fork_def derive_chain_spec_id_def
        get_allowed_steel_spec_id_def)
qed

lemma steel_guest_journal_form:
  assumes "steel_guest_journal A B GO env cid bn bh ch i = Ret j"
  shows "j = \<lparr> j_blockNumber = bn, j_blockhash = bh, j_certVerifierAddress = ci_verifier_address i,
      j_input = to_rlp_bytes A (ci_altda_commitment i), j_output = ci_claimed_validity i, j_l1ChainId = cid,
      j_chainConfigHash = ch, j_chainSpecHash = 0 \<rparr>" "go_header_seal GO env = bh"
  using assms by (auto simp: steel_guest_journal_def Let_def obind_eq_Ret)

text \<open>A run of the guest commits the journals the verifier builds for the same claims.\<close>

lemma steel_guest_commits_claims:
  assumes g: "steel_guest_main A B FO ser GO evm_input inputs = Ret bs"
    and ts: "\<And>env. go_header_seal GO env = ci_l1_head_block_hash (hd inputs) \<Longrightarrow> go_header_timestamp GO env = ts"
    and fk: "forks_agree FO (ci_l1_chain_id (hd inputs)) ts (ci_l1_head_block_number (hd inputs))"
    and sh: "inputs_share_head inputs = Ret (hd inputs)"
  shows "\<exists>js. mapM (steel_journal A FO) (map (claim_of_input ts) inputs) = Ret js \<and> ser js = Some bs"
proof -
  let ?h = "hd inputs"
  obtain i0 rest where inputs: "inputs = i0 # rest" using sh inputs_share_head_Ret by (metis list.exhaust)
  obtain chain f js where chain: "l1_chain_of (ci_l1_chain_id ?h) = Some chain"
    and f: "fo_steel_active_fork FO chain (ci_l1_head_block_number ?h)
       (go_header_timestamp GO (go_into_env GO evm_input chain)) = Inr f"
    and js: "mapM (steel_guest_journal A B GO (go_into_env GO evm_input chain) (ci_l1_chain_id ?h)
       (ci_l1_head_block_number ?h) (ci_l1_head_block_hash ?h) (keccak256 A (str_bytes f))) inputs = Ret js"
    and bs: "ser js = Some bs"
    using g inputs
    by (auto simp: steel_guest_main_def Let_def obind_eq_Ret bincode_serialize_def unwrap_def simp del: mapM.simps
        split: option.splits sum.splits)
  let ?env = "go_into_env GO evm_input chain"
  have all2: "list_all2 (\<lambda>i j. steel_guest_journal A B GO ?env (ci_l1_chain_id ?h)
       (ci_l1_head_block_number ?h) (ci_l1_head_block_hash ?h) (keccak256 A (str_bytes f)) i = Ret j) inputs js"
    using js unfolding mapM_Ret_iff .
  then have "go_header_seal GO ?env = ci_l1_head_block_hash ?h"
    using inputs steel_guest_journal_form(2) by (auto simp: list_all2_Cons1)
  then have f: "fo_steel_active_fork FO chain (ci_l1_head_block_number ?h) ts = Inr f" using f ts by simp
  have "list_all2 (\<lambda>i j. steel_journal A FO (claim_of_input ts i) = Ret j) inputs js"
    using all2
  proof (rule list.rel_mono_strong)
    fix i j
    assume i: "i \<in> set inputs" and j: "steel_guest_journal A B GO ?env (ci_l1_chain_id ?h)
       (ci_l1_head_block_number ?h) (ci_l1_head_block_hash ?h) (keccak256 A (str_bytes f)) i = Ret j"
    have "ci_l1_chain_id i = ci_l1_chain_id ?h" "ci_l1_head_block_number i = ci_l1_head_block_number ?h"
      "ci_l1_head_block_hash i = ci_l1_head_block_hash ?h"
      using i sh inputs_share_head_Ret by blast+
    then show "steel_journal A FO (claim_of_input ts i) = Ret j"
      using steel_journal_claim [of i chain FO ts f A] chain f fk steel_guest_journal_form(1) [OF j] by simp
  qed
  then show ?thesis using bs by (auto simp: mapM_Ret_iff list_all2_map1)
qed

lemma steel_receipt_accepted:
  assumes "steel_prover_runs A B FO SO GO SH" "get_steel_proof B SH inputs url = Ret (Inr r)"
    and "\<And>env. go_header_seal GO env = ci_l1_head_block_hash (hd inputs) \<Longrightarrow> go_header_timestamp GO env = ts"
    and "forks_agree FO (ci_l1_chain_id (hd inputs)) ts (ci_l1_head_block_number (hd inputs))"
    and "ci_l1_chain_id (hd inputs) \<noteq> 3151908" "so_receipt_from_slice SO bs = Inr r"
  shows "vo_validate_cert_receipt (CanoeSteelVerifier False A FO SO) (map (claim_of_input ts) inputs) (Some bs) =
    Ret (Inr ())"
proof -
  obtain env env' evm_input w where sh: "inputs_share_head inputs = Ret (hd inputs)"
    and w: "sh_executor_env SH evm_input inputs = Inr w" "sh_prove SH w = Inr r"
    by (rule get_steel_proof_Ret [OF assms(2)])
  have g: "steel_guest_main A B FO (so_bincode SO) GO evm_input inputs = Ret (so_receipt_journal SO r)"
    and v: "so_receipt_verify SO r = Inr ()"
    using assms(1) w unfolding steel_prover_runs_def by blast+
  obtain js where "mapM (steel_journal A FO) (map (claim_of_input ts) inputs) = Ret js"
    "so_bincode SO js = Some (so_receipt_journal SO r)"
    using steel_guest_commits_claims [OF g assms(3,4) sh] by blast
  then have j: "steel_to_journals_bytes A FO SO (map (claim_of_input ts) inputs) = Ret (so_receipt_journal SO r)"
    by (simp add: steel_to_journals_bytes_def bincode_serialize_def)
  have "\<not> (\<exists>pair\<in>set (map (claim_of_input ts) inputs). cv_l1_chain_id (snd pair) = 3151908)"
  proof
    assume "\<exists>pair\<in>set (map (claim_of_input ts) inputs). cv_l1_chain_id (snd pair) = 3151908"
    then obtain i where i: "i \<in> set inputs" "ci_l1_chain_id i = 3151908" by (auto simp: claim_of_input_def)
    have "ci_l1_chain_id i = ci_l1_chain_id (hd inputs)" using sh i(1) inputs_share_head_Ret by blast
    then show False using i(2) assms(5) by simp
  qed
  then show ?thesis
    unfolding CanoeSteelVerifier_def steel_validate_cert_receipt_def steel_validate_cert_receipt_inner_def
    by (simp add: j v assms(6))
qed

section \<open>sp1-cc proofs\<close>

lemma canoe_proof_stdin_Ret:
  assumes "canoe_proof_stdin B PH inputs rpc = Ret (Inr stdin)"
  obtains genesis sketch sketch' state where
    "inputs_share_head inputs = Ret (hd inputs)" "sp1_host_genesis PH (ci_l1_chain_id (hd inputs)) = Ret genesis"
    "ph_build_sketch PH rpc genesis (ci_l1_head_block_number (hd inputs)) = Inr sketch"
    "ph_header_hash PH sketch = ci_l1_head_block_hash (hd inputs)"
    "sp1_prepopulate B PH sketch inputs = Ret (Inr sketch')" "ph_finalize PH sketch' = Inr state" "ph_serialize PH state = Inr (fst stdin)"
    "snd stdin = inputs"
proof -
  obtain first where f: "inputs_share_head inputs = Ret first"
    using assms by (auto simp: canoe_proof_stdin_def obind_eq_Ret)
  then have "first = hd inputs" by (simp add: inputs_share_head_Ret)
  with f show thesis
    using assms that by (auto simp: canoe_proof_stdin_def obind_eq_Ret orbind_eq_RetInr unwrap_eq_Ret)
qed

text \<open>A proof, handed to the zkVM of the verifier, attests a complete run of the guest.\<close>

definition sp1_prover_runs ::
    "alloy_ops \<Rightarrow> abi_ops \<Rightarrow> 'g sp1_ops \<Rightarrow> ('st, 'x, 'g) sp1_guest_ops \<Rightarrow> ('c, 's, 'cl, 'pf) sp1_host_ops \<Rightarrow> bool" where
  "sp1_prover_runs A B PP XO PH \<longleftrightarrow>
     (\<forall>client bs inputs strategy timeout limits pf.
        ph_prove PH client (bs, inputs) strategy timeout limits = Inr pf \<longrightarrow>
        (\<exists>j. sp1_guest_main A B PP XO bs inputs = Ret j \<and> sp1_proven PP j))"

lemma generate_canoe_proof_Ret:
  assumes "generate_canoe_proof PH env stdin False = Ret (Inr pf)"
  obtains client strategy timeout limits where "ph_prove PH client stdin strategy timeout limits = Inr pf"
  using assms
  by (auto simp: generate_canoe_proof_def Let_def obind_eq_Ret orbind_eq_RetInr unwrap_eq_Ret split: if_splits)

text \<open>A sketch that the host made with a chain's known genesis, extended by its calls, finalised and
  serialised, carries to the guest the genesis rsp has for the chain. Nothing is said about sketches with
  the custom genesis of Holesky or of the devnet.\<close>

definition sp1_sketch_genesis ::
    "abi_ops \<Rightarrow> 'g sp1_ops \<Rightarrow> ('st, 'x, 'g) sp1_guest_ops \<Rightarrow> ('c, 's, 'cl, 'pf) sp1_host_ops \<Rightarrow> u64 \<Rightarrow> bool" where
  "sp1_sketch_genesis B PP XO PH chain \<longleftrightarrow>
     (\<forall>rpc num sketch inputs sketch' state bs st.
        ph_build_sketch PH rpc (KnownGenesis chain) num = Inr sketch \<longrightarrow>
        sp1_prepopulate B PH sketch inputs = Ret (Inr sketch') \<longrightarrow> ph_finalize PH sketch' = Inr state \<longrightarrow>
        ph_serialize PH state = Inr bs \<longrightarrow> xo_deserialize XO bs = Inr st \<longrightarrow>
        pp_genesis_try_from PP chain = Inr (xo_genesis XO st))"

text \<open>For one block, given by chain, hash, number and timestamp: what an executor commits for a call that it
  anchors at this block is the configuration hash of the fork active there.\<close>

definition sp1_config_agrees ::
    "alloy_ops \<Rightarrow> fork_ops \<Rightarrow> 'g sp1_ops \<Rightarrow> ('st, 'x, 'g) sp1_guest_ops \<Rightarrow> u64 \<Rightarrow> u256 \<Rightarrow> u64 \<Rightarrow> u64 \<Rightarrow> bool" where
  "sp1_config_agrees A FO PP XO chain hash num ts \<longleftrightarrow>
     (\<forall>x address call pub. xo_chain_id XO x = chain \<longrightarrow> xo_header_number XO x = num \<longrightarrow>
        xo_execute XO x address 0 call = Inr pub \<longrightarrow> pub_anchorType pub = BlockHash \<longrightarrow> pub_anchorHash pub = hash \<longrightarrow>
        derive_chain_config_hash A FO PP chain ts num = Ret (pub_chainConfigHash pub))"

lemma sp1_guest_main_chain:
  assumes "sp1_guest_main A B PP XO bs inputs = Ret j"
  obtains st x gb js where "xo_deserialize XO bs = Inr st" "xo_executor XO st = Inr x"
    "serialize_genesis PP (xo_genesis XO st) = Ret gb"
    "ci_l1_head_block_number (hd inputs) = xo_header_number XO x" "ci_l1_chain_id (hd inputs) = xo_chain_id XO x"
    "mapM (sp1_guest_journal A B XO x (xo_chain_id XO x) (ci_l1_head_block_number (hd inputs))
       (ci_l1_head_block_hash (hd inputs)) (keccak256 A gb)) inputs = Ret js"
    "pp_bincode PP js = Some j"
  using assms
  by (cases inputs; cases "xo_deserialize XO bs")
     (auto simp: sp1_guest_main_def Let_def obind_eq_Ret bincode_serialize_def unwrap_def
       simp del: mapM.simps split: option.splits sum.splits)

lemma sp1_journal_eqI:
  "j_blockNumber j = j_blockNumber k \<Longrightarrow> j_blockhash j = j_blockhash k \<Longrightarrow>
   j_certVerifierAddress j = j_certVerifierAddress k \<Longrightarrow> j_input j = j_input k \<Longrightarrow> j_output j = j_output k \<Longrightarrow>
   j_l1ChainId j = j_l1ChainId k \<Longrightarrow> j_chainConfigHash j = j_chainConfigHash k \<Longrightarrow>
   j_chainSpecHash j = j_chainSpecHash k \<Longrightarrow> j = (k :: Journal)"
  by simp

lemma sp1_guest_commits_claims:
  assumes g: "sp1_guest_main A B PP XO bs inputs = Ret b" and sh: "inputs_share_head inputs = Ret (hd inputs)"
    and gen: "\<And>st. xo_deserialize XO bs = Inr st \<Longrightarrow>
      pp_genesis_try_from PP (ci_l1_chain_id (hd inputs)) = Inr (xo_genesis XO st)"
    and cfg: "sp1_config_agrees A FO PP XO (ci_l1_chain_id (hd inputs)) (ci_l1_head_block_hash (hd inputs))
      (ci_l1_head_block_number (hd inputs)) ts"
  shows "\<exists>js. mapM (sp1_journal A FO PP) (map (claim_of_input ts) inputs) = Ret js \<and> pp_bincode PP js = Some b"
proof -
  let ?h = "hd inputs"
  obtain st x gb js where x: "xo_deserialize XO bs = Inr st" "xo_executor XO st = Inr x"
    and gb: "serialize_genesis PP (xo_genesis XO st) = Ret gb"
    and num: "ci_l1_head_block_number ?h = xo_header_number XO x" and ch: "ci_l1_chain_id ?h = xo_chain_id XO x"
    and js: "mapM (sp1_guest_journal A B XO x (xo_chain_id XO x) (ci_l1_head_block_number ?h)
       (ci_l1_head_block_hash ?h) (keccak256 A gb)) inputs = Ret js"
    and b: "pp_bincode PP js = Some b"
    by (rule sp1_guest_main_chain [OF g])
  have genesis: "rsp_genesis_hash A PP (ci_l1_chain_id ?h) = Ret (keccak256 A gb)"
    using gen [OF x(1)] gb by (simp add: rsp_genesis_hash_def)
  have "list_all2 (\<lambda>i j. sp1_journal A FO PP (claim_of_input ts i) = Ret j) inputs js"
    using js unfolding mapM_Ret_iff
  proof (rule list.rel_mono_strong)
    fix i j
    assume i: "i \<in> set inputs" and j: "sp1_guest_journal A B XO x (xo_chain_id XO x) (ci_l1_head_block_number ?h)
       (ci_l1_head_block_hash ?h) (keccak256 A gb) i = Ret j"
    have same: "ci_l1_chain_id i = ci_l1_chain_id ?h" "ci_l1_head_block_number i = ci_l1_head_block_number ?h"
      "ci_l1_head_block_hash i = ci_l1_head_block_hash ?h"
      using i sh inputs_share_head_Ret by blast+
    obtain pub where pub: "xo_execute XO x (ci_verifier_address i) 0 (CertVerifierCall_build B (ci_altda_commitment i)) = Inr pub"
      "pub_anchorType pub = BlockHash" "pub_anchorHash pub = ci_l1_head_block_hash ?h"
      by (rule sp1_guest_journal_Ret [OF j])
    have cfgh: "derive_chain_config_hash A FO PP (ci_l1_chain_id ?h) ts (ci_l1_head_block_number ?h) =
        Ret (pub_chainConfigHash pub)"
      using cfg pub num ch unfolding sp1_config_agrees_def by metis
    show "sp1_journal A FO PP (claim_of_input ts i) = Ret j"
      using j pub same genesis cfgh ch
      by (auto simp: sp1_guest_journal_def sp1_journal_def claim_of_input_def Let_def obind_eq_Ret
          split: AnchorType.splits)
  qed
  then show ?thesis using b by (auto simp: mapM_Ret_iff list_all2_map1)
qed

lemma sp1_proof_accepted:
  assumes "sp1_prover_runs A B PP XO PH" "get_sp1_cc_proof B PH env inputs rpc False = Ret (Inr pf)"
    and "ph_genesis_known PH (ci_l1_chain_id (hd inputs))"
    and "sp1_sketch_genesis B PP XO PH (ci_l1_chain_id (hd inputs))"
    and "sp1_config_agrees A FO PP XO (ci_l1_chain_id (hd inputs)) (ci_l1_head_block_hash (hd inputs))
      (ci_l1_head_block_number (hd inputs)) ts"
  shows "vo_validate_cert_receipt (CanoeSp1CCVerifier True A FO PP) (map (claim_of_input ts) inputs) bs = Ret (Inr ())"
proof -
  let ?chain = "ci_l1_chain_id (hd inputs)"
  obtain stdin where stdin: "canoe_proof_stdin B PH inputs rpc = Ret (Inr stdin)"
    and gen: "generate_canoe_proof PH env stdin False = Ret (Inr pf)" and ne: "inputs \<noteq> []"
    using assms(2) by (auto simp: get_sp1_cc_proof_def orbind_eq_RetInr split: if_splits)
  obtain genesis sketch sketch' state where sh: "inputs_share_head inputs = Ret (hd inputs)"
    and hg: "sp1_host_genesis PH ?chain = Ret genesis"
    and sk: "ph_build_sketch PH rpc genesis (ci_l1_head_block_number (hd inputs)) = Inr sketch"
      "sp1_prepopulate B PH sketch inputs = Ret (Inr sketch')" "ph_finalize PH sketch' = Inr state"
      "ph_serialize PH state = Inr (fst stdin)"
    and st: "snd stdin = inputs"
    by (rule canoe_proof_stdin_Ret [OF stdin])
  have "genesis = KnownGenesis ?chain" using hg assms(3) by (simp add: sp1_host_genesis_def)
  then have known: "pp_genesis_try_from PP ?chain = Inr (xo_genesis XO s)"
    if "xo_deserialize XO (fst stdin) = Inr s" for s
    using assms(4) sk that unfolding sp1_sketch_genesis_def by blast
  obtain client strategy timeout limits where p: "ph_prove PH client (fst stdin, inputs) strategy timeout limits = Inr pf"
    using generate_canoe_proof_Ret [OF gen] st by (metis prod.collapse)
  obtain j where g: "sp1_guest_main A B PP XO (fst stdin) inputs = Ret j" and v: "sp1_proven PP j"
    using assms(1) p unfolding sp1_prover_runs_def by blast
  obtain js where "mapM (sp1_journal A FO PP) (map (claim_of_input ts) inputs) = Ret js" "pp_bincode PP js = Some j"
    using sp1_guest_commits_claims [OF g sh known assms(5)] by blast
  then have "sp1_to_journals_bytes A FO PP (map (claim_of_input ts) inputs) = Ret j"
    by (simp add: sp1_to_journals_bytes_def bincode_serialize_def)
  then show ?thesis using v ne
    by (simp add: CanoeSp1CCVerifier_def sp1_validate_cert_receipt_def sp1_proven_def)
qed

text \<open>For a chain whose genesis rsp does not know, the host proves against a genesis of its own while the
  verifier aborts before it looks at a proof.\<close>

lemma sp1_unknown_genesis_aborts:
  assumes "pp_genesis_try_from PP chain = Inl e" "claims \<noteq> []" "\<forall>(c, cv)\<in>set claims. cv_l1_chain_id cv = chain"
  shows "\<exists>m. vo_validate_cert_receipt (CanoeSp1CCVerifier zkvm A FO PP) claims pf = Panic m"
proof -
  obtain c cv rest where claims: "claims = (c, cv) # rest" using assms(2) by (metis list.exhaust surj_pair)
  have "\<exists>m. sp1_journal A FO PP (c, cv) = Panic m"
    using assms(1,3) claims
    by (cases "derive_chain_config_hash A FO PP chain (cv_l1_head_block_timestamp cv) (cv_l1_head_block_number cv)")
       (auto simp: sp1_journal_def rsp_genesis_hash_def)
  then show ?thesis
    by (auto simp: claims CanoeSp1CCVerifier_def sp1_validate_cert_receipt_def sp1_to_journals_bytes_def)
qed

end
