(* ===== verification/Preloader.thy ===== *)
theory Preloader
  imports Zkvm_Entry Kzg_Prover Canoe_Host
begin

text \<open>
  The whole proof pipeline, as \<open>example/preloader/src/main.rs\<close> puts it together: a first derivation over
  the preimage oracle records the EigenDA preimages, KZG and Canoe proofs are made for them, and the
  program of the zkVM derives again from the witness.

  A witness the pipeline prepared is accepted in the zkVM with the verdict of the first derivation,
  when the oracle answered without errors, the payloads are those committed to and the Canoe verifier
  accepts the receipts of the Canoe provider (\<open>canoe_complete\<close>), which holds of both providers.
\<close>

datatype anyhow_error =
    ProgramError FaultProofProgramError
  | WitgenError string
  | WitnessError EigenDAWitnessError

definition run_preimage_client ::
    "alloy_ops \<Rightarrow> 'g eth_ops \<Rightarrow> ('g, 'cur) kona_ops \<Rightarrow> ('o, 'k) comms_ops \<Rightarrow> 'o \<Rightarrow>
     (EigenDAPreimage, FaultProofProgramError) result outcome option" where
  "run_preimage_client A E K CO oracle =
     map_option (\<lambda>y. obind y (\<lambda>(r, provider). Ret (rbind r (\<lambda>_. Inr (rec_preimage provider)))))
       (run_fp_client A E K (recorder (oracle_provider A CO)) (recorder_new (oracle_provider_new oracle)))"

text \<open>The proof is serialised when there is one.\<close>

definition canoe_proof_bytes_option :: "('r \<Rightarrow> (bytes, string) result) \<Rightarrow> 'r option \<Rightarrow> bytes option outcome" where
  "canoe_proof_bytes_option to_vec optional_canoe_proof =
     (case optional_canoe_proof of
        None \<Rightarrow> Ret None
      | Some proof \<Rightarrow> obind (unwrap ''serde error'' (to_vec proof)) (\<lambda>bs. Ret (Some bs)))"

record ('b, 'p, 'pt, 'r) prover_side =
  ps_kzg :: "('b, 'p, 'pt) kzg_prover_ops"
  ps_srs :: "'pt SRS outcome"
  ps_canoe_provider :: "'r canoe_provider"
  ps_to_vec :: "'r \<Rightarrow> (bytes, string) result"
  ps_fetch :: address_fetch
  ps_get :: "u256 \<Rightarrow> (bytes, string) result"
  ps_header_number :: "bytes \<Rightarrow> u64 option"

definition prove_preimage ::
    "('b, 'p, 'pt, 'r) prover_side \<Rightarrow> BootInfo \<Rightarrow> EigenDAPreimage \<Rightarrow> (EigenDAWitness, anyhow_error) result outcome" where
  "prove_preimage PS boot_info eigenda_preimage =
     obind (create_kzg_proofs_for_eigenda_preimage (ps_kzg PS) (ps_srs PS)
              (pre_encoded_payloads eigenda_preimage)) (\<lambda>kzg_proofs.
     orbind (obind (from_boot_info_to_canoe_proof (ps_fetch PS) (ps_get PS) (ps_header_number PS)
                      (ps_canoe_provider PS) boot_info eigenda_preimage) (\<lambda>r. Ret (map_err WitgenError r)))
       (\<lambda>optional_canoe_proof.
     obind (canoe_proof_bytes_option (ps_to_vec PS) optional_canoe_proof) (\<lambda>proof_bytes.
       Ret (map_err WitnessError (from_preimage eigenda_preimage kzg_proofs proof_bytes)))))"

definition prepare_witness ::
    "alloy_ops \<Rightarrow> 'g eth_ops \<Rightarrow> ('g, 'cur) kona_ops \<Rightarrow> ('o, 'k) comms_ops \<Rightarrow>
     ('b, 'p, 'pt, 'r) prover_side \<Rightarrow> 'o \<Rightarrow> (EigenDAWitness, anyhow_error) result outcome option" where
  "prepare_witness A E K CO PS oracle =
     map_option (\<lambda>y.
       orbind (obind y (\<lambda>r. Ret (map_err ProgramError r))) (\<lambda>eigenda_preimage.
       orbind (Ret (map_err ProgramError (ko_boot_load K))) (\<lambda>boot_info.
         prove_preimage PS boot_info eigenda_preimage)))
       (run_preimage_client A E K CO oracle)"

definition run_witgen_and_zk_verification ::
    "alloy_ops \<Rightarrow> 'g eth_ops \<Rightarrow> ('g, 'cur) kona_ops \<Rightarrow> ('o, 'k) comms_ops \<Rightarrow>
     ('b, 'p, 'pt, 'r) prover_side \<Rightarrow> (u256 \<Rightarrow> (l1_header, string) result) \<Rightarrow> canoe_verifier_ops \<Rightarrow>
     batch_verifier \<Rightarrow> 'o \<Rightarrow> (unit, anyhow_error) result outcome option" where
  "run_witgen_and_zk_verification A E K CO PS header_by_hash VO BV oracle =
     Option.bind (prepare_witness A E K CO PS oracle) (\<lambda>y.
       case y of
         Panic m \<Rightarrow> Some (Panic m)
       | Ret (Inl e) \<Rightarrow> Some (Ret (Inl e))
       | Ret (Inr wit) \<Rightarrow>
           map_option (\<lambda>z. obind z (\<lambda>r. Ret (map_err ProgramError r)))
             (run_within_zkvm_assume_oracle_verified A E K header_by_hash VO (ps_fetch PS) BV wit))"

section \<open>Prepared witnesses\<close>

text \<open>The verifier accepts the receipts of the provider for the claims its inputs stand for, at one L1
  head.\<close>

definition at_head :: "u64 \<Rightarrow> u256 \<Rightarrow> u64 \<Rightarrow> CanoeInput \<Rightarrow> bool" where
  "at_head chain hash num i \<longleftrightarrow>
     ci_l1_chain_id i = chain \<and> ci_l1_head_block_hash i = hash \<and> ci_l1_head_block_number i = num"

definition canoe_complete ::
    "canoe_verifier_ops \<Rightarrow> 'r canoe_provider \<Rightarrow> ('r \<Rightarrow> (bytes, string) result) \<Rightarrow> u64 \<Rightarrow> u256 \<Rightarrow> u64 \<Rightarrow> u64 \<Rightarrow> bool" where
  "canoe_complete VO create_proof to_vec chain hash num ts \<longleftrightarrow>
     (\<forall>inputs r bs. create_proof inputs = Ret (Some (Inr r)) \<longrightarrow> to_vec r = Inr bs \<longrightarrow> inputs \<noteq> [] \<longrightarrow>
        (\<forall>i\<in>set inputs. at_head chain hash num i) \<longrightarrow>
        vo_validate_cert_receipt VO (map (claim_of_input ts) inputs) (Some bs) = Ret (Inr ()))"

lemma run_preimage_client_Ret:
  assumes "run_preimage_client A E K CO oracle = Some (Ret (Inr pre))"
  obtains q where "run_fp_client A E K (recorder (oracle_provider A CO)) (recorder_new (oracle_provider_new oracle)) =
      Some (Ret (Inr (), q))" "rec_preimage q = pre"
  using assms by (auto simp: run_preimage_client_def obind_eq_Ret rbind_eq_Inr)

lemma prove_preimage_Ret:
  assumes "prove_preimage PS boot pre = Ret (Inr w)"
  obtains kzg rlp num inputs pf bs where
    "create_kzg_proofs_for_eigenda_preimage (ps_kzg PS) (ps_srs PS) (pre_encoded_payloads pre) = Ret kzg"
    "ps_get PS (boot_l1_head boot) = Inr rlp" "ps_header_number PS rlp = Some num"
    "from_eigenda_preimage_to_canoe_inputs (ps_fetch PS) (boot_l1_chain_id boot) (boot_l1_head boot) num
       (pre_validities pre) = Inr inputs"
    "(ps_canoe_provider PS inputs = Ret None \<and> pf = None) \<or>
     (\<exists>r. ps_canoe_provider PS inputs = Ret (Some (Inr r)) \<and> pf = Some r)"
    "canoe_proof_bytes_option (ps_to_vec PS) pf = Ret bs" "from_preimage pre kzg bs = Inr w"
  using assms
  by (auto simp: prove_preimage_def obind_eq_Ret orbind_eq_RetInr from_boot_info_to_canoe_proof_def rbind_eq_Inr
      ok_or_def split: option.splits)

text \<open>The first derivation records commitments with payloads that satisfy what the provider's answers do.\<close>

lemma run_driver_well_recorded:
  assumes "run_driver A E (recorder PO) driver seen s = Some y" "payloads_satisfy R PO"
    and "y = Ret (r, s')" "well_recorded R (recording s)"
  shows "well_recorded R (recording s')"
  using assms(1,3,4)
proof (induction rule: run_driver_induct)
  case (clear seen s y)
  then show ?case by (simp add: clear_recording)
next
  case (step seen s b a x s1 y)
  then show ?case using data_source_well_recorded [OF step(2) assms(2)] by simp
qed auto

lemma run_fp_client_well_recorded:
  assumes "run_fp_client A E K (recorder PO) (recorder_new p) = Some (Ret (r, q))" "payloads_satisfy R PO"
  shows "well_recorded R (rec_preimage q)"
proof (cases "\<exists>boot cursor. fp_prologue K = Inr (boot, Some cursor)")
  case True
  then obtain boot cursor where c: "fp_prologue K = Inr (boot, Some cursor)" by blast
  let ?s = "EigenDADataSource_new (ko_ethereum_source K boot) (EigenDAPreimageSource_new (recorder_new p))"
  obtain x s' where "run_driver A E (recorder PO) (ko_driver K boot cursor) [] ?s = Some (Ret (x, s'))"
    "q = eigenda_fetcher (eigenda_source s')"
    using assms(1) c by (auto simp: run_fp_client_def Let_def Option.bind_eq_Some_conv obind_eq_Ret)
  then show ?thesis using run_driver_well_recorded [OF _ assms(2) refl well_recorded_new] by auto
next
  case False
  then have "q = recorder_new p"
    using assms(1) by (auto simp: run_fp_client_def split: sum.splits option.splits)
  then show ?thesis by (simp add: well_recorded_def recorder_new_def)
qed

text \<open>A payload is the one its certificate commits to: the prover computes the certificate's commitment
  from it.\<close>

definition commits_to :: "('b, 'p, 'pt) kzg_prover_ops \<Rightarrow> 'pt SRS outcome \<Rightarrow> AltDACommitment \<Rightarrow> EncodedPayload \<Rightarrow> bool" where
  "commits_to KP srs c x \<longleftrightarrow>
     (\<exists>s blob poly C. srs = Ret s \<and> kp_blob_new KP (serialize x) = Inr blob \<and>
        kp_to_polynomial_eval_form KP blob = Inr poly \<and> kp_commit_eval_form KP poly s = Inr C \<and>
        kp_x KP C = unat (g1_x (get_kzg_commitment c)) \<and> kp_y KP C = unat (g1_y (get_kzg_commitment c)))"

text \<open>Completeness of the KZG library: the verifier accepts the prover's proofs for such payloads.\<close>

definition kzg_complete :: "batch_verifier \<Rightarrow> ('b, 'p, 'pt) kzg_prover_ops \<Rightarrow> 'pt SRS outcome \<Rightarrow> bool" where
  "kzg_complete BV KP srs \<longleftrightarrow>
     (\<forall>entries kzg. create_kzg_proofs_for_eigenda_preimage KP srs entries = Ret kzg \<longrightarrow>
        (\<forall>(c, x)\<in>set entries. commits_to KP srs c x) \<longrightarrow>
        BV (map (\<lambda>(_, x). serialize x) entries) (map (\<lambda>(c, _). get_kzg_commitment c) entries) kzg = Ret True)"

lemma canoe_inputs_claims:
  assumes "from_eigenda_preimage_to_canoe_inputs fetch chain hash num vs = Inr inputs"
  shows "mapM (cert_validity_of fetch hash num ts chain) vs = Ret (map (claim_of_input ts) inputs)"
    "inputs = [] \<longleftrightarrow> vs = []" "\<forall>i\<in>set inputs. at_head chain hash num i"
proof -
  note l = assms [unfolded canoe_inputs_iff]
  show "mapM (cert_validity_of fetch hash num ts chain) vs = Ret (map (claim_of_input ts) inputs)"
    unfolding mapM_Ret_iff list_all2_map2 using l
    by (rule list.rel_mono_strong) (auto simp: cert_validity_of_Ret_iff claim_of_input_def)
  show "inputs = [] \<longleftrightarrow> vs = []" using l by (cases vs) (auto simp: list_all2_Cons1)
  show "\<forall>i\<in>set inputs. at_head chain hash num i"
    using l by (induction rule: list_all2_induct) (auto simp: at_head_def)
qed

lemma prepare_witness_Ret:
  assumes "prepare_witness A E K CO PS oracle = Some (Ret (Inr w))"
  obtains pre boot where "run_preimage_client A E K CO oracle = Some (Ret (Inr pre))"
    "ko_boot_load K = Inr boot" "prove_preimage PS boot pre = Ret (Inr w)"
  using assms by (auto simp: prepare_witness_def obind_eq_Ret orbind_eq_RetInr map_err_eq_Inr)

lemma prepared_from_witness:
  assumes "prove_preimage PS boot pre = Ret (Inr w)" "well_recorded right_length pre"
    and "\<forall>(c, x)\<in>set (pre_encoded_payloads pre). commits_to (ps_kzg PS) (ps_srs PS) c x"
    and "header_by_hash (boot_l1_head boot) = Inr h"
    and "\<And>rlp. ps_get PS (boot_l1_head boot) = Inr rlp \<Longrightarrow> ps_header_number PS rlp = Some (hd_number h)"
    and "canoe_complete VO (ps_canoe_provider PS) (ps_to_vec PS)
      (boot_l1_chain_id boot) (boot_l1_head boot) (hd_number h) (hd_timestamp h)"
    and "kzg_complete BV (ps_kzg PS) (ps_srs PS)"
  shows "eigenda_witness_to_preloaded_provider header_by_hash boot VO (ps_fetch PS) BV w =
    Ret (Inr (preloaded_of (pre_validities pre) (pre_encoded_payloads pre)))"
proof -
  obtain kzg rlp num inputs pf bs where
    k: "create_kzg_proofs_for_eigenda_preimage (ps_kzg PS) (ps_srs PS) (pre_encoded_payloads pre) = Ret kzg"
    and n: "ps_get PS (boot_l1_head boot) = Inr rlp" "ps_header_number PS rlp = Some num"
    and i: "from_eigenda_preimage_to_canoe_inputs (ps_fetch PS) (boot_l1_chain_id boot) (boot_l1_head boot) num
       (pre_validities pre) = Inr inputs"
    and pf: "(ps_canoe_provider PS inputs = Ret None \<and> pf = None) \<or>
       (\<exists>r. ps_canoe_provider PS inputs = Ret (Some (Inr r)) \<and> pf = Some r)"
    and bs: "canoe_proof_bytes_option (ps_to_vec PS) pf = Ret bs" and w: "from_preimage pre kzg bs = Inr w"
    by (rule prove_preimage_Ret [OF assms(1)])
  have num: "num = hd_number h" using assms(5) [OF n(1)] n(2) by simp
  have "vo_validate_cert_receipt VO (map (claim_of_input (hd_timestamp h)) inputs) bs = Ret (Inr ())"
    if ne: "pre_validities pre \<noteq> []"
  proof -
    obtain p where "bs = Some p" using from_preimage_entries(5) [OF w] ne by auto
    then obtain r where "pf = Some r" "ps_to_vec PS r = Inr p"
      using bs by (auto simp: canoe_proof_bytes_option_def obind_eq_Ret unwrap_eq_Ret split: option.splits)
    moreover have "inputs \<noteq> []" using canoe_inputs_claims(2) [OF i] ne by simp
    ultimately show ?thesis using assms(6) pf \<open>bs = Some p\<close> canoe_inputs_claims(3) [OF i] num
      unfolding canoe_complete_def by auto
  qed
  moreover have "BV (map (\<lambda>(_, x). serialize x) (pre_encoded_payloads pre))
      (map (\<lambda>(c, _). get_kzg_commitment c) (pre_encoded_payloads pre)) kzg = Ret True"
    using assms(3,7) k unfolding kzg_complete_def by blast
  ultimately have "from_witness VO (ps_fetch PS) BV w (boot_l1_head boot) (hd_number h) (hd_timestamp h)
      (boot_l1_chain_id boot) = Ret (preloaded_of (pre_validities pre) (pre_encoded_payloads pre))"
    using honest_from_witness [OF w assms(2) canoe_inputs_claims(1) [OF i, unfolded num]] by blast
  then show ?thesis
    by (simp add: eigenda_witness_to_preloaded_provider_def assms(4))
qed

text \<open>The run in the zkVM repeats the first derivation.\<close>

lemma prepared_witness_verified:
  assumes "prepare_witness A E K CO PS oracle = Some (Ret (Inr w))" "never_errs (oracle_provider A CO)"
    and "\<And>pre c x. run_preimage_client A E K CO oracle = Some (Ret (Inr pre)) \<Longrightarrow>
        (c, x) \<in> set (pre_encoded_payloads pre) \<Longrightarrow> commits_to (ps_kzg PS) (ps_srs PS) c x"
    and "ko_boot_load K = Inr boot" "header_by_hash (boot_l1_head boot) = Inr h"
    and "\<And>rlp. ps_get PS (boot_l1_head boot) = Inr rlp \<Longrightarrow> ps_header_number PS rlp = Some (hd_number h)"
    and "canoe_complete VO (ps_canoe_provider PS) (ps_to_vec PS)
      (boot_l1_chain_id boot) (boot_l1_head boot) (hd_number h) (hd_timestamp h)"
    and "kzg_complete BV (ps_kzg PS) (ps_srs PS)"
  shows "run_within_zkvm_assume_oracle_verified A E K header_by_hash VO (ps_fetch PS) BV w = Some (Ret (Inr ()))"
proof -
  obtain pre where pre: "run_preimage_client A E K CO oracle = Some (Ret (Inr pre))"
    and p: "prove_preimage PS boot pre = Ret (Inr w)"
    using prepare_witness_Ret [OF assms(1)] assms(4) by (metis sum.inject(2))
  obtain q where q: "run_fp_client A E K (recorder (oracle_provider A CO)) (recorder_new (oracle_provider_new oracle)) =
      Some (Ret (Inr (), q))" "rec_preimage q = pre"
    by (rule run_preimage_client_Ret [OF pre])
  have "eigenda_witness_to_preloaded_provider header_by_hash boot VO (ps_fetch PS) BV w =
      Ret (Inr (preloaded_of (pre_validities pre) (pre_encoded_payloads pre)))"
  proof (rule prepared_from_witness [where header_by_hash = header_by_hash and h = h])
    show "well_recorded right_length pre"
      using run_fp_client_well_recorded [OF q(1) oracle_exact_lengths] q(2) by simp
    show "\<forall>(c, x)\<in>set (pre_encoded_payloads pre). commits_to (ps_kzg PS) (ps_srs PS) c x"
      using assms(3) [OF pre] by auto
  qed (fact p assms(5-8))+
  moreover obtain t where "run_fp_client A E K preloaded_provider
      (preloaded_of (pre_validities pre) (pre_encoded_payloads pre)) = Some (Ret (Inr (), t))"
    using run_fp_client_replay [OF q(1) assms(2)] q(2) by auto
  ultimately show ?thesis
    by (simp add: run_within_zkvm_assume_oracle_verified_def assms(4))
qed


section \<open>The Canoe hosts are complete\<close>

lemma at_head_hd:
  assumes "inputs \<noteq> []" "\<forall>i\<in>set inputs. at_head chain hash num i"
  shows "ci_l1_chain_id (hd inputs) = chain" "ci_l1_head_block_hash (hd inputs) = hash"
    "ci_l1_head_block_number (hd inputs) = num"
  using assms by (cases inputs; simp add: at_head_def)+

lemma steel_canoe_complete:
  assumes "steel_prover_runs A B FO SO GO SH" "\<And>r bs. to_vec r = Inr bs \<Longrightarrow> so_receipt_from_slice SO bs = Inr r"
    and "\<And>env. go_header_seal GO env = hash \<Longrightarrow> go_header_timestamp GO env = ts"
    and "forks_agree FO chain ts num" "chain \<noteq> 3151908"
  shows "canoe_complete (CanoeSteelVerifier False A FO SO) (CanoeSteelProvider B SH url) to_vec chain hash num ts"
  unfolding canoe_complete_def
proof (intro allI impI)
  fix inputs r bs
  assume p: "CanoeSteelProvider B SH url inputs = Ret (Some (Inr r))" and v: "to_vec r = Inr bs"
    and ne: "inputs \<noteq> []" and h: "\<forall>i\<in>set inputs. at_head chain hash num i"
  have "get_steel_proof B SH inputs url = Ret (Inr r)"
    using p ne by (auto simp: CanoeSteelProvider_def obind_eq_Ret)
  then show "vo_validate_cert_receipt (CanoeSteelVerifier False A FO SO) (map (claim_of_input ts) inputs) (Some bs) =
      Ret (Inr ())"
    using assms(2) [OF v] assms(3-5) at_head_hd [OF ne h]
    by (intro steel_receipt_accepted [OF assms(1)]) simp_all
qed

lemma sp1_canoe_complete:
  assumes "sp1_prover_runs A B PP XO PH" "ph_genesis_known PH chain" "sp1_sketch_genesis B PP XO PH chain"
    and "sp1_config_agrees A FO PP XO chain hash num ts"
  shows "canoe_complete (CanoeSp1CCVerifier True A FO PP)
    (CanoeSp1CCReducedProofProvider B PH env compressed rpc False) to_vec chain hash num ts"
  unfolding canoe_complete_def
proof (intro allI impI)
  fix inputs r bs
  assume p: "CanoeSp1CCReducedProofProvider B PH env compressed rpc False inputs = Ret (Some (Inr r))"
    and ne: "inputs \<noteq> []" and h: "\<forall>i\<in>set inputs. at_head chain hash num i"
  obtain x where x: "get_sp1_cc_proof B PH env inputs rpc False = Ret x"
    "(case x of Inl e \<Rightarrow> Ret (Some (Inl e))
      | Inr pf \<Rightarrow> (case compressed pf of Some p \<Rightarrow> Ret (Some (Inr p))
                    | None \<Rightarrow> Panic ''cannot get Sp1ReducedProof'')) = Ret (Some (Inr r))"
    using p ne unfolding CanoeSp1CCReducedProofProvider_def by (auto simp: obind_eq_Ret simp del: split_paired_Ex)
  then obtain pf where "get_sp1_cc_proof B PH env inputs rpc False = Ret (Inr pf)" by (cases x) auto
  then show "vo_validate_cert_receipt (CanoeSp1CCVerifier True A FO PP) (map (claim_of_input ts) inputs) (Some bs) =
      Ret (Inr ())"
    using assms(2-4) at_head_hd [OF ne h] by (intro sp1_proof_accepted [OF assms(1)]) simp_all
qed

end
