(* ===== verification/Kzg_Soundness.thy ===== *)
theory Kzg_Soundness
  imports Kzg_Batch
begin

text \<open>
  What an accepted batch means. Over a lawful curve library the verifier is a total function, the
  reference \<open>kzg_batch_spec\<close>: it decodes blobs and points, opens each blob's polynomial at its challenge
  and checks one linear combination of the KZG equations. From that come acceptance of honest
  openings and, for enough challenges, the single equations; the transcripts that the challenges are
  hashed from determine what they are about.
\<close>

section \<open>The verifier as a function\<close>

definition blob_challenge ::
    "('q, 'g::ab_group_add, 'h, 't) bn_ops \<Rightarrow> PolynomialEvalForm \<Rightarrow> 'g \<Rightarrow> Fr" where
  "blob_challenge BN poly C = hash_to_field_element (bn_sha256 BN) (challenge_input BN poly C)"

definition blob_opening ::
    "('q, 'g::ab_group_add, 'h, 't) bn_ops \<Rightarrow> PolynomialEvalForm \<times> 'g \<Rightarrow> (Fr, KzgError) result" where
  "blob_opening BN pc =
     evaluate_polynomial_in_evaluation_form (bn_fr_inverse BN) (fst pc) (blob_challenge BN (fst pc) (snd pc))"

definition batch_equation ::
    "('q, 'g::ab_group_add, 'h, 't) bn_ops \<Rightarrow> Fr \<Rightarrow> Fr \<Rightarrow> 'g list \<Rightarrow> Fr list \<Rightarrow> Fr list \<Rightarrow> 'g list \<Rightarrow> bool" where
  "batch_equation BN \<tau> r Cs zs ys Ps \<longleftrightarrow>
     (\<Sum>i<length Cs. bn_scale BN (r ^ i) (kzg_residual BN \<tau> (Cs ! i) (zs ! i) (ys ! i) (Ps ! i))) = 0"

definition batch_decision ::
    "('q, 'g::ab_group_add, 'h, 't) bn_ops \<Rightarrow> Fr \<Rightarrow> PolynomialEvalForm list \<Rightarrow> 'g list \<Rightarrow> 'g list \<Rightarrow> Fr list \<Rightarrow> bool" where
  "batch_decision BN \<tau> polys Cs Ps ys =
     (let zs = map (\<lambda>(p, C). blob_challenge BN p C) (zip polys Cs);
          r = batch_challenge BN Cs zs ys Ps (map (\<lambda>p. of_nat (poly_len p)) polys)
      in batch_equation BN \<tau> r Cs zs ys Ps)"

definition kzg_batch_spec ::
    "('q, 'g::ab_group_add, 'h, 't) bn_ops \<Rightarrow> Fr \<Rightarrow> bytes list \<Rightarrow> G1Point list \<Rightarrow> u512 list \<Rightarrow>
     (bool, KzgError) result" where
  "kzg_batch_spec BN \<tau> blobs commitments proofs =
     rbind (collect_results (blob_to_poly BN) blobs) (\<lambda>polys.
     rbind (collect_results (g1_point_to_affine BN) commitments) (\<lambda>Cs.
     rbind (collect_results (proof_bytes_to_affine BN) proofs) (\<lambda>Ps.
       if length Cs \<noteq> length polys \<or> length Ps \<noteq> length polys
       then Inl (GenericError ''length's of the input are not the same'')
       else if polys = [] then Inr True
       else rbind (collect_results (blob_opening BN) (zip polys Cs)) (\<lambda>ys.
         Inr (batch_decision BN \<tau> polys Cs Ps ys)))))"

lemma collect_results_Inr: "collect_results f xs = Inr ys \<longleftrightarrow> list_all2 (\<lambda>x y. f x = Inr y) xs ys"
proof (induction xs arbitrary: ys)
  case (Cons x xs)
  show ?case by (cases ys) (auto simp: rbind_eq_Inr Cons.IH)
qed auto

lemma collect_results_length: "collect_results f xs = Inr ys \<Longrightarrow> length ys = length xs"
  by (metis collect_results_Inr list_all2_lengthD)

lemma compute_challenge_eq: "bn_lawful BN \<tau> \<Longrightarrow> compute_challenge BN p C = Inr (blob_challenge BN p C)"
  by (simp add: compute_challenge_def blob_challenge_def bn_lawful_validate)

lemma challenges_loop_eq:
  assumes "bn_lawful BN \<tau>"
  shows "challenges_loop BN pcs zs ys =
    rbind (collect_results (blob_opening BN) pcs) (\<lambda>vs.
      Inr (zs @ map (\<lambda>(p, C). blob_challenge BN p C) pcs, ys @ vs))"
proof (induction pcs arbitrary: zs ys)
  case (Cons pc pcs)
  obtain p C where pc: "pc = (p, C)" by fastforce
  have "blob_opening BN (p, C) =
      evaluate_polynomial_in_evaluation_form (bn_fr_inverse BN) p (blob_challenge BN p C)"
    by (simp add: blob_opening_def)
  then show ?case unfolding pc
    by (cases "evaluate_polynomial_in_evaluation_form (bn_fr_inverse BN) p (blob_challenge BN p C)";
        cases "collect_results (blob_opening BN) pcs")
       (simp_all add: compute_challenge_eq [OF assms] Cons.IH)
qed simp

lemma orbind_Ret: "orbind (Ret r) (\<lambda>x. Ret (f x)) = Ret (rbind r f)"
  by (cases r) simp_all

lemma orbind_Ret_cong:
  assumes "\<And>x. r = Inr x \<Longrightarrow> f x = Ret (g x)"
  shows "orbind (Ret r) f = Ret (rbind r g)"
  using assms by (cases r) simp_all

lemma verify_decision:
  assumes "bn_lawful BN \<tau>" "length Cs = length polys" "length Ps = length polys" "polys \<noteq> []"
  shows "orbind (Ret (compute_challenges_and_evaluate_polynomial BN polys Cs)) (\<lambda>(zs, ys).
      verify_kzg_proof_batch BN Cs zs ys Ps (map (\<lambda>poly. of_nat (poly_len poly)) polys)) =
    Ret (rbind (collect_results (blob_opening BN) (zip polys Cs)) (\<lambda>ys.
      Inr (batch_decision BN \<tau> polys Cs Ps ys)))"
proof (cases "collect_results (blob_opening BN) (zip polys Cs)")
  case (Inl e)
  then show ?thesis using assms(2)
    by (simp add: compute_challenges_and_evaluate_polynomial_def challenges_loop_eq [OF assms(1)])
next
  case (Inr ys)
  then have "length ys = length polys" using collect_results_length assms(2) by fastforce
  then show ?thesis using assms Inr
    by (simp add: compute_challenges_and_evaluate_polynomial_def challenges_loop_eq [OF assms(1)]
        verify_kzg_proof_batch_eq [OF assms(1), of _ "length polys"] batch_decision_def Let_def
        batch_equation_def)
qed

lemma verify_blob_kzg_proof_batch_eq:
  assumes "bn_lawful BN \<tau>"
  shows "verify_blob_kzg_proof_batch BN blobs commitments proofs = Ret (kzg_batch_spec BN \<tau> blobs commitments proofs)"
  unfolding verify_blob_kzg_proof_batch_def kzg_batch_spec_def Let_def
  by (intro orbind_Ret_cong) (simp add: verify_decision [OF assms])

lemma batch_verify_eq:
  assumes "bn_lawful BN \<tau>"
  shows "batch_verify BN blobs commitments proofs =
    Ret (kzg_batch_spec BN \<tau> blobs commitments proofs = Inr True)"
  by (cases "kzg_batch_spec BN \<tau> blobs commitments proofs")
     (simp_all add: batch_verify_def verify_blob_kzg_proof_batch_eq [OF assms])

lemma kzg_batch_spec_True:
  "kzg_batch_spec BN \<tau> blobs commitments proofs = Inr True \<longleftrightarrow>
     (\<exists>polys Cs Ps ys.
        list_all2 (\<lambda>b p. blob_to_poly BN b = Inr p) blobs polys \<and>
        list_all2 (\<lambda>c C. g1_point_to_affine BN c = Inr C) commitments Cs \<and>
        list_all2 (\<lambda>p P. proof_bytes_to_affine BN p = Inr P) proofs Ps \<and>
        length Cs = length polys \<and> length Ps = length polys \<and>
        list_all2 (\<lambda>pc y. blob_opening BN pc = Inr y) (zip polys Cs) ys \<and>
        (polys = [] \<or> batch_decision BN \<tau> polys Cs Ps ys))"
proof -
  have "rbind (collect_results (blob_opening BN) pcs) (\<lambda>ys. Inr (batch_decision BN \<tau> polys Cs Ps ys)) = Inr True \<longleftrightarrow>
      (\<exists>ys. list_all2 (\<lambda>pc y. blob_opening BN pc = Inr y) pcs ys \<and> batch_decision BN \<tau> polys Cs Ps ys)"
    for pcs polys Cs Ps
    by (simp add: rbind_eq_Inr collect_results_Inr)
  then have "(if length Cs \<noteq> length polys \<or> length Ps \<noteq> length polys
       then Inl (GenericError ''length's of the input are not the same'')
       else if polys = [] then Inr True
       else rbind (collect_results (blob_opening BN) (zip polys Cs)) (\<lambda>ys.
         Inr (batch_decision BN \<tau> polys Cs Ps ys))) = Inr True \<longleftrightarrow>
      (\<exists>ys. length Cs = length polys \<and> length Ps = length polys \<and>
        list_all2 (\<lambda>pc y. blob_opening BN pc = Inr y) (zip polys Cs) ys \<and>
        (polys = [] \<or> batch_decision BN \<tau> polys Cs Ps ys))" for polys Cs Ps
    by auto
  then show ?thesis
    unfolding kzg_batch_spec_def rbind_eq_Inr collect_results_Inr by (simp only:) blast
qed

section \<open>Openings\<close>

text \<open>The polynomial a blob stands for: its coefficients \<open>c\<close> below the padded length \<open>n\<close>, given by the
  blob's elements, and zeros, as values at the powers of the root of unity of the table.\<close>

definition blob_interpolant :: "bytes \<Rightarrow> nat \<Rightarrow> (nat \<Rightarrow> Fr) \<Rightarrow> bool" where
  "blob_interpolant blob n c \<longleftrightarrow>
     (\<exists>xs k w. blob = concat (map fr_be xs) \<and> xs \<noteq> [] \<and> n = 2 ^ k \<and> n = next_power_of_two (length xs) \<and>
        get_primitive_root_of_unity k = Some w \<and>
        (\<forall>i<n. poly_value c n (w ^ i) = (if i < length xs then xs ! i else 0)))"

lemma constant_interpolant: "blob_interpolant (fr_be v) 1 (\<lambda>_. v)"
proof -
  have "get_primitive_root_of_unity 0 = Some 1"
    using root_table_start(1) by (simp add: get_primitive_root_of_unity_def)
  then show ?thesis
    unfolding blob_interpolant_def
    by (intro exI [of _ "[v]"] exI [of _ 0] exI [of _ 1]) (simp add: poly_value_def next_power_of_two.simps)
qed

lemma concat_fr_be_inj:
  assumes "concat (map fr_be xs) = concat (map fr_be ys)"
  shows "xs = ys"
proof -
  have "chunks 32 (concat (map fr_be zs)) = map fr_be zs" for zs by (rule chunks_concat) auto
  then have "map fr_be xs = map fr_be ys" using assms by metis
  moreover have "inj fr_be" by (rule injI) simp
  ultimately show ?thesis by simp
qed

lemma blob_to_poly_Inr:
  assumes "slice_unreduced (bn_fr_from_slice BN)" "blob_to_poly BN b = Inr p"
  obtains xs where "b = concat (map fr_be xs)" "PolynomialEvalForm_new xs = Inr p"
  using assms to_fr_array_canonical_Inr_iff [OF assms(1)] by (auto simp: blob_to_poly_def rbind_eq_Inr)

lemma PolynomialEvalForm_new_nth:
  assumes "PolynomialEvalForm_new xs = Inr p" "i < next_power_of_two (length xs)"
  shows "evaluations p ! i = (if i < length xs then xs ! i else 0)"
  using assms by (auto simp: PolynomialEvalForm_new_def nth_append split: if_splits)

lemma evaluate_empty:
  assumes "PolynomialEvalForm_new [] = Inr p"
  shows "evaluate_polynomial_in_evaluation_form inverse_of p z =
    Inl (GenericError ''Length of data after padding is 0'')"
  using assms by (auto simp: PolynomialEvalForm_new_def evaluate_polynomial_in_evaluation_form_def
      calculate_roots_of_unity_def split: if_splits)

text \<open>A value \<open>evaluate\<close> returns is that of the blob's polynomial, which exists.\<close>

lemma opening_value:
  assumes "slice_unreduced (bn_fr_from_slice BN)" "inverse_sound (bn_fr_inverse BN)"
    and "blob_to_poly BN b = Inr p"
    and "evaluate_polynomial_in_evaluation_form (bn_fr_inverse BN) p z = Inr y"
    and "blob_interpolant b n c"
  shows "y = poly_value c n z"
proof -
  obtain xs where xs: "b = concat (map fr_be xs)" "PolynomialEvalForm_new xs = Inr p"
    using blob_to_poly_Inr [OF assms(1,3)] .
  obtain k w where c: "xs \<noteq> []" "n = 2 ^ k" "n = next_power_of_two (length xs)"
    "get_primitive_root_of_unity k = Some w"
    "\<And>i. i < n \<Longrightarrow> poly_value c n (w ^ i) = (if i < length xs then xs ! i else 0)"
    using assms(5) xs(1) concat_fr_be_inj unfolding blob_interpolant_def by metis
  obtain k' w' where k: "root_level k' w'" "k' \<le> 28"
    "calculate_roots_of_unity (len_underlying_blob_bytes p) = Inr (map (\<lambda>i. w' ^ i) [0..<2 ^ k'])"
    "get_primitive_root_of_unity k' = Some w'" "next_power_of_two (length xs) = 2 ^ k'"
    using PolynomialEvalForm_new_roots [OF xs(2) c(1)] by blast
  have "k' = k" using k(5) c(2,3) by simp
  then have "w' = w" using k(4) c(4) by simp
  have "y = poly_value c (2 ^ k) z"
    using evaluate_interpolates [OF assms(2,4) k(1-3)] PolynomialEvalForm_new_nth [OF xs(2)] c(2,3,5)
    unfolding \<open>k' = k\<close> \<open>w' = w\<close> by simp
  then show ?thesis using c(2) by simp
qed

lemma opening_interpolant:
  assumes "slice_unreduced (bn_fr_from_slice BN)" "inverse_sound (bn_fr_inverse BN)"
    and "blob_to_poly BN b = Inr p"
    and "evaluate_polynomial_in_evaluation_form (bn_fr_inverse BN) p z = Inr y"
  obtains n c where "blob_interpolant b n c"
proof -
  obtain xs where xs: "b = concat (map fr_be xs)" "PolynomialEvalForm_new xs = Inr p"
    using blob_to_poly_Inr [OF assms(1,3)] .
  have ne: "xs \<noteq> []" using xs(2) assms(4) evaluate_empty by force
  obtain k w where k: "root_level k w" "k \<le> 28" "length (evaluations p) = 2 ^ k"
    "calculate_roots_of_unity (len_underlying_blob_bytes p) = Inr (map (\<lambda>i. w ^ i) [0..<2 ^ k])"
    "get_primitive_root_of_unity k = Some w" "next_power_of_two (length xs) = 2 ^ k"
    using PolynomialEvalForm_new_roots [OF xs(2) ne] .
  obtain u where u: "of_nat (2 ^ k) * u = (1 :: Fr)"
    using evaluate_inverts_width [OF assms(2,4) k(3,4)] .
  obtain c where c: "\<And>i. i < 2 ^ k \<Longrightarrow> (if i < length xs then xs ! i else 0) = poly_value c (2 ^ k) (w ^ i)"
    by (rule interpolation_exists [OF k(1) refl u, where f = "\<lambda>i. if i < length xs then xs ! i else 0"]) blast
  have "blob_interpolant b (2 ^ k) c"
    unfolding blob_interpolant_def by (rule exI [of _ xs], rule exI [of _ k], rule exI [of _ w]) (use xs ne k c in auto)
  then show thesis by (rule that)
qed

section \<open>Honest openings\<close>

text \<open>The value at \<open>x\<close> of the quotient of \<open>p(X) - p(z)\<close> by \<open>X - z\<close>.\<close>

definition quotient_value :: "(nat \<Rightarrow> Fr) \<Rightarrow> nat \<Rightarrow> Fr \<Rightarrow> Fr \<Rightarrow> Fr" where
  "quotient_value c n z x = (\<Sum>j<n. c j * (\<Sum>p<j. x ^ p * z ^ (j - 1 - p)))"

lemma quotient_value:
  "(x - z) * quotient_value c n z x = poly_value c n x - poly_value c n z"
proof -
  have "(x - z) * (\<Sum>p<j. x ^ p * z ^ (j - 1 - p)) = x ^ j - z ^ j" for j
    using diff_power_eq_sum [of x "j - 1" z] by (cases j) simp_all
  then have "(x - z) * (c j * (\<Sum>p<j. x ^ p * z ^ (j - 1 - p))) = c j * x ^ j - c j * z ^ j" for j
    by (simp only: mult.left_commute [of "x - z"] right_diff_distrib)
  then show ?thesis
    by (simp only: quotient_value_def poly_value_def sum_distrib_left sum_subtractf)
qed

lemma honest_residual:
  assumes "module (bn_scale BN)"
  shows "kzg_residual BN \<tau> (bn_scale BN (poly_value c n \<tau>) (bn_g1_one BN)) z (poly_value c n z)
    (bn_scale BN (quotient_value c n z \<tau>) (bn_g1_one BN)) = 0"
  unfolding kzg_residual_def
  by (simp add: module.scale_scale [OF assms] quotient_value module.scale_left_diff_distrib [OF assms])

lemma batch_equation_zero:
  assumes "module (bn_scale BN)" "\<And>i. i < length Cs \<Longrightarrow> kzg_residual BN \<tau> (Cs ! i) (zs ! i) (ys ! i) (Ps ! i) = 0"
  shows "batch_equation BN \<tau> r Cs zs ys Ps"
  using assms(2) by (simp add: batch_equation_def module.scale_zero_right [OF assms(1)])

section \<open>From the batch to the single equations\<close>

text \<open>Polynomials over a module in Horner form, and division by a linear factor.\<close>

fun horner :: "(Fr \<Rightarrow> 'g \<Rightarrow> 'g) \<Rightarrow> 'g::ab_group_add list \<Rightarrow> Fr \<Rightarrow> 'g" where
  "horner s [] x = 0"
| "horner s (v # vs) x = v + s x (horner s vs x)"

fun linear_quotient :: "(Fr \<Rightarrow> 'g \<Rightarrow> 'g) \<Rightarrow> Fr \<Rightarrow> 'g::ab_group_add list \<Rightarrow> 'g list" where
  "linear_quotient s a [] = []"
| "linear_quotient s a [v] = []"
| "linear_quotient s a (v # vs) = horner s vs a # linear_quotient s a vs"

lemma length_linear_quotient: "length (linear_quotient s a vs) = length vs - 1"
  by (induction s a vs rule: linear_quotient.induct) simp_all

lemma horner_zeros:
  assumes "module s" "set vs \<subseteq> {0}"
  shows "horner s vs x = 0"
  using assms(2) by (induction vs) (simp_all add: module.scale_zero_right [OF assms(1)])

lemma horner_division:
  assumes "module s"
  shows "horner s vs x = horner s vs a + s (x - a) (horner s (linear_quotient s a vs) x)"
proof (induction vs rule: induct_list012)
  case 1
  then show ?case by (simp add: module.scale_zero_right [OF assms])
next
  case (2 v)
  then show ?case by (simp add: module.scale_zero_right [OF assms])
next
  case (3 v v' vs)
  let ?h = "horner s (v' # vs) a" and ?q = "horner s (linear_quotient s a (v' # vs)) x"
  have "s x (horner s (v' # vs) x) = s x ?h + s (x - a) (s x ?q)"
    by (subst 3(2)) (simp add: module.scale_right_distrib [OF assms] module.scale_scale [OF assms] mult.commute
        del: horner.simps)
  also have "\<dots> = s a ?h + s (x - a) (?h + s x ?q)"
    by (simp add: module.scale_right_distrib [OF assms] module.scale_left_diff_distrib [OF assms]
        del: horner.simps(2))
  finally show ?case by (simp add: add.assoc)
qed

lemma linear_quotient_zero:
  assumes "module s" "set (linear_quotient s a vs) \<subseteq> {0}" "horner s vs a = 0"
  shows "set vs \<subseteq> {0}"
  using assms(2,3)
proof (induction vs rule: induct_list012)
  case (3 v v' vs)
  have q: "horner s (v' # vs) a = 0" "set (linear_quotient s a (v' # vs)) \<subseteq> {0}"
    using 3(3) by simp_all
  then have "set (v' # vs) \<subseteq> {0}" using 3(2) by blast
  moreover have "v + s a (horner s (v' # vs) a) = 0" using 3(4) by simp
  then have "v = 0" unfolding q(1) by (simp add: module.scale_zero_right [OF assms(1)])
  ultimately show ?case by simp
qed (simp_all add: module.scale_zero_right [OF assms(1)])

text \<open>Challenges that differ pairwise by invertible elements.\<close>

fun separated :: "Fr list \<Rightarrow> bool" where
  "separated [] \<longleftrightarrow> True"
| "separated (r # rs) \<longleftrightarrow> (\<forall>x\<in>set rs. \<exists>u. u * (x - r) = 1) \<and> separated rs"

lemma horner_roots:
  assumes "module s" "separated rs" "length vs \<le> length rs" "\<forall>r\<in>set rs. horner s vs r = 0"
  shows "set vs \<subseteq> {0}"
  using assms(2-4)
proof (induction rs arbitrary: vs)
  case (Cons r rs)
  let ?q = "linear_quotient s r vs"
  have "horner s ?q x = 0" if "x \<in> set rs" for x
  proof -
    have "\<forall>x\<in>set rs. \<exists>u. u * (x - r) = 1" using Cons.prems(1) by simp
    then obtain u where u: "u * (x - r) = 1" using \<open>x \<in> set rs\<close> by blast
    have "horner s vs x = 0" "horner s vs r = 0" using Cons.prems(3) that by (blast intro: list.set_intros)+
    then have "s (x - r) (horner s ?q x) = 0"
      using horner_division [OF assms(1), of vs x r] by (simp only: add_0_left)
    then have "s (u * (x - r)) (horner s ?q x) = 0"
      by (simp only: module.scale_scale [OF assms(1), symmetric] module.scale_zero_right [OF assms(1)])
    then show ?thesis by (simp only: u module.scale_one [OF assms(1)])
  qed
  then have "set ?q \<subseteq> {0}"
    using Cons.prems by (intro Cons.IH) (auto simp: length_linear_quotient)
  moreover have "horner s vs r = 0" using Cons.prems(3) by simp
  ultimately show ?case by (rule linear_quotient_zero [OF assms(1)])
qed simp

lemma horner_sum:
  assumes "module s"
  shows "horner s (map f [0..<n]) r = (\<Sum>i<n. s (r ^ i) (f i))"
proof (induction n arbitrary: f)
  case (Suc n)
  have "map f [0..<Suc n] = f 0 # map (\<lambda>i. f (Suc i)) [0..<n]"
    by (simp only: upt_conv_Cons [OF zero_less_Suc] map_Suc_upt [symmetric] list.map map_map comp_def)
  then have "horner s (map f [0..<Suc n]) r = f 0 + s r (\<Sum>i<n. s (r ^ i) (f (Suc i)))"
    using Suc.IH by simp
  also have "\<dots> = (\<Sum>i<Suc n. s (r ^ i) (f i))"
    by (simp add: sum.lessThan_Suc_shift module.scale_sum_right [OF assms] module.scale_scale [OF assms]
        module.scale_one [OF assms] del: sum.lessThan_Suc)
  finally show ?case .
qed simp

lemma batch_equation_separated:
  assumes "module (bn_scale BN)" "separated rs" "length Cs \<le> length rs"
    and "\<forall>r\<in>set rs. batch_equation BN \<tau> r Cs zs ys Ps" "i < length Cs"
  shows "kzg_residual BN \<tau> (Cs ! i) (zs ! i) (ys ! i) (Ps ! i) = 0"
proof -
  let ?f = "\<lambda>i. kzg_residual BN \<tau> (Cs ! i) (zs ! i) (ys ! i) (Ps ! i)"
  have "set (map ?f [0..<length Cs]) \<subseteq> {0}"
    using assms(3,4) by (intro horner_roots [OF assms(1,2)]) (simp_all add: horner_sum [OF assms(1)] batch_equation_def)
  moreover have "?f i \<in> set (map ?f [0..<length Cs])" using assms(5) by simp
  ultimately show ?thesis by blast
qed

section \<open>Accepted batches\<close>

definition interpolants :: "bytes list \<Rightarrow> (nat \<times> (nat \<Rightarrow> Fr)) list \<Rightarrow> bool" where
  "interpolants blobs ncs \<longleftrightarrow> list_all2 (\<lambda>b (n, c). blob_interpolant b n c) blobs ncs"

definition decoded_points ::
    "('q, 'g::ab_group_add, 'h, 't) bn_ops \<Rightarrow> G1Point list \<Rightarrow> u512 list \<Rightarrow> 'g list \<Rightarrow> 'g list \<Rightarrow> bool" where
  "decoded_points BN commitments proofs Cs Ps \<longleftrightarrow>
     list_all2 (\<lambda>c C. g1_point_to_affine BN c = Inr C) commitments Cs \<and>
     list_all2 (\<lambda>p P. proof_bytes_to_affine BN p = Inr P) proofs Ps"

lemma openings_interpolants:
  assumes "slice_unreduced (bn_fr_from_slice BN)" "inverse_sound (bn_fr_inverse BN)"
    and "list_all2 (\<lambda>b p. blob_to_poly BN b = Inr p) blobs polys" "length Cs = length polys"
    and "list_all2 (\<lambda>pc y. blob_opening BN pc = Inr y) (zip polys Cs) ys"
  obtains ncs where "interpolants blobs ncs"
proof -
  have "\<exists>nc. blob_interpolant (blobs ! i) (fst nc) (snd nc)" if "i < length blobs" for i
  proof -
    have l: "length polys = length blobs" using list_all2_lengthD [OF assms(3)] by simp
    then have p: "blob_to_poly BN (blobs ! i) = Inr (polys ! i)"
      using list_all2_nthD [OF assms(3) that] by simp
    have "evaluate_polynomial_in_evaluation_form (bn_fr_inverse BN) (polys ! i)
        (blob_challenge BN (polys ! i) (Cs ! i)) = Inr (ys ! i)"
      using list_all2_nthD [OF assms(5), of i] that l assms(4) by (simp add: blob_opening_def)
    from opening_interpolant [OF assms(1,2) p this]
    obtain n c where "blob_interpolant (blobs ! i) n c" .
    then show ?thesis by (intro exI [of _ "(n, c)"]) simp
  qed
  then obtain f where "\<And>i. i < length blobs \<Longrightarrow> blob_interpolant (blobs ! i) (fst (f i)) (snd (f i))" by metis
  then have "interpolants blobs (map f [0..<length blobs])"
    unfolding interpolants_def list_all2_conv_all_nth by (simp add: split_beta)
  then show thesis by (rule that)
qed

lemma openings_values:
  assumes "slice_unreduced (bn_fr_from_slice BN)" "inverse_sound (bn_fr_inverse BN)"
    and "list_all2 (\<lambda>b p. blob_to_poly BN b = Inr p) blobs polys" "length Cs = length polys"
    and "list_all2 (\<lambda>pc y. blob_opening BN pc = Inr y) (zip polys Cs) ys" "interpolants blobs ncs"
  shows "ys = map (\<lambda>((n, c), z). poly_value c n z)
    (zip ncs (map (\<lambda>(p, C). blob_challenge BN p C) (zip polys Cs)))"
proof (rule nth_equalityI)
  have l: "length polys = length blobs" "length ncs = length blobs" "length ys = length blobs"
    using list_all2_lengthD [OF assms(3)] list_all2_lengthD [OF assms(5)] assms(4,6)
    by (auto simp: interpolants_def dest: list_all2_lengthD)
  then show "length ys = length (map (\<lambda>((n, c), z). poly_value c n z)
    (zip ncs (map (\<lambda>(p, C). blob_challenge BN p C) (zip polys Cs))))" using assms(4) by simp
  fix i
  assume i: "i < length ys"
  obtain n c where nc: "ncs ! i = (n, c)" by fastforce
  have "blob_to_poly BN (blobs ! i) = Inr (polys ! i)" using list_all2_nthD [OF assms(3)] i l by simp
  moreover have "blob_opening BN (polys ! i, Cs ! i) = Inr (ys ! i)"
    using list_all2_nthD [OF assms(5), of i] i l assms(4) by simp
  moreover have "blob_interpolant (blobs ! i) n c"
    using list_all2_nthD [OF assms(6) [unfolded interpolants_def], of i] i l nc by simp
  ultimately have "ys ! i = poly_value c n (blob_challenge BN (polys ! i) (Cs ! i))"
    using opening_value [OF assms(1,2)] unfolding blob_opening_def by simp
  then show "ys ! i = map (\<lambda>((n, c), z). poly_value c n z)
    (zip ncs (map (\<lambda>(p, C). blob_challenge BN p C) (zip polys Cs))) ! i"
    using i l assms(4) nc by simp
qed

text \<open>The polynomials, points and openings of an accepted batch.\<close>

lemma batch_verify_accepts:
  assumes "bn_lawful BN \<tau>" "slice_unreduced (bn_fr_from_slice BN)" "inverse_sound (bn_fr_inverse BN)"
    and "batch_verify BN blobs commitments proofs = Ret True"
  obtains polys ncs Cs Ps zs where
    "list_all2 (\<lambda>b p. blob_to_poly BN b = Inr p) blobs polys" "interpolants blobs ncs"
    "decoded_points BN commitments proofs Cs Ps"
    "zs = map (\<lambda>(p, C). blob_challenge BN p C) (zip polys Cs)"
    "length Cs = length blobs" "length Ps = length blobs"
    "\<exists>r. batch_equation BN \<tau> r Cs zs (map (\<lambda>((n, c), z). poly_value c n z) (zip ncs zs)) Ps \<and>
       r = batch_challenge BN Cs zs (map (\<lambda>((n, c), z). poly_value c n z) (zip ncs zs)) Ps
         (map (\<lambda>p. of_nat (poly_len p)) polys)"
proof -
  obtain polys Cs Ps ys where
    polys: "list_all2 (\<lambda>b p. blob_to_poly BN b = Inr p) blobs polys" and
    points: "decoded_points BN commitments proofs Cs Ps" and
    l: "length Cs = length polys" "length Ps = length polys" and
    ys: "list_all2 (\<lambda>pc y. blob_opening BN pc = Inr y) (zip polys Cs) ys" and
    eq: "polys = [] \<or> batch_decision BN \<tau> polys Cs Ps ys"
    using assms(4) unfolding batch_verify_eq [OF assms(1)] outcome.inject eq_True kzg_batch_spec_True
      decoded_points_def by blast
  obtain ncs where ncs: "interpolants blobs ncs" using openings_interpolants [OF assms(2,3) polys l(1) ys] .
  note ys' = openings_values [OF assms(2,3) polys l(1) ys ncs]
  have "length polys = length blobs" using list_all2_lengthD [OF polys] by simp
  moreover have "batch_decision BN \<tau> polys Cs Ps ys"
    using eq l(1) by (auto simp: batch_decision_def Let_def batch_equation_def)
  ultimately show thesis
    using that [OF polys ncs points refl] l unfolding ys' batch_decision_def Let_def by simp
qed

text \<open>Commitments and proofs as an honest prover makes them.\<close>

definition honest_commitments ::
    "('q, 'g::ab_group_add, 'h, 't) bn_ops \<Rightarrow> Fr \<Rightarrow> (nat \<times> (nat \<Rightarrow> Fr)) list \<Rightarrow> 'g list" where
  "honest_commitments BN \<tau> ncs = map (\<lambda>(n, c). bn_scale BN (poly_value c n \<tau>) (bn_g1_one BN)) ncs"

definition honest_proofs ::
    "('q, 'g::ab_group_add, 'h, 't) bn_ops \<Rightarrow> Fr \<Rightarrow> (nat \<times> (nat \<Rightarrow> Fr)) list \<Rightarrow> PolynomialEvalForm list \<Rightarrow> 'g list" where
  "honest_proofs BN \<tau> ncs polys =
     map (\<lambda>((n, c), p, C). bn_scale BN (quotient_value c n (blob_challenge BN p C) \<tau>) (bn_g1_one BN))
       (zip ncs (zip polys (honest_commitments BN \<tau> ncs)))"

lemma honest_batch_accepts:
  assumes "bn_lawful BN \<tau>" "slice_unreduced (bn_fr_from_slice BN)" "inverse_sound (bn_fr_inverse BN)"
    and polys: "list_all2 (\<lambda>b p. blob_to_poly BN b = Inr p) blobs polys" and ncs: "interpolants blobs ncs"
    and points: "decoded_points BN commitments proofs (honest_commitments BN \<tau> ncs) (honest_proofs BN \<tau> ncs polys)"
    and ys: "list_all2 (\<lambda>pc y. blob_opening BN pc = Inr y) (zip polys (honest_commitments BN \<tau> ncs)) ys"
  shows "batch_verify BN blobs commitments proofs = Ret True"
proof -
  let ?Cs = "honest_commitments BN \<tau> ncs" and ?Ps = "honest_proofs BN \<tau> ncs polys"
  let ?zs = "map (\<lambda>(p, C). blob_challenge BN p C) (zip polys ?Cs)"
  have l: "length polys = length blobs" "length ncs = length blobs"
    using list_all2_lengthD [OF polys] ncs by (auto simp: interpolants_def dest: list_all2_lengthD)
  have lC: "length ?Cs = length polys" "length ?Ps = length polys"
    using l by (simp_all add: honest_commitments_def honest_proofs_def)
  have ys': "ys = map (\<lambda>((n, c), z). poly_value c n z) (zip ncs ?zs)"
    by (rule openings_values [OF assms(2,3) polys lC(1) ys ncs])
  have "kzg_residual BN \<tau> (?Cs ! i) (?zs ! i) (ys ! i) (?Ps ! i) = 0" if "i < length ?Cs" for i
  proof -
    obtain n c where nc: "ncs ! i = (n, c)" by fastforce
    have C: "?Cs ! i = bn_scale BN (poly_value c n \<tau>) (bn_g1_one BN)"
      using that lC l nc by (simp add: honest_commitments_def)
    have z: "?zs ! i = blob_challenge BN (polys ! i) (?Cs ! i)" using that lC by simp
    have P: "?Ps ! i = bn_scale BN (quotient_value c n (?zs ! i) \<tau>) (bn_g1_one BN)"
      using that lC l nc z by (simp add: honest_proofs_def)
    have y: "ys ! i = poly_value c n (?zs ! i)" using that lC l nc by (simp add: ys')
    show ?thesis unfolding C P y by (rule honest_residual [OF bn_lawful_module [OF assms(1)]])
  qed
  then have "batch_decision BN \<tau> polys ?Cs ?Ps ys"
    unfolding batch_decision_def Let_def by (intro batch_equation_zero [OF bn_lawful_module [OF assms(1)]])
  then have "kzg_batch_spec BN \<tau> blobs commitments proofs = Inr True"
    unfolding kzg_batch_spec_True using polys points lC ys unfolding decoded_points_def by blast
  then show ?thesis by (simp add: batch_verify_eq [OF assms(1)])
qed

end
