(* ===== verification/Kzg_Transcript.thy ===== *)
theory Kzg_Transcript
  imports Kzg_Batch
begin

text \<open>
  The two Fiat-Shamir transcripts of the KZG verifier in closed form: what \<open>compute_challenge\<close> and
  \<open>compute_r_powers\<close> of \<open>crates/sp1-bn-verifier\<close> hash, and that the hashed bytes determine the field
  elements, lengths and serialised points they stand for.
\<close>

lemma write_at_end: "length a = off \<Longrightarrow> write_at off v (a @ b) = (a @ v) @ drop (length v) b"
  by (simp add: write_at_def)

section \<open>Sizes\<close>

text \<open>\<open>Fq::to_big_endian\<close> fills the 32 bytes of the slice it is given.\<close>

definition fq_bytes_fixed :: "('q, 'g, 'h, 't) bn_ops \<Rightarrow> bool" where
  "fq_bytes_fixed BN \<longleftrightarrow> (\<forall>v. length (bn_fq_to_big_endian BN v) = 32)"

lemma length_serialize_g1 [simp]: "fq_bytes_fixed BN \<Longrightarrow> length (serialize_g1_compressed BN P) = 32"
  by (simp add: serialize_g1_compressed_def fq_to_le_bytes_def fq_bytes_fixed_def Let_def)

lemma length_serialize_fr_le [simp]: "length (serialize_fr_le x) = 32"
  by (simp add: serialize_fr_le_def)

lemma serialize_fr_le_inj [simp]: "serialize_fr_le x = serialize_fr_le y \<longleftrightarrow> x = y"
  using fr_be_inj [of x y] by (simp add: serialize_fr_le_def fr_be_def)

lemma length_batch_domain: "length (ascii_bytes RANDOM_CHALLENGE_KZG_BATCH_DOMAIN) = 24"
  by (simp add: ascii_bytes_def RANDOM_CHALLENGE_KZG_BATCH_DOMAIN_def)

lemma length_ascii_bytes [simp]: "length (ascii_bytes s) = length s"
  by (simp add: ascii_bytes_def)

lemma concat_blocks_inj:
  assumes "concat (map f xs) @ u = concat (map f ys) @ v" "length xs = length ys"
    and "\<And>x. length (f x) = k" "0 < k"
  shows "map f xs = map f ys \<and> u = v"
proof -
  have "length (concat (map f xs)) = length (concat (map f ys))"
    using assms(2,3) by (simp add: length_concat comp_def sum_list_triv)
  then have "concat (map f xs) = concat (map f ys)" "u = v" using assms(1) by auto
  moreover have "chunks k (concat (map f zs)) = map f zs" for zs
    using assms(3,4) by (intro chunks_concat) auto
  ultimately show ?thesis by metis
qed

section \<open>The challenge of a blob\<close>

lemma challenge_input_eq:
  assumes "fq_bytes_fixed BN"
  shows "challenge_input BN p C =
    ascii_bytes FIAT_SHAMIR_PROTOCOL_DOMAIN @ u64_be (of_nat (poly_len p)) @
    concat (map fr_be (evaluations p)) @ serialize_g1_compressed BN C"
proof -
  let ?D = "ascii_bytes FIAT_SHAMIR_PROTOCOL_DOMAIN" and ?B = "concat (map fr_be (evaluations p))"
  have B: "length ?B = poly_len p * 32" by (simp add: poly_len_def length_concat comp_def sum_list_triv)
  have t: "to_byte_array (evaluations p) (poly_len p * 32) = ?B"
    by (simp add: poly_len_def to_byte_array_full)
  have "write_at 0 ?D (replicate (length ?D + 8 + poly_len p * 32 + SIZE_OF_G1_AFFINE_COMPRESSED) 0) =
      ?D @ replicate (8 + poly_len p * 32 + SIZE_OF_G1_AFFINE_COMPRESSED) 0"
    by (simp add: write_at_def)
  moreover have "write_at (0 + length ?D) (usize_to_be_bytes (poly_len p))
       (?D @ replicate (8 + poly_len p * 32 + SIZE_OF_G1_AFFINE_COMPRESSED) 0) =
      (?D @ u64_be (of_nat (poly_len p))) @ replicate (poly_len p * 32 + SIZE_OF_G1_AFFINE_COMPRESSED) 0"
    by (subst write_at_end) (simp_all add: usize_to_be_bytes_def)
  moreover have "write_at (0 + length ?D + 8) ?B
       ((?D @ u64_be (of_nat (poly_len p))) @ replicate (poly_len p * 32 + SIZE_OF_G1_AFFINE_COMPRESSED) 0) =
      ((?D @ u64_be (of_nat (poly_len p))) @ ?B) @ replicate SIZE_OF_G1_AFFINE_COMPRESSED 0"
    by (subst write_at_end) (simp_all add: B)
  moreover have "write_at (0 + length ?D + 8 + length ?B) (serialize_g1_compressed BN C)
       (((?D @ u64_be (of_nat (poly_len p))) @ ?B) @ replicate SIZE_OF_G1_AFFINE_COMPRESSED 0) =
      (((?D @ u64_be (of_nat (poly_len p))) @ ?B) @ serialize_g1_compressed BN C)"
    using assms by (subst write_at_end) (simp_all add: SIZE_OF_G1_AFFINE_COMPRESSED_def)
  ultimately show ?thesis
    unfolding challenge_input_def Let_def t by (simp only: append_assoc)
qed

lemma challenge_input_determines:
  assumes "fq_bytes_fixed BN" "challenge_input BN p C = challenge_input BN p' C'"
  shows "evaluations p = evaluations p' \<and> serialize_g1_compressed BN C = serialize_g1_compressed BN C'"
proof -
  have e: "u64_be (of_nat (poly_len p)) @ concat (map fr_be (evaluations p)) @ serialize_g1_compressed BN C =
      u64_be (of_nat (poly_len p')) @ concat (map fr_be (evaluations p')) @ serialize_g1_compressed BN C'"
    using assms(2) unfolding challenge_input_eq [OF assms(1)] same_append_eq .
  have l: "length (evaluations p) = length (evaluations p')"
    using arg_cong [OF e, of length] assms(1) by (simp add: length_concat comp_def sum_list_triv)
  have "concat (map fr_be (evaluations p)) @ serialize_g1_compressed BN C =
      concat (map fr_be (evaluations p')) @ serialize_g1_compressed BN C'"
    using e by simp
  from concat_blocks_inj [OF this l, of 32]
  have "map fr_be (evaluations p) = map fr_be (evaluations p')"
    "serialize_g1_compressed BN C = serialize_g1_compressed BN C'" by simp_all
  moreover have "inj fr_be" by (rule injI) simp
  ultimately show ?thesis by simp
qed

section \<open>The challenge of the batch\<close>

definition entry_bytes ::
    "('q, 'g::ab_group_add, 'h, 't) bn_ops \<Rightarrow> 'g \<times> Fr \<times> Fr \<times> 'g \<Rightarrow> bytes" where
  "entry_bytes BN e = (case e of (C, z, y, P) \<Rightarrow>
     serialize_g1_compressed BN C @ serialize_fr_le z @ serialize_fr_le y @ serialize_g1_compressed BN P)"

text \<open>The lengths are written over the count, except where there is only one.\<close>

definition transcript_gap :: "nat \<Rightarrow> bytes" where
  "transcript_gap n = (if n = 1 then u64_be 1 else replicate 8 0) @ replicate 8 0"

lemma length_transcript_gap [simp]: "length (transcript_gap n) = 16"
  by (simp add: transcript_gap_def)

lemma length_entry_bytes [simp]: "fq_bytes_fixed BN \<Longrightarrow> length (entry_bytes BN e) = 128"
  by (cases e) (simp add: entry_bytes_def)

lemma write_lengths_eq:
  assumes "length a = 24 + 8 * i" "8 * length ls \<le> length b"
  shows "write_lengths i ls (a @ b) = a @ concat (map u64_be ls) @ drop (8 * length ls) b"
  using assms
proof (induction ls arbitrary: i a b)
  case (Cons l ls)
  have "write_lengths i (l # ls) (a @ b) = write_lengths (i + 1) ls ((a @ u64_be l) @ drop 8 b)"
    using write_at_end [OF Cons.prems(1), of "u64_be l" b] by simp
  also have "\<dots> = (a @ u64_be l) @ concat (map u64_be ls) @ drop (8 * length ls) (drop 8 b)"
    using Cons.prems by (intro Cons.IH) simp_all
  finally show ?case by (simp add: add.commute)
qed simp

lemma write_entry:
  assumes "fq_bytes_fixed BN" "length a = offset"
  shows "write_entries BN offset (e # es) (a @ b) =
    write_entries BN (offset + 128) es ((a @ entry_bytes BN e) @ drop 128 b)"
proof -
  obtain C z y P where e: "e = (C, z, y, P)" by (cases e)
  show ?thesis unfolding e entry_bytes_def
    using assms by (simp add: Let_def write_at_def add.commute)
qed

lemma write_entries_eq:
  assumes "fq_bytes_fixed BN" "length a = offset"
  shows "fst (write_entries BN offset es (a @ b)) =
    a @ concat (map (entry_bytes BN) es) @ drop (128 * length es) b"
  using assms(2)
proof (induction es arbitrary: offset a b)
  case (Cons e es)
  have "fst (write_entries BN offset (e # es) (a @ b)) =
      (a @ entry_bytes BN e) @ concat (map (entry_bytes BN) es) @ drop (128 * length es) (drop 128 b)"
    unfolding write_entry [OF assms(1) Cons.prems] using Cons.prems assms(1) by (intro Cons.IH) simp
  then show ?case by (simp add: add.commute)
qed simp

lemma transcript_header:
  assumes "length blob_lengths = n"
  shows "write_lengths 0 blob_lengths (write_at 32 (usize_to_be_bytes n)
      (write_at 0 (ascii_bytes RANDOM_CHALLENGE_KZG_BATCH_DOMAIN) (replicate (40 + n * 136) 0))) =
    ascii_bytes RANDOM_CHALLENGE_KZG_BATCH_DOMAIN @ concat (map u64_be blob_lengths) @
    transcript_gap n @ replicate (128 * n) 0"
proof -
  let ?D = "ascii_bytes RANDOM_CHALLENGE_KZG_BATCH_DOMAIN"
  let ?b = "replicate 8 0 @ u64_be (of_nat n) @ replicate (136 * n) 0"
  note D = length_batch_domain
  have "write_at 0 ?D (replicate (40 + n * 136) 0) = (?D @ replicate 8 0) @ replicate (8 + 136 * n) 0"
    using D by (simp add: write_at_def mult.commute flip: replicate_add)
  moreover have "write_at 32 (usize_to_be_bytes n) ((?D @ replicate 8 0) @ replicate (8 + 136 * n) 0) = ?D @ ?b"
    using D by (subst write_at_end) (simp_all add: usize_to_be_bytes_def)
  moreover have "write_lengths 0 blob_lengths (?D @ ?b) = ?D @ concat (map u64_be blob_lengths) @ drop (8 * n) ?b"
    using D assms by (subst write_lengths_eq) simp_all
  moreover have "drop (8 * n) ?b = transcript_gap n @ replicate (128 * n) 0"
  proof -
    consider "n = 0" | "n = 1" | m where "n = Suc (Suc m)" by (metis One_nat_def not0_implies_Suc)
    then show ?thesis
    proof cases
      case 1
      then show ?thesis by (simp add: transcript_gap_def u64_be_def)
    next
      case 2
      then show ?thesis by (simp add: transcript_gap_def flip: replicate_add)
    next
      case (3 m)
      then show ?thesis by (simp add: transcript_gap_def flip: replicate_add)
    qed
  qed
  ultimately show ?thesis by simp
qed

lemma r_transcript_eq:
  assumes "fq_bytes_fixed BN" "length Cs = n" "length zs = n" "length ys = n" "length Ps = n"
    and "length blob_lengths = n"
  shows "r_transcript BN Cs zs ys Ps blob_lengths =
    (ascii_bytes RANDOM_CHALLENGE_KZG_BATCH_DOMAIN @ concat (map u64_be blob_lengths) @ transcript_gap n @
     concat (map (entry_bytes BN) (zip Cs (zip zs (zip ys Ps)))), 40 + 136 * n)"
proof (rule prod_eqI)
  let ?D = "ascii_bytes RANDOM_CHALLENGE_KZG_BATCH_DOMAIN" and ?es = "zip Cs (zip zs (zip ys Ps))"
  let ?a = "?D @ concat (map u64_be blob_lengths) @ transcript_gap n"
  have l: "length ?es = n" using assms by simp
  have a: "length ?a = 40 + n * 8"
    using length_batch_domain assms(6)
    by (simp add: length_concat comp_def sum_list_triv transcript_gap_def)
  have h: "write_lengths 0 (take n blob_lengths) (write_at 32 (usize_to_be_bytes n)
      (write_at 0 ?D (replicate (40 + n * 136) 0))) = ?a @ replicate (128 * n) 0"
    using transcript_header [OF assms(6)] assms(6) by simp
  have r: "r_transcript BN Cs zs ys Ps blob_lengths = write_entries BN (40 + n * 8) ?es (?a @ replicate (128 * n) 0)"
    using h by (simp add: r_transcript_def Let_def assms(2))
  show "fst (r_transcript BN Cs zs ys Ps blob_lengths) = fst (?D @ concat (map u64_be blob_lengths) @ transcript_gap n @
     concat (map (entry_bytes BN) ?es), 40 + 136 * n)"
    unfolding r write_entries_eq [OF assms(1) a] l by simp
  show "snd (r_transcript BN Cs zs ys Ps blob_lengths) = snd (?D @ concat (map u64_be blob_lengths) @ transcript_gap n @
     concat (map (entry_bytes BN) ?es), 40 + 136 * n)"
    unfolding r write_entries_offset l by simp
qed

lemma entry_bytes_inj:
  assumes "fq_bytes_fixed BN" "entry_bytes BN (C, z, y, P) = entry_bytes BN (C', z', y', P')"
  shows "serialize_g1_compressed BN C = serialize_g1_compressed BN C' \<and> z = z' \<and> y = y' \<and>
    serialize_g1_compressed BN P = serialize_g1_compressed BN P'"
  using assms by (simp add: entry_bytes_def)

lemma map_zip_entries:
  assumes "map (entry_bytes BN) (zip Cs (zip zs (zip ys Ps))) = map (entry_bytes BN) (zip Cs' (zip zs' (zip ys' Ps')))"
    and "fq_bytes_fixed BN"
    and "length zs = length Cs" "length ys = length Cs" "length Ps = length Cs"
    and "length zs' = length Cs'" "length ys' = length Cs'" "length Ps' = length Cs'" "length Cs = length Cs'"
  shows "map (serialize_g1_compressed BN) Cs = map (serialize_g1_compressed BN) Cs' \<and> zs = zs' \<and> ys = ys' \<and>
    map (serialize_g1_compressed BN) Ps = map (serialize_g1_compressed BN) Ps'"
proof -
  let ?n = "length Cs"
  have e: "serialize_g1_compressed BN (Cs ! i) = serialize_g1_compressed BN (Cs' ! i) \<and> zs ! i = zs' ! i \<and>
      ys ! i = ys' ! i \<and> serialize_g1_compressed BN (Ps ! i) = serialize_g1_compressed BN (Ps' ! i)"
    if "i < ?n" for i
    using arg_cong [OF assms(1), of "\<lambda>xs. xs ! i"] assms(3-) that by (intro entry_bytes_inj [OF assms(2)]) simp
  show ?thesis
    by (intro conjI nth_equalityI) (use assms(3-) e in simp_all)
qed

lemma r_transcript_determines:
  assumes "fq_bytes_fixed BN"
    and "length zs = length Cs" "length ys = length Cs" "length Ps = length Cs" "length ls = length Cs"
    and "length zs' = length Cs'" "length ys' = length Cs'" "length Ps' = length Cs'" "length ls' = length Cs'"
    and "fst (r_transcript BN Cs zs ys Ps ls) = fst (r_transcript BN Cs' zs' ys' Ps' ls')"
  shows "map (serialize_g1_compressed BN) Cs = map (serialize_g1_compressed BN) Cs' \<and> zs = zs' \<and> ys = ys' \<and>
    map (serialize_g1_compressed BN) Ps = map (serialize_g1_compressed BN) Ps' \<and> ls = ls'"
proof -
  let ?E = "concat (map (entry_bytes BN) (zip Cs (zip zs (zip ys Ps))))"
  let ?E' = "concat (map (entry_bytes BN) (zip Cs' (zip zs' (zip ys' Ps'))))"
  have e: "concat (map u64_be ls) @ transcript_gap (length Cs) @ ?E =
      concat (map u64_be ls') @ transcript_gap (length Cs') @ ?E'"
    using assms(10)
    unfolding r_transcript_eq [OF assms(1) refl assms(2-5)] r_transcript_eq [OF assms(1) refl assms(6-9)]
      fst_conv same_append_eq .
  have n: "length Cs = length Cs'"
    using arg_cong [OF e, of length] assms(1-9)
    by (simp add: length_concat comp_def sum_list_triv)
  have ls: "map u64_be ls = map u64_be ls' \<and> transcript_gap (length Cs) @ ?E = transcript_gap (length Cs') @ ?E'"
    using n assms(5,9) by (intro concat_blocks_inj [OF e, of 8]) simp_all
  then have "?E @ [] = ?E' @ []" unfolding n by simp
  then have "map (entry_bytes BN) (zip Cs (zip zs (zip ys Ps))) = map (entry_bytes BN) (zip Cs' (zip zs' (zip ys' Ps')))"
    using concat_blocks_inj [of "entry_bytes BN" _ "[]" _ "[]" 128] assms(1-9) n by simp
  from map_zip_entries [OF this assms(1-4,6-8) n]
  show ?thesis using ls inj_map_eq_map [of u64_be ls ls'] by (simp add: inj_def)
qed

end
