(* ===== verification/Kzg_Properties.thy ===== *)
theory Kzg_Properties
  imports Kzg_Soundness Kzg_Transcript
begin

text \<open>
  Properties of the KZG verifier, with instances over \<open>dlog_bn\<close>, the lawful library in which a point
  is its discrete logarithm.
\<close>

section \<open>A concrete library\<close>

definition dlog_bn :: "u256 \<Rightarrow> (nat, Fr, Fr, Fr) bn_ops" where
  "dlog_bn digest = \<lparr>
     bn_fq_from_be_bytes_mod_order = (\<lambda>bs. Inr (be_nat bs)), bn_fq_to_big_endian = nat_be 32,
     bn_fq_neg = (\<lambda>x. x), bn_fq_greater = (\<lambda>x y. False),
     bn_affine_new = (\<lambda>x y. Inr (of_nat x)), bn_x = fr_to_nat, bn_y = (\<lambda>_. 0),
     bn_affine_default = 0, bn_from_jacobian = Some, bn_scale = (*), bn_g1_one = 1,
     bn_msm = (\<lambda>ps ss. if ps = [] then Panic ''msm'' else Ret (\<Sum>(p, s)\<leftarrow>zip ps ss. s * p)),
     bn_pairing_batch = (\<lambda>pqs. \<Sum>(p, q)\<leftarrow>pqs. p * q), bn_gt_one = 0,
     bn_g2_new_unchecked = (\<lambda>_ _ _ _. 5), bn_g2_one = 1,
     bn_fr_inverse = (\<lambda>x. if x = 1 then Some 1 else None),
     bn_fr_from_slice = (\<lambda>bs. if be_nat bs < nat FR_ORDER then Inr (fr_from_bytes_be_mod_order bs) else Inl ()),
     bn_sha256 = (\<lambda>_. digest) \<rparr>"

lemma dlog_bn_simps [simp]:
  "bn_scale (dlog_bn d) = (*)" "bn_g1_one (dlog_bn d) = 1"
  "bn_fr_inverse (dlog_bn d) = (\<lambda>x. if x = 1 then Some 1 else None)"
  "bn_sha256 (dlog_bn d) = (\<lambda>_. d)"
  by (simp_all add: dlog_bn_def)

lemma fr_module: "module ((*) :: Fr \<Rightarrow> Fr \<Rightarrow> Fr)"
  by unfold_locales (simp_all add: distrib_left distrib_right mult.assoc)

lemma dlog_lawful: "bn_lawful (dlog_bn d) 5"
proof -
  have "pairing_lawful (dlog_bn d) 5"
    unfolding pairing_lawful_def
    by (rule exI [of _ "(*)"], rule exI [of _ "(+)"])
       (auto simp: dlog_bn_def G2_TAU_def algebra_simps)
  then show ?thesis using fr_module by (simp add: bn_lawful_def dlog_bn_def)
qed

lemma dlog_slice: "slice_unreduced (bn_fr_from_slice (dlog_bn d))"
  by (simp add: slice_unreduced_def dlog_bn_def)

lemma dlog_inverse: "inverse_sound (bn_fr_inverse (dlog_bn d))"
  by (simp add: inverse_sound_def)

lemma dlog_fq: "fq_bytes_fixed (dlog_bn d)"
  by (simp add: fq_bytes_fixed_def dlog_bn_def)

lemma sample_digest: "fr_from_bytes_be_mod_order (b256_be 1) = 1"
  by (simp add: fr_from_bytes_be_mod_order_def b256_be_def)

text \<open>A polynomial with two values, evaluated off the roots.\<close>

definition sample_half :: Fr where
  "sample_half = of_nat 10944121435919637611123202872628637544274182200208017171849102093287904247809"

definition sample_inverse :: "Fr \<Rightarrow> Fr option" where
  "sample_inverse x = (if x = 2 then Some sample_half else if x = 4 then Some (sample_half * sample_half) else None)"

definition sample_poly :: PolynomialEvalForm where
  "sample_poly = \<lparr> evaluations = [7, 9], len_underlying_blob_bytes = 64 \<rparr>"

lemma sample_half: "2 * sample_half = 1"
proof -
  have "2 * sample_half = (of_nat (2 * 10944121435919637611123202872628637544274182200208017171849102093287904247809) :: Fr)"
    unfolding sample_half_def by (simp only: of_nat_mult of_nat_numeral)
  also have "\<dots> = of_nat 1" by (subst fr_of_nat_eq_iff) (simp add: FR_ORDER_def)
  finally show ?thesis by simp
qed

lemma sample_half_powers:
  "4 * (sample_half * sample_half) = 1"
  "(7 * sample_half - 9 * (sample_half * sample_half)) * 8 * sample_half = 5"
proof -
  have "4 * (sample_half * sample_half) = (2 * sample_half) * (2 * sample_half)" by simp
  then show q: "4 * (sample_half * sample_half) = 1" by (simp add: sample_half)
  have "(7 * sample_half - 9 * (sample_half * sample_half)) * 8 * sample_half =
      14 * (4 * (sample_half * sample_half)) - 9 * (2 * sample_half * (4 * (sample_half * sample_half)))"
    by (simp add: algebra_simps)
  then show "(7 * sample_half - 9 * (sample_half * sample_half)) * 8 * sample_half = 5"
    by (simp only: q sample_half) simp
qed

lemma sample_inverse_sound: "inverse_sound sample_inverse"
  using sample_half sample_half_powers(1) by (auto simp: inverse_sound_def sample_inverse_def)

lemma fr_numeral_eq: "(numeral a :: Fr) = numeral b \<longleftrightarrow> int (numeral a) mod FR_ORDER = int (numeral b) mod FR_ORDER"
  using fr_of_nat_eq_iff [of "numeral a" "numeral b"] by simp

lemma sample_distinct: "(3 :: Fr) \<noteq> 1" "(3 :: Fr) \<noteq> - 1" "(4 :: Fr) \<noteq> 2"
proof -
  have "(4 :: Fr) \<noteq> 2" "(4 :: Fr) \<noteq> numeral num.One" "(3 :: Fr) \<noteq> numeral num.One"
    by (subst fr_numeral_eq, simp add: FR_ORDER_def)+
  then show "(3 :: Fr) \<noteq> 1" "(3 :: Fr) \<noteq> - 1" "(4 :: Fr) \<noteq> 2"
    using fr_of_nat_eq_iff [of 4 0] by (auto simp: FR_ORDER_def)
qed

section \<open>Evaluation\<close>

text \<open>C28. The value \<open>evaluate_polynomial_in_evaluation_form\<close> returns for a polynomial made from field
  elements is the value, at the point, of the polynomial of degree below the padded length that takes
  the elements, padded with zeros, at the powers of the root of unity of that order; such a polynomial
  exists, and the value does not depend on which one is taken.\<close>

theorem evaluation_is_interpolation:
  assumes "inverse_sound inverse_of" "evals \<noteq> []" "PolynomialEvalForm_new evals = Inr p"
    and "evaluate_polynomial_in_evaluation_form inverse_of p z = Inr y"
  shows "\<exists>k w. next_power_of_two (length evals) = 2 ^ k \<and> get_primitive_root_of_unity k = Some w \<and>
    (\<exists>c. \<forall>i<2 ^ k. poly_value c (2 ^ k) (w ^ i) = evaluations p ! i) \<and>
    (\<forall>c. (\<forall>i<2 ^ k. poly_value c (2 ^ k) (w ^ i) = evaluations p ! i) \<longrightarrow> y = poly_value c (2 ^ k) z)"
proof -
  obtain k w where k: "root_level k w" "k \<le> 28" "length (evaluations p) = 2 ^ k"
    "calculate_roots_of_unity (len_underlying_blob_bytes p) = Inr (map (\<lambda>i. w ^ i) [0..<2 ^ k])"
    "get_primitive_root_of_unity k = Some w" "next_power_of_two (length evals) = 2 ^ k"
    using PolynomialEvalForm_new_roots [OF assms(3,2)] .
  obtain u where u: "of_nat (2 ^ k) * u = (1 :: Fr)"
    using evaluate_inverts_width [OF assms(1,4) k(3,4)] .
  have "\<exists>c. \<forall>i<2 ^ k. poly_value c (2 ^ k) (w ^ i) = evaluations p ! i"
    by (rule interpolation_exists [OF k(1) refl u, where f = "\<lambda>i. evaluations p ! i"]) metis
  moreover have "y = poly_value c (2 ^ k) z"
    if "\<forall>i<2 ^ k. poly_value c (2 ^ k) (w ^ i) = evaluations p ! i" for c
    using evaluate_interpolates [OF assms(1,4) k(1,2,4)] that by simp
  ultimately show ?thesis using k(5,6) by blast
qed

lemma sample_roots: "calculate_roots_of_unity 64 = Inr [1, - 1]"
proof -
  have le: "(64 + 31) div 32 \<le> MAINNET_SRS_G1_SIZE" by (simp add: MAINNET_SRS_G1_SIZE_def)
  obtain k w where k: "next_power_of_two ((64 + 31) div 32) = 2 ^ k"
    "calculate_roots_of_unity 64 = Inr (map (\<lambda>i. w ^ i) [0..<2 ^ k])"
    "get_primitive_root_of_unity k = Some w"
    by (rule calculate_roots_of_unity_powers [OF _ le]) (simp, blast)
  have "(2::nat) ^ k = 2 ^ 1" using k(1) by (simp add: next_power_of_two.simps)
  then have 1: "k = 1" by (rule power_inject_exp [THEN iffD1, rotated]) simp
  then have "w = - 1" using k(3) root_table_start(2) by (simp add: get_primitive_root_of_unity_def)
  then show ?thesis using k(2) 1 by (simp add: upt_conv_Cons)
qed

lemma sample_evaluation: "evaluate_polynomial_in_evaluation_form sample_inverse sample_poly 3 = Inr 5"
proof -
  have n: "fr_to_nat (of_nat 2) = 2" by (rule fr_of_nat_small) (simp add: FR_ORDER_def)
  have "(2 :: Fr) \<noteq> 0" using sample_half by auto
  moreover have "(7 * sample_half - 9 * (sample_half * sample_half)) * (8 * sample_half) = 5"
    using sample_half_powers(2) by (simp only: mult.assoc)
  ultimately show ?thesis
    using sample_distinct n
    by (simp add: evaluate_polynomial_in_evaluation_form_def sample_poly_def sample_roots poly_len_def Let_def
        sample_inverse_def mult.assoc)
qed

theorem evaluation_is_interpolation_witness:
  "\<exists>k w c. next_power_of_two (length [7, 9 :: Fr]) = 2 ^ k \<and> get_primitive_root_of_unity k = Some w \<and>
    poly_value c (2 ^ k) (w ^ 0) = 7 \<and> 5 = poly_value c (2 ^ k) 3"
proof -
  have "PolynomialEvalForm_new [7, 9] = Inr sample_poly"
    by (simp add: PolynomialEvalForm_new_def MAINNET_SRS_G1_SIZE_def sample_poly_def next_power_of_two.simps)
  from evaluation_is_interpolation [OF sample_inverse_sound _ this sample_evaluation]
  obtain k w c where k: "next_power_of_two (length [7, 9 :: Fr]) = 2 ^ k" "get_primitive_root_of_unity k = Some w"
    and c: "\<forall>i<2 ^ k. poly_value c (2 ^ k) (w ^ i) = evaluations sample_poly ! i" "5 = poly_value c (2 ^ k) 3"
    by auto
  have "poly_value c (2 ^ k) (w ^ 0) = 7" using spec [OF c(1), of 0] by (simp add: sample_poly_def)
  then show ?thesis using k c(2) by blast
qed

text \<open>C29. For a blob of \<open>len\<close> bytes, from one to the size of the SRS in field elements,
  \<open>calculate_roots_of_unity\<close> returns as many pairwise different elements as the padded blob has, the
  powers of one root of the table, which is a root of unity of that order; for other sizes it fails.\<close>

theorem roots_of_unity:
  "(0 < len \<and> (len + 31) div 32 \<le> MAINNET_SRS_G1_SIZE \<and>
      (\<exists>k w. next_power_of_two ((len + 31) div 32) = 2 ^ k \<and> get_primitive_root_of_unity k = Some w \<and>
         w ^ (2 ^ k) = 1 \<and> distinct (map (\<lambda>i. w ^ i) [0..<2 ^ k]) \<and>
         calculate_roots_of_unity len = Inr (map (\<lambda>i. w ^ i) [0..<2 ^ k]))) \<or>
   (len = 0 \<and> calculate_roots_of_unity len = Inl (GenericError ''Length of data after padding is 0'')) \<or>
   ((len + 31) div 32 > MAINNET_SRS_G1_SIZE \<and>
      calculate_roots_of_unity len = Inl (GenericError ''Length exceeds SRS''))"
proof (cases "0 < len \<and> (len + 31) div 32 \<le> MAINNET_SRS_G1_SIZE")
  case True
  then obtain k w where k: "root_level k w" "next_power_of_two ((len + 31) div 32) = 2 ^ k"
    "calculate_roots_of_unity len = Inr (map (\<lambda>i. w ^ i) [0..<2 ^ k])" "get_primitive_root_of_unity k = Some w"
    using calculate_roots_of_unity_powers [of len] by blast
  then show ?thesis using True root_level_one [OF k(1)] root_powers_distinct [OF k(1)] by blast
next
  case False
  then show ?thesis by (auto simp: calculate_roots_of_unity_def Let_def not_le)
qed

text \<open>C30. A polynomial made from a non-empty blob is well formed: its length is a power of two that the
  table covers, it holds the blob's elements followed by zeros, and its roots of unity are as many. So an
  evaluation fails only when the field library finds no inverse of some element other than zero; the
  length, root and division errors of the code are never returned.\<close>

theorem polynomials_well_formed:
  assumes "PolynomialEvalForm_new evals = Inr p" "evals \<noteq> []"
  shows "(\<exists>k roots. k \<le> 28 \<and> poly_len p = 2 ^ k \<and>
       calculate_roots_of_unity (len_underlying_blob_bytes p) = Inr roots \<and> length roots = poly_len p) \<and>
     evaluations p = evals @ replicate (poly_len p - length evals) 0 \<and>
     (evaluate_polynomial_in_evaluation_form inverse_of p z = Inl e \<longrightarrow>
        e = InvalidDenominator \<and> (\<exists>x. x \<noteq> 0 \<and> inverse_of x = None))"
proof -
  obtain k w where k: "k \<le> 28" "length (evaluations p) = 2 ^ k"
    "calculate_roots_of_unity (len_underlying_blob_bytes p) = Inr (map (\<lambda>i. w ^ i) [0..<2 ^ k])"
    "next_power_of_two (length evals) = 2 ^ k"
    using PolynomialEvalForm_new_roots [OF assms] by blast
  have "evaluations p = evals @ replicate (next_power_of_two (length evals) - length evals) 0"
    using assms(1) by (auto simp: PolynomialEvalForm_new_def split: if_splits)
  then have "evaluations p = evals @ replicate (poly_len p - length evals) 0"
    using k(2,4) by (simp add: poly_len_def)
  moreover have "\<exists>k roots. k \<le> 28 \<and> poly_len p = 2 ^ k \<and>
       calculate_roots_of_unity (len_underlying_blob_bytes p) = Inr roots \<and> length roots = poly_len p"
    using k by (auto simp: poly_len_def)
  ultimately show ?thesis using evaluate_error [OF assms] by blast
qed

theorem polynomials_well_formed_witness:
  "evaluations sample_poly = [7, 9] @ replicate (poly_len sample_poly - length [7, 9 :: Fr]) 0 \<and>
   evaluate_polynomial_in_evaluation_form (\<lambda>_. None) sample_poly 3 = Inl InvalidDenominator"
proof -
  have p: "PolynomialEvalForm_new [7, 9] = Inr sample_poly"
    by (simp add: PolynomialEvalForm_new_def MAINNET_SRS_G1_SIZE_def sample_poly_def next_power_of_two.simps)
  obtain e where e: "evaluate_polynomial_in_evaluation_form (\<lambda>_. None) sample_poly 3 = Inl e"
    by (simp add: evaluate_polynomial_in_evaluation_form_def sample_poly_def sample_roots poly_len_def Let_def)
  then show ?thesis using polynomials_well_formed [OF p, of "\<lambda>_. None" 3 e] by simp
qed

section \<open>Blobs\<close>

definition sample_blob :: bytes where
  "sample_blob = replicate 31 0 @ [7]"

definition sample_blob_poly :: PolynomialEvalForm where
  "sample_blob_poly = \<lparr> evaluations = [7], len_underlying_blob_bytes = 32 \<rparr>"

lemma sample_blob_bytes: "sample_blob = concat (map fr_be [7])"
proof -
  have "fr_to_nat (of_nat 7) = 7" by (rule fr_of_nat_small) (simp add: FR_ORDER_def)
  moreover have "nat_be (Suc 31) 7 = replicate 31 0 @ [7]" by (simp only: nat_be.simps) simp
  ultimately show ?thesis by (simp add: sample_blob_def fr_be_def)
qed

text \<open>C31. \<open>to_fr_array_canonical\<close> accepts exactly the blobs that are the bytes of field elements, and
  \<open>to_byte_array\<close> gives the blob back.\<close>

theorem blob_conversion_round_trip:
  assumes "slice_unreduced from_slice"
  shows "to_fr_array_canonical from_slice blob = Inr xs \<longleftrightarrow> to_byte_array xs (length xs * 32) = blob"
  using to_fr_array_canonical_Inr_iff [OF assms] by (auto simp: to_byte_array_full)

theorem blob_conversion_round_trip_witness:
  "to_fr_array_canonical (bn_fr_from_slice (dlog_bn 1)) sample_blob = Inr [7]"
  using blob_conversion_round_trip [OF dlog_slice, of 1 sample_blob "[7]"] to_byte_array_full [of "[7]"]
  by (simp add: sample_blob_bytes)

section \<open>The batch\<close>

lemma list_all2_set1D: "list_all2 P xs ys \<Longrightarrow> x \<in> set xs \<Longrightarrow> \<exists>y\<in>set ys. P x y"
  by (induction xs ys rule: list_all2_induct) auto

lemma batch_spec_lengths:
  "kzg_batch_spec BN \<tau> blobs commitments proofs = Inr True \<Longrightarrow>
     length commitments = length blobs \<and> length proofs = length blobs"
  unfolding kzg_batch_spec_True by (elim exE conjE) (simp only: list_all2_lengthD)

text \<open>C32. Over a lawful curve library \<open>batch_verify\<close> never panics and decides the reference
  specification: decode blobs and points, open every blob at its Fiat-Shamir challenge, and check that
  the residuals of the KZG equations, combined with the powers of the batch challenge, vanish. The empty
  batch is accepted; batches of different lengths and blobs that are not field elements are rejected.\<close>

theorem batch_verify_is_specification:
  assumes "bn_lawful BN \<tau>"
  shows "batch_verify BN blobs commitments proofs = Ret (kzg_batch_spec BN \<tau> blobs commitments proofs = Inr True) \<and>
    verify_blob_kzg_proof_batch BN blobs commitments proofs = Ret (kzg_batch_spec BN \<tau> blobs commitments proofs) \<and>
    batch_verify BN [] [] [] = Ret True \<and>
    (length commitments \<noteq> length blobs \<or> length proofs \<noteq> length blobs \<longrightarrow>
       batch_verify BN blobs commitments proofs = Ret False) \<and>
    (slice_unreduced (bn_fr_from_slice BN) \<and> (\<exists>b\<in>set blobs. \<nexists>xs. b = concat (map fr_be xs)) \<longrightarrow>
       batch_verify BN blobs commitments proofs = Ret False)"
proof -
  note eq = batch_verify_eq [OF assms, of blobs commitments proofs]
  have "kzg_batch_spec BN \<tau> blobs commitments proofs \<noteq> Inr True"
    if "length commitments \<noteq> length blobs \<or> length proofs \<noteq> length blobs"
    using that batch_spec_lengths by metis
  moreover have "kzg_batch_spec BN \<tau> blobs commitments proofs \<noteq> Inr True"
    if b: "slice_unreduced (bn_fr_from_slice BN)" "b \<in> set blobs" "\<nexists>xs. b = concat (map fr_be xs)" for b
  proof
    assume "kzg_batch_spec BN \<tau> blobs commitments proofs = Inr True"
    then obtain polys where "list_all2 (\<lambda>b p. blob_to_poly BN b = Inr p) blobs polys"
      unfolding kzg_batch_spec_True by blast
    then obtain p where "blob_to_poly BN b = Inr p" using list_all2_set1D [OF _ b(2)] by blast
    from blob_to_poly_Inr [OF b(1) this] show False using b(3) by blast
  qed
  moreover have "kzg_batch_spec BN \<tau> [] [] [] = Inr True" by (simp add: kzg_batch_spec_def)
  ultimately show ?thesis
    using eq batch_verify_eq [OF assms, of "[]" "[]" "[]"] verify_blob_kzg_proof_batch_eq [OF assms] by auto
qed

theorem batch_verify_is_specification_witness:
  "batch_verify (dlog_bn 1) [] [] [] = Ret True \<and> batch_verify (dlog_bn 1) [sample_blob] [] [0] = Ret False"
proof -
  have "length ([] :: G1Point list) \<noteq> length [sample_blob]" by simp
  then show ?thesis using batch_verify_is_specification [OF dlog_lawful, of 1 "[sample_blob]" "[]" "[0]"] by blast
qed

lemma sample_interpolant: "blob_interpolant sample_blob 1 (\<lambda>_. 7)"
  using constant_interpolant [of 7] by (simp add: sample_blob_bytes)

lemma sample_blob_to_poly: "blob_to_poly (dlog_bn d) sample_blob = Inr sample_blob_poly"
proof -
  have "to_fr_array_canonical (bn_fr_from_slice (dlog_bn d)) sample_blob = Inr [7]"
    by (simp only: to_fr_array_canonical_Inr_iff [OF dlog_slice] sample_blob_bytes)
  then show ?thesis
    by (simp add: blob_to_poly_def PolynomialEvalForm_new_def MAINNET_SRS_G1_SIZE_def sample_blob_poly_def
        next_power_of_two.simps)
qed

lemma sample_challenge: "blob_challenge (dlog_bn 1) p C = 1"
  by (simp add: blob_challenge_def hash_to_field_element_def sample_digest)

lemma sample_opening: "blob_opening (dlog_bn 1) (sample_blob_poly, C) = Inr 7"
proof -
  have "PolynomialEvalForm_new [7] = Inr sample_blob_poly"
    by (simp add: PolynomialEvalForm_new_def MAINNET_SRS_G1_SIZE_def sample_blob_poly_def next_power_of_two.simps)
  from PolynomialEvalForm_new_roots [OF this]
  obtain k w where "calculate_roots_of_unity (len_underlying_blob_bytes sample_blob_poly) = Inr (map (\<lambda>i. w ^ i) [0..<2 ^ k])"
    "length (evaluations sample_blob_poly) = 2 ^ k" by blast
  moreover from this(2) have "(2::nat) ^ k = Suc 0" by (simp add: sample_blob_poly_def)
  ultimately have "calculate_roots_of_unity 32 = Inr [1]" by (simp add: sample_blob_poly_def)
  then show ?thesis
    by (simp add: blob_opening_def sample_challenge evaluate_polynomial_in_evaluation_form_def
        sample_blob_poly_def poly_len_def Let_def)
qed

definition sample_commitment :: G1Point where
  "sample_commitment = \<lparr> g1_x = 7, g1_y = 0 \<rparr>"

lemma sample_points:
  "g1_point_to_affine (dlog_bn d) sample_commitment = Inr 7" "proof_bytes_to_affine (dlog_bn d) 0 = Inr 0"
  by (simp_all add: g1_point_to_affine_def proof_bytes_to_affine_def sample_commitment_def dlog_bn_def Let_def
      b256_be_def)

text \<open>Completeness: for blobs of field elements, commitments that are the blobs' polynomials at the
  secret of the setup, and proofs that are the quotients of the polynomials at their challenges, the
  verifier accepts, as soon as the field library can invert what the evaluations need.\<close>

lemma honest_batch_accepted:
  assumes "bn_lawful BN \<tau>" "slice_unreduced (bn_fr_from_slice BN)" "inverse_sound (bn_fr_inverse BN)"
    and "list_all2 (\<lambda>b p. blob_to_poly BN b = Inr p) blobs polys" "interpolants blobs ncs"
    and "decoded_points BN commitments proofs (honest_commitments BN \<tau> ncs) (honest_proofs BN \<tau> ncs polys)"
    and "list_all2 (\<lambda>pc y. blob_opening BN pc = Inr y) (zip polys (honest_commitments BN \<tau> ncs)) ys"
  shows "batch_verify BN blobs commitments proofs = Ret True"
  using assms by (rule honest_batch_accepts)

lemma sample_batch_accepted:
  "batch_verify (dlog_bn 1) [sample_blob] [sample_commitment] [0] = Ret True"
proof -
  let ?ncs = "[(1, \<lambda>_. 7)] :: (nat \<times> (nat \<Rightarrow> Fr)) list"
  have C: "honest_commitments (dlog_bn 1) 5 ?ncs = [7]"
    by (simp add: honest_commitments_def poly_value_def)
  have P: "honest_proofs (dlog_bn 1) 5 ?ncs [sample_blob_poly] = [0]"
    unfolding honest_proofs_def C by (simp add: quotient_value_def)
  have d: "decoded_points (dlog_bn 1) [sample_commitment] [0] (honest_commitments (dlog_bn 1) 5 ?ncs)
      (honest_proofs (dlog_bn 1) 5 ?ncs [sample_blob_poly])"
    unfolding C P by (simp add: decoded_points_def sample_points)
  have o: "list_all2 (\<lambda>pc y. blob_opening (dlog_bn 1) pc = Inr y)
      (zip [sample_blob_poly] (honest_commitments (dlog_bn 1) 5 ?ncs)) [7]"
    unfolding C by (simp add: sample_opening)
  show ?thesis
    by (rule honest_batch_accepted [OF dlog_lawful dlog_slice dlog_inverse _ _ d o])
       (use sample_interpolant in \<open>simp_all add: sample_blob_to_poly interpolants_def\<close>)
qed

text \<open>C34. What an accepted batch says: every blob is a non-empty list of field elements and has a
  polynomial, every commitment and proof is a point, and the KZG equations \<open>(\<tau> - z)\<pi> = C - p(z)G\<close> at the
  blobs' challenges hold after combination with the powers of the batch challenge, which is hashed
  from all of them.\<close>

theorem accepted_batch_opens:
  assumes "bn_lawful BN \<tau>" "slice_unreduced (bn_fr_from_slice BN)" "inverse_sound (bn_fr_inverse BN)"
    and "batch_verify BN blobs commitments proofs = Ret True"
  shows "\<exists>polys ncs Cs Ps zs ys.
    list_all2 (\<lambda>b p. blob_to_poly BN b = Inr p) blobs polys \<and> interpolants blobs ncs \<and>
    decoded_points BN commitments proofs Cs Ps \<and> length Cs = length blobs \<and> length Ps = length blobs \<and>
    zs = map (\<lambda>(p, C). blob_challenge BN p C) (zip polys Cs) \<and>
    ys = map (\<lambda>((n, c), z). poly_value c n z) (zip ncs zs) \<and>
    batch_equation BN \<tau> (batch_challenge BN Cs zs ys Ps (map (\<lambda>p. of_nat (poly_len p)) polys)) Cs zs ys Ps"
  by (rule batch_verify_accepts [OF assms]) blast

theorem accepted_batch_opens_witness:
  "\<exists>ncs Cs Ps. interpolants [sample_blob] ncs \<and> decoded_points (dlog_bn 1) [sample_commitment] [0] Cs Ps"
proof -
  have "kzg_batch_spec (dlog_bn 1) 5 [sample_blob] [sample_commitment] [0] = Inr True"
  proof -
    have "batch_decision (dlog_bn 1) 5 [sample_blob_poly] [7] [0] [7]"
      by (simp add: batch_decision_def Let_def batch_equation_def kzg_residual_def)
    then show ?thesis
      unfolding kzg_batch_spec_True
      by (intro exI [of _ "[sample_blob_poly]"] exI [of _ "[7]"] exI [of _ "[0]"])
         (simp add: sample_blob_to_poly sample_points sample_opening)
  qed
  then have "batch_verify (dlog_bn 1) [sample_blob] [sample_commitment] [0] = Ret True"
    by (simp add: batch_verify_eq [OF dlog_lawful])
  from accepted_batch_opens [OF dlog_lawful dlog_slice dlog_inverse this] show ?thesis by blast
qed

text \<open>C35. A single blob is accepted exactly when its opening satisfies the KZG equation: with the
  decoded commitment \<open>C\<close> and proof \<open>P\<close>, its challenge \<open>z\<close> and the value \<open>y\<close> of its polynomial there,
  \<open>(\<tau> - z)P = C - yG\<close>.\<close>

theorem single_blob_equation:
  assumes "bn_lawful BN \<tau>" "blob_to_poly BN blob = Inr p"
    and "g1_point_to_affine BN commitment = Inr C" "proof_bytes_to_affine BN pf = Inr P"
    and "evaluate_polynomial_in_evaluation_form (bn_fr_inverse BN) p (blob_challenge BN p C) = Inr y"
  shows "batch_verify BN [blob] [commitment] [pf] =
    Ret (bn_scale BN (\<tau> - blob_challenge BN p C) P = C - bn_scale BN y (bn_g1_one BN))"
  using assms
  by (simp add: batch_verify_eq [OF assms(1)] kzg_batch_spec_def blob_opening_def batch_decision_def Let_def
      batch_equation_def kzg_residual_def module.scale_one [OF bn_lawful_module [OF assms(1)]])

theorem single_blob_equation_witness:
  "batch_verify (dlog_bn 1) [sample_blob] [\<lparr> g1_x = 8, g1_y = 0 \<rparr>] [0] = Ret False"
proof -
  have c: "g1_point_to_affine (dlog_bn 1) \<lparr> g1_x = 8, g1_y = 0 \<rparr> = Inr 8"
    by (simp add: g1_point_to_affine_def dlog_bn_def Let_def b256_be_def)
  have y: "evaluate_polynomial_in_evaluation_form (bn_fr_inverse (dlog_bn 1)) sample_blob_poly
      (blob_challenge (dlog_bn 1) sample_blob_poly 8) = Inr 7"
    using sample_opening [of 8] by (simp add: blob_opening_def)
  show ?thesis
    using single_blob_equation [OF dlog_lawful [of 1] sample_blob_to_poly c sample_points(2) y] by simp
qed

definition with_digest :: "('q, 'g, 'h, 't) bn_ops \<Rightarrow> u256 \<Rightarrow> ('q, 'g, 'h, 't) bn_ops" where
  "with_digest BN d = BN\<lparr> bn_sha256 := (\<lambda>_. d) \<rparr>"

lemma with_digest_lawful: "bn_lawful BN \<tau> \<Longrightarrow> bn_lawful (with_digest BN d) \<tau>"
  by (simp add: bn_lawful_def pairing_lawful_def G2_TAU_def with_digest_def)

lemma with_digest_equation:
  "batch_equation (with_digest BN d) \<tau> r Cs zs ys Ps = batch_equation BN \<tau> r Cs zs ys Ps"
  "batch_challenge (with_digest BN d) Cs zs ys Ps ls = fr_from_bytes_be_mod_order (b256_be d)"
  by (simp_all add: with_digest_def batch_equation_def kzg_residual_def batch_challenge_def
      hash_to_field_element_def)

lemma verify_with_digest:
  assumes "bn_lawful BN \<tau>" "length zs = length Cs" "length ys = length Cs" "length Ps = length Cs" "0 < length Cs"
  shows "verify_kzg_proof_batch (with_digest BN d) Cs zs ys Ps ls =
    Ret (Inr (batch_equation BN \<tau> (fr_from_bytes_be_mod_order (b256_be d)) Cs zs ys Ps))"
  using verify_kzg_proof_batch_eq [OF with_digest_lawful [OF assms(1)] refl assms(2-5)]
  unfolding batch_equation_def [symmetric] with_digest_equation .

text \<open>C36. Special soundness: openings that \<open>verify_kzg_proof_batch\<close> accepts for as many values of the
  hash as there are openings, with challenges that differ by invertible elements, all satisfy the KZG
  equation: a batch with a wrong opening passes for fewer such challenges than it has openings.\<close>

theorem batch_special_soundness:
  assumes "bn_lawful BN \<tau>" "length zs = length Cs" "length ys = length Cs" "length Ps = length Cs"
    and "separated (map (\<lambda>d. fr_from_bytes_be_mod_order (b256_be d)) ds)" "length Cs \<le> length ds"
    and "\<forall>d\<in>set ds. verify_kzg_proof_batch (with_digest BN d) Cs zs ys Ps ls = Ret (Inr True)"
    and "i < length Cs"
  shows "bn_scale BN (\<tau> - zs ! i) (Ps ! i) = Cs ! i - bn_scale BN (ys ! i) (bn_g1_one BN)"
proof -
  have n: "0 < length Cs" using assms(8) by linarith
  have "batch_equation BN \<tau> (fr_from_bytes_be_mod_order (b256_be d)) Cs zs ys Ps" if "d \<in> set ds" for d
    using assms(7) that verify_with_digest [OF assms(1-4) n] by simp
  then have "kzg_residual BN \<tau> (Cs ! i) (zs ! i) (ys ! i) (Ps ! i) = 0"
    using assms(6) by (intro batch_equation_separated [OF bn_lawful_module [OF assms(1)] assms(5) _ _ assms(8)]) auto
  then show ?thesis by (simp add: kzg_residual_def)
qed

theorem batch_special_soundness_witness:
  "bn_scale (dlog_bn 1) (5 - [1, 1] ! 1) ([0, 2] ! 1) = [7, 9] ! 1 - bn_scale (dlog_bn 1) ([7, 1] ! 1) (bn_g1_one (dlog_bn 1))"
proof (rule batch_special_soundness [OF dlog_lawful, where ds = "[0, 1]" and ls = "[1, 1]"])
  have "fr_from_bytes_be_mod_order (b256_be 0) = 0"
    by (simp add: fr_from_bytes_be_mod_order_def b256_be_def)
  then show "separated (map (\<lambda>d. fr_from_bytes_be_mod_order (b256_be d)) [0, 1])"
    by (simp add: sample_digest)
  have "batch_equation (dlog_bn 1) 5 r [7, 9] [1, 1] [7, 1] [0, 2]" for r
    by (rule batch_equation_zero) (auto simp: fr_module kzg_residual_def less_Suc_eq)
  then show "\<forall>d\<in>set [0, 1]. verify_kzg_proof_batch (with_digest (dlog_bn 1) d) [7, 9] [1, 1] [7, 1] [0, 2] [1, 1] = Ret (Inr True)"
    using verify_with_digest [OF dlog_lawful] by simp
qed simp_all

text \<open>C37. Fiat-Shamir: the bytes the batch challenge is hashed from determine how many openings there
  are, the serialised commitments and proofs, all points and values of the evaluation, and the lengths
  of the blobs; the bytes a blob's challenge is hashed from determine the blob's elements and the
  serialised commitment.\<close>

theorem transcripts_bind:
  assumes "fq_bytes_fixed BN"
  shows "(challenge_input BN p C = challenge_input BN p' C' \<longrightarrow>
      evaluations p = evaluations p' \<and> serialize_g1_compressed BN C = serialize_g1_compressed BN C') \<and>
    (length zs = length Cs \<and> length ys = length Cs \<and> length Ps = length Cs \<and> length ls = length Cs \<and>
     length zs' = length Cs' \<and> length ys' = length Cs' \<and> length Ps' = length Cs' \<and> length ls' = length Cs' \<and>
     fst (r_transcript BN Cs zs ys Ps ls) = fst (r_transcript BN Cs' zs' ys' Ps' ls') \<longrightarrow>
      map (serialize_g1_compressed BN) Cs = map (serialize_g1_compressed BN) Cs' \<and> zs = zs' \<and> ys = ys' \<and>
      map (serialize_g1_compressed BN) Ps = map (serialize_g1_compressed BN) Ps' \<and> ls = ls')"
  using challenge_input_determines [OF assms] r_transcript_determines [OF assms] by blast

theorem transcripts_bind_witness:
  "fst (r_transcript (dlog_bn 1) [7] [1] [7] [0] [1]) \<noteq> fst (r_transcript (dlog_bn 1) [7] [1] [7] [0] [2])"
  using transcripts_bind [OF dlog_fq [of 1], of undefined 0 undefined 0 "[1]" "[7]" "[7]" "[0]" "[1]" "[1]" "[7]" "[7]" "[0]" "[2]"]
  by auto

end
