(* ===== verification/Test_Support.thy ===== *)
theory Test_Support
  imports Encoded_Payload Preimage_Source Canoe_Provider
begin

text \<open>
  Code that tests and examples use: the provider of \<open>crates/eigenda/src/test_utils.rs\<close>, which satisfies the
  contract of providers, the encoder of the tests of \<open>eigenda_data.rs\<close>, and the example
  \<open>crates/eigenda-cert/examples/commitment_to_abi.rs\<close>.
\<close>

section \<open>The test provider\<close>

datatype TestHokuleaProviderError = TestPreimageError | TestCriticalError

definition HokuleaErrorKind_from_test :: "TestHokuleaProviderError \<Rightarrow> HokuleaErrorKind" where
  "HokuleaErrorKind_from_test val =
     (case val of
        TestPreimageError \<Rightarrow> Temporary ''Preimage temporary error''
      | TestCriticalError \<Rightarrow> Critical ''Critical error'')"

record TestEigenDAPreimageProvider =
  tp_validities :: "u256 \<rightharpoonup> (bool, TestHokuleaProviderError) result"
  tp_encoded_payloads :: "u256 \<rightharpoonup> (EncodedPayload, TestHokuleaProviderError) result"
  tp_should_preimage_err :: bool

definition insert_validity ::
    "alloy_ops \<Rightarrow> TestEigenDAPreimageProvider \<Rightarrow> AltDACommitment \<Rightarrow> (bool, TestHokuleaProviderError) result \<Rightarrow>
     TestEigenDAPreimageProvider" where
  "insert_validity A self c validity =
     self\<lparr> tp_validities := (tp_validities self)(to_digest A c \<mapsto> validity) \<rparr>"

definition insert_encoded_payload ::
    "alloy_ops \<Rightarrow> TestEigenDAPreimageProvider \<Rightarrow> AltDACommitment \<Rightarrow>
     (EncodedPayload, TestHokuleaProviderError) result \<Rightarrow> TestEigenDAPreimageProvider" where
  "insert_encoded_payload A self c payload =
     self\<lparr> tp_encoded_payloads := (tp_encoded_payloads self)(to_digest A c \<mapsto> payload) \<rparr>"

definition test_get_validity ::
    "alloy_ops \<Rightarrow> TestEigenDAPreimageProvider \<Rightarrow> AltDACommitment \<Rightarrow>
     ((bool, TestHokuleaProviderError) result \<times> TestEigenDAPreimageProvider) outcome" where
  "test_get_validity A self c =
     (if tp_should_preimage_err self then Ret (Inl TestPreimageError, self)
      else case tp_validities self (to_digest A c) of
             Some r \<Rightarrow> Ret (r, self)
           | None \<Rightarrow> Panic ''called `Option::unwrap()` on a `None` value'')"

definition test_get_encoded_payload ::
    "alloy_ops \<Rightarrow> TestEigenDAPreimageProvider \<Rightarrow> AltDACommitment \<Rightarrow>
     ((EncodedPayload, TestHokuleaProviderError) result \<times> TestEigenDAPreimageProvider) outcome" where
  "test_get_encoded_payload A self c =
     (if tp_should_preimage_err self then Ret (Inl TestPreimageError, self)
      else case tp_encoded_payloads self (to_digest A c) of
             Some r \<Rightarrow> Ret (r, self)
           | None \<Rightarrow> Panic ''called `Option::unwrap()` on a `None` value'')"

definition test_provider ::
    "alloy_ops \<Rightarrow> (TestEigenDAPreimageProvider, TestHokuleaProviderError) provider_ops" where
  "test_provider A =
     \<lparr> pv_get_validity = test_get_validity A, pv_get_encoded_payload = test_get_encoded_payload A,
       pv_into_kind = HokuleaErrorKind_from_test \<rparr>"

text \<open>The entries that are not errors agree with fixed functions.\<close>

definition test_entries_agree ::
    "alloy_ops \<Rightarrow> (AltDACommitment \<Rightarrow> bool) \<Rightarrow> (AltDACommitment \<Rightarrow> EncodedPayload) \<Rightarrow> TestEigenDAPreimageProvider \<Rightarrow> bool" where
  "test_entries_agree A V P p \<longleftrightarrow>
     (\<forall>c b. tp_validities p (to_digest A c) = Some (Inr b) \<longrightarrow> b = V c) \<and>
     (\<forall>c x. tp_encoded_payloads p (to_digest A c) = Some (Inr x) \<longrightarrow> x = P c)"

interpretation test_sound: sound_provider "test_provider A" "test_entries_agree A V P" V P for A V P
  by unfold_locales
     (auto simp: test_provider_def test_get_validity_def test_get_encoded_payload_def test_entries_agree_def
       HokuleaErrorKind_from_test_def split: if_splits option.splits TestHokuleaProviderError.splits)

lemma inserted_is_served:
  assumes "\<not> tp_should_preimage_err p"
  shows "test_get_validity A (insert_validity A p c r) c = Ret (r, insert_validity A p c r)"
    "test_get_encoded_payload A (insert_encoded_payload A p c x) c = Ret (x, insert_encoded_payload A p c x)"
  using assms
  by (simp_all add: test_get_validity_def insert_validity_def test_get_encoded_payload_def insert_encoded_payload_def)

section \<open>The test encoder\<close>

text \<open>\<open>pad_payload\<close> is the padding of \<open>rust-kzg-bn254-primitives\<close>.\<close>

definition encode :: "(bytes \<Rightarrow> bytes) \<Rightarrow> bytes \<Rightarrow> u8 \<Rightarrow> EncodedPayload" where
  "encode pad_payload rollup_data payload_encoding_version =
     (let rollup_data_size = of_nat (length rollup_data) :: u32;
          padded_rollup_data = pad_payload rollup_data;
          min_blob_payload_size = length padded_rollup_data;
          blob_size = min_blob_payload_size + BYTES_PER_FIELD_ELEMENT;
          blob_size = (blob_size + 31) div BYTES_PER_FIELD_ELEMENT * BYTES_PER_FIELD_ELEMENT;
          buf = replicate blob_size 0;
          buf = buf[1 := payload_encoding_version];
          buf = write_at 2 (u32_be rollup_data_size) buf;
          buf = write_at BYTES_PER_FIELD_ELEMENT padded_rollup_data buf
      in \<lparr> encoded_payload = buf \<rparr>)"

text \<open>The padding puts a zero byte before every 31 bytes; whether it fills the last field element does not
  matter.\<close>

definition payload_elements :: "bytes \<Rightarrow> nat" where
  "payload_elements ds = (length ds + 30) div 31"

definition pad_payload_law :: "(bytes \<Rightarrow> bytes) \<Rightarrow> bool" where
  "pad_payload_law pad \<longleftrightarrow>
     (\<forall>ds. \<exists>z<32. pad ds @ replicate z 0 = body_ref (ds @ replicate (31 * payload_elements ds - length ds) 0))"

lemma write_at_replicate:
  "i + length bs \<le> n \<Longrightarrow>
     write_at i bs (replicate n x) = replicate i x @ bs @ replicate (n - i - length bs) x"
  by (simp add: write_at_def)

lemma encode_bytes:
  assumes "pad_payload_law pad" "length ds < 2 ^ 32"
  shows "encoded_payload (encode pad ds 0) =
    header_ref (length ds) @ body_ref (ds @ replicate (31 * payload_elements ds - length ds) 0)"
proof -
  let ?body = "body_ref (ds @ replicate (31 * payload_elements ds - length ds) 0)" and ?n = "length (pad ds)"
  obtain z where z: "z < 32" "pad ds @ replicate z 0 = ?body"
    using assms(1) unfolding pad_payload_law_def by blast
  have "length ds \<le> 31 * payload_elements ds" by (simp add: payload_elements_def)
  then have "length (ds @ replicate (31 * payload_elements ds - length ds) 0) = payload_elements ds * 31" by simp
  from body_ref_chunks(2) [OF this] have n: "?n + z = payload_elements ds * 32"
    using arg_cong [OF z(2), of length] by simp
  then have size: "(?n + 32 + 31) div 32 * 32 = ?n + z + 32"
  proof -
    have "(?n + 32 + 31) div 32 = payload_elements ds + 1" using n z(1) by linarith
    then show ?thesis using n by simp
  qed
  have u: "u32_be (of_nat (length ds)) = nat_be 4 (length ds)"
    using assms(2) by (simp add: u32_be_def unat_of_nat)
  have "(replicate (?n + z + 32) (0 :: u8))[1 := 0] = replicate (?n + z + 32) 0"
    by (simp add: list_update_same_conv)
  moreover have "write_at 2 (nat_be 4 (length ds)) (replicate (?n + z + 32) 0) =
      header_ref (length ds) @ replicate (?n + z) 0"
  proof -
    have "replicate (26 + (?n + z)) (0 :: u8) = replicate 26 0 @ replicate (?n + z) 0"
      by (rule replicate_add)
    then show ?thesis
      by (simp add: write_at_replicate header_ref_def numeral_2_eq_2)
  qed
  moreover have "write_at 32 (pad ds) (header_ref (length ds) @ replicate (?n + z) 0) =
      header_ref (length ds) @ pad ds @ replicate z 0"
    by (simp add: write_at_def)
  ultimately show ?thesis
    using size by (simp add: encode_def Let_def BYTES_PER_FIELD_ELEMENT_def u z(2))
qed

text \<open>The encoder rounds up to field elements, the decoder wants a power of two of them: of what it
  encodes, exactly the payloads that happen to have such a size decode.\<close>

lemma test_encoding_decodes:
  assumes "pad_payload_law pad" "length ds < 2 ^ 32"
  shows "EncodedPayload_decode (encode pad ds 0) = Ret (Inr ds) \<longleftrightarrow> (\<exists>k. payload_elements ds + 1 = 2 ^ k)"
proof
  note e = encode_bytes [OF assms]
  have le: "length ds \<le> 31 * payload_elements ds" by (simp add: payload_elements_def)
  show "\<exists>k. payload_elements ds + 1 = 2 ^ k" if d: "EncodedPayload_decode (encode pad ds 0) = Ret (Inr ds)"
  proof -
    obtain k where "fits k ds" "encoded_payload (encode pad ds 0) = encode_ref k ds"
      using d unfolding decode_iff_encode_ref by blast
    then have "body_ref (ds @ replicate (31 * payload_elements ds - length ds) 0) =
        body_ref (ds @ replicate (31 * (2 ^ k - 1) - length ds) 0)"
      using e by (simp add: encode_ref_def)
    moreover have "length (ds @ replicate (31 * payload_elements ds - length ds) 0) = payload_elements ds * 31"
      "length (ds @ replicate (31 * (2 ^ k - 1) - length ds) 0) = (2 ^ k - 1) * 31"
      using le \<open>fits k ds\<close> by (auto simp: fits_def)
    ultimately have "payload_elements ds * 32 = (2 ^ k - 1) * 32" by (metis body_ref_chunks(2))
    then have "payload_elements ds + 1 = 2 ^ k" by simp
    then show ?thesis ..
  qed
  assume "\<exists>k. payload_elements ds + 1 = 2 ^ k"
  then obtain k where "payload_elements ds + 1 = 2 ^ k" ..
  then have "payload_elements ds = 2 ^ k - 1" by simp
  then show "EncodedPayload_decode (encode pad ds 0) = Ret (Inr ds)"
    unfolding decode_iff_encode_ref using e le assms(2)
    by (intro exI [of _ k]) (simp add: fits_def encode_ref_def)
qed

section \<open>Commitments for a given KZG commitment\<close>

text \<open>How the tests of \<open>preloaded_eigenda_provider.rs\<close> put a KZG commitment into a certificate.\<close>

definition set_inclusion_commitment :: "G1Point \<Rightarrow> BlobInclusionInfo \<Rightarrow> BlobInclusionInfo" where
  "set_inclusion_commitment g i =
     (let cert = bii_blob_certificate i;
          header = bcert_blob_header cert
      in i\<lparr> bii_blob_certificate := cert\<lparr> bcert_blob_header :=
             header\<lparr> bh_commitment := (bh_commitment header)\<lparr> bc_commitment := g \<rparr> \<rparr> \<rparr> \<rparr>)"

definition set_kzg_commitment :: "G1Point \<Rightarrow> AltDACommitment \<Rightarrow> AltDACommitment" where
  "set_kzg_commitment g c =
     c\<lparr> versioned_cert :=
         (case versioned_cert c of
            V2 c \<Rightarrow> V2 (c\<lparr> v2_blob_inclusion_info := set_inclusion_commitment g (v2_blob_inclusion_info c) \<rparr>)
          | V3 c \<Rightarrow> V3 (c\<lparr> v3_blob_inclusion_info := set_inclusion_commitment g (v3_blob_inclusion_info c) \<rparr>)
          | V4 c \<Rightarrow> V4 (c\<lparr> v4_blob_inclusion_info := set_inclusion_commitment g (v4_blob_inclusion_info c) \<rparr>)) \<rparr>"

lemma set_inclusion_commitment [simp]:
  "bh_commitment (bcert_blob_header (bii_blob_certificate (set_inclusion_commitment g i))) =
     (bh_commitment (bcert_blob_header (bii_blob_certificate i)))\<lparr> bc_commitment := g \<rparr>"
  by (simp add: set_inclusion_commitment_def Let_def)

lemma set_kzg_commitment [simp]:
  "get_kzg_commitment (set_kzg_commitment g c) = g"
  "get_num_field_element (set_kzg_commitment g c) = get_num_field_element c"
  by (cases "versioned_cert c";
      simp add: set_kzg_commitment_def get_kzg_commitment_def get_num_field_element_def Let_def)+

section \<open>The commitment converter\<close>

text \<open>\<open>input\<close> is the trimmed standard input; the output is printed.\<close>

definition commitment_to_abi ::
    "alloy_ops \<Rightarrow> abi_ops \<Rightarrow> (string \<Rightarrow> (bytes, string) result) \<Rightarrow> string \<Rightarrow> bytes outcome" where
  "commitment_to_abi A B bytes_from_str input =
     obind (unwrap ''invalid hex input'' (bytes_from_str input)) (\<lambda>raw.
     let bs = (if take 3 raw = [1, 1, 0] then drop 1 raw else raw) in
     obind (unwrap ''failed to parse AltDA commitment'' (AltDACommitment_try_from A bs)) (\<lambda>comm.
       Ret (case versioned_cert comm of
              V2 v2 \<Rightarrow>
                let v3 = \<lparr> v3_batch_header_v2 = v2_batch_header_v2 v2,
                           v3_blob_inclusion_info = v2_blob_inclusion_info v2,
                           v3_nonsigner_stake_and_signature = v2_nonsigner_stake_and_signature v2,
                           v3_signed_quorum_numbers = v2_signed_quorum_numbers v2 \<rparr>
                in abi_encode_v3 B (EigenDACertV3_to_sol v3)
            | V3 v3 \<Rightarrow> abi_encode_v3 B (EigenDACertV3_to_sol v3)
            | V4 v4 \<Rightarrow> abi_encode_v4 B (EigenDACertV4_to_sol v4))))"

text \<open>It prints the argument the verifier contract is called with, for a commitment and for batcher data
  that carries it.\<close>

lemma commitment_to_abi_call:
  assumes "bytes_from_str input = Inr (to_rlp_bytes A c) \<or> bytes_from_str input = Inr (1 # to_rlp_bytes A c)"
    and "parsed_form A c"
  shows "\<exists>bs. commitment_to_abi A B bytes_from_str input = Ret bs \<and> CertVerifierCall_build B c = ABIEncodeInterface bs"
proof -
  obtain r where r: "to_rlp_bytes A c = 1 # 0 # r"
    using assms(2) by (auto simp: to_rlp_bytes_def parsed_form_def)
  have p: "AltDACommitment_try_from A (1 # 0 # r) = Inr c"
    using try_from_to_rlp_bytes_append [OF assms(2), of "[]"] r by simp
  then show ?thesis
    using assms(1) r
    by (auto simp: commitment_to_abi_def CertVerifierCall_build_def V2_as_V3_def Let_def numeral_3_eq_3
        split: EigenDAVersionedCert.splits)
qed

end
