(* ===== verification/Kzg_Completeness.thy ===== *)
theory Kzg_Completeness
  imports Preloader Kzg_Properties Test_Support
begin

text \<open>
  The KZG check of the zkVM accepts what the prover makes: with the sp1 backend, \<open>kzg_complete\<close> is not an
  assumption but follows from the completeness of the batch verifier, when the prover of
  rust-kzg-bn254 computes the commitment and the opening of the payload's polynomial.
\<close>

text \<open>What the prover computes for a payload: the polynomial's value at the secret of the setup and the
  quotient at the challenge the verifier derives, as points whose coordinates the verifier reads.\<close>

definition opens_honestly ::
    "('q, 'g::ab_group_add, 'h, 't) bn_ops \<Rightarrow> Fr \<Rightarrow> bytes \<Rightarrow> G1Point \<Rightarrow> u512 \<Rightarrow> bool" where
  "opens_honestly BN \<tau> bs commitment pf \<longleftrightarrow>
     (\<exists>p n c y. blob_to_poly BN bs = Inr p \<and> blob_interpolant bs n c \<and>
        (let C = bn_scale BN (poly_value c n \<tau>) (bn_g1_one BN);
             P = bn_scale BN (quotient_value c n (blob_challenge BN p C) \<tau>) (bn_g1_one BN)
         in g1_point_to_affine BN commitment = Inr C \<and> proof_bytes_to_affine BN pf = Inr P \<and>
            blob_opening BN (p, C) = Inr y))"

definition prover_computes_openings ::
    "('q, 'g::ab_group_add, 'h, 't) bn_ops \<Rightarrow> Fr \<Rightarrow> ('b, 'p, 'pt) kzg_prover_ops \<Rightarrow> 'pt SRS \<Rightarrow> bool" where
  "prover_computes_openings BN \<tau> KP srs \<longleftrightarrow>
     (\<forall>bs blob poly C P. kp_blob_new KP bs = Inr blob \<longrightarrow> kp_to_polynomial_eval_form KP blob = Inr poly \<longrightarrow>
        kp_commit_eval_form KP poly srs = Inr C \<longrightarrow> kp_compute_blob_proof KP blob C srs = Inr P \<longrightarrow>
        opens_honestly BN \<tau> bs \<lparr> g1_x = of_nat (kp_x KP C), g1_y = of_nat (kp_y KP C) \<rparr>
          (of_nat (be_nat (nat_be 32 (kp_x KP P) @ nat_be 32 (kp_y KP P)))))"

lemma honest_openings_accepted:
  assumes "bn_lawful BN \<tau>" "slice_unreduced (bn_fr_from_slice BN)" "inverse_sound (bn_fr_inverse BN)"
    and "list_all2 (\<lambda>(bs, g) k. opens_honestly BN \<tau> bs g k) bgs kzg"
  shows "batch_verify BN (map fst bgs) (map snd bgs) kzg = Ret True"
proof -
  have "\<exists>polys ncs ys. list_all2 (\<lambda>b p. blob_to_poly BN b = Inr p) (map fst bgs) polys \<and>
      interpolants (map fst bgs) ncs \<and>
      decoded_points BN (map snd bgs) kzg (honest_commitments BN \<tau> ncs) (honest_proofs BN \<tau> ncs polys) \<and>
      list_all2 (\<lambda>pc y. blob_opening BN pc = Inr y) (zip polys (honest_commitments BN \<tau> ncs)) ys"
    using assms(4)
  proof (induction bgs kzg rule: list_all2_induct)
    case Nil
    show ?case
      by (intro exI [of _ "[]"])
         (simp add: interpolants_def decoded_points_def honest_commitments_def honest_proofs_def)
  next
    case (Cons bg bgs k kzg)
    obtain polys ncs ys where IH: "list_all2 (\<lambda>b p. blob_to_poly BN b = Inr p) (map fst bgs) polys"
      "interpolants (map fst bgs) ncs"
      "decoded_points BN (map snd bgs) kzg (honest_commitments BN \<tau> ncs) (honest_proofs BN \<tau> ncs polys)"
      "list_all2 (\<lambda>pc y. blob_opening BN pc = Inr y) (zip polys (honest_commitments BN \<tau> ncs)) ys"
      using Cons.IH by blast
    obtain p n c y where "blob_to_poly BN (fst bg) = Inr p" "blob_interpolant (fst bg) n c"
      "g1_point_to_affine BN (snd bg) = Inr (bn_scale BN (poly_value c n \<tau>) (bn_g1_one BN))"
      "proof_bytes_to_affine BN k = Inr (bn_scale BN (quotient_value c n
         (blob_challenge BN p (bn_scale BN (poly_value c n \<tau>) (bn_g1_one BN))) \<tau>) (bn_g1_one BN))"
      "blob_opening BN (p, bn_scale BN (poly_value c n \<tau>) (bn_g1_one BN)) = Inr y"
      using Cons.hyps(1) by (auto simp: opens_honestly_def Let_def split: prod.splits)
    with IH show ?case
      by (intro exI [of _ "p # polys"] exI [of _ "(n, c) # ncs"] exI [of _ "y # ys"])
         (simp add: interpolants_def decoded_points_def honest_commitments_def honest_proofs_def)
  qed
  then show ?thesis using honest_batch_accepts [OF assms(1-3)] by blast
qed

lemma created_proofs:
  assumes "create_kzg_proofs_for_eigenda_preimage KP srs entries = Ret kzg"
  shows "list_all2 (\<lambda>e k. \<exists>out. compute_kzg_proof KP srs (serialize (snd e)) = Ret (Inr out) \<and>
      length out = 64 \<and> k = of_nat (be_nat out)) entries kzg"
  using assms
proof (induction entries arbitrary: kzg)
  case (Cons e entries)
  obtain c x where e: "e = (c, x)" by fastforce
  obtain r where r: "compute_kzg_proof KP srs (serialize x) = Ret r"
    using Cons.prems e by (auto simp: obind_eq_Ret)
  obtain out where "r = Inr out" using Cons.prems e r by (cases r) auto
  then show ?case
    using Cons e r by (auto simp: obind_eq_Ret split: if_split_asm)
qed simp

text \<open>The proof of a payload opens the commitment of a certificate that commits to it.\<close>

lemma created_opening:
  assumes "bytes_be_law (kp_to_bytes_be KP)" "coordinates_fit KP" "prover_computes_openings BN \<tau> KP s"
    and "compute_kzg_proof_with_srs KP (serialize x) s = Ret (Inr out)" "commits_to KP (Ret s) c x"
  shows "opens_honestly BN \<tau> (serialize x) (get_kzg_commitment c) (of_nat (be_nat out))"
proof -
  obtain blob poly C P where p: "kp_blob_new KP (serialize x) = Inr blob"
    "kp_to_polynomial_eval_form KP blob = Inr poly" "kp_commit_eval_form KP poly s = Inr C"
    "kp_compute_blob_proof KP blob C s = Inr P" "out = nat_be 32 (kp_x KP P) @ nat_be 32 (kp_y KP P)"
    by (rule compute_kzg_proof_bytes [OF assms(1,2,4)])
  then have "kp_x KP C = unat (g1_x (get_kzg_commitment c))" "kp_y KP C = unat (g1_y (get_kzg_commitment c))"
    using assms(5) by (auto simp: commits_to_def)
  then have g: "\<lparr> g1_x = of_nat (kp_x KP C), g1_y = of_nat (kp_y KP C) \<rparr> = get_kzg_commitment c" by simp
  show ?thesis
    using assms(3) p(1-4) unfolding prover_computes_openings_def p(5) g [symmetric] by blast
qed

lemma sp1_backend_complete:
  assumes "bn_lawful BN \<tau>" "slice_unreduced (bn_fr_from_slice BN)" "inverse_sound (bn_fr_inverse BN)"
    and "bytes_be_law (kp_to_bytes_be KP)" "coordinates_fit KP" "prover_computes_openings BN \<tau> KP s"
  shows "kzg_complete (proof_batch_verify True AK BN) KP (Ret s)"
  unfolding kzg_complete_def
proof (intro allI impI)
  fix entries kzg
  assume k: "create_kzg_proofs_for_eigenda_preimage KP (Ret s) entries = Ret kzg"
    and h: "\<forall>(c, x)\<in>set entries. commits_to KP (Ret s) c x"
  let ?bgs = "map (\<lambda>(c, x). (serialize x, get_kzg_commitment c)) entries"
  have "list_all2 (\<lambda>e k. opens_honestly BN \<tau> (serialize (snd e)) (get_kzg_commitment (fst e)) k) entries kzg"
    using created_proofs [OF k]
  proof (rule list.rel_mono_strong)
    fix e and k :: u512
    assume e: "e \<in> set entries" and "\<exists>out. compute_kzg_proof KP (Ret s) (serialize (snd e)) =
        Ret (Inr out) \<and> length out = 64 \<and> k = of_nat (be_nat out)"
    then obtain out where "compute_kzg_proof_with_srs KP (serialize (snd e)) s = Ret (Inr out)"
      "k = of_nat (be_nat out)"
      by (auto simp: compute_kzg_proof_def)
    moreover have "commits_to KP (Ret s) (fst e) (snd e)" using h e by auto
    ultimately show "opens_honestly BN \<tau> (serialize (snd e)) (get_kzg_commitment (fst e)) k"
      using created_opening [OF assms(4-6)] by blast
  qed
  then have "list_all2 (\<lambda>(bs, g) k. opens_honestly BN \<tau> bs g k) ?bgs kzg"
    by (simp add: list_all2_map1 case_prod_beta')
  from honest_openings_accepted [OF assms(1-3) this]
  show "proof_batch_verify True AK BN (map (\<lambda>(_, x). serialize x) entries)
      (map (\<lambda>(c, _). get_kzg_commitment c) entries) kzg = Ret True"
    by (simp add: proof_batch_verify_def comp_def case_prod_beta')
qed

section \<open>The prover's proofs are accepted\<close>

text \<open>A prover that knows one blob, over the library in which a point is its discrete logarithm; \<open>True\<close>
  stands for the commitment \<open>7\<close>, \<open>False\<close> for the point at infinity.\<close>

definition dlog_prover :: "(unit, unit, bool) kzg_prover_ops" where
  "dlog_prover =
     \<lparr> kp_calculate_and_store_roots_of_unity = (\<lambda>_. Inr ()),
       kp_blob_new = (\<lambda>bs. if bs = sample_blob then Inr () else Inl ''blob''),
       kp_to_polynomial_eval_form = (\<lambda>_. Inr ()), kp_commit_eval_form = (\<lambda>_ _. Inr True),
       kp_compute_blob_proof = (\<lambda>_ _ _. Inr False), kp_x = (\<lambda>p. if p then 7 else 0), kp_y = (\<lambda>_. 0),
       kp_to_bytes_be = (\<lambda>n. if n < 256 ^ 32 then nat_be 32 n else nat_be n n) \<rparr>"

lemma dlog_prover_bytes: "bytes_be_law (kp_to_bytes_be dlog_prover)"
proof -
  have "n < 256 ^ n" for n :: nat by (induction n) simp_all
  then show ?thesis by (simp add: bytes_be_law_def dlog_prover_def)
qed

lemma dlog_prover_fits: "coordinates_fit dlog_prover"
  by (simp add: coordinates_fit_def dlog_prover_def)

lemma dlog_prover_opens: "prover_computes_openings (dlog_bn 1) 5 dlog_prover s"
proof -
  have "opens_honestly (dlog_bn 1) 5 sample_blob sample_commitment 0"
    unfolding opens_honestly_def Let_def
    by (rule exI [of _ sample_blob_poly], rule exI [of _ 1], rule exI [of _ "\<lambda>_. 7"], rule exI [of _ 7])
       (simp add: sample_blob_to_poly sample_interpolant [unfolded One_nat_def] sample_points sample_opening poly_value_def quotient_value_def)
  moreover have "be_nat (nat_be 32 0 @ nat_be 32 0) = 0" by (simp add: be_nat_append)
  ultimately show ?thesis
    by (auto simp: prover_computes_openings_def dlog_prover_def sample_commitment_def split: if_splits)
qed

text \<open>The other backend is not called in this build; this one refuses every blob.\<close>

definition blobless_ark :: "(unit, unit, bool) ark_ops" where
  "blobless_ark = \<lparr> ak_blob_new = (\<lambda>_. Inl ''blob''), ak_fq_from_be_bytes_mod_order = (\<lambda>_. ()),
     ak_g1_new = (\<lambda>_ _. Ret False), ak_verify_blob_kzg_proof_batch = (\<lambda>_ _ _. Inl ''batch'') \<rparr>"



end
