(* ===== verification/Kzg_Identity.thy ===== *)
theory Kzg_Identity
  imports Kzg_Completeness Sample_Data
begin

text \<open>
  Openings that are the point at infinity. \<open>compute_kzg_proof_with_srs\<close> writes the coordinates of the
  proof, which are zero for the point at infinity in affine form, and both backends read the 64 bytes back
  through a check that the point is on the curve.
\<close>

text \<open>The curve check of both backends refuses the coordinates \<open>(0, 0)\<close>: \<open>y\<^sup>2 = x\<^sup>3 + 3\<close> does not hold there.\<close>

definition refuses_origin ::
    "('b, 'f, 'pt) ark_ops \<Rightarrow> ('q, 'g, 'h, 't) bn_ops \<Rightarrow> bool" where
  "refuses_origin AK BN \<longleftrightarrow>
     (\<forall>x. bn_fq_from_be_bytes_mod_order BN (replicate 32 0) = Inr x \<longrightarrow> bn_affine_new BN x x = Inl ()) \<and>
     (\<exists>m. ak_g1_new AK (ak_fq_from_be_bytes_mod_order AK (replicate 32 0))
            (ak_fq_from_be_bytes_mod_order AK (replicate 32 0)) = Panic m)"

lemma origin_not_a_proof:
  assumes "refuses_origin AK BN"
  shows "\<exists>e. proof_bytes_to_affine BN 0 = Inl e"
  using assms
  by (cases "bn_fq_from_be_bytes_mod_order BN (replicate 32 0)")
     (auto simp: refuses_origin_def proof_bytes_to_affine_def Let_def)

lemma mapM_Panic: "x \<in> set xs \<Longrightarrow> f x = Panic m \<Longrightarrow> mapM f xs \<noteq> Ret ys"
  unfolding mapM_Ret_iff by (auto dest: list_all2_left)

text \<open>A batch with such a proof is never accepted.\<close>

lemma origin_batch_not_accepted:
  assumes "refuses_origin AK BN" "0 \<in> set proofs"
  shows "proof_batch_verify sp1_bn AK BN blobs commitments proofs \<noteq> Ret True"
proof (cases sp1_bn)
  case True
  have "collect_results (proof_bytes_to_affine BN) proofs \<noteq> Inr Ps" for Ps
    using origin_not_a_proof [OF assms(1)] unfolding collect_results_Inr
    by (auto dest: list_all2_left [OF _ assms(2)])
  then have "verify_blob_kzg_proof_batch BN blobs commitments proofs \<noteq> Ret (Inr True)"
    unfolding verify_blob_kzg_proof_batch_def orbind_eq_RetInr by blast
  then show ?thesis using True
    by (auto simp: proof_batch_verify_def batch_verify_def obind_eq_Ret split: sum.splits)
next
  case False
  let ?f = "\<lambda>p. let bs = nat_be 64 (unat p) in ak_g1_new AK (ak_fq_from_be_bytes_mod_order AK (take 32 bs))
      (ak_fq_from_be_bytes_mod_order AK (subslice 32 64 bs))"
  obtain m where "?f (0 :: u512) = Panic m"
    using assms(1) by (auto simp: refuses_origin_def subslice_def Let_def)
  then have "mapM ?f proofs \<noteq> Ret ps" for ps by (rule mapM_Panic [OF assms(2)])
  then show ?thesis using False by (auto simp: proof_batch_verify_def ark_batch_verify_def obind_eq_Ret)
qed

text \<open>The prover's point for a blob whose quotients all vanish at the secret has zero coordinates: it is the
  point at infinity, whose affine form in arkworks is \<open>(0, 0)\<close>.\<close>

definition infinity_at_origin :: "('b, 'p, 'pt) kzg_prover_ops \<Rightarrow> 'pt SRS \<Rightarrow> Fr \<Rightarrow> bool" where
  "infinity_at_origin KP s \<tau> \<longleftrightarrow>
     (\<forall>bs blob poly C P n c. kp_blob_new KP bs = Inr blob \<longrightarrow> kp_to_polynomial_eval_form KP blob = Inr poly \<longrightarrow>
        kp_commit_eval_form KP poly s = Inr C \<longrightarrow> kp_compute_blob_proof KP blob C s = Inr P \<longrightarrow>
        blob_interpolant bs n c \<longrightarrow> (\<forall>z. quotient_value c n z \<tau> = 0) \<longrightarrow> kp_x KP P = 0 \<and> kp_y KP P = 0)"

text \<open>The quotient of a constant is zero, so a payload of one field element opens with this point.\<close>

lemma one_element_proof:
  assumes "bytes_be_law (kp_to_bytes_be KP)" "infinity_at_origin KP s \<tau>"
    and "compute_kzg_proof KP (Ret s) (fr_be v) = Ret (Inr out)"
  shows "out = replicate 64 0"
proof -
  have q: "quotient_value (\<lambda>_. v) 1 z \<tau> = 0" for z by (simp add: quotient_value_def)
  have z: "convert_biguint_to_be_32_bytes (kp_to_bytes_be KP) 0 = Ret (nat_be 32 0)"
    by (rule convert_biguint [OF assms(1)]) simp
  obtain blob poly C P where p: "kp_blob_new KP (fr_be v) = Inr blob" "kp_to_polynomial_eval_form KP blob = Inr poly"
    "kp_commit_eval_form KP poly s = Inr C" "kp_compute_blob_proof KP blob C s = Inr P"
    using assms(3)
    by (auto simp: compute_kzg_proof_def compute_kzg_proof_with_srs_def obind_eq_Ret orbind_eq_RetInr unwrap_eq_Ret)
  then have "kp_x KP P = 0" "kp_y KP P = 0"
    using assms(2) constant_interpolant [of v] q unfolding infinity_at_origin_def by blast+
  then show ?thesis
    using assms(3) p z
    by (auto simp: compute_kzg_proof_def compute_kzg_proof_with_srs_def obind_eq_Ret orbind_eq_RetInr unwrap_def
        simp flip: replicate_add)
qed

text \<open>C18. A payload of one field element, such as the empty payload, can be proven but not verified: the KZG
  proofs of a recording that holds one are created and put into a witness without an error, but no batch
  with these proofs passes, with either backend, and \<open>from_witness\<close> returns on no such witness. The reason
  is the opening proof of a constant polynomial, the point at infinity, which the prover writes as the
  coordinates \<open>(0, 0)\<close> and the curve checks of both backends refuse.\<close>

theorem one_element_payloads_never_verified:
  assumes "refuses_origin AK BN" "bytes_be_law (kp_to_bytes_be KP)" "infinity_at_origin KP s \<tau>"
    and "(c, x) \<in> set (pre_encoded_payloads pre)" "serialize x = fr_be v"
    and "create_kzg_proofs_for_eigenda_preimage KP (Ret s) (pre_encoded_payloads pre) = Ret kzg"
    and "from_preimage pre kzg pf = Inr w"
  shows "proof_batch_verify sp1_bn AK BN blobs commitments kzg \<noteq> Ret True \<and>
    from_witness VO fetch (proof_batch_verify sp1_bn AK BN) w hash num ts chain \<noteq> Ret p"
proof -
  obtain k out where k: "k \<in> set kzg" "compute_kzg_proof KP (Ret s) (serialize x) = Ret (Inr out)"
    "k = of_nat (be_nat out)"
    using list_all2_left [OF created_proofs [OF assms(6)] assms(4)] by auto
  have "out = replicate 64 0" using one_element_proof [OF assms(2,3)] k(2) assms(5) by simp
  then have "0 \<in> set kzg" using k(1,3) by (simp add: be_nat_zeros)
  then have v: "proof_batch_verify sp1_bn AK BN bs gs kzg \<noteq> Ret True" for bs gs
    by (rule origin_batch_not_accepted [OF assms(1)])
  have "map (\<lambda>(_, _, k). k) (wit_encoded_payloads w) = kzg"
    by (rule from_preimage_entries(4) [OF assms(7)])
  then show ?thesis using v unfolding from_witness_Ret_iff by metis
qed

text \<open>The library and the prover of the sample, with a curve check that refuses the origin.\<close>

definition curve_bn :: "(nat, Fr, Fr, Fr) bn_ops" where
  "curve_bn = (dlog_bn 1)\<lparr> bn_affine_new := (\<lambda>x y. if x = 0 \<and> y = 0 then Inl () else Inr (of_nat x)) \<rparr>"

definition curve_ark :: "(unit, unit, bool) ark_ops" where
  "curve_ark = blobless_ark\<lparr> ak_g1_new := (\<lambda>_ _. Panic ''assertion failed: point.is_on_curve()'') \<rparr>"

theorem one_element_payloads_never_verified_witness:
  "create_kzg_proofs_for_eigenda_preimage dlog_prover (Ret \<lparr> srs_g1 = [], srs_order = 0 \<rparr>)
     [(sample_c3, \<lparr> encoded_payload = sample_blob \<rparr>)] = Ret [0] \<and>
   proof_batch_verify True curve_ark curve_bn [sample_blob] [sample_commitment] [0] \<noteq> Ret True"
proof -
  let ?srs = "\<lparr> srs_g1 = [], srs_order = 0 \<rparr> :: bool SRS" and ?x = "\<lparr> encoded_payload = sample_blob \<rparr>"
  let ?pre = "\<lparr> pre_validities = [], pre_encoded_payloads = [(sample_c3, ?x)] \<rparr>"
  have "convert_biguint_to_be_32_bytes (kp_to_bytes_be dlog_prover) 0 = Ret (nat_be 32 0)"
    by (rule convert_biguint [OF dlog_prover_bytes]) simp
  then have "compute_kzg_proof dlog_prover (Ret ?srs) (serialize ?x) = Ret (Inr (replicate 64 0))"
    by (simp add: compute_kzg_proof_def compute_kzg_proof_with_srs_def dlog_prover_def serialize_def
        flip: replicate_add)
  then have k: "create_kzg_proofs_for_eigenda_preimage dlog_prover (Ret ?srs) (pre_encoded_payloads ?pre) = Ret [0]"
    by (simp add: be_nat_zeros)
  have "refuses_origin curve_ark curve_bn"
    by (simp add: refuses_origin_def curve_ark_def curve_bn_def dlog_bn_def be_nat_zeros)
  moreover have "infinity_at_origin dlog_prover ?srs 5" by (simp add: infinity_at_origin_def dlog_prover_def)
  moreover have "serialize ?x = fr_be 7" using sample_blob_bytes by (simp add: serialize_def)
  moreover have "from_preimage ?pre [0] None = Inr (from_preimage_unchecked ?pre [0] None)"
    by (simp add: from_preimage_def)
  ultimately show ?thesis
    using one_element_payloads_never_verified [OF _ dlog_prover_bytes _ _ _ k, of curve_ark curve_bn] k by simp
qed

end
