(* ===== verification/Kzg_Defects.thy ===== *)
theory Kzg_Defects
  imports Kzg_Completeness
begin

text \<open>
  What the KZG batch verifier says of proofs that are not the quotients: over honest commitments it
  computes, in the exponent, by how much the proofs miss the quotients, and accepts exactly when the
  combination of these defects vanishes.
\<close>

section \<open>Proofs of other polynomials\<close>

lemma residual_of_multiple:
  assumes "module (bn_scale BN)"
  shows "kzg_residual BN \<tau> (bn_scale BN (poly_value c n \<tau>) (bn_g1_one BN)) z (poly_value c n z)
      (bn_scale BN u (bn_g1_one BN)) =
    bn_scale BN ((\<tau> - z) * (u - quotient_value c n z \<tau>)) (bn_g1_one BN)"
proof -
  have "(\<tau> - z) * (u - quotient_value c n z \<tau>) = (\<tau> - z) * u - (poly_value c n \<tau> - poly_value c n z)"
    by (simp only: right_diff_distrib quotient_value)
  then show ?thesis
    unfolding kzg_residual_def
    by (simp add: module.scale_scale [OF assms] module.scale_left_diff_distrib [OF assms])
qed

text \<open>Openings of honest commitments by multiples \<open>us\<close> of the generator, given by their challenges \<open>zs\<close>,
  quotients \<open>qs\<close> and the batch challenge \<open>r\<close>: what the verifier finds in the exponent.\<close>

definition combined_defect :: "Fr \<Rightarrow> Fr \<Rightarrow> Fr list \<Rightarrow> Fr list \<Rightarrow> Fr list \<Rightarrow> Fr" where
  "combined_defect \<tau> r zs qs us = (\<Sum>i<length zs. r ^ i * ((\<tau> - zs ! i) * (us ! i - qs ! i)))"

lemma batch_equation_defect:
  assumes "module (bn_scale BN)" "length zs = length ncs" "length us = length ncs"
  shows "batch_equation BN \<tau> r (honest_commitments BN \<tau> ncs) zs
      (map (\<lambda>((n, c), z). poly_value c n z) (zip ncs zs)) (map (\<lambda>u. bn_scale BN u (bn_g1_one BN)) us) \<longleftrightarrow>
    bn_scale BN (combined_defect \<tau> r zs (map (\<lambda>((n, c), z). quotient_value c n z \<tau>) (zip ncs zs)) us)
      (bn_g1_one BN) = 0"
proof -
  let ?qs = "map (\<lambda>((n, c), z). quotient_value c n z \<tau>) (zip ncs zs)"
  have l: "length (honest_commitments BN \<tau> ncs) = length zs" by (simp add: honest_commitments_def assms(2))
  have "bn_scale BN (r ^ i) (kzg_residual BN \<tau> (honest_commitments BN \<tau> ncs ! i) (zs ! i)
        (map (\<lambda>((n, c), z). poly_value c n z) (zip ncs zs) ! i) (map (\<lambda>u. bn_scale BN u (bn_g1_one BN)) us ! i)) =
      bn_scale BN (r ^ i * ((\<tau> - zs ! i) * (us ! i - ?qs ! i))) (bn_g1_one BN)" if "i < length zs" for i
    using that assms(2,3)
    by (simp add: honest_commitments_def case_prod_beta' residual_of_multiple [OF assms(1)]
        module.scale_scale [OF assms(1)])
  then have "(\<Sum>i<length zs. bn_scale BN (r ^ i) (kzg_residual BN \<tau> (honest_commitments BN \<tau> ncs ! i) (zs ! i)
        (map (\<lambda>((n, c), z). poly_value c n z) (zip ncs zs) ! i) (map (\<lambda>u. bn_scale BN u (bn_g1_one BN)) us ! i))) =
      bn_scale BN (combined_defect \<tau> r zs ?qs us) (bn_g1_one BN)"
    unfolding combined_defect_def module.scale_sum_left [OF assms(1)] by (intro sum.cong) simp_all
  then show ?thesis unfolding batch_equation_def l by simp
qed

text \<open>How a blob opens at a commitment: the polynomial's values, the point, the challenge, the value there
  and, in the exponent, the quotient.\<close>

record 'g kzg_opening =
  op_poly :: PolynomialEvalForm
  op_commitment :: 'g
  op_z :: Fr
  op_y :: Fr
  op_quotient :: Fr

definition opened ::
    "('q, 'g::ab_group_add, 'h, 't) bn_ops \<Rightarrow> Fr \<Rightarrow> bytes \<times> G1Point \<Rightarrow> 'g kzg_opening \<Rightarrow> bool" where
  "opened BN \<tau> = (\<lambda>(bs, commitment) opn.
     \<exists>n c. blob_to_poly BN bs = Inr (op_poly opn) \<and> blob_interpolant bs n c \<and>
       op_commitment opn = bn_scale BN (poly_value c n \<tau>) (bn_g1_one BN) \<and>
       g1_point_to_affine BN commitment = Inr (op_commitment opn) \<and>
       op_z opn = blob_challenge BN (op_poly opn) (op_commitment opn) \<and>
       op_quotient opn = quotient_value c n (op_z opn) \<tau> \<and>
       blob_opening BN (op_poly opn, op_commitment opn) = Inr (op_y opn))"

definition openings_challenge ::
    "('q, 'g::ab_group_add, 'h, 't) bn_ops \<Rightarrow> 'g kzg_opening list \<Rightarrow> Fr list \<Rightarrow> Fr" where
  "openings_challenge BN ops us =
     batch_challenge BN (map op_commitment ops) (map op_z ops) (map op_y ops)
       (map (\<lambda>u. bn_scale BN u (bn_g1_one BN)) us) (map (\<lambda>opn. of_nat (poly_len (op_poly opn))) ops)"

lemma opens_honestly_opened:
  assumes "opens_honestly BN \<tau> bs g k"
  obtains opn where "opened BN \<tau> (bs, g) opn"
    "proof_bytes_to_affine BN k = Inr (bn_scale BN (op_quotient opn) (bn_g1_one BN))"
proof -
  obtain p n c y C where o: "blob_to_poly BN bs = Inr p" "blob_interpolant bs n c"
    "C = bn_scale BN (poly_value c n \<tau>) (bn_g1_one BN)" "g1_point_to_affine BN g = Inr C"
    "proof_bytes_to_affine BN k = Inr (bn_scale BN (quotient_value c n (blob_challenge BN p C) \<tau>) (bn_g1_one BN))"
    "blob_opening BN (p, C) = Inr y"
    using assms unfolding opens_honestly_def Let_def by blast
  show thesis
    by (rule that [of "\<lparr> op_poly = p, op_commitment = C, op_z = blob_challenge BN p C, op_y = y,
          op_quotient = quotient_value c n (blob_challenge BN p C) \<tau> \<rparr>"])
       (use o in \<open>auto simp: opened_def\<close>)
qed

lemma openings_data:
  assumes "list_all2 (opened BN \<tau>) bgs ops"
  shows "\<exists>ncs. list_all2 (\<lambda>b p. blob_to_poly BN b = Inr p) (map fst bgs) (map op_poly ops) \<and>
    interpolants (map fst bgs) ncs \<and>
    list_all2 (\<lambda>g C. g1_point_to_affine BN g = Inr C) (map snd bgs) (map op_commitment ops) \<and>
    list_all2 (\<lambda>pc y. blob_opening BN pc = Inr y) (zip (map op_poly ops) (map op_commitment ops)) (map op_y ops) \<and>
    map op_commitment ops = honest_commitments BN \<tau> ncs \<and>
    map op_z ops = map (\<lambda>(p, C). blob_challenge BN p C) (zip (map op_poly ops) (map op_commitment ops)) \<and>
    map op_quotient ops = map (\<lambda>((n, c), z). quotient_value c n z \<tau>) (zip ncs (map op_z ops))"
  using assms
proof (induction bgs ops rule: list_all2_induct)
  case Nil
  show ?case by (intro exI [of _ "[]"]) (simp add: interpolants_def honest_commitments_def)
next
  case (Cons bg bgs opn ops)
  from Cons.IH obtain ncs where IH: "list_all2 (\<lambda>b p. blob_to_poly BN b = Inr p) (map fst bgs) (map op_poly ops)"
    "interpolants (map fst bgs) ncs"
    "list_all2 (\<lambda>g C. g1_point_to_affine BN g = Inr C) (map snd bgs) (map op_commitment ops)"
    "list_all2 (\<lambda>pc y. blob_opening BN pc = Inr y) (zip (map op_poly ops) (map op_commitment ops)) (map op_y ops)"
    "map op_commitment ops = honest_commitments BN \<tau> ncs"
    "map op_z ops = map (\<lambda>(p, C). blob_challenge BN p C) (zip (map op_poly ops) (map op_commitment ops))"
    "map op_quotient ops = map (\<lambda>((n, c), z). quotient_value c n z \<tau>) (zip ncs (map op_z ops))"
    by blast
  obtain n c where "blob_to_poly BN (fst bg) = Inr (op_poly opn)" "blob_interpolant (fst bg) n c"
    "op_commitment opn = bn_scale BN (poly_value c n \<tau>) (bn_g1_one BN)"
    "g1_point_to_affine BN (snd bg) = Inr (op_commitment opn)"
    "op_z opn = blob_challenge BN (op_poly opn) (op_commitment opn)"
    "op_quotient opn = quotient_value c n (op_z opn) \<tau>"
    "blob_opening BN (op_poly opn, op_commitment opn) = Inr (op_y opn)"
    using Cons.hyps(1) by (auto simp: opened_def split: prod.splits)
  with IH show ?case
    by (intro exI [of _ "(n, c) # ncs"]) (simp add: interpolants_def honest_commitments_def)
qed

lemma verdict_is_defect:
  assumes "bn_lawful BN \<tau>" "slice_unreduced (bn_fr_from_slice BN)" "inverse_sound (bn_fr_inverse BN)"
    and "list_all2 (opened BN \<tau>) bgs ops" "bgs \<noteq> []" "length us = length bgs"
    and "list_all2 (\<lambda>k u. proof_bytes_to_affine BN k = Inr (bn_scale BN u (bn_g1_one BN))) ks us"
  shows "batch_verify BN (map fst bgs) (map snd bgs) ks =
    Ret (bn_scale BN (combined_defect \<tau> (openings_challenge BN ops us) (map op_z ops) (map op_quotient ops) us)
      (bn_g1_one BN) = 0)"
proof -
  let ?polys = "map op_poly ops" and ?Cs = "map op_commitment ops" and ?zs = "map op_z ops"
    and ?ys = "map op_y ops" and ?Ps = "map (\<lambda>u. bn_scale BN u (bn_g1_one BN)) us"
  obtain ncs where f: "list_all2 (\<lambda>b p. blob_to_poly BN b = Inr p) (map fst bgs) ?polys"
    "interpolants (map fst bgs) ncs" "list_all2 (\<lambda>g C. g1_point_to_affine BN g = Inr C) (map snd bgs) ?Cs"
    "list_all2 (\<lambda>pc y. blob_opening BN pc = Inr y) (zip ?polys ?Cs) ?ys"
    "?Cs = honest_commitments BN \<tau> ncs" "?zs = map (\<lambda>(p, C). blob_challenge BN p C) (zip ?polys ?Cs)"
    "map op_quotient ops = map (\<lambda>((n, c), z). quotient_value c n z \<tau>) (zip ncs ?zs)"
    using openings_data [OF assms(4)] by blast
  have n: "length ops = length bgs" "length ncs = length bgs"
    using list_all2_lengthD [OF assms(4)] f(2) by (auto simp: interpolants_def dest: list_all2_lengthD)
  have y: "?ys = map (\<lambda>((n, c), z). poly_value c n z) (zip ncs ?zs)"
    using openings_values [OF assms(2,3) f(1) _ f(4,2)] f(6) by simp
  have "list_all2 (\<lambda>k P. proof_bytes_to_affine BN k = Inr P) ks ?Ps"
    using assms(7) by (simp add: list_all2_map2)
  then have "kzg_batch_spec BN \<tau> (map fst bgs) (map snd bgs) ks = Inr (batch_decision BN \<tau> ?polys ?Cs ?Ps ?ys)"
    using f(1,3,4) n assms(5,6) by (auto simp: kzg_batch_spec_def collect_results_Inr [symmetric])
  also have "batch_decision BN \<tau> ?polys ?Cs ?Ps ?ys =
      batch_equation BN \<tau> (openings_challenge BN ops us) ?Cs ?zs ?ys ?Ps"
    using f(6) by (simp add: batch_decision_def openings_challenge_def Let_def comp_def)
  also have "\<dots> \<longleftrightarrow> bn_scale BN (combined_defect \<tau> (openings_challenge BN ops us) ?zs (map op_quotient ops) us)
      (bn_g1_one BN) = 0"
    unfolding y f(5,7) by (rule batch_equation_defect [OF bn_lawful_module [OF assms(1)]]) (simp_all add: n assms(6))
  finally show ?thesis by (simp add: batch_verify_eq [OF assms(1)])
qed

section \<open>The verdict on any batch of honest commitments\<close>

text \<open>C33. For blobs of field elements and commitments that are their polynomials at the secret of the
  setup, the verifier accepts proofs \<open>u\<^sub>i G\<close> exactly when the sum of \<open>r\<^sup>i (\<tau> - z\<^sub>i) (u\<^sub>i - q\<^sub>i)\<close>, where \<open>q\<^sub>i\<close> are
  the quotients of the polynomials at the challenges \<open>z\<^sub>i\<close> and \<open>r\<close> is the batch challenge, times the
  generator vanishes. So the quotients are accepted, and other proofs only if their defects cancel.\<close>

theorem batch_verdict_is_combined_defect:
  assumes "bn_lawful BN \<tau>" "slice_unreduced (bn_fr_from_slice BN)" "inverse_sound (bn_fr_inverse BN)"
    and "list_all2 (opened BN \<tau>) bgs ops" "bgs \<noteq> []" "length us = length bgs"
    and "list_all2 (\<lambda>k u. proof_bytes_to_affine BN k = Inr (bn_scale BN u (bn_g1_one BN))) ks us"
  shows "batch_verify BN (map fst bgs) (map snd bgs) ks =
      Ret (bn_scale BN (combined_defect \<tau> (openings_challenge BN ops us) (map op_z ops) (map op_quotient ops) us)
        (bn_g1_one BN) = 0) \<and>
    (us = map op_quotient ops \<longrightarrow> batch_verify BN (map fst bgs) (map snd bgs) ks = Ret True)"
proof -
  have "combined_defect \<tau> r zs qs qs = 0" for r zs qs by (simp add: combined_defect_def)
  then show ?thesis
    using verdict_is_defect [OF assms] module.scale_zero_left [OF bn_lawful_module [OF assms(1)]] by simp
qed

definition sample_proof :: u512 where
  "sample_proof = of_nat (be_nat (nat_be 32 3 @ nat_be 32 0))"

lemma sample_proof_point: "proof_bytes_to_affine (dlog_bn d) sample_proof = Inr 3"
proof -
  have "nat_be 64 (be_nat (nat_be 32 3 @ nat_be 32 0)) = nat_be 32 3 @ nat_be 32 0"
    by (rule nat_be_be_nat_len) simp
  moreover have "unat sample_proof = be_nat (nat_be 32 3 @ nat_be 32 0)"
    using be_nat_bound [of "nat_be 32 3 @ nat_be 32 0"] by (simp add: sample_proof_def unat_of_nat)
  ultimately show ?thesis
    by (simp add: proof_bytes_to_affine_def dlog_bn_def Let_def)
qed

definition sample_openings :: "Fr kzg_opening" where
  "sample_openings = \<lparr> op_poly = sample_blob_poly, op_commitment = 7, op_z = 1, op_y = 7, op_quotient = 0 \<rparr>"

lemma sample_opened: "opened (dlog_bn 1) 5 (sample_blob, sample_commitment) sample_openings"
proof -
  have "poly_value (\<lambda>_. 7) 1 5 = (7 :: Fr)" "quotient_value (\<lambda>_. 7) 1 1 5 = 0"
    by (simp_all add: poly_value_def quotient_value_def)
  then show ?thesis
    unfolding opened_def prod.case
    by (intro exI [of _ 1] exI [of _ "\<lambda>_. 7"])
       (simp add: sample_openings_def sample_blob_to_poly sample_interpolant [unfolded One_nat_def] sample_points
          sample_opening sample_challenge)
qed

theorem batch_verdict_is_combined_defect_witness:
  "batch_verify (dlog_bn 1) [sample_blob] [sample_commitment] [0] = Ret True \<and>
   batch_verify (dlog_bn 1) [sample_blob] [sample_commitment] [sample_proof] = Ret False"
proof -
  have ne: "(12 :: Fr) \<noteq> 0" using fr_of_nat_eq_iff [of 12 0] by (simp add: FR_ORDER_def)
  have q: "op_quotient sample_openings = 0" "op_z sample_openings = 1" by (simp_all add: sample_openings_def)
  note v = batch_verdict_is_combined_defect [OF dlog_lawful [of 1] dlog_slice [of 1] dlog_inverse [of 1],
      where bgs = "[(sample_blob, sample_commitment)]" and ops = "[sample_openings]"]
  have "batch_verify (dlog_bn 1) [sample_blob] [sample_commitment] [0] = Ret True"
    using v [where us = "[0]" and ks = "[0]"] by (simp add: sample_opened sample_points q combined_defect_def)
  moreover have "batch_verify (dlog_bn 1) [sample_blob] [sample_commitment] [sample_proof] = Ret False"
    using v [where us = "[3]" and ks = "[sample_proof]"] ne
    by (simp add: sample_opened sample_proof_point q combined_defect_def)
  ultimately show ?thesis ..
qed

end
