(* ===== verification/Kzg_Binding.thy ===== *)
theory Kzg_Binding
  imports Kzg_Defects
begin

text \<open>
  What an accepted batch says about the payloads. No verifier of a constant number of points can make
  it impossible to open a commitment to other data; what can be shown is that whoever does so has
  solved a hard problem, and what the solution is. For data the commitments were made of, an
  accepted batch of blobs of the same lengths is that data, or else the batch itself exhibits one of
  three things: the batch challenge is a root of the combined residuals although some opening is wrong,
  the challenge of a blob is a root of the difference of two polynomials, or the proof gives, with the
  public points of the setup, a solution of the strong Diffie-Hellman problem. The first two have
  fewer roots than openings or coefficients.
\<close>

section \<open>Data behind a commitment\<close>

text \<open>A commitment made of data: the data's polynomial at the secret of the setup.\<close>

definition kzg_commits ::
    "('q, 'g::ab_group_add, 'h, 't) bn_ops \<Rightarrow> Fr \<Rightarrow> G1Point \<Rightarrow> bytes \<Rightarrow> bool" where
  "kzg_commits BN \<tau> commitment d \<longleftrightarrow>
     (\<exists>n c. blob_interpolant d n c \<and>
        g1_point_to_affine BN commitment = Inr (bn_scale BN (poly_value c n \<tau>) (bn_g1_one BN)))"

text \<open>The points of the setup, and the quotient of \<open>p(X) - p(z)\<close> by \<open>X - z\<close> in the exponent, computed from
  them without the secret.\<close>

definition setup_point :: "('q, 'g, 'h, 't) bn_ops \<Rightarrow> Fr \<Rightarrow> nat \<Rightarrow> 'g" where
  "setup_point BN \<tau> p = bn_scale BN (\<tau> ^ p) (bn_g1_one BN)"

definition quotient_point ::
    "('q, 'g::ab_group_add, 'h, 't) bn_ops \<Rightarrow> (nat \<Rightarrow> 'g) \<Rightarrow> (nat \<Rightarrow> Fr) \<Rightarrow> nat \<Rightarrow> Fr \<Rightarrow> 'g" where
  "quotient_point BN srs c n z = (\<Sum>j<n. \<Sum>p<j. bn_scale BN (c j * z ^ (j - 1 - p)) (srs p))"

lemma quotient_point:
  assumes "module (bn_scale BN)"
  shows "quotient_point BN (setup_point BN \<tau>) c n z = bn_scale BN (quotient_value c n z \<tau>) (bn_g1_one BN)"
  by (simp add: quotient_point_def quotient_value_def setup_point_def module.scale_scale [OF assms]
      module.scale_sum_left [OF assms] sum_distrib_left ac_simps)

section \<open>Ways to break the check\<close>

text \<open>The combined equation holds at the batch challenge although a single one does not.\<close>

definition lucky_batch ::
    "('q, 'g::ab_group_add, 'h, 't) bn_ops \<Rightarrow> Fr \<Rightarrow> Fr \<Rightarrow> 'g list \<Rightarrow> Fr list \<Rightarrow> Fr list \<Rightarrow> 'g list \<Rightarrow> bool" where
  "lucky_batch BN \<tau> r Cs zs ys Ps \<longleftrightarrow>
     batch_equation BN \<tau> r Cs zs ys Ps \<and>
     (\<exists>i<length Cs. kzg_residual BN \<tau> (Cs ! i) (zs ! i) (ys ! i) (Ps ! i) \<noteq> 0)"

text \<open>The polynomials of different blobs of one length meet at the challenge.\<close>

definition lucky_point :: "bytes \<Rightarrow> bytes \<Rightarrow> Fr \<Rightarrow> bool" where
  "lucky_point d b z \<longleftrightarrow>
     d \<noteq> b \<and> length d = length b \<and>
     (\<exists>n c c'. blob_interpolant d n c \<and> blob_interpolant b n c' \<and> poly_value c n z = poly_value c' n z)"

text \<open>The proof minus the quotient of the data's polynomial is, at \<open>\<tau> - z\<close>, a known non-zero multiple of the
  generator: up to the inverse of that factor, the point \<open>G / (\<tau> - z)\<close> for a known \<open>z\<close>.\<close>

definition solves_sdh ::
    "('q, 'g::ab_group_add, 'h, 't) bn_ops \<Rightarrow> Fr \<Rightarrow> bytes \<Rightarrow> Fr \<Rightarrow> Fr \<Rightarrow> 'g \<Rightarrow> bool" where
  "solves_sdh BN \<tau> d z y P \<longleftrightarrow>
     (\<exists>n c. blob_interpolant d n c \<and> poly_value c n z \<noteq> y \<and>
        bn_scale BN (\<tau> - z) (P - quotient_point BN (setup_point BN \<tau>) c n z) =
          bn_scale BN (poly_value c n z - y) (bn_g1_one BN))"

text \<open>A batch that breaks the check, for the data \<open>ds\<close> behind its commitments.\<close>

definition kzg_broken ::
    "('q, 'g::ab_group_add, 'h, 't) bn_ops \<Rightarrow> Fr \<Rightarrow> bytes list \<Rightarrow> bytes list \<Rightarrow> G1Point list \<Rightarrow> u512 list \<Rightarrow> bool" where
  "kzg_broken BN \<tau> ds blobs commitments proofs \<longleftrightarrow>
     (\<exists>polys Cs Ps zs ys.
        list_all2 (\<lambda>b p. blob_to_poly BN b = Inr p) blobs polys \<and>
        decoded_points BN commitments proofs Cs Ps \<and>
        zs = map (\<lambda>(p, C). blob_challenge BN p C) (zip polys Cs) \<and>
        list_all2 (\<lambda>pc y. blob_opening BN pc = Inr y) (zip polys Cs) ys \<and>
        (lucky_batch BN \<tau> (batch_challenge BN Cs zs ys Ps (map (\<lambda>p. of_nat (poly_len p)) polys)) Cs zs ys Ps \<or>
         (\<exists>i<length blobs. lucky_point (ds ! i) (blobs ! i) (zs ! i) \<or>
            solves_sdh BN \<tau> (ds ! i) (zs ! i) (ys ! i) (Ps ! i))))"

section \<open>How rare they are\<close>

lemma lucky_batch_rare:
  assumes "module (bn_scale BN)" "separated rs" "\<forall>r\<in>set rs. lucky_batch BN \<tau> r Cs zs ys Ps"
  shows "length rs \<le> length Cs - 1"
proof (rule ccontr)
  assume "\<not> ?thesis"
  then have n: "length Cs \<le> length rs" "rs \<noteq> []" by auto
  then obtain i where i: "i < length Cs" "kzg_residual BN \<tau> (Cs ! i) (zs ! i) (ys ! i) (Ps ! i) \<noteq> 0"
    using assms(3) by (force simp: lucky_batch_def neq_Nil_conv)
  have "\<forall>r\<in>set rs. batch_equation BN \<tau> r Cs zs ys Ps" using assms(3) by (simp add: lucky_batch_def)
  from batch_equation_separated [OF assms(1,2) n(1) this i(1)] i(2) show False by simp
qed

lemma poly_value_horner: "poly_value c n z = horner (*) (map c [0..<n]) z"
  by (simp add: horner_sum [OF fr_module] poly_value_def mult.commute)

lemma interpolants_differ:
  assumes "blob_interpolant d n c" "blob_interpolant b m c'" "length d = length b"
  shows "n = m" "d \<noteq> b \<Longrightarrow> \<exists>x. poly_value c n x \<noteq> poly_value c' n x"
proof -
  have l: "length (concat (map fr_be xs)) = 32 * length xs" for xs :: "Fr list" by (induction xs) simp_all
  obtain xs k w where x: "d = concat (map fr_be xs)" "n = 2 ^ k" "n = next_power_of_two (length xs)"
    "get_primitive_root_of_unity k = Some w"
    "\<And>i. i < n \<Longrightarrow> poly_value c n (w ^ i) = (if i < length xs then xs ! i else 0)"
    using assms(1) unfolding blob_interpolant_def by blast
  obtain ys k' w' where y: "b = concat (map fr_be ys)" "m = 2 ^ k'" "m = next_power_of_two (length ys)"
    "get_primitive_root_of_unity k' = Some w'"
    "\<And>i. i < m \<Longrightarrow> poly_value c' m (w' ^ i) = (if i < length ys then ys ! i else 0)"
    using assms(2) unfolding blob_interpolant_def by blast
  have ll: "length xs = length ys" using assms(3) l [of xs] l [of ys] x(1) y(1) by simp
  then show nm: "n = m" using x(3) y(3) by simp
  then have "k = k'" using x(2) y(2) by simp
  then have w: "w = w'" using x(4) y(4) by simp
  assume "d \<noteq> b"
  then have "xs \<noteq> ys" using x(1) y(1) by auto
  then obtain i where i: "i < length xs" "xs ! i \<noteq> ys ! i" using ll nth_equalityI by blast
  have "length xs \<le> n" using x(3) next_power_of_two_ge by simp
  then have "poly_value c n (w ^ i) \<noteq> poly_value c' n (w ^ i)" using x(5) y(5) i ll nm w by simp
  then show "\<exists>x. poly_value c n x \<noteq> poly_value c' n x" by blast
qed

lemma lucky_point_rare:
  assumes "blob_interpolant d n c" "blob_interpolant b n c'" "length d = length b" "d \<noteq> b"
    and "separated zs" "\<forall>z\<in>set zs. poly_value c n z = poly_value c' n z"
  shows "length zs < n"
proof (rule ccontr)
  let ?vs = "map (\<lambda>j. c j - c' j) [0..<n]"
  have d: "horner (*) ?vs z = poly_value c n z - poly_value c' n z" for z
    by (simp add: horner_sum [OF fr_module] poly_value_def sum_subtractf right_diff_distrib mult.commute)
  assume "\<not> length zs < n"
  then have "set ?vs \<subseteq> {0}"
    using assms(6) by (intro horner_roots [OF fr_module assms(5)]) (simp_all only: d, simp_all)
  then have "poly_value c n x = poly_value c' n x" for x
    using d [of x] horner_zeros [OF fr_module] by simp
  then show False using interpolants_differ(2) [OF assms(1-4)] by blast
qed

lemma solves_sdh_inverse:
  assumes "module (bn_scale BN)" "bn_scale BN (\<tau> - z) Q = bn_scale BN a (bn_g1_one BN)" "u * a = 1"
  shows "bn_scale BN (\<tau> - z) (bn_scale BN u Q) = bn_g1_one BN"
proof -
  have "bn_scale BN (\<tau> - z) (bn_scale BN u Q) = bn_scale BN u (bn_scale BN (\<tau> - z) Q)"
    by (simp add: module.scale_scale [OF assms(1)] mult.commute)
  then show ?thesis by (simp add: assms(2,3) module.scale_scale [OF assms(1)] module.scale_one [OF assms(1)])
qed

section \<open>Accepted batches\<close>

lemma wrong_blob_breaks:
  assumes M: "module (bn_scale BN)" and d: "blob_interpolant d n c" and b: "blob_interpolant b m c'"
    and len: "length d = length b" "d \<noteq> b" and y: "y = poly_value c' m z"
    and r: "kzg_residual BN \<tau> (bn_scale BN (poly_value c n \<tau>) (bn_g1_one BN)) z y P = 0"
  shows "lucky_point d b z \<or> solves_sdh BN \<tau> d z y P"
proof (cases "poly_value c n z = y")
  case True
  then show ?thesis using d b len y interpolants_differ(1) [OF d b len(1)] unfolding lucky_point_def by blast
next
  case False
  let ?s = "bn_scale BN" and ?G = "bn_g1_one BN"
  have "?s (\<tau> - z) P = ?s (poly_value c n \<tau>) ?G - ?s y ?G" using r by (simp add: kzg_residual_def)
  moreover have "?s (\<tau> - z) (?s (quotient_value c n z \<tau>) ?G) = ?s (poly_value c n \<tau>) ?G - ?s (poly_value c n z) ?G"
    by (simp add: module.scale_scale [OF M] quotient_value module.scale_left_diff_distrib [OF M])
  ultimately have "?s (\<tau> - z) (P - quotient_point BN (setup_point BN \<tau>) c n z) = ?s (poly_value c n z - y) ?G"
    by (simp add: quotient_point [OF M] module.scale_right_diff_distrib [OF M] module.scale_left_diff_distrib [OF M])
  then show ?thesis using d False unfolding solves_sdh_def by blast
qed

lemma accepted_or_broken:
  assumes "bn_lawful BN \<tau>" "slice_unreduced (bn_fr_from_slice BN)" "inverse_sound (bn_fr_inverse BN)"
    and "list_all2 (kzg_commits BN \<tau>) commitments ds" "map length blobs = map length ds"
    and "batch_verify BN blobs commitments proofs = Ret True"
  shows "blobs = ds \<or> kzg_broken BN \<tau> ds blobs commitments proofs"
proof (rule disjCI)
  assume nb: "\<not> kzg_broken BN \<tau> ds blobs commitments proofs"
  obtain polys Cs Ps ys where
    polys: "list_all2 (\<lambda>b p. blob_to_poly BN b = Inr p) blobs polys" and
    points: "decoded_points BN commitments proofs Cs Ps" and
    l: "length Cs = length polys" "length Ps = length polys" and
    ys: "list_all2 (\<lambda>pc y. blob_opening BN pc = Inr y) (zip polys Cs) ys" and
    eq: "polys = [] \<or> batch_decision BN \<tau> polys Cs Ps ys"
    using assms(6) unfolding batch_verify_eq [OF assms(1)] outcome.inject eq_True kzg_batch_spec_True
      decoded_points_def by blast
  define zs where "zs = map (\<lambda>(p, C). blob_challenge BN p C) (zip polys Cs)"
  define r where "r = batch_challenge BN Cs zs ys Ps (map (\<lambda>p. of_nat (poly_len p)) polys)"
  note nb = nb [unfolded kzg_broken_def, simplified, rule_format, OF polys points ys, folded zs_def, folded r_def]
  obtain ncs where ncs: "interpolants blobs ncs" using openings_interpolants [OF assms(2,3) polys l(1) ys] .
  note ys' = openings_values [OF assms(2,3) polys l(1) ys ncs, folded zs_def]
  have n: "length polys = length blobs" "length ncs = length blobs" "length ds = length blobs"
    using list_all2_lengthD [OF polys] ncs map_eq_imp_length_eq [OF assms(5)]
    by (auto simp: interpolants_def dest: list_all2_lengthD)
  have "batch_equation BN \<tau> r Cs zs ys Ps"
    using eq l(1) by (auto simp: batch_decision_def Let_def batch_equation_def zs_def r_def)
  then have res: "kzg_residual BN \<tau> (Cs ! i) (zs ! i) (ys ! i) (Ps ! i) = 0" if "i < length blobs" for i
    using nb l(1) n(1) that unfolding lucky_batch_def by metis
  show "blobs = ds"
  proof (rule nth_equalityI)
    fix i
    assume i: "i < length blobs"
    obtain n' c' where nc: "ncs ! i = (n', c')" by fastforce
    have b: "blob_interpolant (blobs ! i) n' c'"
      using list_all2_nthD [OF ncs [unfolded interpolants_def], of i] i nc by simp
    have "kzg_commits BN \<tau> (commitments ! i) (ds ! i)" and cl: "length commitments = length ds"
      using list_all2_nthD2 [OF assms(4), of i] list_all2_lengthD [OF assms(4)] i n(3) by simp_all
    then obtain m c where c: "blob_interpolant (ds ! i) m c"
      "g1_point_to_affine BN (commitments ! i) = Inr (bn_scale BN (poly_value c m \<tau>) (bn_g1_one BN))"
      unfolding kzg_commits_def by blast
    have "g1_point_to_affine BN (commitments ! i) = Inr (Cs ! i)"
      using points list_all2_nthD i n(3) cl unfolding decoded_points_def by fastforce
    then have C: "Cs ! i = bn_scale BN (poly_value c m \<tau>) (bn_g1_one BN)" using c(2) by simp
    have y: "ys ! i = poly_value c' n' (zs ! i)"
      unfolding ys' using i n l(1) nc by (simp add: zs_def)
    have "length (ds ! i) = length (blobs ! i)"
      using arg_cong [OF assms(5), of "\<lambda>ls. ls ! i"] i n(3) by simp
    then show "blobs ! i = ds ! i"
      using wrong_blob_breaks [OF bn_lawful_module [OF assms(1)] c(1) b _ _ y res [OF i, unfolded C]] nb i
      by metis
  qed (simp add: n)
qed

text \<open>The data itself is not among them: where its own polynomial is opened, no point is hit and no problem
  solved.\<close>

lemma own_data_breaks_nothing:
  assumes "slice_unreduced (bn_fr_from_slice BN)" "inverse_sound (bn_fr_inverse BN)"
    and "blob_to_poly BN d = Inr q" "evaluate_polynomial_in_evaluation_form (bn_fr_inverse BN) q z = Inr y"
  shows "\<not> lucky_point d d z" "\<not> solves_sdh BN \<tau> d z y P"
  using opening_value [OF assms] by (auto simp: lucky_point_def solves_sdh_def)

section \<open>The payloads of a witness\<close>

text \<open>The certificates of the payloads in a witness commit to the data \<open>D\<close> has for them, of the length
  they state; and a witness whose KZG batch breaks the check for this data.\<close>

definition witness_committed ::
    "('q, 'g::ab_group_add, 'h, 't) bn_ops \<Rightarrow> Fr \<Rightarrow> (G1Point \<Rightarrow> u64 \<Rightarrow> bytes) \<Rightarrow> EigenDAWitness \<Rightarrow> bool" where
  "witness_committed BN \<tau> D w \<longleftrightarrow>
     (\<forall>(c, x, k)\<in>set (wit_encoded_payloads w).
        kzg_commits BN \<tau> (get_kzg_commitment c) (encoded_payload (committed_payload D c)) \<and>
        length (encoded_payload (committed_payload D c)) = 32 * unat (get_num_field_element c))"

definition witness_breaks_kzg ::
    "('q, 'g::ab_group_add, 'h, 't) bn_ops \<Rightarrow> Fr \<Rightarrow> (G1Point \<Rightarrow> u64 \<Rightarrow> bytes) \<Rightarrow> EigenDAWitness \<Rightarrow> bool" where
  "witness_breaks_kzg BN \<tau> D w \<longleftrightarrow>
     (let es = wit_encoded_payloads w in
      kzg_broken BN \<tau> (map (\<lambda>(c, _, _). encoded_payload (committed_payload D c)) es)
        (map (\<lambda>(_, x, _). serialize x) es) (map (\<lambda>(c, _, _). get_kzg_commitment c) es) (map (\<lambda>(_, _, k). k) es))"

lemma accepted_blob_length:
  assumes "slice_unreduced (bn_fr_from_slice BN)" "blob_to_poly BN (serialize x) = Inr p"
  shows "length (serialize x) = 32 * unat (num_field_element x)"
proof -
  obtain xs where xs: "serialize x = concat (map fr_be xs)" "PolynomialEvalForm_new xs = Inr p"
    using blob_to_poly_Inr [OF assms] .
  have l: "length (concat (map fr_be xs)) = 32 * length xs" by (induction xs) simp_all
  have "length xs < 2 ^ 64"
    using xs(2) by (auto simp: PolynomialEvalForm_new_def MAINNET_SRS_G1_SIZE_def split: if_splits)
  then show ?thesis
    using xs(1) l by (simp add: num_field_element_def serialize_def unat_of_nat)
qed

lemma witness_payloads:
  assumes "from_witness VO fetch (proof_batch_verify True AK BN) w hash num ts chain = Ret p"
    and "bn_lawful BN \<tau>" "slice_unreduced (bn_fr_from_slice BN)" "inverse_sound (bn_fr_inverse BN)"
    and "witness_committed BN \<tau> D w" "\<not> witness_breaks_kzg BN \<tau> D w"
  shows "\<forall>(c, x, k)\<in>set (wit_encoded_payloads w). x = committed_payload D c"
proof -
  let ?es = "wit_encoded_payloads w"
  let ?bs = "map (\<lambda>(_, x, _). serialize x) ?es" and ?gs = "map (\<lambda>(c, _, _). get_kzg_commitment c) ?es"
    and ?ks = "map (\<lambda>(_, _, k). k) ?es" and ?ds = "map (\<lambda>(c, _, _). encoded_payload (committed_payload D c)) ?es"
  have v: "batch_verify BN ?bs ?gs ?ks = Ret True"
    and num: "\<forall>(c, x, _)\<in>set ?es. num_field_element x = get_num_field_element c"
    using assms(1) unfolding from_witness_Ret_iff proof_batch_verify_def by simp_all
  obtain polys where polys: "list_all2 (\<lambda>b p. blob_to_poly BN b = Inr p) ?bs polys"
    using v unfolding batch_verify_eq [OF assms(2)] outcome.inject eq_True kzg_batch_spec_True by blast
  have "length (serialize x) = length (encoded_payload (committed_payload D c))" if e: "(c, x, k) \<in> set ?es" for c x k
  proof -
    have "serialize x \<in> set ?bs" using e by force
    then obtain q where "blob_to_poly BN (serialize x) = Inr q" using list_all2_set1D [OF polys] by blast
    from accepted_blob_length [OF assms(3) this] show ?thesis
      using e num assms(5) unfolding witness_committed_def by fastforce
  qed
  then have "map length ?bs = map length ?ds" by auto
  moreover have "list_all2 (kzg_commits BN \<tau>) ?gs ?ds"
    using assms(5) by (auto simp: witness_committed_def list_all2_map1 list_all2_map2 list_all2_same)
  ultimately have "?bs = ?ds"
    using accepted_or_broken [OF assms(2-4) _ _ v] assms(6) unfolding witness_breaks_kzg_def Let_def by blast
  then have "serialize x = encoded_payload (committed_payload D c)" if "(c, x, k) \<in> set ?es" for c x k
    using that unfolding map_eq_conv by fastforce
  then show ?thesis by (auto simp: serialize_def intro: EncodedPayload_eqI)
qed

section \<open>Binding\<close>

text \<open>C16. A batch that the verifier accepts for commitments made of some data, with blobs of the lengths of
  the data, is the data, or else it breaks the check: the batch challenge hits a root of the residuals,
  the challenge of a blob hits a root of the difference of two polynomials, or a proof solves the
  strong Diffie-Hellman problem of the setup. For given openings the batch challenge can hit at most one
  root fewer than there are openings, and the challenge of a blob fewer than its padded length, in any
  list of challenges that differ by invertible elements; the solution, scaled by the inverse of its
  factor, is \<open>G / (\<tau> - z)\<close>; and where the data itself is opened, neither of the last two happens.\<close>

theorem accepted_payloads_bind:
  assumes "bn_lawful BN \<tau>" "slice_unreduced (bn_fr_from_slice BN)" "inverse_sound (bn_fr_inverse BN)"
    and "list_all2 (kzg_commits BN \<tau>) commitments ds" "map length blobs = map length ds"
    and "batch_verify BN blobs commitments proofs = Ret True"
  shows "(blobs = ds \<or> kzg_broken BN \<tau> ds blobs commitments proofs) \<and>
    (separated rs \<and> (\<forall>r\<in>set rs. lucky_batch BN \<tau> r Cs zs ys Ps) \<longrightarrow> length rs \<le> length Cs - 1) \<and>
    (separated zs' \<and> blob_interpolant d n c \<and> blob_interpolant b n c' \<and> length d = length b \<and> d \<noteq> b \<and>
      (\<forall>z\<in>set zs'. poly_value c n z = poly_value c' n z) \<longrightarrow> length zs' < n) \<and>
    (solves_sdh BN \<tau> d z y P \<longrightarrow>
      (\<exists>n c. blob_interpolant d n c \<and> poly_value c n z \<noteq> y \<and> (\<forall>u. u * (poly_value c n z - y) = 1 \<longrightarrow>
         bn_scale BN (\<tau> - z) (bn_scale BN u (P - quotient_point BN (setup_point BN \<tau>) c n z)) = bn_g1_one BN))) \<and>
    (blob_to_poly BN d = Inr q \<and> evaluate_polynomial_in_evaluation_form (bn_fr_inverse BN) q z = Inr y \<longrightarrow>
      \<not> lucky_point d d z \<and> \<not> solves_sdh BN \<tau> d z y P)"
  using own_data_breaks_nothing [OF assms(2,3)] accepted_or_broken [OF assms]
    lucky_batch_rare [OF bn_lawful_module [OF assms(1)]] lucky_point_rare
    solves_sdh_inverse [OF bn_lawful_module [OF assms(1)]]
  unfolding solves_sdh_def by meson

text \<open>Over the library in which a point is its discrete logarithm everything can be broken: the commitment
  \<open>19\<close>, made of the element \<open>19\<close>, opens to the element \<open>7\<close> with the proof \<open>3\<close>.\<close>

definition nineteen_blob :: bytes where
  "nineteen_blob = replicate 31 0 @ [19]"

lemma nineteen_blob_bytes: "nineteen_blob = fr_be 19"
proof -
  have "fr_to_nat (of_nat 19) = 19" by (rule fr_of_nat_small) (simp add: FR_ORDER_def)
  moreover have "nat_be (Suc 31) 19 = replicate 31 0 @ [19]" by (simp only: nat_be.simps) simp
  ultimately show ?thesis by (simp add: nineteen_blob_def fr_be_def)
qed

lemma nineteen_opened_as_seven:
  "batch_verify (dlog_bn 1) [sample_blob] [\<lparr> g1_x = 19, g1_y = 0 \<rparr>] [sample_proof] = Ret True"
proof -
  have c: "g1_point_to_affine (dlog_bn 1) \<lparr> g1_x = 19, g1_y = 0 \<rparr> = Inr 19"
    by (simp add: g1_point_to_affine_def dlog_bn_def Let_def b256_be_def)
  have "batch_decision (dlog_bn 1) 5 [sample_blob_poly] [19] [3] [7]"
    by (simp add: batch_decision_def Let_def batch_equation_def kzg_residual_def sample_challenge)
  then have "list_all2 (\<lambda>b p. blob_to_poly (dlog_bn 1) b = Inr p) [sample_blob] [sample_blob_poly] \<and>
      list_all2 (\<lambda>c C. g1_point_to_affine (dlog_bn 1) c = Inr C) [\<lparr> g1_x = 19, g1_y = 0 \<rparr>] [19] \<and>
      list_all2 (\<lambda>p P. proof_bytes_to_affine (dlog_bn 1) p = Inr P) [sample_proof] [3] \<and>
      length [19 :: Fr] = length [sample_blob_poly] \<and> length [3 :: Fr] = length [sample_blob_poly] \<and>
      list_all2 (\<lambda>pc y. blob_opening (dlog_bn 1) pc = Inr y) (zip [sample_blob_poly] [19]) [7] \<and>
      ([sample_blob_poly] = [] \<or> batch_decision (dlog_bn 1) 5 [sample_blob_poly] [19] [3] [7])"
    by (simp add: sample_blob_to_poly c sample_proof_point sample_opening)
  then have "kzg_batch_spec (dlog_bn 1) 5 [sample_blob] [\<lparr> g1_x = 19, g1_y = 0 \<rparr>] [sample_proof] = Inr True"
    unfolding kzg_batch_spec_True by blast
  then show ?thesis by (simp add: batch_verify_eq [OF dlog_lawful])
qed

theorem accepted_payloads_bind_witness:
  "kzg_broken (dlog_bn 1) 5 [nineteen_blob] [sample_blob] [\<lparr> g1_x = 19, g1_y = 0 \<rparr>] [sample_proof]"
proof -
  have "kzg_commits (dlog_bn 1) 5 \<lparr> g1_x = 19, g1_y = 0 \<rparr> nineteen_blob"
    unfolding kzg_commits_def using constant_interpolant [of 19, folded nineteen_blob_bytes]
    by (intro exI [of _ 1] exI [of _ "\<lambda>_. 19"])
       (simp add: g1_point_to_affine_def dlog_bn_def Let_def b256_be_def poly_value_def)
  then have "list_all2 (kzg_commits (dlog_bn 1) 5) [\<lparr> g1_x = 19, g1_y = 0 \<rparr>] [nineteen_blob]" by simp
  moreover have "map length [sample_blob] = map length [nineteen_blob]" "sample_blob \<noteq> nineteen_blob"
    by (simp_all add: sample_blob_def nineteen_blob_def)
  ultimately show ?thesis
    using accepted_payloads_bind [OF dlog_lawful dlog_slice dlog_inverse _ _ nineteen_opened_as_seven] by blast
qed

section \<open>A batch that is not broken\<close>

text \<open>The library in which the point \<open>(x, y)\<close> is the discrete logarithm \<open>y - 2x\<close>: the commitment \<open>(1, 2)\<close> is
  that of the zero polynomial.\<close>

definition line_bn :: "(nat, Fr, Fr, Fr) bn_ops" where
  "line_bn = (dlog_bn 1)\<lparr> bn_affine_new := (\<lambda>x y. Inr (of_nat y - 2 * of_nat x)) \<rparr>"

lemma line_lawful: "bn_lawful line_bn 5"
  using dlog_lawful [of 1] by (simp add: bn_lawful_def pairing_lawful_def G2_TAU_def line_bn_def)

lemma line_simps [simp]:
  "bn_fr_from_slice line_bn = bn_fr_from_slice (dlog_bn 1)" "bn_fr_inverse line_bn = bn_fr_inverse (dlog_bn 1)"
  "bn_scale line_bn = (*)" "bn_g1_one line_bn = 1"
  by (simp_all add: line_bn_def)

lemma line_points:
  "g1_point_to_affine line_bn \<lparr> g1_x = 1, g1_y = 2 \<rparr> = Inr 0" "proof_bytes_to_affine line_bn 0 = Inr 0"
  by (simp_all add: g1_point_to_affine_def proof_bytes_to_affine_def line_bn_def dlog_bn_def Let_def b256_be_def)

lemma zero_blob_bytes: "replicate 32 0 = fr_be 0"
proof -
  have "fr_to_nat (of_nat 0) = 0" by (rule fr_of_nat_small) (simp add: FR_ORDER_def)
  then show ?thesis by (simp add: fr_be_def)
qed

definition zero_poly :: PolynomialEvalForm where
  "zero_poly = \<lparr> evaluations = [0], len_underlying_blob_bytes = 32 \<rparr>"

lemma zero_poly_new: "PolynomialEvalForm_new [0] = Inr zero_poly"
  by (simp add: PolynomialEvalForm_new_def MAINNET_SRS_G1_SIZE_def zero_poly_def next_power_of_two.simps)

lemma line_blob: "blob_to_poly line_bn (replicate 32 0) = Inr zero_poly"
proof -
  have "replicate 32 0 = concat (map fr_be [0])" by (simp add: zero_blob_bytes)
  then have "to_fr_array_canonical (bn_fr_from_slice line_bn) (replicate 32 0) = Inr [0]"
    by (simp only: to_fr_array_canonical_Inr_iff [OF dlog_slice] line_simps)
  then show ?thesis by (simp add: blob_to_poly_def zero_poly_new)
qed

lemma line_challenge: "blob_challenge line_bn p C = 1"
  by (simp add: blob_challenge_def hash_to_field_element_def sample_digest line_bn_def)

lemma line_opening: "blob_opening line_bn (zero_poly, C) = Inr 0"
proof -
  obtain k w where k: "calculate_roots_of_unity (len_underlying_blob_bytes zero_poly) = Inr (map (\<lambda>i. w ^ i) [0..<2 ^ k])"
    "length (evaluations zero_poly) = 2 ^ k" using PolynomialEvalForm_new_roots [OF zero_poly_new] by blast
  moreover from k(2) have "(2::nat) ^ k = Suc 0" by (simp add: zero_poly_def)
  ultimately have "calculate_roots_of_unity 32 = Inr [1]" by (simp add: zero_poly_def)
  then show ?thesis
    by (simp add: blob_opening_def line_challenge evaluate_polynomial_in_evaluation_form_def
        zero_poly_def poly_len_def Let_def)
qed

lemma line_accepts:
  "batch_verify line_bn [replicate 32 0] [\<lparr> g1_x = 1, g1_y = 2 \<rparr>] [0] = Ret True"
proof -
  have "batch_decision line_bn 5 [zero_poly] [0] [0] [0]"
    by (simp add: batch_decision_def Let_def batch_equation_def kzg_residual_def)
  then have "list_all2 (\<lambda>b p. blob_to_poly line_bn b = Inr p) [replicate 32 0] [zero_poly] \<and>
      list_all2 (\<lambda>c C. g1_point_to_affine line_bn c = Inr C) [\<lparr> g1_x = 1, g1_y = 2 \<rparr>] [0] \<and>
      list_all2 (\<lambda>p P. proof_bytes_to_affine line_bn p = Inr P) [0] [0] \<and>
      length [0 :: Fr] = length [zero_poly] \<and> length [0 :: Fr] = length [zero_poly] \<and>
      list_all2 (\<lambda>pc y. blob_opening line_bn pc = Inr y) (zip [zero_poly] [0]) [0] \<and>
      ([zero_poly] = [] \<or> batch_decision line_bn 5 [zero_poly] [0] [0] [0])"
    by (simp add: line_blob line_points line_opening)
  then have "kzg_batch_spec line_bn 5 [replicate 32 0] [\<lparr> g1_x = 1, g1_y = 2 \<rparr>] [0] = Inr True"
    unfolding kzg_batch_spec_True by blast
  then show ?thesis by (simp add: batch_verify_eq [OF line_lawful])
qed

lemma line_commits: "kzg_commits line_bn 5 \<lparr> g1_x = 1, g1_y = 2 \<rparr> (replicate 32 0)"
  unfolding kzg_commits_def
  by (intro exI [of _ 1] exI [of _ "\<lambda>_. 0"]) (simp add: constant_interpolant [of 0, folded zero_blob_bytes, unfolded One_nat_def] line_points poly_value_def)

lemma line_not_broken:
  "\<not> kzg_broken line_bn 5 [replicate 32 0] [replicate 32 0] [\<lparr> g1_x = 1, g1_y = 2 \<rparr>] [0]"
proof
  assume "kzg_broken line_bn 5 [replicate 32 0] [replicate 32 0] [\<lparr> g1_x = 1, g1_y = 2 \<rparr>] [0]"
  then have "solves_sdh line_bn 5 (replicate 32 0) 1 0 0"
    unfolding kzg_broken_def decoded_points_def
    by (auto simp: list_all2_Cons1 line_blob line_points line_opening line_challenge lucky_batch_def lucky_point_def
        kzg_residual_def)
  then obtain n c where c: "blob_interpolant (replicate 32 0) n c" "poly_value c n 1 \<noteq> 0"
    unfolding solves_sdh_def by blast
  have "evaluate_polynomial_in_evaluation_form (bn_fr_inverse line_bn) zero_poly 1 = Inr 0"
    using line_opening [of 0] by (simp add: blob_opening_def line_challenge)
  from opening_value [OF _ _ line_blob this c(1)] c(2) show False by (simp add: dlog_slice dlog_inverse del: dlog_bn_simps)
qed

end
