(* ===== verification/Pipeline_Properties.thy ===== *)
theory Pipeline_Properties
  imports Sample_Runs Preloader Kzg_Binding
begin

text \<open>
  The properties of the whole pipeline: what a verdict in the zkVM means, and that witnesses the
  pipeline prepares are verified, with either Canoe host. They are applied to a run of the client on one
  commitment.
\<close>

section \<open>A run of the client\<close>

definition sample_boot :: BootInfo where
  "sample_boot =
     \<lparr> boot_l1_head = 7, boot_agreed_l2_output_root = 1, boot_claimed_l2_output_root = 2,
       boot_claimed_l2_block_number = 5, boot_l1_chain_id = 1 \<rparr>"

text \<open>A driver that calls the data source once and computes the claimed root from empty data.\<close>

definition sample_kona :: "(bytes list, unit) kona_ops" where
  "sample_kona =
     \<lparr> ko_boot_load = Inr sample_boot, ko_fetch_safe_head_hash = (\<lambda>_. Inr 3),
       ko_l2_header_number = (\<lambda>_ _. Inr 4), ko_new_pipeline_cursor = (\<lambda>_ _ _. Inr ()),
       ko_ethereum_source = (\<lambda>_. [[1, 1, 0, 2, 7]]),
       ko_driver = (\<lambda>_ _ seen. if seen = [] then CallNext sample_block 0
                     else if seen = [NextResult (Inr [])] then Finish (Inr (5, 2))
                     else Finish (Inl (OtherProgramError ''derivation''))) \<rparr>"

definition sample_header :: "u256 \<Rightarrow> (l1_header, string) result" where
  "sample_header hash = Inr \<lparr> hd_number = 200, hd_timestamp = 50 \<rparr>"

lemma sample_boot_load [simp]: "ko_boot_load sample_kona = Inr sample_boot"
  by (simp add: sample_kona_def)

lemma sample_prologue: "fp_prologue sample_kona = Inr (sample_boot, Some ())"
  by (simp add: fp_prologue_def sample_kona_def sample_boot_def)

lemma sample_client:
  assumes "data_source_next sample_alloy list_eth PO
      (EigenDADataSource_new [[1, 1, 0, 2, 7]] (EigenDAPreimageSource_new p)) sample_block 0 = Some (Ret (Inr [], s))"
  shows "run_fp_client sample_alloy list_eth sample_kona PO p =
      Some (Ret (Inr (), eigenda_fetcher (eigenda_source s)))"
proof -
  let ?d = "ko_driver sample_kona sample_boot ()"
  have "run_driver sample_alloy list_eth PO ?d []
      (EigenDADataSource_new [[1, 1, 0, 2, 7]] (EigenDAPreimageSource_new p)) = run_driver sample_alloy list_eth PO ?d
        ([] @ [NextResult (Inr [])]) s"
    by (rule run_driver_steps(3) [OF _ assms]) (simp add: sample_kona_def)
  also have "\<dots> = Some (Ret (Inr (5, 2), s))"
    by (rule run_driver_steps(1)) (simp add: sample_kona_def)
  finally show ?thesis
    by (simp add: run_fp_client_def sample_prologue fp_epilogue_def Let_def sample_boot_def) (simp add: sample_kona_def)
qed

lemma sample_preloaded_client:
  "run_fp_client sample_alloy list_eth sample_kona preloaded_provider
     (preloaded_of [(sample_c3, True)] [(sample_c3, sample_payload)]) = Some (Ret (Inr (), preloaded_of [] []))"
proof -
  have "data_source_next sample_alloy list_eth preloaded_provider
      (EigenDADataSource_new [[1, 1, 0, 2, 7]] (EigenDAPreimageSource_new
        (preloaded_of [(sample_c3, True)] [(sample_c3, sample_payload)]))) sample_block 0 =
     Some (Ret (Inr [], EigenDADataSource_new [] (EigenDAPreimageSource_new (preloaded_of [] []))))"
    by (rule sample_next_one) (simp add: sample_preloaded_next)
  from sample_client [OF this] show ?thesis
    by (simp add: EigenDADataSource_new_def EigenDAPreimageSource_new_def)
qed

text \<open>The sample witness, checked with the KZG verifier of the repository over \<open>line_bn\<close>.\<close>

abbreviation sample_kzg_check :: batch_verifier where
  "sample_kzg_check \<equiv> proof_batch_verify True blobless_ark line_bn"

lemma sample_kzg_commitment: "get_kzg_commitment sample_c3 = \<lparr> g1_x = 1, g1_y = 2 \<rparr>"
  by (simp add: get_kzg_commitment_def sample_cert_defs sample_g1_def)

lemma sample_kzg_from_witness:
  "from_witness sample_verifier (static_fetch_address 9) sample_kzg_check sample_witness 7 200 50 1 =
     Ret (preloaded_of [(sample_c3, True)] [(sample_c3, sample_payload)])"
  using sample_from_witness line_accepts unfolding from_witness_Ret_iff
  by (simp add: proof_batch_verify_def sample_witness_def serialize_def sample_payload_def sample_kzg_commitment
      del: mapM.simps)

lemma sample_witness_committed: "witness_committed line_bn 5 (\<lambda>_ _. replicate 32 0) sample_witness"
  using line_commits
  by (simp add: witness_committed_def sample_witness_def committed_payload_def sample_kzg_commitment)

lemma sample_witness_unbroken: "\<not> witness_breaks_kzg line_bn 5 (\<lambda>_ _. replicate 32 0) sample_witness"
  using line_not_broken
  by (simp add: witness_breaks_kzg_def sample_witness_def committed_payload_def sample_kzg_commitment
      serialize_def sample_payload_def)

lemma sample_zkvm_run:
  "run_within_zkvm_assume_oracle_verified sample_alloy list_eth sample_kona sample_header sample_verifier
     (static_fetch_address 9) sample_kzg_check sample_witness = Some (Ret (Inr ()))"
  using sample_kzg_from_witness sample_preloaded_client
  by (simp add: run_within_zkvm_assume_oracle_verified_def eigenda_witness_to_preloaded_provider_def Let_def
      sample_header_def sample_boot_def)

section \<open>The verdict in the zkVM\<close>

text \<open>C38. When the program of the zkVM returns a verdict on a witness, with the steel verifier, the KZG
  verifier of \<open>sp1-bn\<close> and any kona driver, it is the verdict the fault proof client reaches when every
  certificate has the validity the certificate verifier contract gives in one EVM environment, of the
  L1 chain and head of the boot information, and every payload is the data its KZG commitment was made
  of; or else the payloads and proofs of the witness break the KZG check: they solve the strong
  Diffie-Hellman problem of the setup or hit a root with a challenge, as \<open>kzg_broken\<close> says.\<close>

theorem zkvm_verdict_sound:
  assumes "run_within_zkvm_assume_oracle_verified A E K header_by_hash
      (CanoeSteelVerifier zkvm A FO SO) fetch (proof_batch_verify True AK BN) w = Some (Ret r)"
    and "\<forall>j. steel_proven zkvm SO j \<longrightarrow> steel_attested A B FO SO GO j"
    and "bincode_injective (so_bincode SO)"
    and "\<forall>(c, b)\<in>set (wit_validities w). rlp_law A (versioned_cert c)"
    and "bn_lawful BN \<tau>" "slice_unreduced (bn_fr_from_slice BN)" "inverse_sound (bn_fr_inverse BN)"
    and "witness_committed BN \<tau> D w" "ko_boot_load K = Inr boot" "header_by_hash (boot_l1_head boot) = Inr h"
  shows "witness_breaks_kzg BN \<tau> D w \<or>
    (\<exists>env. run_fp_client A E K (ideal_provider (chain_validity B GO fetch (boot_l1_chain_id boot) env)
        (committed_payload D)) () = Some (Ret (r, ())) \<and>
     (wit_validities w = [] \<or> run_env GO (boot_l1_chain_id boot) (boot_l1_head boot) (hd_number h) env))"
proof (cases "witness_breaks_kzg BN \<tau> D w")
  case nb: False
  from assms(1) obtain p where
    "from_witness (CanoeSteelVerifier zkvm A FO SO) fetch (proof_batch_verify True AK BN) w
      (boot_l1_head boot) (hd_number h) (hd_timestamp h) (boot_l1_chain_id boot) = Ret p"
    using assms(9,10) by (cases rule: zkvm_run_Ret) auto
  from zkvm_verdict_ideal [OF assms(1-4) witness_payloads [OF this assms(5-8) nb] assms(9,10)]
  show ?thesis by blast
qed simp

theorem zkvm_verdict_sound_witness:
  "\<exists>env. run_fp_client sample_alloy list_eth sample_kona
       (ideal_provider (chain_validity sample_abi sample_env (static_fetch_address 9) 1 env)
          (committed_payload (\<lambda>_ _. replicate 32 0))) () = Some (Ret (Inr (), ())) \<and>
     run_env sample_env 1 7 200 env"
proof -
  have "bincode_injective (so_bincode sample_steel)"
    "\<forall>(c, b)\<in>set (wit_validities sample_witness). rlp_law sample_alloy (versioned_cert c)"
    by (simp_all add: sample_steel_def sample_witness_def)
  from zkvm_verdict_sound [OF sample_zkvm_run sample_steel_proven this line_lawful _ _ sample_witness_committed,
      of sample_boot "\<lparr> hd_number = 200, hd_timestamp = 50 \<rparr>"] sample_witness_unbroken
  show ?thesis
    by (simp add: sample_header_def sample_boot_def sample_witness_def dlog_slice dlog_inverse del: dlog_bn_simps)
qed

section \<open>Prepared witnesses\<close>

text \<open>Provers on the sample: a KZG library that knows one blob, and a steel host.\<close>

definition sample_kzg :: "(unit, unit, nat \<times> nat) kzg_prover_ops" where
  "sample_kzg =
     \<lparr> kp_calculate_and_store_roots_of_unity = (\<lambda>_. Inr ()),
       kp_blob_new = (\<lambda>bs. if bs = replicate 32 0 then Inr () else Inl ''blob''),
       kp_to_polynomial_eval_form = (\<lambda>_. Inr ()), kp_commit_eval_form = (\<lambda>_ _. Inr (1, 2)),
       kp_compute_blob_proof = (\<lambda>_ _ _. Inr (0, 0)), kp_x = fst, kp_y = snd, kp_to_bytes_be = (\<lambda>_. [0]) \<rparr>"

definition sample_srs :: "(nat \<times> nat) SRS" where
  "sample_srs = \<lparr> srs_g1 = [], srs_order = 0 \<rparr>"

definition sample_receipts :: "unit steel_ops" where
  "sample_receipts = sample_steel\<lparr> so_receipt_from_slice := \<lambda>_. Inr (), so_receipt_verify := \<lambda>_. Inr (),
     so_receipt_journal := \<lambda>_. [1] \<rparr>"

definition sample_steel_host :: "(unit, unit, unit, unit, unit) steel_host_ops" where
  "sample_steel_host =
     \<lparr> sh_parse_url = (\<lambda>_. Inr ()), sh_build_env = (\<lambda>_ _ _. Inr ()), sh_header_seal = (\<lambda>_. 7),
       sh_preflight_call = (\<lambda>_ _ _. (Inr 1, ())), sh_into_input = (\<lambda>_. Inr ()),
       sh_executor_env = (\<lambda>_ inputs. if inputs = [sample_input] then Inr () else Inl ''inputs''),
       sh_prove = (\<lambda>_. Inr ()) \<rparr>"

abbreviation sample_canoe_provider :: "unit canoe_provider" where
  "sample_canoe_provider \<equiv> CanoeSteelProvider sample_abi sample_steel_host ''http://localhost:8545''"

definition sample_prover_side :: "(unit, unit, nat \<times> nat, unit) prover_side" where
  "sample_prover_side =
     \<lparr> ps_kzg = sample_kzg, ps_srs = Ret sample_srs, ps_canoe_provider = sample_canoe_provider,
       ps_to_vec = (\<lambda>_. Inr []), ps_fetch = static_fetch_address 9, ps_get = (\<lambda>_. Inr []),
       ps_header_number = (\<lambda>_. Some 200) \<rparr>"

lemma sample_prover_runs:
  "steel_prover_runs sample_alloy sample_abi sample_forks sample_receipts sample_env sample_steel_host"
  using sample_steel_guest
  by (auto simp: steel_prover_runs_def sample_receipts_def sample_steel_host_def split: if_splits)

lemma sample_forks_agree: "forks_agree sample_forks chain ts num"
  by (simp add: forks_agree_def sample_forks_def)

lemma sample_steel_proof:
  "get_steel_proof sample_abi sample_steel_host [sample_input] ''http://localhost:8545'' = Ret (Inr ())"
proof -
  have "CertVerifierCall_build sample_abi sample_c3 = ABIEncodeInterface [3]"
    by (simp add: CertVerifierCall_build_def sample_abi_def sample_c3_def)
  then show ?thesis
    by (simp add: get_steel_proof_def inputs_share_head_def sample_steel_host_def sample_input_def)
qed

lemma sample_kzg_complete: "kzg_complete sample_batch_verify sample_kzg srs"
  unfolding kzg_complete_def
proof (intro allI impI)
  fix entries kzg
  assume c: "\<forall>(c, x)\<in>set entries. commits_to sample_kzg srs c x"
  have "serialize x = replicate 32 0" if "(c, x) \<in> set entries" for c x
    using c that by (force simp: commits_to_def sample_kzg_def split: if_splits)
  then show "sample_batch_verify (map (\<lambda>(_, x). serialize x) entries)
      (map (\<lambda>(c, _). get_kzg_commitment c) entries) kzg = Ret True"
    by (auto simp: sample_batch_verify_def)
qed

lemma sample_preimage_client:
  "run_preimage_client sample_alloy list_eth sample_kona const_channel () = Some (Ret (Inr sample_recording))"
  using sample_client [OF sample_recorded_next]
  by (simp add: run_preimage_client_def sample_recorded_def EigenDADataSource_new_def EigenDAPreimageSource_new_def)

lemma sample_kzg_proofs:
  "create_kzg_proofs_for_eigenda_preimage sample_kzg (Ret sample_srs) [(sample_c3, sample_payload)] = Ret [0]"
proof -
  have c: "convert_biguint_to_be_32_bytes (\<lambda>_. [0]) n = Ret (replicate 32 0)" for n
  proof -
    have "write_at 31 [0] (replicate 32 0) = (replicate 32 0 :: bytes)"
      by (simp add: write_at_def eval_nat_numeral)
    then show ?thesis by (simp add: convert_biguint_to_be_32_bytes_def)
  qed
  have "compute_kzg_proof sample_kzg (Ret sample_srs) (serialize sample_payload) = Ret (Inr (replicate 64 0))"
    by (simp add: compute_kzg_proof_def compute_kzg_proof_with_srs_def sample_kzg_def c serialize_def
        sample_payload_def flip: replicate_add)
  then show ?thesis by (simp add: be_nat_zeros)
qed

lemma sample_prepared:
  "prepare_witness sample_alloy list_eth sample_kona const_channel sample_prover_side () =
     Some (Ret (Inr (sample_witness\<lparr> wit_canoe_proof_bytes := Some [] \<rparr>)))"
proof -
  have i: "from_eigenda_preimage_to_canoe_inputs (static_fetch_address 9) 1 7 200 [(sample_c3, True)] =
      Inr [sample_input]"
    by (simp add: static_fetch_address_def sample_input_def)
  have "prove_preimage sample_prover_side sample_boot sample_recording =
      Ret (Inr (sample_witness\<lparr> wit_canoe_proof_bytes := Some [] \<rparr>))"
    using sample_kzg_proofs sample_steel_proof sample_recorded_witness(1) i
    by (simp add: prove_preimage_def sample_prover_side_def sample_recording_def from_boot_info_to_canoe_proof_def
        sample_boot_def ok_or_def CanoeSteelProvider_def canoe_proof_bytes_option_def)
  then show ?thesis
    by (simp add: prepare_witness_def sample_preimage_client)
qed


lemma sample_canoe_complete:
  "canoe_complete (CanoeSteelVerifier False sample_alloy sample_forks sample_receipts) sample_canoe_provider
     (\<lambda>_. Inr []) 1 7 200 50"
  by (rule steel_canoe_complete [OF sample_prover_runs _ _ sample_forks_agree])
     (simp_all add: sample_receipts_def sample_env_def)

lemma sample_commits: "commits_to sample_kzg (Ret sample_srs) sample_c3 sample_payload"
  by (simp add: commits_to_def sample_kzg_def serialize_def sample_payload_def get_kzg_commitment_def
      sample_cert_defs sample_g1_def)


section \<open>Canoe hosts\<close>

text \<open>C40. What the steel host proves, the steel verifier accepts: a receipt the host returned for some
  inputs, read back from its bytes, is accepted for the claims the inputs stand for at the timestamp of
  their L1 head. The prover is assumed to return receipts of complete runs of the guest, a block hash to
  determine the timestamp, and the two fork tables to agree; the devnet is excluded.\<close>

theorem steel_host_receipts_accepted:
  assumes "steel_prover_runs A B FO SO GO SH" "get_steel_proof B SH inputs url = Ret (Inr r)"
    and "\<And>env. go_header_seal GO env = ci_l1_head_block_hash (hd inputs) \<Longrightarrow> go_header_timestamp GO env = ts"
    and "forks_agree FO (ci_l1_chain_id (hd inputs)) ts (ci_l1_head_block_number (hd inputs))"
    and "ci_l1_chain_id (hd inputs) \<noteq> 3151908" "so_receipt_from_slice SO bs = Inr r"
  shows "vo_validate_cert_receipt (CanoeSteelVerifier False A FO SO) (map (claim_of_input ts) inputs) (Some bs) =
    Ret (Inr ())"
  using assms by (rule steel_receipt_accepted)

theorem steel_host_receipts_accepted_witness:
  "vo_validate_cert_receipt (CanoeSteelVerifier False sample_alloy sample_forks sample_receipts) sample_claims (Some []) =
     Ret (Inr ())"
proof -
  have "map (claim_of_input 50) [sample_input] = sample_claims"
    by (simp add: claim_of_input_def sample_input_def sample_claims_def)
  with steel_host_receipts_accepted [OF sample_prover_runs sample_steel_proof _ sample_forks_agree, of 50 "[]"]
  show ?thesis by (simp add: sample_env_def sample_input_def sample_receipts_def)
qed

definition sample_sp1_host :: "(unit, unit, unit, unit) sp1_host_ops" where
  "sample_sp1_host =
     \<lparr> ph_genesis_known = (\<lambda>c. c = 1), ph_build_sketch = (\<lambda>_ _ _. Inr ()), ph_header_hash = (\<lambda>_. 7),
       ph_call_raw = (\<lambda>_ _ _ _. (Inr [1], ())), ph_abi_decode = (\<lambda>_. Inr SUCCESS), ph_finalize = (\<lambda>_. Inr ()),
       ph_serialize = (\<lambda>_. Inr []),
       ph_strategy_from_str_name = (\<lambda>_. None), ph_to_uppercase = (\<lambda>s. s), ph_parse_u64 = (\<lambda>_. Inl ''digit''),
       ph_client = (\<lambda>_ _. Inr ()), ph_execute_mock = (\<lambda>_ _. Inl ''mock''),
       ph_prove = (\<lambda>_ stdin _ _ _. if stdin = ([], [sample_input]) then Inr () else Inl ''stdin'') \<rparr>"

lemma sample_sp1_prover_runs: "sp1_prover_runs sample_alloy sample_abi sample_sp1 sample_executor sample_sp1_host"
  using sample_sp1_guest
  by (auto simp: sp1_prover_runs_def sample_sp1_host_def sp1_proven_def sample_sp1_def split: if_splits)

lemma sample_sp1_config: "sp1_config_agrees sample_alloy sample_forks sample_sp1 sample_executor 1 7 200 50"
  by (simp add: sp1_config_agrees_def sample_executor_def derive_chain_config_hash_def hash_chain_config_def
      derive_chain_spec_id_def l1_chain_of_def sample_forks_def sample_sp1_def)

lemma sample_sp1_sketch: "sp1_sketch_genesis sample_abi sample_sp1 sample_executor sample_sp1_host 1"
  by (simp add: sp1_sketch_genesis_def sample_sp1_def)

lemma sample_sp1_proof:
  "get_sp1_cc_proof sample_abi sample_sp1_host (\<lambda>_. None) [sample_input] () False = Ret (Inr ())"
  by (simp add: get_sp1_cc_proof_def canoe_proof_stdin_def inputs_share_head_def sp1_host_genesis_def
      generate_canoe_proof_def sp1_cc_proof_strategy_def env_nonempty_def env_u64_def sp1_network_mode_def
      sample_sp1_host_def sample_input_def Let_def)



text \<open>C19. For Holesky and the devnet, when rsp does not know the chain's genesis, the sp1-cc host proves
  against a genesis of its own while the verifier aborts on every non-empty list of claims about that
  chain, whatever proof comes with it.\<close>

theorem sp1_custom_genesis_never_verified:
  assumes "chain \<in> {17000, 3151908}" "\<not> ph_genesis_known PH chain" "pp_genesis_try_from PP chain = Inl e"
    and "claims \<noteq> []" "\<forall>(c, cv)\<in>set claims. cv_l1_chain_id cv = chain"
  shows "sp1_host_genesis PH chain = Ret (if chain = 17000 then HoleskyGenesis else KurtosisGenesis) \<and>
    (\<exists>m. vo_validate_cert_receipt (CanoeSp1CCVerifier zkvm A FO PP) claims pf = Panic m)"
  using sp1_unknown_genesis_aborts [OF assms(3-5)] assms(1,2) by (auto simp: sp1_host_genesis_def)

theorem sp1_custom_genesis_never_verified_witness:
  "sp1_host_genesis sample_sp1_host 17000 = Ret HoleskyGenesis \<and>
   (\<exists>m. vo_validate_cert_receipt (CanoeSp1CCVerifier True sample_alloy sample_forks
       (sample_sp1\<lparr> pp_genesis_try_from := \<lambda>c. if c = 1 then Inr () else Inl ''unknown chain'' \<rparr>))
      [(sample_c3, (snd (hd sample_claims))\<lparr> cv_l1_chain_id := 17000 \<rparr>)] None = Panic m)"
  using sp1_custom_genesis_never_verified [of 17000 sample_sp1_host
      "sample_sp1\<lparr> pp_genesis_try_from := \<lambda>c. if c = 1 then Inr () else Inl ''unknown chain'' \<rparr>" "''unknown chain''"
      "[(sample_c3, (snd (hd sample_claims))\<lparr> cv_l1_chain_id := 17000 \<rparr>)]" True sample_alloy sample_forks None]
  by (simp add: sample_sp1_host_def)

end
