(* ===== verification/Host_Config.thy ===== *)
theory Host_Config
  imports Host Fault_Proof_Client
begin

text \<open>
  The host program, \<open>bin/host/src/cfg.rs\<close>: which backend serves preimages, and what the native mode
  exits with.

  Kona's configuration, backends and server are parameters; a server that is not kona's own offline one
  needs the address of the EigenDA proxy.
\<close>

datatype SingleChainHostError = KonaHostError string | OtherHostError string | JoinError string

record host_cfg =
  cfg_server :: bool
  cfg_kona_is_offline :: bool
  cfg_eigenda_proxy_address :: "string option"
  cfg_verbose :: u8

record ('kp, 'w, 'u) SingleChainProvidersWithEigenDA =
  kona_providers :: 'kp
  eigenda_preimage_provider :: "('w, 'u) OnlineEigenDAPreimageProvider"

text \<open>The online backend sends a hint of its own, kona's payload witness, before it is asked.\<close>

datatype ('kv, 'kp, 'w, 'u, 'h) host_backend =
    OfflineHostBackend 'kv
  | OnlineHostBackend host_cfg 'kv "('kp, 'w, 'u) SingleChainProvidersWithEigenDA" "'h ExtendedHintType"

text \<open>\<open>kh_serve\<close> is the task that runs kona's preimage server on a backend until its channels close:
  the result of the server, unless the task panicked. It may not return.\<close>

record ('kv, 'kp, 'w, 'u, 'h) kona_host_ops =
  kh_create_key_value_store :: "('kv, SingleChainHostError) result"
  kh_create_providers :: "('kp, SingleChainHostError) result"
  kh_parse_url :: "string \<Rightarrow> ('u, string) result"
  kh_http_client :: 'w
  kh_L2PayloadWitness :: 'h
  kh_channel_new :: "(unit, SingleChainHostError) result"
  kh_serve :: "('kv, 'kp, 'w, 'u, 'h) host_backend \<Rightarrow> ((unit, SingleChainHostError) result, string) result option"

definition is_offline :: "host_cfg \<Rightarrow> bool" where
  "is_offline cfg \<longleftrightarrow> cfg_kona_is_offline cfg \<and> cfg_eigenda_proxy_address cfg = None"

definition create_providers ::
    "('kv, 'kp, 'w, 'u, 'h) kona_host_ops \<Rightarrow> host_cfg \<Rightarrow>
     (('kp, 'w, 'u) SingleChainProvidersWithEigenDA, SingleChainHostError) result" where
  "create_providers KH cfg =
     rbind (kh_create_providers KH) (\<lambda>kona.
     rbind (ok_or (OtherHostError ''EigenDA API URL must be set'') (cfg_eigenda_proxy_address cfg)) (\<lambda>url_str.
     rbind (map_err (\<lambda>_. OtherHostError ''Failed to parse EigenDA API URL'') (kh_parse_url KH url_str)) (\<lambda>base_url.
       Inr \<lparr> kona_providers = kona,
             eigenda_preimage_provider = new_http (kh_http_client KH) base_url \<rparr>)))"

text \<open>The backend of the task that is spawned.\<close>

definition start_server ::
    "('kv, 'kp, 'w, 'u, 'h) kona_host_ops \<Rightarrow> host_cfg \<Rightarrow>
     (('kv, 'kp, 'w, 'u, 'h) host_backend, SingleChainHostError) result" where
  "start_server KH cfg =
     rbind (kh_create_key_value_store KH) (\<lambda>kv_store.
       if is_offline cfg then Inr (OfflineHostBackend kv_store)
       else rbind (create_providers KH cfg) (\<lambda>providers.
              Inr (OnlineHostBackend cfg kv_store providers (Original (kh_L2PayloadWitness KH)))))"

text \<open>A client task that panicked gives a join error.\<close>

definition client_joined :: "((unit, 'e) result \<times> 'p) outcome \<Rightarrow> ((unit, 'e) result, string) result" where
  "client_joined y = (case y of Ret (r, _) \<Rightarrow> Inr r | Panic m \<Rightarrow> Inl m)"

text \<open>\<open>try_join!\<close> waits for both tasks, and no longer when one of them panicked (the server first, if both
  have). The result of the server is not looked at.\<close>

definition try_join :: "('a, string) result option \<Rightarrow> ('b, string) result option \<Rightarrow> ('b, string) result option" where
  "try_join server client =
     (case (server, client) of
        (Some (Inl e), _) \<Rightarrow> Some (Inl e)
      | (_, Some (Inl e)) \<Rightarrow> Some (Inl e)
      | (Some (Inr _), Some (Inr r)) \<Rightarrow> Some (Inr r)
      | _ \<Rightarrow> None)"

text \<open>What the process ends with: an error of the host, or an exit code.\<close>

definition start_native ::
    "alloy_ops \<Rightarrow> 'g eth_ops \<Rightarrow> ('g, 'cur) kona_ops \<Rightarrow> ('c, 'k) comms_ops \<Rightarrow>
     ('kv, 'kp, 'w, 'u, 'h) kona_host_ops \<Rightarrow> host_cfg \<Rightarrow> 'c \<Rightarrow> (int, SingleChainHostError) result option" where
  "start_native A E K CO KH cfg oracle =
     (case rbind (kh_channel_new KH) (\<lambda>_. rbind (kh_channel_new KH) (\<lambda>_. start_server KH cfg)) of
        Inl e \<Rightarrow> Some (Inl e)
      | Inr backend \<Rightarrow>
          map_option (\<lambda>joined. rbind (map_err JoinError joined) (\<lambda>client_result.
              Inr (case client_result of Inl _ \<Rightarrow> 1 | Inr _ \<Rightarrow> 0)))
            (try_join (kh_serve KH backend) (map_option client_joined (run_direct_client A E K CO oracle))))"

definition start ::
    "alloy_ops \<Rightarrow> 'g eth_ops \<Rightarrow> ('g, 'cur) kona_ops \<Rightarrow> ('c, 'k) comms_ops \<Rightarrow>
     ('kv, 'kp, 'w, 'u, 'h) kona_host_ops \<Rightarrow> host_cfg \<Rightarrow> 'c \<Rightarrow> (int, SingleChainHostError) result option" where
  "start A E K CO KH cfg oracle =
     (if cfg_server cfg then
        (case start_server KH cfg of
           Inl e \<Rightarrow> Some (Inl e)
         | Inr backend \<Rightarrow> map_option (\<lambda>joined. rbind (map_err JoinError joined) (\<lambda>r. rbind r (\<lambda>_. Inr 0)))
                            (kh_serve KH backend))
      else start_native A E K CO KH cfg oracle)"

section \<open>Backends and exit codes\<close>

lemma start_server_Inr_iff:
  "start_server KH cfg = Inr backend \<longleftrightarrow>
     (\<exists>kv. kh_create_key_value_store KH = Inr kv \<and>
        (is_offline cfg \<and> backend = OfflineHostBackend kv \<or>
         \<not> is_offline cfg \<and> (\<exists>kona url_str base_url. kh_create_providers KH = Inr kona \<and>
           cfg_eigenda_proxy_address cfg = Some url_str \<and> kh_parse_url KH url_str = Inr base_url \<and>
           backend = OnlineHostBackend cfg kv
             \<lparr> kona_providers = kona, eigenda_preimage_provider = new_http (kh_http_client KH) base_url \<rparr>
             (Original (kh_L2PayloadWitness KH)))))"
  by (auto simp: start_server_def create_providers_def rbind_eq_Inr ok_or_def split: option.splits)

text \<open>Without the address of a proxy only kona's offline mode can be served.\<close>

lemma no_proxy_no_online_server:
  assumes "cfg_eigenda_proxy_address cfg = None" "start_server KH cfg = Inr backend"
  shows "cfg_kona_is_offline cfg"
  using assms by (auto simp: start_server_Inr_iff is_offline_def)

text \<open>The native mode exits with 0 exactly when the client accepts the claim and no task panics; that the
  server failed does not show.\<close>

lemma start_native_exit_0:
  assumes "kh_channel_new KH = Inr ()" "start_server KH cfg = Inr backend" "kh_serve KH backend = Some (Inr served)"
  shows "start_native A E K CO KH cfg oracle = Some (Inr 0) \<longleftrightarrow>
    (\<exists>p. run_direct_client A E K CO oracle = Some (Ret (Inr (), p)))"
  using assms
  by (auto simp: start_native_def try_join_def client_joined_def split: outcome.splits sum.splits option.splits)

end
