(* ===== verification/Srs_Build.thy ===== *)
theory Srs_Build
  imports Kzg_Prover
begin

text \<open>
  The build script of \<open>crates/compute-proof\<close> (\<open>build.rs\<close>), which writes the points of the setup and the
  constants the library includes, and the unit test of \<open>kzg_proof.rs\<close>. The library loads exactly the
  points the script wrote.
\<close>

section \<open>The build script\<close>

definition SRS_ORDER :: u32 where
  "SRS_ORDER = 268435456"

text \<open>Paths are lists of components.\<close>

type_synonym path = "string list"

definition path_parent :: "path \<Rightarrow> path option" where
  "path_parent p = (if p = [] then None else Some (butlast p))"

definition unwrap_option :: "string \<Rightarrow> 'a option \<Rightarrow> 'a outcome" where
  "unwrap_option m x = (case x of None \<Rightarrow> Panic m | Some v \<Rightarrow> Ret v)"

record 'pt srs_build_ops =
  sb_srs_new :: "path \<Rightarrow> u32 \<Rightarrow> u32 \<Rightarrow> ('pt SRS, string) result"
  sb_serialize_uncompressed :: "'pt list \<Rightarrow> (bytes, string) result"
  sb_write :: "path \<Rightarrow> (unit, string) result"
  sb_is_utf8 :: "path \<Rightarrow> bool"

text \<open>The generated source of the two constants, line by line.\<close>

definition generate_constants :: "nat \<Rightarrow> nat \<Rightarrow> string list" where
  "generate_constants points byte_size =
     [''// Auto-generated constants - DO NOT EDIT'',
      '''',
      ''/// Number of G1 points to load from the SRS data.'',
      ''/// This represents the maximum degree of polynomials that can be committed.'',
      ''pub const POINTS_TO_LOAD: usize = '' @ show_nat points @ '';'',
      '''',
      ''/// Total byte size of the embedded SRS point data.'',
      ''/// This is calculated as POINTS_TO_LOAD * `size_of::<G1Affine>`().'',
      ''pub const BYTE_SIZE: usize = '' @ show_nat byte_size @ '';'']"

record build_output =
  out_srs_points :: bytes
  out_constants :: "string list"

definition srs_build_main ::
    "'pt srs_build_ops \<Rightarrow> (string \<Rightarrow> path option) \<Rightarrow> build_output outcome" where
  "srs_build_main SB var =
     obind (case var ''CARGO_MANIFEST_DIR'' of
              None \<Rightarrow> Panic ''Failed to get workspace root''
            | Some dir \<Rightarrow>
                obind (unwrap_option ''called `Option::unwrap()` on a `None` value'' (path_parent dir))
                  (\<lambda>crates. unwrap_option ''called `Option::unwrap()` on a `None` value'' (path_parent crates)))
       (\<lambda>workspace_root.
     let path = workspace_root @ [''resources'', ''g1.point''] in
     obind (oassert (sb_is_utf8 SB path) ''Invalid path'') (\<lambda>_.
     obind (unwrap ''Failed to create SRS'' (sb_srs_new SB path SRS_ORDER (of_nat POINTS_TO_LOAD))) (\<lambda>srs.
     obind (oassert (length (srs_g1 srs) = POINTS_TO_LOAD) ''assertion failed: srs.g1.len() == POINTS_TO_LOAD'') (\<lambda>_.
     obind (unwrap_option ''called `Result::unwrap()` on an `Err` value'' (var ''OUT_DIR'')) (\<lambda>out_path.
     obind (unwrap ''Failed to serialize G1 points'' (sb_serialize_uncompressed SB (srs_g1 srs))) (\<lambda>g1_bytes.
     obind (unwrap ''Failed to write G1 points'' (sb_write SB (out_path @ [''srs_points.bin'']))) (\<lambda>_.
     let byte_size = length g1_bytes in
     obind (unwrap ''Failed to write constants'' (sb_write SB (out_path @ [''constants.rs'']))) (\<lambda>_.
       Ret \<lparr> out_srs_points = g1_bytes,
             out_constants = generate_constants POINTS_TO_LOAD byte_size \<rparr>))))))))"

section \<open>What the library loads\<close>

lemma unwrap_option_Ret: "unwrap_option m x = Ret v \<longleftrightarrow> x = Some v"
  by (cases x) (simp_all add: unwrap_option_def)

text \<open>arkworks reads back what it wrote.\<close>

definition serialize_law ::
    "('pt list \<Rightarrow> (bytes, string) result) \<Rightarrow> (bytes \<Rightarrow> ('pt list, string) result) \<Rightarrow> bool" where
  "serialize_law ser de \<longleftrightarrow> (\<forall>pts bs. ser pts = Inr bs \<longrightarrow> de bs = Inr pts)"

lemma library_loads_built_points:
  assumes "srs_build_main SB var = Ret out" "serialize_law (sb_serialize_uncompressed SB) de"
  obtains srs where "sb_srs_new SB (butlast (butlast (the (var ''CARGO_MANIFEST_DIR''))) @ [''resources'', ''g1.point''])
      SRS_ORDER (of_nat POINTS_TO_LOAD) = Inr srs"
    "G1_SRS de (out_srs_points out) = Ret \<lparr> srs_g1 = srs_g1 srs, srs_order = of_nat (POINTS_TO_LOAD * 32) \<rparr>"
proof -
  obtain dir srs bs where "var ''CARGO_MANIFEST_DIR'' = Some dir" "length (srs_g1 srs) = POINTS_TO_LOAD"
    "sb_srs_new SB (butlast (butlast dir) @ [''resources'', ''g1.point'']) SRS_ORDER (of_nat POINTS_TO_LOAD) = Inr srs"
    "sb_serialize_uncompressed SB (srs_g1 srs) = Inr bs" "out_srs_points out = bs"
    using assms(1)
    by (auto simp: srs_build_main_def obind_eq_Ret Let_def unwrap_option_Ret path_parent_def unwrap_eq_Ret
        split: option.splits if_splits)
  then show thesis
    using assms(2) that [of srs] by (auto simp: G1_SRS_def serialize_law_def)
qed

text \<open>The number of points is below the order of the setup, which the library does not use: it sets the
  order to the size of the setup's blobs in bytes.\<close>

lemma setup_orders:
  "POINTS_TO_LOAD = 2 ^ 19" "unat SRS_ORDER = 2 ^ 28" "POINTS_TO_LOAD * 32 = 2 ^ 24"
  by (simp_all add: POINTS_TO_LOAD_def SRS_ORDER_def)

section \<open>The unit test\<close>

definition test_convert_biguint_to_be_32_bytes :: "(nat \<Rightarrow> bytes) \<Rightarrow> bool" where
  "test_convert_biguint_to_be_32_bytes to_bytes_be \<longleftrightarrow>
     convert_biguint_to_be_32_bytes to_bytes_be (be_nat [129, 255]) = Ret (replicate 30 0 @ [129, 255]) \<and>
     convert_biguint_to_be_32_bytes to_bytes_be (be_nat (replicate 32 1)) = Ret (replicate 32 1)"

lemma convert_test_passes:
  assumes "bytes_be_law to_bytes_be"
  shows "test_convert_biguint_to_be_32_bytes to_bytes_be"
proof -
  have c: "convert_biguint_to_be_32_bytes to_bytes_be (be_nat bs) = Ret (nat_be 32 (be_nat bs))"
    if "length bs \<le> 32" for bs
  proof (rule convert_biguint [OF assms])
    show "be_nat bs < 256 ^ 32"
      using be_nat_bound [of bs] power_increasing [OF that, of "256 :: nat"] by simp
  qed
  have "be_nat (replicate 30 0 @ [129, 255]) = be_nat [129, 255]" by (simp add: be_nat_append)
  then have "nat_be 32 (be_nat [129, 255]) = replicate 30 0 @ [129, 255]"
    using nat_be_be_nat_len [of "replicate 30 0 @ [129, 255]" 32] by simp
  then show ?thesis
    using c [of "[129, 255]"] c [of "replicate 32 1"] nat_be_be_nat_len [of "replicate 32 1" 32]
    by (simp add: test_convert_biguint_to_be_32_bytes_def)
qed

end
