(* ===== verification/Preloader_Main.thy ===== *)
theory Preloader_Main
  imports Preloader Host_Config Srs_Build
begin

text \<open>
  The main function of \<open>example/preloader/src/main.rs\<close>: it starts the preimage server, picks a Canoe provider
  and verifier by the features it was compiled with, and exits with the verdict of the pipeline. The SRS
  it proves with is the one \<open>Srs_Build\<close> describes.
\<close>

section \<open>The choice of Canoe\<close>

datatype canoe_feature = SteelFeature | Sp1CcFeature | NoCanoeFeature

definition canoe_feature_of :: "bool \<Rightarrow> bool \<Rightarrow> canoe_feature" where
  "canoe_feature_of steel sp1_cc =
     (if steel then SteelFeature else if sp1_cc then Sp1CcFeature else NoCanoeFeature)"

definition steel_canoe ::
    "abi_ops \<Rightarrow> ('u, 'h, 'i, 'w, 'r) steel_host_ops \<Rightarrow> alloy_ops \<Rightarrow> fork_ops \<Rightarrow> 'r steel_ops \<Rightarrow> string option \<Rightarrow>
     ('r canoe_provider \<times> canoe_verifier_ops) outcome" where
  "steel_canoe B SH A FO SO l1_node_address =
     obind (unwrap_option ''called `Option::unwrap()` on a `None` value'' l1_node_address) (\<lambda>eth_rpc_url.
       Ret (CanoeSteelProvider B SH eth_rpc_url, CanoeSteelVerifierForDevnetTesting False A FO SO))"

definition to_ascii_lowercase :: "string \<Rightarrow> string" where
  "to_ascii_lowercase s =
     map (\<lambda>c. if (65 :: nat) \<le> of_char c \<and> of_char c \<le> (90 :: nat) then char_of (of_char c + 32 :: nat) else c) s"

definition parse_bool :: "string \<Rightarrow> bool option" where
  "parse_bool s = (if s = ''true'' then Some True else if s = ''false'' then Some False else None)"

definition preloader_mock_mode :: "process_env \<Rightarrow> bool" where
  "preloader_mock_mode env =
     (case Option.bind (map_option to_ascii_lowercase (env ''OP_SUCCINCT_MOCK'')) parse_bool of
        Some b \<Rightarrow> b | None \<Rightarrow> False)"

text \<open>\<open>setup\<close> is the set-up of the proving key, \<open>rpc_of_url\<close> the RPC client of an address.\<close>

definition sp1_canoe ::
    "abi_ops \<Rightarrow> ('c, 's, 'cl, 'pf) sp1_host_ops \<Rightarrow> process_env \<Rightarrow> ('pf \<Rightarrow> 'rp option) \<Rightarrow> (unit, string) result \<Rightarrow>
     (string \<Rightarrow> ('c, string) result) \<Rightarrow> string option \<Rightarrow> ('rp canoe_provider \<times> canoe_verifier_ops) outcome" where
  "sp1_canoe B PH env compressed setup rpc_of_url l1_node_address =
     obind (unwrap ''called `Result::unwrap()` on an `Err` value'' setup) (\<lambda>_.
     let mock_mode = preloader_mock_mode env in
     obind (unwrap_option ''called `Option::unwrap()` on a `None` value'' l1_node_address) (\<lambda>address.
     obind (unwrap ''should be able to parse l1 node address to url'' (rpc_of_url address)) (\<lambda>eth_rpc_client.
       Ret (CanoeSp1CCReducedProofProvider B PH env compressed eth_rpc_client mock_mode, CanoeNoOpVerifier))))"

definition noop_canoe :: "(unit canoe_provider \<times> canoe_verifier_ops) outcome" where
  "noop_canoe = Ret (\<lambda>inputs. Ret (noop_create_certs_validity_proof inputs), CanoeNoOpVerifier)"

section \<open>The program\<close>

text \<open>The task of the pipeline, joined.\<close>

definition pipeline_joined :: "(unit, anyhow_error) result outcome \<Rightarrow> ((unit, anyhow_error) result, string) result" where
  "pipeline_joined y = (case y of Ret r \<Rightarrow> Inr r | Panic m \<Rightarrow> Inl m)"

definition preloader_main ::
    "alloy_ops \<Rightarrow> 'g eth_ops \<Rightarrow> ('g, 'cur) kona_ops \<Rightarrow> ('o, 'k) comms_ops \<Rightarrow>
     ('kv, 'kp, 'w, 'u, 'h) kona_host_ops \<Rightarrow> host_cfg \<Rightarrow> ('b, 'p, 'pt, 'r) prover_side \<Rightarrow>
     ('r canoe_provider \<times> canoe_verifier_ops) outcome \<Rightarrow> (u256 \<Rightarrow> (l1_header, string) result) \<Rightarrow>
     batch_verifier \<Rightarrow> 'o \<Rightarrow> (int, SingleChainHostError) result outcome option" where
  "preloader_main A E K CO KH cfg PS canoe header_by_hash BV oracle =
     (case rbind (kh_channel_new KH) (\<lambda>_. rbind (kh_channel_new KH) (\<lambda>_. start_server KH cfg)) of
        Inl e \<Rightarrow> Some (Ret (Inl e))
      | Inr backend \<Rightarrow>
          (case canoe of
             Panic m \<Rightarrow> Some (Panic m)
           | Ret (canoe_provider, canoe_verifier) \<Rightarrow>
               let PS = PS\<lparr> ps_canoe_provider := canoe_provider, ps_fetch := eigenlabs_fetch_address \<rparr>;
                   client = run_witgen_and_zk_verification A E K CO PS header_by_hash canoe_verifier BV oracle
               in map_option (\<lambda>joined. Ret (rbind (map_err JoinError joined) (\<lambda>client_result.
                      Inr (case client_result of Inl _ \<Rightarrow> 1 | Inr _ \<Rightarrow> 0))))
                    (try_join (kh_serve KH backend) (map_option pipeline_joined client))))"

section \<open>Exit codes\<close>

text \<open>With the server running, the program exits with 0 exactly when the whole pipeline succeeded.\<close>

lemma preloader_exit_0:
  assumes "kh_channel_new KH = Inr ()" "start_server KH cfg = Inr backend" "kh_serve KH backend = Some (Inr served)"
    and "canoe = Ret (canoe_provider, canoe_verifier)"
  shows "preloader_main A E K CO KH cfg PS canoe header_by_hash BV oracle = Some (Ret (Inr 0)) \<longleftrightarrow>
    run_witgen_and_zk_verification A E K CO
      (PS\<lparr> ps_canoe_provider := canoe_provider, ps_fetch := eigenlabs_fetch_address \<rparr>)
      header_by_hash canoe_verifier BV oracle = Some (Ret (Inr ()))"
  using assms
  by (auto simp: preloader_main_def try_join_def pipeline_joined_def Let_def
      split: outcome.splits sum.splits option.splits)

text \<open>Only the steel feature checks the Canoe proof: with the others the verifier accepts all claims,
  since an sp1-cc proof can be checked only in the zkVM.\<close>

lemma canoe_choice_verifiers:
  "steel_canoe B SH A FO SO l1 = Ret (cp, cv) \<Longrightarrow> cv = CanoeSteelVerifierForDevnetTesting False A FO SO"
  "sp1_canoe B PH env compressed setup http l1 = Ret (cp', cv') \<Longrightarrow> vo_validate_cert_receipt cv' claims pf = Ret (Inr ())"
  "noop_canoe = Ret (cp'', cv'') \<Longrightarrow> vo_validate_cert_receipt cv'' claims pf = Ret (Inr ())"
  by (auto simp: steel_canoe_def sp1_canoe_def noop_canoe_def obind_eq_Ret Let_def CanoeNoOpVerifier_def)

text \<open>Mock mode takes any spelling of \<open>true\<close> and nothing else.\<close>

lemma preloader_mock_mode_iff:
  "preloader_mock_mode env \<longleftrightarrow> (\<exists>v. env ''OP_SUCCINCT_MOCK'' = Some v \<and> to_ascii_lowercase v = ''true'')"
  by (cases "env ''OP_SUCCINCT_MOCK''") (auto simp: preloader_mock_mode_def parse_bool_def)

lemma mock_mode_spellings:
  "preloader_mock_mode [''OP_SUCCINCT_MOCK'' \<mapsto> ''TRUE'']" "\<not> preloader_mock_mode [''OP_SUCCINCT_MOCK'' \<mapsto> ''1'']"
  by (simp_all add: preloader_mock_mode_def to_ascii_lowercase_def parse_bool_def char_of_def bit_0)

end
