(* ===== verification/Kzg_Decimal.thy ===== *)
theory Kzg_Decimal
  imports Kzg_Field
begin

text \<open>
  How \<open>crates/sp1-bn-verifier/src/helpers.rs\<close> makes a field element of a small integer: it renders the
  integer in decimal and has substrate-bn parse the text. The evaluation of polynomials uses
  \<open>of_nat\<close> in its place, which is shown to be the same.
\<close>

function decimal_loop :: "nat \<Rightarrow> u8 list \<Rightarrow> u8 list" where
  "decimal_loop x digits =
     (if x > 0 then decimal_loop (x div 10) (digits @ [of_nat (x mod 10) + 48]) else digits)"
  by auto
termination by (relation "measure fst") auto

declare decimal_loop.simps [simp del]

definition usize_to_decimal :: "nat \<Rightarrow> string" where
  "usize_to_decimal n =
     (if n = 0 then ''0'' else map (\<lambda>d. char_of (unat d)) (rev (decimal_loop n [])))"

definition fr_from_usize :: "(string \<Rightarrow> Fr option) \<Rightarrow> nat \<Rightarrow> Fr outcome" where
  "fr_from_usize from_str n =
     (case from_str (usize_to_decimal n) of
        Some x \<Rightarrow> Ret x
      | None \<Rightarrow> Panic ''decimal representation of usize is always a valid Fr'')"

section \<open>The text is the decimal of the integer\<close>

lemma decimal_digit: "d < 10 \<Longrightarrow> char_of (unat (of_nat d + 48 :: u8)) = digit_char d"
proof -
  assume d: "d < 10"
  have "of_nat d + 48 = (of_nat (48 + d) :: u8)" by simp
  then have "unat (of_nat d + 48 :: u8) = 48 + d" using d by (simp only: unat_of_nat) simp
  then show ?thesis by (simp add: digit_char_def)
qed

lemma decimal_loop_show_nat:
  "0 < x \<Longrightarrow> map (\<lambda>d. char_of (unat d)) (rev (decimal_loop x digits)) =
     show_nat x @ map (\<lambda>d. char_of (unat d)) (rev digits)"
proof (induction x arbitrary: digits rule: show_nat.induct)
  case (1 n)
  have d: "char_of (unat (of_nat (n mod 10) + 48 :: u8)) = digit_char (n mod 10)"
    by (rule decimal_digit) simp
  show ?case
  proof (cases "n < 10")
    case True
    then show ?thesis using 1(2) d
      by (simp add: decimal_loop.simps [of n] decimal_loop.simps [of 0] show_nat.simps [of n])
  next
    case False
    then have "0 < n div 10" by simp
    then show ?thesis using 1(1) [OF False] False d
      by (simp add: decimal_loop.simps [of n] show_nat.simps [of n])
  qed
qed

lemma usize_to_decimal_show_nat: "usize_to_decimal n = show_nat n"
  using decimal_loop_show_nat [of n "[]"]
  by (cases "n = 0") (simp_all add: usize_to_decimal_def show_nat.simps [of 0] digit_char_def char_of_def bit_0)

text \<open>substrate-bn's parser reads the decimal of an integer as the integer modulo the order.\<close>

definition from_str_law :: "(string \<Rightarrow> Fr option) \<Rightarrow> bool" where
  "from_str_law from_str \<longleftrightarrow>
     (\<forall>ds. ds \<noteq> [] \<longrightarrow> (\<forall>d\<in>set ds. d < 10) \<longrightarrow>
        from_str (map digit_char ds) = Some (of_nat (foldl (\<lambda>v d. v * 10 + d) 0 ds)))"

lemma show_nat_digits:
  "\<exists>ds. show_nat n = map digit_char ds \<and> ds \<noteq> [] \<and> (\<forall>d\<in>set ds. d < 10) \<and> foldl (\<lambda>v d. v * 10 + d) 0 ds = n"
proof (induction n rule: show_nat.induct)
  case (1 n)
  show ?case
  proof (cases "n < 10")
    case True
    then show ?thesis by (intro exI [of _ "[n]"]) (simp add: show_nat.simps [of n])
  next
    case False
    then obtain ds where "show_nat (n div 10) = map digit_char ds" "ds \<noteq> []" "\<forall>d\<in>set ds. d < 10"
      "foldl (\<lambda>v d. v * 10 + d) 0 ds = n div 10"
      using 1 by blast
    then show ?thesis using False
      by (intro exI [of _ "ds @ [n mod 10]"]) (auto simp: show_nat.simps [of n])
  qed
qed

lemma fr_from_usize_of_nat:
  assumes "from_str_law from_str"
  shows "fr_from_usize from_str n = Ret (of_nat n)"
proof -
  obtain ds where "show_nat n = map digit_char ds" "ds \<noteq> []" "\<forall>d\<in>set ds. d < 10"
    "foldl (\<lambda>v d. v * 10 + d) 0 ds = n"
    using show_nat_digits by blast
  then show ?thesis using assms by (simp add: fr_from_usize_def usize_to_decimal_show_nat from_str_law_def)
qed

end
