(* ===== verification/Tools.thy ===== *)
theory Tools
  imports Zkvm_Soundness
begin

text \<open>
  Small programs around the library: the example \<open>example/canoe-on-sepolia\<close>, the tool
  \<open>canoe/sp1-cc/vkey-bin\<close> and the log filter of \<open>bin/host/src/lib.rs\<close>.
\<close>

section \<open>Canoe on Sepolia\<close>

text \<open>The JSON-RPC provider of alloy; headers are hashed by \<open>rpc_hash_slow\<close>.\<close>

record ('u, 'h) rpc_ops =
  rpc_parse_url :: "string \<Rightarrow> ('u, string) result"
  rpc_chain_id :: "'u \<Rightarrow> (u64, string) result"
  rpc_block_number :: "'u \<Rightarrow> (u64, string) result"
  rpc_block_by_number :: "'u \<Rightarrow> u64 \<Rightarrow> ('h option, string) result"
  rpc_hash_slow :: "'h \<Rightarrow> u256"

definition get_canoe_input ::
    "alloy_ops \<Rightarrow> ('u, 'h) rpc_ops \<Rightarrow> bytes \<Rightarrow> bool \<Rightarrow> string \<Rightarrow> address_fetch \<Rightarrow> (CanoeInput, string) result outcome" where
  "get_canoe_input A RP v2_cert_rlp_vec validity eth_rpc_url fetch =
     obind (unwrap ''should be able to convert bytes to altda commitment'' (AltDACommitment_try_from A v2_cert_rlp_vec)) (\<lambda>c.
     obind (unwrap ''called `Result::unwrap()` on an `Err` value'' (rpc_parse_url RP eth_rpc_url)) (\<lambda>provider.
     obind (unwrap ''should have received chain ID'' (rpc_chain_id RP provider)) (\<lambda>provider_chain_id.
     if provider_chain_id \<noteq> 11155111 then Panic ''the provided rpc does not point to sepolia''
     else
       orbind (Ret (rpc_block_number RP provider)) (\<lambda>block_number.
       orbind (Ret (rpc_block_by_number RP provider block_number)) (\<lambda>block_opt.
       orbind (Ret (ok_or (''block '' @ show_nat (unat block_number) @ '' not found'') block_opt)) (\<lambda>header.
       let l1_block_hash = rpc_hash_slow RP header in
       orbind (Ret (map_err FetcherError_to_string (fetch 11155111 (versioned_cert c)))) (\<lambda>verifier_address.
         Ret (Inr
           \<lparr> ci_altda_commitment = c, ci_claimed_validity = validity,
             ci_l1_head_block_hash = l1_block_hash, ci_l1_head_block_number = block_number,
             ci_l1_chain_id = 11155111, ci_verifier_address = verifier_address \<rparr>))))))))"

definition verify_canoe_proof ::
    "bool \<Rightarrow> alloy_ops \<Rightarrow> fork_ops \<Rightarrow> 'r steel_ops \<Rightarrow> CertValidity \<Rightarrow> AltDACommitment \<Rightarrow> bytes \<Rightarrow>
     (unit, HokuleaCanoeVerificationError) result outcome" where
  "verify_canoe_proof zkvm A FO SO cert_validity c canoe_proof_bytes =
     vo_validate_cert_receipt (CanoeSteelVerifier zkvm A FO SO) [(c, cert_validity)] (Some canoe_proof_bytes)"

text \<open>The input is about the parsed commitment on Sepolia, at the block the provider calls the latest, and
  its hash is that block's.\<close>

lemma get_canoe_input_Ret:
  assumes "get_canoe_input A RP bs validity url fetch = Ret (Inr i)"
  obtains c u n h a where "AltDACommitment_try_from A bs = Inr c" "rpc_parse_url RP url = Inr u"
    "rpc_chain_id RP u = Inr 11155111" "rpc_block_number RP u = Inr n" "rpc_block_by_number RP u n = Inr (Some h)"
    "fetch 11155111 (versioned_cert c) = Inr a"
    "i = \<lparr> ci_altda_commitment = c, ci_claimed_validity = validity, ci_l1_head_block_hash = rpc_hash_slow RP h,
           ci_l1_head_block_number = n, ci_l1_chain_id = 11155111, ci_verifier_address = a \<rparr>"
  using assms that
  by (auto simp: get_canoe_input_def obind_eq_Ret orbind_eq_RetInr unwrap_def ok_or_def map_err_eq_Inr
      split: sum.splits if_splits option.splits)

text \<open>What an accepted proof says, when the guest that risc0 accepts proofs of is the one of the
  repository.\<close>

lemma verify_canoe_proof_sound:
  assumes "verify_canoe_proof zkvm A FO SO cv c bs = Ret (Inr ())"
    and "\<forall>j. steel_proven zkvm SO j \<longrightarrow> steel_attested A B FO SO GO j"
    and "bincode_injective (so_bincode SO)" "rlp_law A (versioned_cert c)"
  shows "\<exists>env. claim_env GO cv env \<and>
    cv_claimed_validity cv = steel_is_valid B GO env (cv_verifier_address cv) c"
  using steel_claims_true [OF assms(1) [unfolded verify_canoe_proof_def] assms(2,3)] assms(4) by auto

section \<open>The verification key\<close>

text \<open>\<open>setup\<close> is the prover's set-up of an ELF; a key is given by its bytes and by its eight words.\<close>

definition vkey_main ::
    "('p \<Rightarrow> (bytes, string) result) \<Rightarrow> (bytes \<Rightarrow> (bytes \<times> u32 list, string) result) \<Rightarrow> (u32 list \<Rightarrow> string) \<Rightarrow>
     'p \<Rightarrow> bool \<Rightarrow> string outcome" where
  "vkey_main fs_read setup debug elf hex =
     obind (unwrap ''Failed to read ELF file'' (fs_read elf)) (\<lambda>canoe_client_elf.
     obind (unwrap ''called `Result::unwrap()` on an `Err` value'' (setup canoe_client_elf)) (\<lambda>(hash_bytes, hash_u32).
       if hex then Ret (''0x'' @ hex_encode hash_bytes)
       else Ret (''canoe sp1cc v_key '' @ debug hash_u32)))"

section \<open>Logging\<close>

datatype log_level = LevelINFO | LevelDEBUG | LevelTRACE

text \<open>The default level of the filter and its directives, in the order they are added.\<close>

definition init_tracing_subscriber :: "u8 \<Rightarrow> log_level \<times> (string \<times> log_level) list" where
  "init_tracing_subscriber verbosity_level =
     (let level = (if verbosity_level = 0 then LevelINFO else if verbosity_level = 1 then LevelDEBUG else LevelTRACE)
      in (level,
          [(''hyper_util'', LevelINFO), (''reqwest'', LevelINFO), (''alloy_rpc_client'', LevelINFO),
           (''alloy_transport_http'', LevelINFO)]))"

text \<open>A target is logged at the level of its directive, the others at the default: the HTTP crates stay
  at \<open>info\<close> however verbose the host is.\<close>

definition log_level_of :: "u8 \<Rightarrow> string \<Rightarrow> log_level" where
  "log_level_of verbosity target =
     (case map_of (snd (init_tracing_subscriber verbosity)) target of
        Some l \<Rightarrow> l | None \<Rightarrow> fst (init_tracing_subscriber verbosity))"

lemma http_crates_stay_quiet:
  "target \<in> set [''hyper_util'', ''reqwest'', ''alloy_rpc_client'', ''alloy_transport_http''] \<Longrightarrow>
     log_level_of v target = LevelINFO"
  by (auto simp: log_level_of_def init_tracing_subscriber_def Let_def)

end
