(* ===== verification/Programs.thy ===== *)
theory Programs
  imports Tools Host_Config
begin

text \<open>
  The entry points of the two programs: \<open>bin/host/src/main.rs\<close>, and \<open>bin/client/src/main.rs\<close>, which runs
  the client in the fault proof VM over four file descriptors. The command line parser of clap and the
  entry macro of kona are parameters.
\<close>

section \<open>The host\<close>

text \<open>An error that \<open>main\<close> returns is exit code 1.\<close>

definition main_exit_code :: "(int, SingleChainHostError) result \<Rightarrow> int" where
  "main_exit_code r = (case r of Inr code \<Rightarrow> code | Inl _ \<Rightarrow> 1)"

text \<open>\<open>try_parse\<close> is what clap makes of the command line. The logging filter, once installed, and the exit
  code.\<close>

definition host_main ::
    "(host_cfg, string) result \<Rightarrow> alloy_ops \<Rightarrow> 'g eth_ops \<Rightarrow> ('g, 'cur) kona_ops \<Rightarrow> ('c, 'k) comms_ops \<Rightarrow>
     ('kv, 'kp, 'w, 'u, 'h) kona_host_ops \<Rightarrow> 'c \<Rightarrow> ((log_level \<times> (string \<times> log_level) list) option \<times> int) option" where
  "host_main try_parse A E K CO KH oracle =
     (case try_parse of
        Inl _ \<Rightarrow> Some (None, 1)
      | Inr cfg \<Rightarrow>
          let log_filter = init_tracing_subscriber (cfg_verbose cfg)
          in map_option (\<lambda>r. (Some log_filter, main_exit_code r)) (start A E K CO KH cfg oracle))"

text \<open>clap refuses an EigenDA address without the addresses of the nodes (\<open>requires\<close>), and kona is not
  offline with one of those.\<close>

definition requires_law :: "(host_cfg, string) result \<Rightarrow> bool" where
  "requires_law try_parse \<longleftrightarrow>
     (\<forall>cfg. try_parse = Inr cfg \<longrightarrow> cfg_eigenda_proxy_address cfg \<noteq> None \<longrightarrow> \<not> cfg_kona_is_offline cfg)"

text \<open>So the host's own test for the offline mode is kona's.\<close>

lemma offline_iff_kona_offline:
  "requires_law try_parse \<Longrightarrow> try_parse = Inr cfg \<Longrightarrow> is_offline cfg = cfg_kona_is_offline cfg"
  by (auto simp: requires_law_def is_offline_def)

text \<open>A host that is online for kona but has no address of the EigenDA proxy ends with 1 before it serves
  anything.\<close>

lemma host_without_proxy_fails:
  assumes "cfg_eigenda_proxy_address cfg = None" "\<not> cfg_kona_is_offline cfg" "kh_channel_new KH = Inr ()"
  shows "\<exists>log_filter. host_main (Inr cfg) A E K CO KH oracle = Some (log_filter, 1)"
proof -
  have "\<exists>e. start_server KH cfg = Inl e"
    using no_proxy_no_online_server [OF assms(1)] assms(2) by (cases "start_server KH cfg") auto
  then show ?thesis
    using assms(3) by (auto simp: host_main_def start_def start_native_def main_exit_code_def)
qed

lemma client_joined_Inr: "client_joined y = Inr r \<longleftrightarrow> (\<exists>p. y = Ret (r, p))"
  by (cases y) (auto simp: client_joined_def split: prod.splits)

lemma try_join_Inr: "try_join s c = Some (Inr r) \<longleftrightarrow> (\<exists>x. s = Some (Inr x)) \<and> c = Some (Inr r)"
  by (auto simp: try_join_def split: option.splits sum.splits)

lemma start_native_Inr_0:
  "start_native A E K CO KH cfg oracle = Some (Inr 0) \<longleftrightarrow>
     (\<exists>backend. kh_channel_new KH = Inr () \<and> start_server KH cfg = Inr backend \<and>
        (\<exists>served. kh_serve KH backend = Some (Inr served)) \<and>
        (\<exists>p. run_direct_client A E K CO oracle = Some (Ret (Inr (), p))))"
proof (cases "rbind (kh_channel_new KH) (\<lambda>_. rbind (kh_channel_new KH) (\<lambda>_. start_server KH cfg))")
  case (Inl e)
  then show ?thesis by (auto simp: start_native_def)
next
  case (Inr backend)
  have exit_0: "rbind (map_err JoinError j) (\<lambda>r. Inr (case r of Inl _ \<Rightarrow> 1 | Inr _ \<Rightarrow> 0)) = (Inr 0 :: (int, _) result) \<longleftrightarrow>
      j = Inr (Inr ())" for j :: "((unit, FaultProofProgramError) result, string) result"
    by (cases j) (auto split: sum.splits)
  have steps: "kh_channel_new KH = Inr ()" "start_server KH cfg = Inr backend"
    using Inr by (auto simp: rbind_eq_Inr)
  then show ?thesis
    by (auto simp: start_native_def exit_0 try_join_Inr client_joined_Inr)
qed

lemma start_Inr_0:
  "start A E K CO KH cfg oracle = Some (Inr 0) \<longleftrightarrow>
     (\<exists>backend. start_server KH cfg = Inr backend \<and>
        (if cfg_server cfg then kh_serve KH backend = Some (Inr (Inr ()))
         else kh_channel_new KH = Inr () \<and> (\<exists>served. kh_serve KH backend = Some (Inr served)) \<and>
              (\<exists>p. run_direct_client A E K CO oracle = Some (Ret (Inr (), p)))))"
proof -
  have joined: "rbind (map_err JoinError j) (\<lambda>r. rbind r (\<lambda>_. Inr 0)) = (Inr 0 :: (int, _) result) \<longleftrightarrow> j = Inr (Inr ())"
    for j :: "((unit, SingleChainHostError) result, string) result"
    by (auto simp: rbind_eq_Inr)
  show ?thesis
    by (auto simp: start_def start_native_Inr_0 joined split: sum.splits)
qed

text \<open>C12. The host process exits with 0 exactly when the command line is accepted, the backend can be made,
  and either, as a server, its task ends without an error, or, in native mode, the client program accepts
  the claim and neither task panics. An error of the preimage server alone does not show in native mode.\<close>

theorem host_exits_0_iff:
  "host_main try_parse A E K CO KH oracle = Some (log_filter, 0) \<longleftrightarrow>
     (\<exists>cfg backend. try_parse = Inr cfg \<and> log_filter = Some (init_tracing_subscriber (cfg_verbose cfg)) \<and>
        start_server KH cfg = Inr backend \<and>
        (if cfg_server cfg then kh_serve KH backend = Some (Inr (Inr ()))
         else kh_channel_new KH = Inr () \<and> (\<exists>served. kh_serve KH backend = Some (Inr served)) \<and>
              (\<exists>p. run_direct_client A E K CO oracle = Some (Ret (Inr (), p)))))"
proof (cases try_parse)
  case (Inr cfg)
  have "main_exit_code r = 0 \<longleftrightarrow> r = Inr 0" for r
    by (cases r) (simp_all add: main_exit_code_def)
  then show ?thesis using Inr by (auto simp: host_main_def Let_def start_Inr_0 [symmetric])
qed (simp add: host_main_def)

section \<open>The client\<close>

datatype FileDescriptor = HintRead | HintWrite | PreimageRead | PreimageWrite

text \<open>A channel reads from one descriptor and writes to the other.\<close>

type_synonym FileChannel = "FileDescriptor \<times> FileDescriptor"

definition ORACLE_READER_PIPE :: FileChannel where
  "ORACLE_READER_PIPE = (PreimageRead, PreimageWrite)"

definition HINT_WRITER_PIPE :: FileChannel where
  "HINT_WRITER_PIPE = (HintRead, HintWrite)"

text \<open>\<open>oracle_over\<close> makes the oracle of a reader and a hint writer, \<open>client_entry\<close> what the entry macro does with
  the outcome of the body.\<close>

definition client_main ::
    "(((unit, FaultProofProgramError) result \<times> 'c OracleEigenDAPreimageProvider) outcome \<Rightarrow> 'x) \<Rightarrow>
     (FileChannel \<Rightarrow> FileChannel \<Rightarrow> 'c) \<Rightarrow> alloy_ops \<Rightarrow> 'g eth_ops \<Rightarrow> ('g, 'cur) kona_ops \<Rightarrow> ('c, 'k) comms_ops \<Rightarrow>
     'x option" where
  "client_main client_entry oracle_over A E K CO =
     map_option client_entry (run_direct_client A E K CO (oracle_over ORACLE_READER_PIPE HINT_WRITER_PIPE))"

end
