(* ===== verification/Guest_Build.thy ===== *)
theory Guest_Build
  imports Srs_Build
begin

text \<open>
  The build script of the steel guest, \<open>canoe/steel/methods/build.rs\<close>: the archiver it puts into the
  environment of the build, the Docker option, and the files it generates. The builders of risc0 are
  parameters.
\<close>

section \<open>The script\<close>

definition SOLIDITY_IMAGE_ID_PATH :: string where
  "SOLIDITY_IMAGE_ID_PATH = ''./contracts/ImageID.sol''"

definition SOLIDITY_ELF_PATH :: string where
  "SOLIDITY_ELF_PATH = ''./contracts/Elf.sol''"

type_synonym environment = "string \<rightharpoonup> path"

record docker_options =
  docker_container_tag :: string
  docker_root_dir :: path

record solidity_options =
  image_id_sol_path :: string
  elf_sol_path :: string

text \<open>\<open>gb_embed_methods\<close> builds the guests in the environment the script leaves behind.\<close>

record ('d, 'o, 'g) guest_build_ops =
  gb_is_utf8 :: "path \<Rightarrow> bool"
  gb_exists :: "path \<Rightarrow> bool"
  gb_docker_build :: "docker_options \<Rightarrow> ('d, string) result"
  gb_guest_options_build :: "'d option \<Rightarrow> ('o, string) result"
  gb_embed_methods :: "environment \<Rightarrow> (string \<times> 'o) list \<Rightarrow> 'g"
  gb_generate_solidity_files :: "'g \<Rightarrow> solidity_options \<Rightarrow> (unit, string) result"

text \<open>\<open>env::var\<close>: a variable that is set and is Unicode.\<close>

definition unicode_var :: "('d, 'o, 'g) guest_build_ops \<Rightarrow> environment \<Rightarrow> string \<Rightarrow> path option" where
  "unicode_var GB env k = (case env k of Some v \<Rightarrow> if gb_is_utf8 GB v then Some v else None | None \<Rightarrow> None)"

definition set_archiver :: "('d, 'o, 'g) guest_build_ops \<Rightarrow> environment \<Rightarrow> environment" where
  "set_archiver GB env =
     (if env ''AR_riscv32im_risc0_zkvm_elf'' = None then
        (case unicode_var GB env ''HOME'' of
           None \<Rightarrow> env
         | Some home \<Rightarrow>
             let risc0_ar = home @ [''.risc0'', ''cpp'', ''bin'', ''riscv32-unknown-elf-ar'']
             in if gb_exists GB risc0_ar then env(''AR_riscv32im_risc0_zkvm_elf'' \<mapsto> risc0_ar) else env)
      else env)"

definition guest_build_main :: "('d, 'o, 'g) guest_build_ops \<Rightarrow> environment \<Rightarrow> 'g outcome" where
  "guest_build_main GB env =
     (let env = set_archiver GB env in
      obind (unwrap_option ''called `Option::unwrap()` on a `None` value'' (env ''CARGO_MANIFEST_DIR'')) (\<lambda>manifest_dir.
      obind (if unicode_var GB env ''RISC0_USE_DOCKER'' \<noteq> None
             then obind (unwrap ''called `Result::unwrap()` on an `Err` value''
                    (gb_docker_build GB \<lparr> docker_container_tag = ''r0.1.88.0'',
                                          docker_root_dir = manifest_dir @ [''..'', ''..'', ''..''] \<rparr>)) (\<lambda>docker_options.
                  Ret (Some docker_options))
             else Ret None) (\<lambda>use_docker.
      obind (unwrap ''called `Result::unwrap()` on an `Err` value'' (gb_guest_options_build GB use_docker)) (\<lambda>guest_options.
      let guests = gb_embed_methods GB env [(''cert-verification-guests'', guest_options)];
          solidity_opts = \<lparr> image_id_sol_path = SOLIDITY_IMAGE_ID_PATH, elf_sol_path = SOLIDITY_ELF_PATH \<rparr>
      in obind (unwrap ''called `Result::unwrap()` on an `Err` value'' (gb_generate_solidity_files GB guests solidity_opts))
           (\<lambda>_. Ret guests)))))"

section \<open>What the guests are built with\<close>

text \<open>An archiver that the user chose is kept, and no other variable changes.\<close>

lemma archiver_kept:
  "env ''AR_riscv32im_risc0_zkvm_elf'' = Some ar \<Longrightarrow> set_archiver GB env = env"
  "k \<noteq> ''AR_riscv32im_risc0_zkvm_elf'' \<Longrightarrow> set_archiver GB env k = env k"
  by (auto simp: set_archiver_def Let_def split: option.splits)

lemma set_archiver_idem: "set_archiver GB (set_archiver GB env) = set_archiver GB env"
proof (cases "set_archiver GB env ''AR_riscv32im_risc0_zkvm_elf''")
  case None
  then have "set_archiver GB env = env"
    by (auto simp: set_archiver_def Let_def split: option.splits if_splits)
  then show ?thesis by simp
qed (rule archiver_kept(1))

text \<open>A run that succeeds built the guests with exactly these options; Docker is used when the variable is
  set to anything that is Unicode, \<open>0\<close> included.\<close>

lemma guest_build_Ret_iff:
  "guest_build_main GB env = Ret guests \<longleftrightarrow>
     (\<exists>dir use_docker opts. env ''CARGO_MANIFEST_DIR'' = Some dir \<and>
        (case unicode_var GB env ''RISC0_USE_DOCKER'' of
           None \<Rightarrow> use_docker = None
         | Some _ \<Rightarrow> \<exists>d. use_docker = Some d \<and>
             gb_docker_build GB \<lparr> docker_container_tag = ''r0.1.88.0'',
                                  docker_root_dir = dir @ [''..'', ''..'', ''..''] \<rparr> = Inr d) \<and>
        gb_guest_options_build GB use_docker = Inr opts \<and>
        guests = gb_embed_methods GB (set_archiver GB env) [(''cert-verification-guests'', opts)] \<and>
        gb_generate_solidity_files GB guests
          \<lparr> image_id_sol_path = SOLIDITY_IMAGE_ID_PATH, elf_sol_path = SOLIDITY_ELF_PATH \<rparr> = Inr ())"
proof -
  have "unicode_var GB (set_archiver GB env) ''RISC0_USE_DOCKER'' = unicode_var GB env ''RISC0_USE_DOCKER''"
    "set_archiver GB env ''CARGO_MANIFEST_DIR'' = env ''CARGO_MANIFEST_DIR''"
    by (simp_all add: unicode_var_def archiver_kept(2))
  then show ?thesis
    by (cases "unicode_var GB env ''RISC0_USE_DOCKER''")
       (auto simp: guest_build_main_def Let_def obind_eq_Ret unwrap_option_Ret unwrap_eq_Ret)
qed

end
