(* ===== verification/Codec_Tests.thy ===== *)
theory Codec_Tests
  imports Test_Support
begin

text \<open>
  The unit tests of \<open>crates/eigenda/src/eigenda_data.rs\<close>, \<open>eigenda_preimage.rs\<close> and
  \<open>crates/eigenda-cert/src/altda_commitment.rs\<close> as tables and predicates, and the proofs that the model
  passes them. A certificate that a test reads from a transaction is any certificate of that version.
\<close>

text \<open>\<open>if let Err(e) = got { assert_eq!(Err(e), expected) }\<close>, which lets every success pass.\<close>

definition error_matches :: "('a, 'e) result \<Rightarrow> ('a, 'e) result \<Rightarrow> bool" where
  "error_matches got expected = (case got of Inl e \<Rightarrow> Inl e = expected | Inr _ \<Rightarrow> True)"

lemma error_matches_refl [simp]: "error_matches r r"
  by (cases r) (simp_all add: error_matches_def)

section \<open>Encoding and decoding\<close>

definition test_encode_and_decode_success :: "(bytes \<Rightarrow> bytes) \<Rightarrow> bool" where
  "test_encode_and_decode_success pad \<longleftrightarrow>
     (let rollup_data = [1, 2, 3, 4];
          p = encode pad rollup_data PAYLOAD_ENCODING_VERSION_0;
          data_len = length (encoded_payload p)
      in data_len mod BYTES_PER_FIELD_ELEMENT = 0 \<and> data_len \<noteq> 0 \<and>
         EncodedPayload_decode p = Ret (Inr rollup_data))"

definition test_encode_and_decode_success_empty :: "(bytes \<Rightarrow> bytes) \<Rightarrow> bool" where
  "test_encode_and_decode_success_empty pad \<longleftrightarrow>
     (let rollup_data = [];
          p = encode pad rollup_data PAYLOAD_ENCODING_VERSION_0
      in length (encoded_payload p) = 32 \<and> EncodedPayload_decode p = Ret (Inr rollup_data))"

definition test_encode_and_decode_error_invalid_length :: "(bytes \<Rightarrow> bytes) \<Rightarrow> bool" where
  "test_encode_and_decode_error_invalid_length pad \<longleftrightarrow>
     (let p = encode pad [1, 2, 3, 4] PAYLOAD_ENCODING_VERSION_0;
          p = p\<lparr> encoded_payload := take 33 (encoded_payload p) \<rparr>
      in EncodedPayload_decode p = Ret (Inl (DecodingError (InvalidLengthEncodedPayload 33))))"

definition test_serde_on_encoded_payload :: "(bytes \<Rightarrow> bytes) \<Rightarrow> bool" where
  "test_serde_on_encoded_payload pad \<longleftrightarrow>
     (let p = encode pad [1, 2, 3, 4] PAYLOAD_ENCODING_VERSION_0 in deserialize (serialize p) = p)"

section \<open>The length invariant\<close>

definition len_invariant_cases :: "(bytes \<times> (unit, HokuleaStatelessError) result) list" where
  "len_invariant_cases =
     [([1, 2, 3, 4], Inl (DecodingError (PayloadTooShortForHeader 32 4))),
      (replicate 96 0, Inl (DecodingError (InvalidPowerOfTwoLength (96 div BYTES_PER_FIELD_ELEMENT)))),
      (replicate 34 0, Inl (DecodingError (InvalidLengthEncodedPayload 34))),
      (replicate 64 0, Inr ())]"

definition test_check_len_invariant :: bool where
  "test_check_len_invariant \<longleftrightarrow>
     list_all (\<lambda>(input, result). error_matches (check_len_invariant \<lparr> encoded_payload = input \<rparr>) result)
       len_invariant_cases"

section \<open>The header\<close>

definition decode_header_cases :: "(bytes \<times> (u32, HokuleaStatelessError) result) list" where
  "decode_header_cases =
     [([1, 2, 3, 4], Inl (DecodingError (PayloadTooShortForHeader 32 4))),
      (replicate 32 1, Inl (DecodingError (InvalidHeaderFirstByte 1))),
      ([0] @ replicate 5 2 @ replicate 26 0, Inl (DecodingError (UnknownEncodingVersion 2))),
      ([0, 0] @ replicate 4 2 @ replicate 25 0 @ [3], Inl (DecodingError (InvalidEncodedPayloadHeaderPadding 3))),
      (replicate 5 0 @ [129] @ replicate 26 0, Inr 129)]"

definition test_decode_header :: bool where
  "test_decode_header \<longleftrightarrow>
     list_all (\<lambda>(input, result). decode_header \<lparr> encoded_payload = input \<rparr> = result) decode_header_cases"

section \<open>The padding of field elements\<close>

definition padding_cases :: "(bytes \<times> (bytes, HokuleaStatelessError) result) list" where
  "padding_cases =
     [([0, 0] @ replicate 31 2, Inl (DecodingError (InvalidLengthEncodedPayload 33))),
      ([3] @ replicate 4 0 @ [128] @ replicate 26 2 @ [0, 1] @ replicate 30 2,
         Inl (DecodingError (InvalidFirstByteFieldElementPadding 3))),
      (replicate 5 0 @ [128] @ replicate 26 2 @ [111] @ replicate 31 2,
         Inl (DecodingError (InvalidFirstByteFieldElementPadding 111))),
      (replicate 5 0 @ [31] @ replicate 26 2, Inr (replicate 4 0 @ [31] @ replicate 26 2)),
      (replicate 5 0 @ [1] @ replicate 26 2 @ [0] @ replicate 31 1,
         Inr (replicate 4 0 @ [1] @ replicate 26 2 @ replicate 31 1))]"

definition test_check_and_remove_zero_padding_for_field_elements :: bool where
  "test_check_and_remove_zero_padding_for_field_elements \<longleftrightarrow>
     list_all (\<lambda>(input, result). check_and_remove_zero_padding_for_field_elements input = result) padding_cases"

section \<open>Whole payloads\<close>

definition decode_payload_cases :: "(bytes \<times> (bytes, HokuleaStatelessError) result) list" where
  "decode_payload_cases =
     [([0, 0] @ replicate 4 2 @ replicate 26 0 @ [128], Inl (DecodingError (InvalidLengthEncodedPayload 1))),
      (replicate 5 0 @ [128] @ replicate 26 0 @ [3] @ replicate 31 1,
         Inl (DecodingError (InvalidFirstByteFieldElementPadding 3))),
      (replicate 5 0 @ [128] @ replicate 27 0 @ replicate 31 1,
         Inl (DecodingError (DecodedPayloadBodyTooShort 31 128))),
      (replicate 5 0 @ [1] @ replicate 28 0 @ replicate 30 2,
         Inl (DecodingError (InvalidEncodedPayloadBodyPadding 2))),
      (replicate 5 0 @ [31] @ replicate 27 0 @ replicate 31 1, Inr (replicate 31 1)),
      (replicate 5 0 @ [1] @ replicate 27 0 @ [128] @ replicate 30 0, Inr [128]),
      (replicate 64 0, Inr []),
      (replicate 32 0, Inr []),
      (replicate 5 0 @ [3] @ replicate 26 0, Inl (DecodingError (DecodedPayloadBodyTooShort 0 3)))]"

definition test_decode_payload :: bool where
  "test_decode_payload \<longleftrightarrow>
     list_all (\<lambda>(input, result).
       let p = \<lparr> encoded_payload = input \<rparr> in
       case decode_header p of
         Inl _ \<Rightarrow> False
       | Inr length_in_byte \<Rightarrow> decode_payload p length_in_byte = Ret result) decode_payload_cases"

section \<open>The model passes\<close>

lemma check_zeros_steps [simp]:
  "check_zeros err [] = Inr ()"
  "check_zeros err (b # bs) = (if b = 0 then check_zeros err bs else Inl (err b))"
  "check_zeros err (replicate n 0) = Inr ()"
  "check_zeros err (replicate n 0 @ bs) = check_zeros err bs"
  by (induction n; simp add: check_zeros_def)+

lemma check_zeros_constant [simp]: "0 < n \<Longrightarrow> b \<noteq> 0 \<Longrightarrow> check_zeros err (replicate n b) = Inl (err b)"
  by (cases n) simp_all

lemma chunks_single: "length c = n \<Longrightarrow> 0 < n \<Longrightarrow> chunks n c = [c]"
  using chunks_append [of c n "[]"] by simp

lemma be_u32_short [simp]: "be_u32 [0, 0, 0, b] = ucast b"
  by (simp add: be_u32_def be_nat_Cons)

text \<open>The padding library's law gives the encoder's bytes; a payload of up to 31 bytes decodes.\<close>

lemma encoding_tests_pass:
  assumes "pad_payload_law pad"
  shows "test_encode_and_decode_success pad" "test_encode_and_decode_success_empty pad"
    "test_encode_and_decode_error_invalid_length pad" "test_serde_on_encoded_payload pad"
proof -
  have b: "encoded_payload (encode pad ds 0) =
      header_ref (length ds) @ body_ref (ds @ replicate (31 * payload_elements ds - length ds) 0)"
    and d: "(\<exists>k. payload_elements ds + 1 = 2 ^ k) \<Longrightarrow> EncodedPayload_decode (encode pad ds 0) = Ret (Inr ds)"
    if "length ds < 2 ^ 32" for ds
    using encode_bytes [OF assms that] test_encoding_decodes [OF assms that] by simp_all
  have e: "payload_elements [1, 2, 3, 4] = 1" "payload_elements [] = 0" by (simp_all add: payload_elements_def)
  have l: "length (encoded_payload (encode pad [1, 2, 3, 4] 0)) = 64"
    using b [of "[1, 2, 3, 4]"] body_ref_chunks(2) [of "[1, 2, 3, 4] @ replicate 27 0" 1] by (simp add: e)
  have "EncodedPayload_decode (encode pad [1, 2, 3, 4] 0) = Ret (Inr [1, 2, 3, 4])"
    by (rule d) (simp_all add: e exI [of _ 1])
  with l show "test_encode_and_decode_success pad"
    by (auto simp: test_encode_and_decode_success_def Let_def PAYLOAD_ENCODING_VERSION_0_def)
  have "EncodedPayload_decode (encode pad [] 0) = Ret (Inr [])"
    by (rule d) (simp_all add: e exI [of _ 0])
  then show "test_encode_and_decode_success_empty pad"
    using b [of "[]"] by (simp add: test_encode_and_decode_success_empty_def PAYLOAD_ENCODING_VERSION_0_def e body_ref_def)
  show "test_encode_and_decode_error_invalid_length pad"
    using l by (simp add: test_encode_and_decode_error_invalid_length_def Let_def PAYLOAD_ENCODING_VERSION_0_def
        EncodedPayload_decode_def check_len_invariant_def)
  show "test_serde_on_encoded_payload pad"
    by (simp add: test_serde_on_encoded_payload_def deserialize_def serialize_def Let_def)
qed

lemma len_invariant_results:
  "list_all (\<lambda>(input, result). check_len_invariant \<lparr> encoded_payload = input \<rparr> = result) len_invariant_cases"
  by code_simp

lemma table_tests_pass:
  "test_check_len_invariant" "test_decode_header"
  "test_check_and_remove_zero_padding_for_field_elements" "test_decode_payload"
proof -
  show "test_check_len_invariant"
    using len_invariant_results unfolding test_check_len_invariant_def
    by (rule list.pred_mono_strong) auto
  show "test_decode_header"
    by (simp add: test_decode_header_def decode_header_cases_def decode_header_def subslice_def nth_append)
  show "test_check_and_remove_zero_padding_for_field_elements" by code_simp
  show "test_decode_payload"
    by (simp add: test_decode_payload_def decode_payload_cases_def decode_header_def decode_payload_def
        check_and_remove_zero_padding_for_field_elements_def chunks_single subslice_def nth_append Let_def)
qed

section \<open>Commitments\<close>

definition test_try_into_altda_commitment_and_to_rlp_bytes_ok :: "alloy_ops \<Rightarrow> bytes \<Rightarrow> bool" where
  "test_try_into_altda_commitment_and_to_rlp_bytes_ok A calldata \<longleftrightarrow>
     (case AltDACommitment_try_from A calldata of
        Inr altda_commitment \<Rightarrow> calldata = to_rlp_bytes A altda_commitment
      | Inl _ \<Rightarrow> False)"

definition try_into_cases ::
    "alloy_ops \<Rightarrow> rlp_error \<Rightarrow> bytes \<Rightarrow> AltDACommitment \<Rightarrow>
     (bytes \<times> (AltDACommitment, AltDACommitmentParseError) result) list" where
  "try_into_cases A InputTooShort calldata c =
     [(replicate 2 0, Inl InsufficientData),
      (calldata, Inr c),
      (to_rlp_bytes A (c\<lparr> commitment_type := 255 \<rparr>), Inl UnsupportedCommitmentType),
      (to_rlp_bytes A (c\<lparr> da_layer_byte := 1 \<rparr>), Inl UnsupportedDaLayerType),
      ([1, 0, 4, 249], Inl (UnsupportedCertVersionType 4)),
      ([1, 0, 2, 249], Inl (InvalidRlpCert InputTooShort))]"

definition test_try_into_altda_commitment :: "alloy_ops \<Rightarrow> rlp_error \<Rightarrow> bytes \<Rightarrow> bool" where
  "test_try_into_altda_commitment A InputTooShort calldata \<longleftrightarrow>
     (case AltDACommitment_try_from A calldata of
        Inr c \<Rightarrow> list_all (\<lambda>(input, result). AltDACommitment_try_from A input = result)
                   (try_into_cases A InputTooShort calldata c)
      | Inl _ \<Rightarrow> False)"

lemma commitment_tests_pass:
  assumes "parsed_form A c"
  shows "test_try_into_altda_commitment_and_to_rlp_bytes_ok A (to_rlp_bytes A c)"
    "rlp_decode_v3 A [249] = Inl InputTooShort \<Longrightarrow> test_try_into_altda_commitment A InputTooShort (to_rlp_bytes A c)"
proof -
  note p = commitment_codec.dec_enc_exact [OF assms]
  show "test_try_into_altda_commitment_and_to_rlp_bytes_ok A (to_rlp_bytes A c)"
    by (simp add: test_try_into_altda_commitment_and_to_rlp_bytes_ok_def p)
  have h: "commitment_type c = 1" "da_layer_byte c = 0" "rlp_law A (versioned_cert c)"
    using assms by (simp_all add: parsed_form_def)
  have l: "4 \<le> length (to_rlp_bytes A d)" if "versioned_cert d = versioned_cert c" for d
    using length_to_rlp_bytes [of A d] h(3) that by simp
  have "AltDACommitment_try_from A (to_rlp_bytes A (c\<lparr> commitment_type := 255 \<rparr>)) = Inl UnsupportedCommitmentType"
    using l [of "c\<lparr> commitment_type := 255 \<rparr>"] by (simp add: AltDACommitment_try_from_def to_rlp_bytes_def)
  moreover have "AltDACommitment_try_from A (to_rlp_bytes A (c\<lparr> da_layer_byte := 1 \<rparr>)) = Inl UnsupportedDaLayerType"
    using l [of "c\<lparr> da_layer_byte := 1 \<rparr>"] h by (simp add: AltDACommitment_try_from_def to_rlp_bytes_def)
  moreover assume "rlp_decode_v3 A [249] = Inl InputTooShort"
  ultimately show "test_try_into_altda_commitment A InputTooShort (to_rlp_bytes A c)"
    by (simp add: test_try_into_altda_commitment_def try_into_cases_def p)
       (simp add: AltDACommitment_try_from_def)
qed

section \<open>The preimage source\<close>

definition default_test_preimage_source :: "TestEigenDAPreimageProvider EigenDAPreimageSource" where
  "default_test_preimage_source =
     EigenDAPreimageSource_new
       \<lparr> tp_validities = Map.empty, tp_encoded_payloads = Map.empty, tp_should_preimage_err = False \<rparr>"

definition parse_cases :: "bytes \<Rightarrow> (bytes \<times> (unit, HokuleaStatelessError) result) list" where
  "parse_cases calldata =
     [([1], Inl InsufficientLengthAltDACommimtment),
      ([1, 1, 1], Inl (ParseError InsufficientData)),
      (calldata, Inr ())]"

definition test_parse_altda_commitment :: "alloy_ops \<Rightarrow> bytes \<Rightarrow> bool" where
  "test_parse_altda_commitment A calldata \<longleftrightarrow>
     list_all (\<lambda>(input, result).
       case preimage_source_parse A input of Inl e \<Rightarrow> Inl e = result | Inr _ \<Rightarrow> True) (parse_cases calldata)"

definition get_recency_window_test :: bool where
  "get_recency_window_test \<longleftrightarrow>
     get_recency_window 0 = Inr 14400 \<and>
     get_recency_window 1 = Inl (UnsupportedOffchainDerivationVersion 1)"

record recency_case =
  rc_recency_window :: u64
  rc_l1_inclusion_bn :: u64
  rc_rbn :: u64
  rc_result :: "(unit, HokuleaStatelessError) result"

definition recency_cases :: "recency_case list" where
  "recency_cases =
     [\<lparr> rc_recency_window = 10, rc_l1_inclusion_bn = 5, rc_rbn = 3, rc_result = Inr () \<rparr>,
      \<lparr> rc_recency_window = 0, rc_l1_inclusion_bn = 5, rc_rbn = 0, rc_result = Inr () \<rparr>,
      \<lparr> rc_recency_window = 100, rc_l1_inclusion_bn = 100, rc_rbn = 5,
        rc_result = Inl (RecencyCheckError NotRecentCert) \<rparr>]"

definition test_recency_check :: bool where
  "test_recency_check \<longleftrightarrow>
     list_all (\<lambda>c. error_matches (recency_check (rc_l1_inclusion_bn c) (rc_rbn c) (rc_recency_window c)) (rc_result c))
       recency_cases"

text \<open>The cases of \<open>test_next\<close> run one after the other on one source.\<close>

record next_case =
  nc_validity :: "(bool, TestHokuleaProviderError) result"
  nc_encoded_payload :: "(EncodedPayload, TestHokuleaProviderError) result"
  nc_result :: "(EncodedPayload, HokuleaErrorKind) result"

definition next_payload :: EncodedPayload where
  "next_payload = \<lparr> encoded_payload = replicate 5 0 @ [31] @ replicate 26 2 @ [0] @ replicate 31 1 \<rparr>"

definition next_cases :: "next_case list" where
  "next_cases =
     [\<lparr> nc_validity = Inr False, nc_encoded_payload = Inr \<lparr> encoded_payload = [] \<rparr>,
        nc_result = Inl (HokuleaErrorKind_from_preimage InvalidCert) \<rparr>,
      \<lparr> nc_validity = Inr True, nc_encoded_payload = Inr next_payload, nc_result = Inr next_payload \<rparr>,
      \<lparr> nc_validity = Inl TestPreimageError, nc_encoded_payload = Inr next_payload,
        nc_result = Inl (Temporary ''Preimage temporary error'') \<rparr>,
      \<lparr> nc_validity = Inr True, nc_encoded_payload = Inl TestPreimageError,
        nc_result = Inl (Temporary ''Preimage temporary error'') \<rparr>,
      \<lparr> nc_validity = Inr True, nc_encoded_payload = Inl TestCriticalError,
        nc_result = Inl (Critical ''Critical error'') \<rparr>]"

fun run_next_cases ::
    "alloy_ops \<Rightarrow> TestEigenDAPreimageProvider EigenDAPreimageSource \<Rightarrow> AltDACommitment \<Rightarrow> u64 \<Rightarrow> next_case list \<Rightarrow> bool" where
  "run_next_cases A src c bn [] \<longleftrightarrow> True"
| "run_next_cases A src c bn (k # rest) \<longleftrightarrow>
     (let p = insert_validity A (eigenda_fetcher src) c (nc_validity k);
          p = insert_encoded_payload A p c (nc_encoded_payload k)
      in case preimage_source_next (test_provider A) (src\<lparr> eigenda_fetcher := p \<rparr>) c bn of
           Panic _ \<Rightarrow> False
         | Ret (r, src) \<Rightarrow> r = nc_result k \<and> run_next_cases A src c bn rest)"

definition test_next :: "alloy_ops \<Rightarrow> bytes \<Rightarrow> bool" where
  "test_next A calldata \<longleftrightarrow>
     (case preimage_source_parse A calldata of
        Inl _ \<Rightarrow> False
      | Inr c \<Rightarrow> run_next_cases A default_test_preimage_source c (get_rbn c + 100) next_cases)"

text \<open>All three recency cases are accepted, the last one against the table: block 100 lies within 100
  blocks of 5. The test does not notice, since it compares errors only.\<close>

lemma recency_results:
  "map (\<lambda>c. recency_check (rc_l1_inclusion_bn c) (rc_rbn c) (rc_recency_window c)) recency_cases =
     [Inr (), Inr (), Inr ()]"
  "map rc_result recency_cases = [Inr (), Inr (), Inl (RecencyCheckError NotRecentCert)]"
  by (simp_all add: recency_cases_def recency_check_def)

lemma preimage_source_parse_inbox:
  assumes "parsed_form A c"
  shows "preimage_source_parse A (1 # to_rlp_bytes A c) = Inr c"
  using assms commitment_codec.dec_enc_exact [OF assms] length_to_rlp_bytes [of A c]
  by (simp add: preimage_source_parse_def parsed_form_def)

lemma preimage_tests_pass:
  assumes "parsed_form A c" "versioned_cert c = V2 cert"
  shows "test_parse_altda_commitment A (1 # to_rlp_bytes A c)" "get_recency_window_test" "test_recency_check"
    "test_next A (1 # to_rlp_bytes A c)"
proof -
  note p = preimage_source_parse_inbox [OF assms(1)]
  show "test_parse_altda_commitment A (1 # to_rlp_bytes A c)"
    by (simp add: test_parse_altda_commitment_def parse_cases_def p)
       (simp add: preimage_source_parse_def AltDACommitment_try_from_def)
  show "get_recency_window_test" by (simp add: get_recency_window_test_def get_recency_window_def)
  show "test_recency_check"
    by (simp add: test_recency_check_def recency_cases_def recency_check_def error_matches_def)
  have "run_next_cases A src c bn next_cases"
    if "\<not> tp_should_preimage_err (eigenda_fetcher src)" for src bn
    using that assms(2)
    by (simp add: next_cases_def preimage_source_next_def test_provider_def test_get_validity_def
        test_get_encoded_payload_def insert_validity_def insert_encoded_payload_def recency_window_of_def
        recency_check_def HokuleaErrorKind_from_test_def Let_def)
  then show "test_next A (1 # to_rlp_bytes A c)"
    by (simp add: test_next_def p default_test_preimage_source_def EigenDAPreimageSource_new_def)
qed

end
