(* ===== verification/Derivation_Tests.thy ===== *)
theory Derivation_Tests
  imports Codec_Tests Data_Source
begin

text \<open>
  The unit tests of \<open>crates/eigenda/src/eigenda.rs\<close>, over the test provider and kona's test ethereum
  source.

  Kona's source is a parameter with a view: whether it is open and what it holds. \<open>blob_source_law\<close> is
  what the tests rely on: a closed source loads the block's transactions, an open one hands out what it
  holds and then reports \<open>Eof\<close>, and \<open>clear\<close> closes it. Over such a source and the test provider a call of
  \<open>next\<close> computes \<open>spec_next\<close> with the provider's table, errors included; the tests are then
  evaluated on lists. Transactions, their certificates and payloads are any that satisfy what the
  fixtures do.
\<close>

section \<open>The ethereum source of the tests\<close>

record 'g blob_view =
  bv_open :: "'g \<Rightarrow> bool"
  bv_data :: "'g \<Rightarrow> bytes list"

definition held :: "'g blob_view \<Rightarrow> bytes list \<Rightarrow> 'g \<Rightarrow> bytes list" where
  "held B txs g = (if bv_open B g then bv_data B g else txs)"

definition blob_source_law :: "'g eth_ops \<Rightarrow> 'g blob_view \<Rightarrow> bytes list \<Rightarrow> BlockInfo \<Rightarrow> u160 \<Rightarrow> bool" where
  "blob_source_law E B txs b a \<longleftrightarrow>
     (\<forall>g. case held B txs g of
            [] \<Rightarrow> fst (eth_next E g b a) = Inl (PTemporary Eof)
          | d # ds \<Rightarrow> \<exists>g'. eth_next E g b a = (Inr d, g') \<and> bv_open B g' \<and> bv_data B g' = ds) \<and>
     (\<forall>g. \<not> bv_open B (eth_clear E g) \<and> bv_data B (eth_clear E g) = [])"

section \<open>The fixtures\<close>

type_synonym 'g test_source = "('g, TestEigenDAPreimageProvider) EigenDADataSource"

definition default_test_eigenda_data_source :: "'g \<Rightarrow> 'g test_source" where
  "default_test_eigenda_data_source ethereum_data_source =
     EigenDADataSource_new ethereum_data_source default_test_preimage_source"

definition NOT_DECODABLE_ENCODED_PAYLOAD :: EncodedPayload where
  "NOT_DECODABLE_ENCODED_PAYLOAD = \<lparr> encoded_payload = [] \<rparr>"

text \<open>What the transactions of commitments carry.\<close>

definition inbox_of :: "alloy_ops \<Rightarrow> AltDACommitment list \<Rightarrow> bytes list" where
  "inbox_of A cs = map (\<lambda>c. 1 # to_rlp_bytes A c) cs"

type_synonym test_entry =
  "AltDACommitment \<times> (bool, TestHokuleaProviderError) result \<times> (EncodedPayload, TestHokuleaProviderError) result"

definition on_fetcher :: "('p \<Rightarrow> 'p) \<Rightarrow> ('g, 'p) EigenDADataSource \<Rightarrow> ('g, 'p) EigenDADataSource" where
  "on_fetcher f s = s\<lparr> eigenda_source := \<lparr> eigenda_fetcher = f (eigenda_fetcher (eigenda_source s)) \<rparr> \<rparr>"

definition insert_entry :: "alloy_ops \<Rightarrow> test_entry \<Rightarrow> TestEigenDAPreimageProvider \<Rightarrow> TestEigenDAPreimageProvider" where
  "insert_entry A e p =
     (case e of (c, validity, payload) \<Rightarrow> insert_encoded_payload A (insert_validity A p c validity) c payload)"

definition set_eigenda_preimage_provider_value :: "alloy_ops \<Rightarrow> test_entry list \<Rightarrow> 'g test_source \<Rightarrow> 'g test_source" where
  "set_eigenda_preimage_provider_value A entries = on_fetcher (fold (insert_entry A) entries)"

definition set_should_preimage_err :: "bool \<Rightarrow> 'g test_source \<Rightarrow> 'g test_source" where
  "set_should_preimage_err e = on_fetcher (\<lambda>p. p\<lparr> tp_should_preimage_err := e \<rparr>)"

text \<open>A call that neither aborts nor fails to return.\<close>

definition test_call ::
    "alloy_ops \<Rightarrow> 'g eth_ops \<Rightarrow> 'g test_source \<Rightarrow> BlockInfo \<Rightarrow> u160 \<Rightarrow>
     ((bytes, PipelineErrorKind) result \<times> 'g test_source) option" where
  "test_call A E s b a = (case data_source_next A E (test_provider A) s b a of Some (Ret x) \<Rightarrow> Some x | _ \<Rightarrow> None)"

section \<open>What a call computes\<close>

definition test_verdict :: "alloy_ops \<Rightarrow> TestEigenDAPreimageProvider \<Rightarrow> AltDACommitment \<Rightarrow> verdict" where
  "test_verdict A p c =
     (let stuck = \<lambda>e. case HokuleaErrorKind_from_test e of
                Temporary m \<Rightarrow> Stuck c (PTemporary (Provider m))
              | Critical m \<Rightarrow> Stuck c (PCritical (Provider m))
              | Discard _ \<Rightarrow> Skip
      in if tp_should_preimage_err p then stuck TestPreimageError
         else case tp_validities p (to_digest A c) of
                Some (Inl e) \<Rightarrow> stuck e
              | Some (Inr False) \<Rightarrow> Skip
              | _ \<Rightarrow> (case tp_encoded_payloads p (to_digest A c) of
                       Some (Inl e) \<Rightarrow> stuck e
                     | Some (Inr x) \<Rightarrow> (case EncodedPayload_decode x of Ret (Inr bs) \<Rightarrow> Yield bs | _ \<Rightarrow> Skip)
                     | None \<Rightarrow> Skip))"

definition test_item :: "alloy_ops \<Rightarrow> TestEigenDAPreimageProvider \<Rightarrow> item \<Rightarrow> verdict" where
  "test_item A p i =
     (case i of
        Retry c \<Rightarrow> test_verdict A p c
      | Calldata d \<Rightarrow>
          if d = [] then Fail (PTemporary NotEnoughData)
          else if d ! 0 \<noteq> 1 then Yield d
          else case preimage_source_parse A d of
                 Inl _ \<Rightarrow> Fail (PTemporary NotEnoughData)
               | Inr c \<Rightarrow> test_verdict A p c)"

text \<open>The provider knows a commitment and the recency rule accepts it.\<close>

definition served :: "alloy_ops \<Rightarrow> TestEigenDAPreimageProvider \<Rightarrow> u64 \<Rightarrow> AltDACommitment \<Rightarrow> bool" where
  "served A p bn c \<longleftrightarrow>
     tp_should_preimage_err p \<or>
     tp_validities p (to_digest A c) \<noteq> None \<and> tp_encoded_payloads p (to_digest A c) \<noteq> None \<and>
     unsupported_version c = None \<and> recent_enough c bn"

definition item_served :: "alloy_ops \<Rightarrow> TestEigenDAPreimageProvider \<Rightarrow> u64 \<Rightarrow> item \<Rightarrow> bool" where
  "item_served A p bn i =
     (case i of Retry c \<Rightarrow> served A p bn c
      | Calldata d \<Rightarrow> if d = [] \<or> d ! 0 \<noteq> 1 then True
          else case preimage_source_parse A d of Inr c \<Rightarrow> served A p bn c | Inl _ \<Rightarrow> True)"

lemma test_fetch:
  assumes "served A p bn c"
  shows "preimage_source_next (test_provider A) \<lparr> eigenda_fetcher = p \<rparr> c bn = Ret
     ((if tp_should_preimage_err p then Inl (HokuleaErrorKind_from_test TestPreimageError)
       else case tp_validities p (to_digest A c) of
              Some (Inl e) \<Rightarrow> Inl (HokuleaErrorKind_from_test e)
            | Some (Inr False) \<Rightarrow> Inl (HokuleaErrorKind_from_preimage InvalidCert)
            | _ \<Rightarrow> map_err HokuleaErrorKind_from_test (the (tp_encoded_payloads p (to_digest A c)))),
      \<lparr> eigenda_fetcher = p \<rparr>)"
  using assms
  by (auto simp: preimage_source_next_def test_provider_def test_get_validity_def test_get_encoded_payload_def
      served_def recency_window_check split: option.splits sum.splits bool.splits)

text \<open>A call ends as \<open>spec_next\<close> says, and leaves what it leaves; the source stays open until \<open>Eof\<close>.\<close>

definition call_result ::
    "'g blob_view \<Rightarrow> bytes list \<Rightarrow> TestEigenDAPreimageProvider \<Rightarrow> (bytes, PipelineErrorKind) result \<times> item list \<Rightarrow>
     ((bytes, PipelineErrorKind) result \<times> 'g test_source) outcome option \<Rightarrow> bool" where
  "call_result B txs p rr y \<longleftrightarrow>
     (\<exists>s. y = Some (Ret (fst rr, s)) \<and> eigenda_source s = \<lparr> eigenda_fetcher = p \<rparr> \<and>
        (if fst rr = Inl (PTemporary Eof) then altda_commitment s = None \<and> \<not> bv_open B (ethereum_source s)
         else pending (held B txs) s = snd rr \<and> bv_open B (ethereum_source s)))"

definition open_if_held :: "'g blob_view \<Rightarrow> 'g test_source \<Rightarrow> bool" where
  "open_if_held B s \<longleftrightarrow> (altda_commitment s \<noteq> None \<longrightarrow> bv_open B (ethereum_source s))"

lemma call_resultI:
  assumes "eigenda_source s = \<lparr> eigenda_fetcher = p \<rparr>" "r \<noteq> Inl (PTemporary Eof)" "pending (held B txs) s = is"
    and "bv_open B (ethereum_source s)"
  shows "call_result B txs p (r, is) (Some (Ret (r, s)))"
  using assms by (auto simp: call_result_def)

lemma test_next_at_commitment:
  assumes "data_source_load A E s b a = (Inr c, s1)" "altda_commitment s1 = Some c"
    and "eigenda_source s1 = \<lparr> eigenda_fetcher = p \<rparr>" "served A p (bi_number b) c"
    and skip: "call_result B txs p (spec_next v (map Calldata (held B txs (ethereum_source s1))))
      (data_source_next A E (test_provider A) (s1\<lparr> altda_commitment := None \<rparr>) b a)"
    and "v i = test_verdict A p c" and op: "bv_open B (ethereum_source s1)"
  shows "call_result B txs p (spec_next v (i # map Calldata (held B txs (ethereum_source s1))))
      (data_source_next A E (test_provider A) s b a)"
proof -
  have s1: "s1\<lparr> eigenda_source := \<lparr> eigenda_fetcher = p \<rparr> \<rparr> = s1" using assms(3) by (cases s1) simp
  note n = data_source_next_at [OF assms(1), unfolded assms(3), OF test_fetch [OF assms(4)], unfolded s1 Let_def]
  note result = call_result_def test_verdict_def pending_def HokuleaErrorKind_from_test_def
  show ?thesis
  proof (cases "tp_should_preimage_err p")
    case True
    then show ?thesis using assms(2,3,6) op n by (simp add: result)
  next
    case False
    then obtain r x where e: "tp_validities p (to_digest A c) = Some r" "tp_encoded_payloads p (to_digest A c) = Some x"
      using assms(4) by (auto simp: served_def)
    consider (val) err where "r = Inl err" | (invalid) "r = Inr False"
      | (pay) err where "r = Inr True" "x = Inl err" | (data) q where "r = Inr True" "x = Inr q"
      by (cases r; cases x) (metis (full_types))+
    then show ?thesis
    proof cases
      case (val err)
      then show ?thesis using assms(2,3,6) op n False e by (cases err) (simp_all add: result)
    next
      case invalid
      then show ?thesis using skip assms(6) n False e
        by (simp add: test_verdict_def HokuleaErrorKind_from_preimage_def)
    next
      case (pay err)
      then show ?thesis using assms(2,3,6) op n False e by (cases err) (simp_all add: result)
    next
      case (data q)
      obtain y where "EncodedPayload_decode q = Ret y" using decode_Ret [of q] by auto
      then show ?thesis using skip assms(3,6) op n False e data
        by (cases y) (simp_all add: call_result_def test_verdict_def pending_def)
    qed
  qed
qed

lemma test_call_spec_aux:
  assumes law: "blob_source_law E B txs b a"
    and "pending (held B txs) s = is" "\<forall>i\<in>set is. item_served A p (bi_number b) i"
    and "eigenda_source s = \<lparr> eigenda_fetcher = p \<rparr>" "open_if_held B s"
  shows "call_result B txs p (spec_next (test_item A p) is) (data_source_next A E (test_provider A) s b a)"
  using assms(2-5)
proof (induction "is" arbitrary: s)
  case Nil
  then have "altda_commitment s = None" "held B txs (ethereum_source s) = []"
    by (simp_all add: pending_def split: option.splits)
  moreover from this(2) have "fst (eth_next E (ethereum_source s) b a) = Inl (PTemporary Eof)"
    using law by (auto simp: blob_source_law_def dest: spec [of _ "ethereum_source s"])
  moreover have "\<not> bv_open B (eth_clear E g)" for g using law by (simp add: blob_source_law_def)
  ultimately have "data_source_load A E s b a =
      (Inl (Inl (PTemporary Eof)), data_source_clear E (s\<lparr> ethereum_source := snd (eth_next E (ethereum_source s) b a) \<rparr>))"
    by (cases "eth_next E (ethereum_source s) b a") (simp add: data_source_load_def)
  from data_source_next_early [OF this, of "test_provider A"] show ?case
    using Nil(3) law unfolding call_result_def
    by (intro exI [of _ "data_source_clear E (s\<lparr> ethereum_source := snd (eth_next E (ethereum_source s) b a) \<rparr>)"])
       (simp add: data_source_clear_def blob_source_law_def)
next
  case (Cons i "is")
  show ?case
  proof (cases "altda_commitment s")
    case (Some c)
    then have i: "i = Retry c" "is = map Calldata (held B txs (ethereum_source s))"
      using Cons.prems(1) by (auto simp: pending_def)
    show ?thesis unfolding i(2)
      by (rule test_next_at_commitment [OF _ Some Cons.prems(3)])
         (use Some Cons i in \<open>simp_all add: open_if_held_def data_source_load_def item_served_def test_item_def pending_def\<close>)
  next
    case None
    then obtain d ds where h: "held B txs (ethereum_source s) = d # ds" "i = Calldata d" "is = map Calldata ds"
      using Cons.prems(1) by (cases "held B txs (ethereum_source s)") (auto simp: pending_def)
    obtain g where g: "eth_next E (ethereum_source s) b a = (Inr d, g)" "bv_open B g" "bv_data B g = ds"
      using law h(1) by (auto simp: blob_source_law_def dest!: spec [of _ "ethereum_source s"])
    have hg: "held B txs g = ds" using g by (simp add: held_def)
    show ?thesis
    proof (cases "d = [] \<or> d ! 0 \<noteq> 1 \<or> (\<exists>e. preimage_source_parse A d = Inl e)")
      case True
      then have "data_source_load A E s b a =
          (Inl (if d = [] then Inl (PTemporary NotEnoughData) else if d ! 0 \<noteq> 1 then Inr d
                else Inl (PTemporary NotEnoughData)), s\<lparr> ethereum_source := g \<rparr>)"
        using None g(1) by (auto simp: data_source_load_def)
      from data_source_next_early [OF this, of "test_provider A"] show ?thesis
        using True None Cons.prems(3) h hg g(2)
        by (auto simp: test_item_def pending_def intro!: call_resultI)
    next
      case False
      then obtain c where c: "preimage_source_parse A d = Inr c"
        by (cases "preimage_source_parse A d") auto
      let ?s = "s\<lparr> ethereum_source := g, altda_commitment := Some c \<rparr>"
      have skip: "call_result B txs p (spec_next (test_item A p) (map Calldata (held B txs (ethereum_source ?s))))
          (data_source_next A E (test_provider A) (?s\<lparr> altda_commitment := None \<rparr>) b a)"
        using Cons.IH [of "?s\<lparr> altda_commitment := None \<rparr>"] Cons.prems(2,3) h(3) hg by (simp add: pending_def open_if_held_def)
      have "call_result B txs p (spec_next (test_item A p) (i # map Calldata (held B txs (ethereum_source ?s))))
          (data_source_next A E (test_provider A) s b a)"
        using False None c g(1,2) Cons.prems(2,3) h(2)
        by (intro test_next_at_commitment [OF _ _ _ _ skip])
           (auto simp: data_source_load_def item_served_def test_item_def)
      then show ?thesis using h(3) hg by simp
    qed
  qed
qed

lemma test_call_spec:
  assumes "blob_source_law E B txs b a" "\<forall>i\<in>set (pending (held B txs) s). item_served A p (bi_number b) i"
    and "eigenda_source s = \<lparr> eigenda_fetcher = p \<rparr>" "open_if_held B s"
    and "spec_next (test_item A p) (pending (held B txs) s) = (r, rest)"
  obtains s' where "test_call A E s b a = Some (r, s')" "eigenda_source s' = \<lparr> eigenda_fetcher = p \<rparr>"
    "pending (held B txs) s' = (if r = Inl (PTemporary Eof) then map Calldata txs else rest)"
    "bv_open B (ethereum_source s') = (r \<noteq> Inl (PTemporary Eof))" "open_if_held B s'"
  using test_call_spec_aux [OF assms(1) refl assms(2-4)] assms(5) that
  by (auto simp: call_result_def test_call_def pending_def held_def open_if_held_def split: if_splits)

end
