(* ===== verification/Sepolia_Fixtures.thy ===== *)
theory Sepolia_Fixtures
  imports Derivation_Tests Sepolia_Data
begin

text \<open>
  The functions that load the fixtures of \<open>crates/eigenda/src/eigenda.rs\<close>, with what they return under
  Ethereum's RLP, and the tests that run on these fixtures alone. alloy's decoder of transactions and
  kona's test provider are parameters.
\<close>

section \<open>Loading\<close>

definition L1_INBOX_ADDRESS :: u160 where
  "L1_INBOX_ADDRESS = 0x000faef0a3d9711c3e9bbc4f3e2730dd75167da3"

definition BATCHER_ADDRESS :: u160 where
  "BATCHER_ADDRESS = 0x15F447c49D9eAC8ecA80ce12c5620278E7F59d2F"

definition BLOCK_INFO :: BlockInfo where
  "BLOCK_INFO = \<lparr> bi_number = 9600000 \<rparr>"

record 'tx fixture_ops =
  fx_hex_decode :: "string \<Rightarrow> (bytes, string) result"
  fx_decode_tx :: "bytes \<Rightarrow> ('tx, string) result"

abbreviation unwrap_result :: "('a, 'e) result \<Rightarrow> 'a outcome" where
  "unwrap_result \<equiv> unwrap ''called `Result::unwrap()` on an `Err` value''"

definition load_fixture ::
    "alloy_ops \<Rightarrow> 'tx fixture_ops \<Rightarrow> string \<times> string \<times> string \<Rightarrow>
     ('tx \<times> AltDACommitment \<times> EncodedPayload) outcome" where
  "load_fixture A FX f =
     (case f of (calldata_hex, commitment_hex, payload_hex) \<Rightarrow>
        obind (unwrap_result (fx_hex_decode FX calldata_hex)) (\<lambda>raw_tx.
        obind (unwrap_result (fx_decode_tx FX raw_tx)) (\<lambda>eip1559.
        obind (unwrap_result (fx_hex_decode FX commitment_hex)) (\<lambda>calldata.
        obind (unwrap_result (AltDACommitment_try_from A calldata)) (\<lambda>altda_commitment.
        obind (unwrap_result (fx_hex_decode FX payload_hex)) (\<lambda>raw_eigenda_blob.
          Ret (eip1559, altda_commitment, \<lparr> encoded_payload = raw_eigenda_blob \<rparr>)))))))"

definition valid_eip1559_txs_with_altda_commitment_encoded_payload ::
    "alloy_ops \<Rightarrow> 'tx fixture_ops \<Rightarrow> nat \<Rightarrow> ('tx list \<times> AltDACommitment list \<times> EncodedPayload list) outcome" where
  "valid_eip1559_txs_with_altda_commitment_encoded_payload A FX num =
     obind (mapM (load_fixture A FX)
        [(CALLDATA_1, ALTDA_COMMITMENT_BYTES_1, ENCODED_PAYLOAD_1),
         (CALLDATA_2, ALTDA_COMMITMENT_BYTES_2, ENCODED_PAYLOAD_2),
         (CALLDATA_3, ALTDA_COMMITMENT_BYTES_3, ENCODED_PAYLOAD_3)]) (\<lambda>fs.
     obind (oassert (num \<le> length fs) ''range end index out of range for slice'') (\<lambda>_.
       Ret (take num (map fst fs), take num (map (fst \<circ> snd) fs), take num (map (snd \<circ> snd) fs))))"

text \<open>A transaction with frames of the channel format in its calldata.\<close>

definition ETHDA_TX :: string where
  "ETHDA_TX =
     ''0x'' @
     ''02f901bf0183023e0b82613a841cf0e96082874f94ffeeddccbbaa000000000000000000000000000080b90152ed12ce'' @
     ''02188e94a60b2202000128b5de02aa06bd02010000f90137f852f842a000d799bcf9d5e378a8d54b3226a4f4aa090352'' @
     ''e0a804f5f4cfe1ed6b3118dba1a01a77098770a7dd0ee513877480657c0bb6bb92edc6ed3b8964ef2b3ed5dca7e58208'' @
     ''00cac480213704c401213704f8e18302086c80f875eca01d93b7b8b6dc6955c98ca0c8fae72bad8f0922831458751fe2'' @
     ''e00751b65b0f958200018264648401698a0ea04f8af94b6bde70c9ff4c5891192d33cfc711946dac85ef9ff8fd7cf75f'' @
     ''2d909b008401698a41a046efdfad35da81ca44f686cb59568bece690928ee701e9895167cd97ce404c44b860188541ec'' @
     ''0f491d19c9852b8fdea430650fe226ebad16d3bdd10a8477bb7e648f317aef4a3af990b8b4d258c1b6b6adf5b74ba495'' @
     ''ae235a90f60b5bc1a147c60af3b8fef0f246098360f353b45e456ea407240182278103835f42551dc38bb645820001c0'' @
     ''01a012f41e9220687dc938961e7b0438e85fbf69c19dfa176d8e28d14607444450a3a05708cc14d41e53db2f143b0aae'' @
     ''c0826f3fc8f8ddef0c58321b696697c31914aa''"

definition valid_eip1559_txs_with_ethda :: "'tx fixture_ops \<Rightarrow> 'tx list outcome" where
  "valid_eip1559_txs_with_ethda FX =
     obind (unwrap_result (fx_hex_decode FX ETHDA_TX)) (\<lambda>raw_tx.
     obind (unwrap_result (fx_decode_tx FX raw_tx)) (\<lambda>eip1559. Ret [eip1559]))"

definition default_altda_commitment :: "alloy_ops \<Rightarrow> 'tx fixture_ops \<Rightarrow> AltDACommitment outcome" where
  "default_altda_commitment A FX =
     obind (unwrap_result (fx_hex_decode FX ALTDA_COMMITMENT_BYTES_1)) (\<lambda>calldata.
       unwrap_result (AltDACommitment_try_from A calldata))"

text \<open>What the tests set in kona's test provider.\<close>

record ('g, 'tx) test_chain_ops =
  tc_set_batcher_address :: "u160 \<Rightarrow> 'g \<Rightarrow> 'g"
  tc_insert_block_with_transactions :: "u64 \<Rightarrow> BlockInfo \<Rightarrow> 'tx list \<Rightarrow> 'g \<Rightarrow> 'g"

definition configure_chain_provider_with_txs ::
    "alloy_ops \<Rightarrow> 'tx fixture_ops \<Rightarrow> ('g, 'tx) test_chain_ops \<Rightarrow> 'g test_source \<Rightarrow> nat \<Rightarrow> BlockInfo \<Rightarrow>
     ('g test_source \<times> 'tx list \<times> AltDACommitment list \<times> EncodedPayload list) outcome" where
  "configure_chain_provider_with_txs A FX TC source num block_info =
     (let source = source\<lparr> ethereum_source := tc_set_batcher_address TC L1_INBOX_ADDRESS (ethereum_source source) \<rparr> in
      obind (valid_eip1559_txs_with_altda_commitment_encoded_payload A FX num) (\<lambda>(txs, altda_commitments, encoded_payloads).
        Ret (source\<lparr> ethereum_source := tc_insert_block_with_transactions TC (bi_number block_info) block_info txs
                      (ethereum_source source) \<rparr>,
             txs, altda_commitments, encoded_payloads)))"

section \<open>What is loaded\<close>

abbreviation sepolia_encoded :: "bytes \<Rightarrow> EncodedPayload" where
  "sepolia_encoded payload \<equiv> \<lparr> encoded_payload = encode_ref 3 payload \<rparr>"

definition sepolia_payloads :: "bytes list" where
  "sepolia_payloads = [sepolia_payload_1, sepolia_payload_2, sepolia_payload_3]"

definition sepolia_commitments :: "AltDACommitment list" where
  "sepolia_commitments = [sepolia_1, sepolia_2, sepolia_3]"

lemma sepolia_parsed:
  "AltDACommitment_try_from (eth_alloy keccak) (to_rlp_bytes (eth_alloy keccak) sepolia_1) = Inr sepolia_1"
  "AltDACommitment_try_from (eth_alloy keccak) (to_rlp_bytes (eth_alloy keccak) sepolia_2) = Inr sepolia_2"
  "AltDACommitment_try_from (eth_alloy keccak) (to_rlp_bytes (eth_alloy keccak) sepolia_3) = Inr sepolia_3"
  by (rule commitment_codec.dec_enc_exact, rule sepolia_parsed_form_1 sepolia_parsed_form_2 sepolia_parsed_form_3)+

lemma sepolia_payloads_decode:
  assumes "payload \<in> set sepolia_payloads"
  shows "EncodedPayload_decode (sepolia_encoded payload) = Ret (Inr payload)"
proof -
  have "length payload \<le> 217"
    using assms by (auto simp: sepolia_payloads_def sepolia_payload_1_def sepolia_payload_2_def sepolia_payload_3_def)
  then show ?thesis by (auto simp: decode_iff_encode_ref fits_def intro!: exI [of _ 3])
qed

lemma default_altda_commitment_loads:
  "fx_hex_decode FX = hex_decode \<Longrightarrow> default_altda_commitment (eth_alloy keccak) FX = Ret sepolia_1"
  by (simp add: default_altda_commitment_def sepolia_bytes_1 [of keccak] sepolia_parsed unwrap_def)

text \<open>The fixtures load for every decoder that reads the three transactions.\<close>

lemma fixtures_load:
  assumes "fx_hex_decode FX = hex_decode" "num \<le> 3"
    and "rbind (hex_decode CALLDATA_1) (fx_decode_tx FX) = Inr tx1"
    and "rbind (hex_decode CALLDATA_2) (fx_decode_tx FX) = Inr tx2"
    and "rbind (hex_decode CALLDATA_3) (fx_decode_tx FX) = Inr tx3"
  shows "valid_eip1559_txs_with_altda_commitment_encoded_payload (eth_alloy keccak) FX num =
    Ret (take num [tx1, tx2, tx3], take num sepolia_commitments, take num (map sepolia_encoded sepolia_payloads))"
proof -
  obtain raw1 raw2 raw3 where "hex_decode CALLDATA_1 = Inr raw1" "hex_decode CALLDATA_2 = Inr raw2"
    "hex_decode CALLDATA_3 = Inr raw3" "fx_decode_tx FX raw1 = Inr tx1" "fx_decode_tx FX raw2 = Inr tx2"
    "fx_decode_tx FX raw3 = Inr tx3"
    using assms(3-5) by (auto simp: rbind_eq_Inr)
  then show ?thesis
    using assms(1,2)
    by (simp add: valid_eip1559_txs_with_altda_commitment_encoded_payload_def load_fixture_def unwrap_def
        sepolia_bytes_1 [of keccak] sepolia_bytes_2 [of keccak] sepolia_bytes_3 [of keccak] sepolia_parsed
        sepolia_payload_bytes_1 sepolia_payload_bytes_2 sepolia_payload_bytes_3 sepolia_commitments_def sepolia_payloads_def)
qed

section \<open>The tests of the parsers\<close>

lemma sepolia_test_commitment_passes:
  assumes "hex_decode ALTDA_COMMITMENT_BYTES_1 = Inr calldata"
  shows "test_try_into_altda_commitment_and_to_rlp_bytes_ok (eth_alloy keccak) calldata"
    "test_try_into_altda_commitment (eth_alloy keccak) ''invalid RLP'' calldata"
proof -
  have c: "calldata = to_rlp_bytes (eth_alloy keccak) sepolia_1" using assms sepolia_bytes_1 [of keccak] by simp
  have "rlp_decode [249] = None" by (simp add: rlp_decode_def rlp_open_def open_long_def split_at_def)
  then have "rlp_decode_v3 (eth_alloy keccak) [249] = Inl ''invalid RLP''" by (simp add: eth_alloy_def decode_form_def)
  from commitment_tests_pass(1) [OF sepolia_parsed_form_1] commitment_tests_pass(2) [OF sepolia_parsed_form_1 this]
  show "test_try_into_altda_commitment_and_to_rlp_bytes_ok (eth_alloy keccak) calldata"
    "test_try_into_altda_commitment (eth_alloy keccak) ''invalid RLP'' calldata"
    unfolding c by simp_all
qed

text \<open>The fixture of \<open>eigenda_preimage.rs\<close> is a V2 commitment after its version byte.\<close>

lemma sepolia_test_preimage_passes:
  assumes "hex_decode CALLDATA_HEX = Inr calldata"
  shows "preimage_source_parse (eth_alloy keccak) calldata = Inr sepolia_v2"
    "test_parse_altda_commitment (eth_alloy keccak) calldata" "test_next (eth_alloy keccak) calldata"
proof -
  have c: "calldata = 1 # to_rlp_bytes (eth_alloy keccak) sepolia_v2" using assms sepolia_bytes_v2 [of keccak] by simp
  show "preimage_source_parse (eth_alloy keccak) calldata = Inr sepolia_v2"
    unfolding c by (rule preimage_source_parse_inbox [OF sepolia_parsed_form_v2])
  have "versioned_cert sepolia_v2 = V2 sepolia_cert_v2" by (simp add: sepolia_v2_def)
  from preimage_tests_pass [OF sepolia_parsed_form_v2 this]
  show "test_parse_altda_commitment (eth_alloy keccak) calldata" "test_next (eth_alloy keccak) calldata"
    unfolding c by blast+
qed

end
