(* ===== verification/Data_Source_Tests.thy ===== *)
theory Data_Source_Tests
  imports Sepolia_Fixtures
begin

text \<open>
  The tests of \<open>crates/eigenda/src/eigenda.rs\<close>, one predicate per test over the configured ethereum source,
  and the proofs that the model passes them for all fixtures of the given kind.
\<close>

section \<open>Single calls\<close>

definition expect :: "('a \<times> 's) option \<Rightarrow> ('a \<Rightarrow> 's \<Rightarrow> bool) \<Rightarrow> bool" where
  "expect y P = (case y of Some (r, s) \<Rightarrow> P r s | None \<Rightarrow> False)"

definition is_provider_error :: "(bytes, PipelineErrorKind) result \<Rightarrow> bool" where
  "is_provider_error r = (case r of Inl (PTemporary (Provider _)) \<Rightarrow> True | _ \<Rightarrow> False)"

definition is_temporary :: "(bytes, PipelineErrorKind) result \<Rightarrow> bool" where
  "is_temporary r = (case r of Inl (PTemporary _) \<Rightarrow> True | _ \<Rightarrow> False)"

text \<open>The views are those of kona's blob source and of its calldata source.\<close>

definition test_clear :: "'g eth_ops \<Rightarrow> 'g blob_view list \<Rightarrow> 'g \<Rightarrow> AltDACommitment \<Rightarrow> bool" where
  "test_clear E views ethereum_data_source c \<longleftrightarrow>
     (let s = (default_test_eigenda_data_source ethereum_data_source)\<lparr> altda_commitment := Some c \<rparr>;
          s = data_source_clear E s
      in list_all (\<lambda>B. \<not> bv_open B (ethereum_source s) \<and> bv_data B (ethereum_source s) = []) views \<and>
         altda_commitment s = None)"

definition test_next_chain_provider_err :: "alloy_ops \<Rightarrow> 'g eth_ops \<Rightarrow> 'g \<Rightarrow> BlockInfo \<Rightarrow> u160 \<Rightarrow> bool" where
  "test_next_chain_provider_err A E g b a \<longleftrightarrow>
     expect (test_call A E (default_test_eigenda_data_source g) b a) (\<lambda>r s. is_temporary r)"

definition test_next_empty_data_err :: "alloy_ops \<Rightarrow> 'g eth_ops \<Rightarrow> 'g \<Rightarrow> BlockInfo \<Rightarrow> u160 \<Rightarrow> bool" where
  "test_next_empty_data_err A E g b a \<longleftrightarrow>
     (let s = default_test_eigenda_data_source g in
      altda_commitment s = None \<and>
      expect (test_call A E s b a) (\<lambda>r s. altda_commitment s = None \<and> r = Inl (PTemporary Eof)))"

definition test_next_with_eigenda_preimage_provider_preimage_fetch_error ::
    "alloy_ops \<Rightarrow> 'g eth_ops \<Rightarrow> 'g \<Rightarrow> BlockInfo \<Rightarrow> u160 \<Rightarrow> bool" where
  "test_next_with_eigenda_preimage_provider_preimage_fetch_error A E g b a \<longleftrightarrow>
     expect (test_call A E (set_should_preimage_err True (default_test_eigenda_data_source g)) b a)
       (\<lambda>r s. is_provider_error r \<and> altda_commitment s \<noteq> None)"

text \<open>The data of a call is the decoded payload, which unwraps.\<close>

definition is_payload :: "EncodedPayload \<Rightarrow> (bytes, PipelineErrorKind) result \<Rightarrow> bool" where
  "is_payload x r = (case EncodedPayload_decode x of Ret (Inr bs) \<Rightarrow> r = Inr bs | _ \<Rightarrow> False)"

definition test_next_chain_provider_1559_tx_succeeds ::
    "alloy_ops \<Rightarrow> 'g eth_ops \<Rightarrow> 'g \<Rightarrow> BlockInfo \<Rightarrow> u160 \<Rightarrow> AltDACommitment \<Rightarrow> EncodedPayload \<Rightarrow> bool" where
  "test_next_chain_provider_1559_tx_succeeds A E g b a c x \<longleftrightarrow>
     (let s = set_eigenda_preimage_provider_value A [(c, Inr True, Inr x)] (default_test_eigenda_data_source g)
      in expect (test_call A E s b a) (\<lambda>r s. altda_commitment s = None \<and> is_payload x r))"

definition test_next_chain_provider_1559_txs_succeeds_after_temporary_error ::
    "alloy_ops \<Rightarrow> 'g eth_ops \<Rightarrow> 'g \<Rightarrow> BlockInfo \<Rightarrow> u160 \<Rightarrow> AltDACommitment \<Rightarrow> EncodedPayload \<Rightarrow> bool" where
  "test_next_chain_provider_1559_txs_succeeds_after_temporary_error A E g b a c x \<longleftrightarrow>
     (let s = set_eigenda_preimage_provider_value A [(c, Inr True, Inr x)] (default_test_eigenda_data_source g);
          s = set_should_preimage_err True s
      in expect (test_call A E s b a) (\<lambda>r s. is_provider_error r \<and> altda_commitment s \<noteq> None \<and>
         expect (test_call A E s b a) (\<lambda>r s. is_provider_error r \<and> altda_commitment s \<noteq> None \<and>
         expect (test_call A E (set_should_preimage_err False s) b a)
           (\<lambda>r s. altda_commitment s = None \<and> is_payload x r))))"

definition test_load_eigenda_or_calldata_chain_provider_1559_tx_with_ethda_failover ::
    "alloy_ops \<Rightarrow> 'g eth_ops \<Rightarrow> 'g \<Rightarrow> BlockInfo \<Rightarrow> u160 \<Rightarrow> bool" where
  "test_load_eigenda_or_calldata_chain_provider_1559_tx_with_ethda_failover A E g b a \<longleftrightarrow>
     expect (test_call A E (default_test_eigenda_data_source g) b a)
       (\<lambda>r s. (case r of Inr _ \<Rightarrow> True | Inl _ \<Rightarrow> False) \<and> altda_commitment s = None)"

definition test_next_chain_provider_1559_tx_with_empty_calldata ::
    "alloy_ops \<Rightarrow> 'g eth_ops \<Rightarrow> 'g \<Rightarrow> BlockInfo \<Rightarrow> u160 \<Rightarrow> bool" where
  "test_next_chain_provider_1559_tx_with_empty_calldata A E g b a \<longleftrightarrow>
     expect (test_call A E (default_test_eigenda_data_source g) b a) (\<lambda>r s. r = Inl (PTemporary NotEnoughData))"

definition test_next_chain_provider_1559_tx_with_altda_commitment_parse_error ::
    "alloy_ops \<Rightarrow> 'g eth_ops \<Rightarrow> 'g \<Rightarrow> BlockInfo \<Rightarrow> u160 \<Rightarrow> bool" where
  "test_next_chain_provider_1559_tx_with_altda_commitment_parse_error A E g b a \<longleftrightarrow>
     expect (test_call A E (default_test_eigenda_data_source g) b a) (\<lambda>r s. r = Inl (PTemporary NotEnoughData))"

section \<open>Several commitments\<close>

definition test_next_with_two_1559_txs_succeeds ::
    "alloy_ops \<Rightarrow> 'g eth_ops \<Rightarrow> 'g blob_view \<Rightarrow> 'g \<Rightarrow> BlockInfo \<Rightarrow> u160 \<Rightarrow>
     AltDACommitment list \<Rightarrow> EncodedPayload list \<Rightarrow> bool" where
  "test_next_with_two_1559_txs_succeeds A E B g b a cs xs \<longleftrightarrow>
     (let s = set_eigenda_preimage_provider_value A (map (\<lambda>(c, x). (c, Inr True, Inr x)) (zip cs xs))
                (default_test_eigenda_data_source g);
          is_ok = (\<lambda>r. case r of Inr _ \<Rightarrow> True | Inl _ \<Rightarrow> False)
      in expect (test_call A E s b a) (\<lambda>r s.
           is_ok r \<and> altda_commitment s = None \<and> bv_open B (ethereum_source s) \<and>
         expect (test_call A E s b a) (\<lambda>r s.
           is_ok r \<and> altda_commitment s = None \<and> bv_open B (ethereum_source s) \<and>
           bv_data B (ethereum_source s) = [] \<and>
         expect (test_call A E s b a) (\<lambda>r s.
           r = Inl (PTemporary Eof) \<and> \<not> bv_open B (ethereum_source s)))))"

fun run_temporary_cases ::
    "alloy_ops \<Rightarrow> 'g eth_ops \<Rightarrow> 'g test_source \<Rightarrow> BlockInfo \<Rightarrow> u160 \<Rightarrow> test_entry list \<Rightarrow> bool" where
  "run_temporary_cases A E s b a [] \<longleftrightarrow> True"
| "run_temporary_cases A E s b a (k # rest) \<longleftrightarrow>
     expect (test_call A E (set_eigenda_preimage_provider_value A [k] s) b a) (\<lambda>r s.
       is_provider_error r \<and> altda_commitment s \<noteq> None \<and> run_temporary_cases A E s b a rest)"

definition test_next_with_temporary_error ::
    "alloy_ops \<Rightarrow> 'g eth_ops \<Rightarrow> 'g \<Rightarrow> BlockInfo \<Rightarrow> u160 \<Rightarrow> AltDACommitment \<Rightarrow> EncodedPayload \<Rightarrow> bool" where
  "test_next_with_temporary_error A E g b a c x \<longleftrightarrow>
     (let s = default_test_eigenda_data_source g in
      altda_commitment s = None \<and>
      run_temporary_cases A E s b a
        [(c, Inl TestPreimageError, Inr x), (c, Inr True, Inl TestPreimageError)])"

definition test_next_with_discarded_altda_commitment ::
    "alloy_ops \<Rightarrow> 'g eth_ops \<Rightarrow> 'g \<Rightarrow> BlockInfo \<Rightarrow> u160 \<Rightarrow>
     AltDACommitment \<Rightarrow> AltDACommitment \<Rightarrow> EncodedPayload \<Rightarrow> bool" where
  "test_next_with_discarded_altda_commitment A E g b a c0 c1 x \<longleftrightarrow>
     (let s = default_test_eigenda_data_source g in
      altda_commitment s = None \<and>
      expect (test_call A E (set_eigenda_preimage_provider_value A
                [(c0, Inr False, Inr x), (c1, Inr True, Inr NOT_DECODABLE_ENCODED_PAYLOAD)] s) b a)
        (\<lambda>r s. r = Inl (PTemporary Eof) \<and> altda_commitment s = None))"

section \<open>Scenarios\<close>

text \<open>The results of the calls of a scenario, each with whether a commitment is then held. A held
  commitment is repaired before the next call.\<close>

record Scenario =
  sc_cases :: "test_entry list"
  sc_results :: "((bytes, PipelineErrorKind) result \<times> bool) list"

definition drop_repair :: "alloy_ops \<Rightarrow> AltDACommitment \<Rightarrow> TestEigenDAPreimageProvider \<Rightarrow> TestEigenDAPreimageProvider" where
  "drop_repair A c p =
     insert_encoded_payload A (insert_validity A p c (Inr False)) c (Inr NOT_DECODABLE_ENCODED_PAYLOAD)"

definition take_repair :: "alloy_ops \<Rightarrow> AltDACommitment \<Rightarrow> TestEigenDAPreimageProvider \<Rightarrow> TestEigenDAPreimageProvider" where
  "take_repair A c p = insert_validity A p c (Inr True)"

fun run_nexts ::
    "alloy_ops \<Rightarrow> 'g eth_ops \<Rightarrow> BlockInfo \<Rightarrow> u160 \<Rightarrow>
     (AltDACommitment \<Rightarrow> TestEigenDAPreimageProvider \<Rightarrow> TestEigenDAPreimageProvider) \<Rightarrow> 'g test_source \<Rightarrow>
     ((bytes, PipelineErrorKind) result \<times> bool) list \<Rightarrow> 'g test_source option" where
  "run_nexts A E b a repair s [] = Some s"
| "run_nexts A E b a repair s ((result, is_some) # rest) =
     (case test_call A E s b a of
        Some (r, s) \<Rightarrow>
          if r = result \<and> (altda_commitment s \<noteq> None) = is_some then
            run_nexts A E b a repair
              (case altda_commitment s of Some c \<Rightarrow> on_fetcher (repair c) s | None \<Rightarrow> s) rest
          else None
      | None \<Rightarrow> None)"

fun run_scenarios ::
    "alloy_ops \<Rightarrow> 'g eth_ops \<Rightarrow> BlockInfo \<Rightarrow> u160 \<Rightarrow> 'g test_source \<Rightarrow> Scenario list \<Rightarrow> 'g test_source option" where
  "run_scenarios A E b a s [] = Some s"
| "run_scenarios A E b a s (sc # rest) =
     (case run_nexts A E b a (drop_repair A) (set_eigenda_preimage_provider_value A (sc_cases sc) s) (sc_results sc) of
        Some s \<Rightarrow> run_scenarios A E b a (data_source_clear E s) rest
      | None \<Rightarrow> None)"

definition preimage_temporary_error :: "(bytes, PipelineErrorKind) result" where
  "preimage_temporary_error = Inl (PTemporary (Provider ''Preimage temporary error''))"

definition scenarios ::
    "AltDACommitment \<Rightarrow> AltDACommitment \<Rightarrow> AltDACommitment \<Rightarrow>
     EncodedPayload \<Rightarrow> EncodedPayload \<Rightarrow> EncodedPayload \<Rightarrow> bytes \<Rightarrow> bytes \<Rightarrow> Scenario list" where
  "scenarios c0 c1 c2 x0 x1 x2 payload0 payload2 =
     [\<lparr> sc_cases = [(c0, Inr False, Inr x0), (c1, Inr True, Inr NOT_DECODABLE_ENCODED_PAYLOAD),
                    (c2, Inr True, Inr x2)],
        sc_results = [(Inr payload2, False), (Inl (PTemporary Eof), False)] \<rparr>,
      \<lparr> sc_cases = [(c0, Inr True, Inr x0), (c1, Inl TestPreimageError, Inr x1), (c2, Inr True, Inr x2)],
        sc_results = [(Inr payload0, False), (preimage_temporary_error, True), (Inr payload2, False),
                      (Inl (PTemporary Eof), False)] \<rparr>,
      \<lparr> sc_cases = [(c0, Inr False, Inr x0), (c1, Inl TestPreimageError, Inr x1),
                    (c2, Inr True, Inr NOT_DECODABLE_ENCODED_PAYLOAD)],
        sc_results = [(preimage_temporary_error, True), (Inl (PTemporary Eof), False)] \<rparr>]"

definition retry_scenario ::
    "AltDACommitment \<Rightarrow> AltDACommitment \<Rightarrow> AltDACommitment \<Rightarrow> EncodedPayload \<Rightarrow> EncodedPayload \<Rightarrow>
     bytes \<Rightarrow> bytes \<Rightarrow> Scenario" where
  "retry_scenario c0 c1 c2 x0 x1 payload0 payload1 =
     \<lparr> sc_cases = [(c0, Inl TestPreimageError, Inr x0), (c1, Inl TestPreimageError, Inr x1),
                   (c2, Inr False, Inr NOT_DECODABLE_ENCODED_PAYLOAD)],
       sc_results = [(preimage_temporary_error, True), (Inr payload0, False), (preimage_temporary_error, True),
                     (Inr payload1, False), (Inl (PTemporary Eof), False)] \<rparr>"

definition test_next_with_keep_and_discard_multiple_altda_commitment ::
    "alloy_ops \<Rightarrow> 'g eth_ops \<Rightarrow> 'g \<Rightarrow> BlockInfo \<Rightarrow> u160 \<Rightarrow> AltDACommitment \<Rightarrow> AltDACommitment \<Rightarrow> AltDACommitment \<Rightarrow>
     EncodedPayload \<Rightarrow> EncodedPayload \<Rightarrow> EncodedPayload \<Rightarrow> bool" where
  "test_next_with_keep_and_discard_multiple_altda_commitment A E g b a c0 c1 c2 x0 x1 x2 \<longleftrightarrow>
     (case (EncodedPayload_decode x0, EncodedPayload_decode x1, EncodedPayload_decode x2) of
        (Ret (Inr payload0), Ret (Inr payload1), Ret (Inr payload2)) \<Rightarrow>
          (case run_scenarios A E b a (default_test_eigenda_data_source g)
                  (scenarios c0 c1 c2 x0 x1 x2 payload0 payload2) of
             None \<Rightarrow> False
           | Some s \<Rightarrow>
               let sc = retry_scenario c0 c1 c2 x0 x1 payload0 payload1
               in run_nexts A E b a (take_repair A) (set_eigenda_preimage_provider_value A (sc_cases sc) s)
                    (sc_results sc) \<noteq> None)
      | _ \<Rightarrow> False)"

section \<open>States of the test source\<close>

definition at_state ::
    "'g blob_view \<Rightarrow> bytes list \<Rightarrow> TestEigenDAPreimageProvider \<Rightarrow> item list \<Rightarrow> bool \<Rightarrow> 'g test_source \<Rightarrow> bool" where
  "at_state B txs p is opn s \<longleftrightarrow>
     eigenda_source s = \<lparr> eigenda_fetcher = p \<rparr> \<and> pending (held B txs) s = is \<and>
     bv_open B (ethereum_source s) = opn \<and> open_if_held B s"

definition held_item :: "item list \<Rightarrow> AltDACommitment option" where
  "held_item is = (case is of Retry c # _ \<Rightarrow> Some c | _ \<Rightarrow> None)"

lemma at_state_altda:
  assumes "at_state B txs p is opn s"
  shows "altda_commitment s = held_item is"
proof (cases "altda_commitment s")
  case None
  then show ?thesis using assms
    by (cases "held B txs (ethereum_source s)") (auto simp: at_state_def pending_def held_item_def)
qed (use assms in \<open>auto simp: at_state_def pending_def held_item_def\<close>)

lemma at_state_data:
  assumes "at_state B txs p (map Calldata ds) True s"
  shows "bv_data B (ethereum_source s) = ds"
proof -
  have "held_item (map Calldata ds) = None" by (cases ds) (simp_all add: held_item_def)
  then have "map Calldata (bv_data B (ethereum_source s)) = map Calldata ds"
    using assms at_state_altda [OF assms] by (auto simp: at_state_def pending_def held_def)
  then show ?thesis by (simp add: inj_map_eq_map inj_def)
qed

lemma at_state_empty: "at_state B txs p [] True s \<Longrightarrow> bv_data B (ethereum_source s) = []"
  using at_state_data [of B txs p "[]" s] by simp

lemma at_state_open: "at_state B txs p is opn s \<Longrightarrow> bv_open B (ethereum_source s) = opn"
  by (simp add: at_state_def)

abbreviation no_answers :: TestEigenDAPreimageProvider where
  "no_answers \<equiv> \<lparr> tp_validities = Map.empty, tp_encoded_payloads = Map.empty, tp_should_preimage_err = False \<rparr>"

lemma at_state_default:
  "\<not> bv_open B g \<Longrightarrow> at_state B txs no_answers (map Calldata txs) False (default_test_eigenda_data_source g)"
  by (simp add: at_state_def default_test_eigenda_data_source_def default_test_preimage_source_def pending_def
      held_def open_if_held_def EigenDADataSource_new_def EigenDAPreimageSource_new_def)

lemma at_state_fetcher: "at_state B txs p is opn s \<Longrightarrow> at_state B txs (f p) is opn (on_fetcher f s)"
  by (auto simp: at_state_def on_fetcher_def pending_def open_if_held_def)

lemma at_state_set:
  "at_state B txs p is opn s \<Longrightarrow>
     at_state B txs (fold (insert_entry A) es p) is opn (set_eigenda_preimage_provider_value A es s)"
  "at_state B txs p is opn s \<Longrightarrow>
     at_state B txs (p\<lparr> tp_should_preimage_err := e \<rparr>) is opn (set_should_preimage_err e s)"
  unfolding set_eigenda_preimage_provider_value_def set_should_preimage_err_def by (fact at_state_fetcher)+

lemma at_state_clear:
  "blob_source_law E B txs b a \<Longrightarrow> at_state B txs p is opn s \<Longrightarrow>
     at_state B txs p (map Calldata txs) False (data_source_clear E s)"
  by (simp add: at_state_def data_source_clear_def pending_def held_def open_if_held_def blob_source_law_def)

lemma expect_call:
  assumes "blob_source_law E B txs b a" "at_state B txs p is opn s" "\<forall>i\<in>set is. item_served A p (bi_number b) i"
    and "\<And>s. at_state B txs p
           (if fst (spec_next (test_item A p) is) = Inl (PTemporary Eof) then map Calldata txs
            else snd (spec_next (test_item A p) is))
           (fst (spec_next (test_item A p) is) \<noteq> Inl (PTemporary Eof)) s \<Longrightarrow>
         P (fst (spec_next (test_item A p) is)) s"
  shows "expect (test_call A E s b a) P"
proof -
  obtain r rest where n: "spec_next (test_item A p) is = (r, rest)" by fastforce
  have st: "\<forall>i\<in>set (pending (held B txs) s). item_served A p (bi_number b) i"
    "eigenda_source s = \<lparr> eigenda_fetcher = p \<rparr>" "open_if_held B s"
    "spec_next (test_item A p) (pending (held B txs) s) = (r, rest)"
    using assms(2,3) n by (simp_all add: at_state_def)
  obtain s' where "test_call A E s b a = Some (r, s')" "eigenda_source s' = \<lparr> eigenda_fetcher = p \<rparr>"
    "pending (held B txs) s' = (if r = Inl (PTemporary Eof) then map Calldata txs else rest)"
    "bv_open B (ethereum_source s') = (r \<noteq> Inl (PTemporary Eof))" "open_if_held B s'"
    by (rule test_call_spec [OF assms(1) st])
  then show ?thesis using assms(4) [of s'] by (simp add: expect_def at_state_def n)
qed

text \<open>Inbox data of a commitment is an item of that commitment.\<close>

lemma inbox_item [simp]:
  assumes "parsed_form A c"
  shows "test_item A p (Calldata (1 # to_rlp_bytes A c)) = test_verdict A p c"
    "item_served A p bn (Calldata (1 # to_rlp_bytes A c)) = served A p bn c"
  using preimage_source_parse_inbox [OF assms] by (simp_all add: test_item_def item_served_def)

lemma retry_item [simp]:
  "test_item A p (Retry c) = test_verdict A p c" "item_served A p bn (Retry c) = served A p bn c"
  by (simp_all add: test_item_def item_served_def)

section \<open>The model passes\<close>

lemma clear_test_passes:
  assumes "\<forall>B\<in>set views. \<forall>g. \<not> bv_open B (eth_clear E g) \<and> bv_data B (eth_clear E g) = []"
  shows "test_clear E views g c"
  using assms by (simp add: test_clear_def data_source_clear_def Let_def list_all_iff)

lemma chain_provider_err_test_passes:
  assumes "eth_next E g b a = (Inl (PTemporary e), g')"
  shows "test_next_chain_provider_err A E g b a"
proof -
  have "\<exists>s. data_source_load A E (default_test_eigenda_data_source g) b a = (Inl (Inl (PTemporary e)), s)"
    using assms by (auto simp: default_test_eigenda_data_source_def EigenDADataSource_new_def data_source_load_def Let_def)
  then show ?thesis
    using data_source_next_early [of A E "default_test_eigenda_data_source g" b a _ _ "test_provider A"]
    by (auto simp: test_next_chain_provider_err_def test_call_def expect_def is_temporary_def)
qed

lemma empty_data_test_passes:
  assumes "blob_source_law E B [] b a" "\<not> bv_open B g"
  shows "test_next_empty_data_err A E g b a"
proof -
  note st = at_state_default [OF assms(2), of "[]"]
  show ?thesis
    unfolding test_next_empty_data_err_def Let_def
    by (intro conjI expect_call [OF assms(1) st])
       (auto simp: at_state_altda [OF st] held_item_def dest: at_state_altda)
qed

lemma verdict_error_flag: "tp_should_preimage_err p \<Longrightarrow>
    test_verdict A p c = Stuck c (PTemporary (Provider ''Preimage temporary error''))"
  by (simp add: test_verdict_def HokuleaErrorKind_from_test_def)

lemma preimage_fetch_error_test_passes:
  assumes "blob_source_law E B (inbox_of A [c]) b a" "\<not> bv_open B g" "parsed_form A c"
  shows "test_next_with_eigenda_preimage_provider_preimage_fetch_error A E g b a"
proof -
  note st = at_state_set(2) [OF at_state_default [OF assms(2), of "inbox_of A [c]"], of True]
  show ?thesis
    unfolding test_next_with_eigenda_preimage_provider_preimage_fetch_error_def
    by (rule expect_call [OF assms(1) st])
       (use assms(3) in \<open>auto simp: inbox_of_def served_def verdict_error_flag is_provider_error_def
          held_item_def dest: at_state_altda\<close>)
qed

text \<open>A provider that was given an answer for a commitment the recency rule accepts.\<close>

lemma insert_entry_simps:
  "insert_entry A (c, v, x) p = p\<lparr> tp_validities := (tp_validities p)(to_digest A c \<mapsto> v),
     tp_encoded_payloads := (tp_encoded_payloads p)(to_digest A c \<mapsto> x) \<rparr>"
  by (simp add: insert_entry_def insert_validity_def insert_encoded_payload_def)

lemma no_answer_decodes: "EncodedPayload_decode NOT_DECODABLE_ENCODED_PAYLOAD =
    Ret (Inl (DecodingError (PayloadTooShortForHeader 32 0)))"
  by (simp add: EncodedPayload_decode_def check_len_invariant_def NOT_DECODABLE_ENCODED_PAYLOAD_def)

lemmas test_evaluation = inbox_of_def served_def test_verdict_def insert_entry_simps no_answer_decodes
  HokuleaErrorKind_from_test_def is_provider_error_def is_payload_def held_item_def

lemma succeeds_test_passes:
  assumes "blob_source_law E B (inbox_of A [c]) b a" "\<not> bv_open B g" "parsed_form A c"
    and "unsupported_version c = None" "recent_enough c (bi_number b)"
    and "EncodedPayload_decode x = Ret (Inr bs)"
  shows "test_next_chain_provider_1559_tx_succeeds A E g b a c x"
    "test_next_chain_provider_1559_txs_succeeds_after_temporary_error A E g b a c x"
proof -
  note st = at_state_set(1) [OF at_state_default [OF assms(2), of "inbox_of A [c]"], of A "[(c, Inr True, Inr x)]"]
  show "test_next_chain_provider_1559_tx_succeeds A E g b a c x"
    unfolding test_next_chain_provider_1559_tx_succeeds_def Let_def
    by (rule expect_call [OF assms(1) st])
       (use assms(3-6) in \<open>auto simp: test_evaluation dest: at_state_altda\<close>)
  let ?p = "fold (insert_entry A) [(c, Inr True, Inr x)] no_answers"
  let ?e = "?p\<lparr> tp_should_preimage_err := True \<rparr>"
  let ?ok = "\<lambda>s. expect (test_call A E (set_should_preimage_err False s) b a)
    (\<lambda>r s. altda_commitment s = None \<and> is_payload x r)"
  have ok: "?ok s" if "at_state B (inbox_of A [c]) ?e [Retry c] True s" for s
    by (rule expect_call [OF assms(1) at_state_set(2) [OF that]])
       (use assms(3-6) in \<open>auto simp: test_evaluation dest: at_state_altda\<close>)
  have err: "expect (test_call A E s b a) (\<lambda>r s. is_provider_error r \<and> altda_commitment s \<noteq> None \<and> ?ok s)"
    if "at_state B (inbox_of A [c]) ?e [Retry c] True s" for s
    by (rule expect_call [OF assms(1) that])
       (use ok assms(3) in \<open>auto simp: test_evaluation dest: at_state_altda\<close>)
  show "test_next_chain_provider_1559_txs_succeeds_after_temporary_error A E g b a c x"
    unfolding test_next_chain_provider_1559_txs_succeeds_after_temporary_error_def Let_def
    by (rule expect_call [OF assms(1) at_state_set(2) [OF st]])
       (use err assms(3) in \<open>auto simp: test_evaluation dest: at_state_altda\<close>)
qed

lemma calldata_tests_pass:
  assumes "blob_source_law E B [d] b a" "\<not> bv_open B g"
  shows "d \<noteq> [] \<Longrightarrow> d ! 0 \<noteq> 1 \<Longrightarrow>
      test_load_eigenda_or_calldata_chain_provider_1559_tx_with_ethda_failover A E g b a"
    "d = [] \<Longrightarrow> test_next_chain_provider_1559_tx_with_empty_calldata A E g b a"
    "d \<noteq> [] \<Longrightarrow> d ! 0 = 1 \<Longrightarrow> preimage_source_parse A d = Inl e \<Longrightarrow>
      test_next_chain_provider_1559_tx_with_altda_commitment_parse_error A E g b a"
proof -
  note st = at_state_default [OF assms(2), of "[d]"]
  show "test_load_eigenda_or_calldata_chain_provider_1559_tx_with_ethda_failover A E g b a"
    if "d \<noteq> []" "d ! 0 \<noteq> 1"
    unfolding test_load_eigenda_or_calldata_chain_provider_1559_tx_with_ethda_failover_def
    by (rule expect_call [OF assms(1) st])
       (use that in \<open>auto simp: item_served_def test_item_def held_item_def dest: at_state_altda\<close>)
  show "test_next_chain_provider_1559_tx_with_empty_calldata A E g b a" if "d = []"
    unfolding test_next_chain_provider_1559_tx_with_empty_calldata_def
    by (rule expect_call [OF assms(1) st])
       (use that in \<open>simp_all add: item_served_def test_item_def preimage_source_parse_def\<close>)
  show "test_next_chain_provider_1559_tx_with_altda_commitment_parse_error A E g b a"
    if "d \<noteq> []" "d ! 0 = 1" "preimage_source_parse A d = Inl e"
    unfolding test_next_chain_provider_1559_tx_with_altda_commitment_parse_error_def
    by (rule expect_call [OF assms(1) st]) (use that in \<open>simp_all add: item_served_def test_item_def\<close>)
qed

text \<open>Two commitments in a block.\<close>

lemma two_txs_test_passes:
  assumes "blob_source_law E B (inbox_of A [c0, c1]) b a" "\<not> bv_open B g"
    and "parsed_form A c0" "parsed_form A c1" "to_digest A c0 \<noteq> to_digest A c1"
    and "unsupported_version c0 = None" "recent_enough c0 (bi_number b)"
    and "unsupported_version c1 = None" "recent_enough c1 (bi_number b)"
    and "EncodedPayload_decode x0 = Ret (Inr bs0)" "EncodedPayload_decode x1 = Ret (Inr bs1)"
  shows "test_next_with_two_1559_txs_succeeds A E B g b a [c0, c1] [x0, x1]"
    "test_next_with_discarded_altda_commitment A E g b a c0 c1 x0"
proof -
  note st = at_state_default [OF assms(2), of "inbox_of A [c0, c1]"]
  let ?txs = "inbox_of A [c0, c1]" and ?p = "fold (insert_entry A) [(c0, Inr True, Inr x0), (c1, Inr True, Inr x1)] no_answers"
  have third: "expect (test_call A E s b a) (\<lambda>r s. r = Inl (PTemporary Eof) \<and> \<not> bv_open B (ethereum_source s))"
    if "at_state B ?txs ?p (map Calldata []) True s" for s
    by (rule expect_call [OF assms(1) that]) (auto dest: at_state_open)
  let ?is_ok = "\<lambda>r :: (bytes, PipelineErrorKind) result. case r of Inr _ \<Rightarrow> True | Inl _ \<Rightarrow> False"
  have second: "expect (test_call A E s b a) (\<lambda>r s.
      ?is_ok r \<and> altda_commitment s = None \<and> bv_open B (ethereum_source s) \<and> bv_data B (ethereum_source s) = [] \<and>
      expect (test_call A E s b a) (\<lambda>r s. r = Inl (PTemporary Eof) \<and> \<not> bv_open B (ethereum_source s)))"
    if "at_state B ?txs ?p (map Calldata (inbox_of A [c1])) True s" for s
    by (rule expect_call [OF assms(1) that])
       (use third assms(3-11) in \<open>auto simp: test_evaluation dest: at_state_altda at_state_open at_state_empty\<close>)
  show "test_next_with_two_1559_txs_succeeds A E B g b a [c0, c1] [x0, x1]"
    unfolding test_next_with_two_1559_txs_succeeds_def Let_def
    by (rule expect_call [OF assms(1) at_state_set(1) [OF st]])
       (use second assms(3-11) in \<open>auto simp: test_evaluation dest: at_state_altda at_state_open\<close>)
  show "test_next_with_discarded_altda_commitment A E g b a c0 c1 x0"
    unfolding test_next_with_discarded_altda_commitment_def Let_def
    by (intro conjI expect_call [OF assms(1) at_state_set(1) [OF st]])
       (use assms(3-11) st in \<open>auto simp: test_evaluation dest: at_state_altda\<close>)
qed

lemma temporary_error_test_passes:
  assumes "blob_source_law E B (inbox_of A [c]) b a" "\<not> bv_open B g" "parsed_form A c"
    and "unsupported_version c = None" "recent_enough c (bi_number b)"
  shows "test_next_with_temporary_error A E g b a c x"
proof -
  note st = at_state_default [OF assms(2), of "inbox_of A [c]"]
  let ?p = "insert_entry A (c, Inl TestPreimageError, Inr x) no_answers"
  let ?second = "(c, Inr True, Inl TestPreimageError) :: test_entry"
  have second: "expect (test_call A E (set_eigenda_preimage_provider_value A [?second] s) b a)
      (\<lambda>r s. is_provider_error r \<and> altda_commitment s \<noteq> None \<and> run_temporary_cases A E s b a [])"
    if "at_state B (inbox_of A [c]) ?p [Retry c] True s" for s
    by (rule expect_call [OF assms(1) at_state_set(1) [OF that]])
       (use assms(3-5) in \<open>auto simp: test_evaluation dest: at_state_altda\<close>)
  have "expect (test_call A E (set_eigenda_preimage_provider_value A [(c, Inl TestPreimageError, Inr x)]
      (default_test_eigenda_data_source g)) b a) (\<lambda>r s. is_provider_error r \<and> altda_commitment s \<noteq> None \<and>
      run_temporary_cases A E s b a [?second])"
    by (rule expect_call [OF assms(1) at_state_set(1) [OF st]])
       (use second assms(3-5) in \<open>auto simp: test_evaluation dest: at_state_altda\<close>)
  then show ?thesis
    using at_state_altda [OF st] by (simp add: test_next_with_temporary_error_def Let_def held_item_def inbox_of_def)
qed

section \<open>Scenarios on lists\<close>

text \<open>A scenario over the pending items alone.\<close>

fun spec_runs ::
    "alloy_ops \<Rightarrow> (AltDACommitment \<Rightarrow> TestEigenDAPreimageProvider \<Rightarrow> TestEigenDAPreimageProvider) \<Rightarrow> bytes list \<Rightarrow>
     TestEigenDAPreimageProvider \<Rightarrow> item list \<Rightarrow> ((bytes, PipelineErrorKind) result \<times> bool) list \<Rightarrow> bool" where
  "spec_runs A repair txs p is [] \<longleftrightarrow> True"
| "spec_runs A repair txs p is ((result, is_some) # rest) \<longleftrightarrow>
     (let (r, is) = spec_next (test_item A p) is;
          is = (if r = Inl (PTemporary Eof) then map Calldata txs else is)
      in r = result \<and> (held_item is \<noteq> None) = is_some \<and>
         spec_runs A repair txs (case held_item is of Some c \<Rightarrow> repair c p | None \<Rightarrow> p) is rest)"

lemma test_verdict_Stuck: "test_verdict A p c = Stuck c' e \<Longrightarrow> c' = c"
  by (auto simp: test_verdict_def Let_def HokuleaErrorKind_from_test_def
      split: if_splits option.splits sum.splits bool.splits TestHokuleaProviderError.splits outcome.splits)

lemma served_rest:
  "\<forall>i\<in>set is. item_served A p bn i \<Longrightarrow> \<forall>i\<in>set (snd (spec_next (test_item A p) is)). item_served A p bn i"
proof (induction "is")
  case (Cons i "is")
  have "item_served A p bn (Retry c)" if "test_item A p i = Stuck c e" for c e
    using that Cons.prems
    by (auto simp: test_item_def item_served_def dest: test_verdict_Stuck split: item.splits if_splits sum.splits)
  then show ?case using Cons by (auto split: verdict.splits)
qed simp

definition keeps_served ::
    "alloy_ops \<Rightarrow> (AltDACommitment \<Rightarrow> TestEigenDAPreimageProvider \<Rightarrow> TestEigenDAPreimageProvider) \<Rightarrow> bool" where
  "keeps_served A repair \<longleftrightarrow>
     (\<forall>c p. tp_should_preimage_err (repair c p) = tp_should_preimage_err p \<and>
        (\<forall>bn d. served A p bn d \<longrightarrow> served A (repair c p) bn d))"

lemma repairs_keep_served: "keeps_served A (drop_repair A)" "keeps_served A (take_repair A)"
  by (auto simp: keeps_served_def drop_repair_def take_repair_def served_def insert_validity_def insert_encoded_payload_def)

lemma keeps_served_item:
  "keeps_served A repair \<Longrightarrow> item_served A p bn i \<Longrightarrow> item_served A (repair c p) bn i"
  by (auto simp: keeps_served_def item_served_def split: item.splits sum.splits)

lemma run_nexts_spec:
  assumes law: "blob_source_law E B txs b a" and keep: "keeps_served A repair"
    and "at_state B txs p is opn s" "\<forall>i\<in>set is. item_served A p (bi_number b) i"
    and "\<forall>d\<in>set txs. item_served A p (bi_number b) (Calldata d)" "spec_runs A repair txs p is rs"
  shows "\<exists>s' q is' opn'. run_nexts A E b a repair s rs = Some s' \<and> at_state B txs q is' opn' s' \<and>
    tp_should_preimage_err q = tp_should_preimage_err p"
  using assms(3-6)
proof (induction rs arbitrary: s p "is" opn)
  case Nil
  then show ?case by auto
next
  case (Cons k rs)
  obtain result is_some where k: "k = (result, is_some)" by fastforce
  obtain r rest where n: "spec_next (test_item A p) is = (r, rest)" by fastforce
  let ?is = "if r = Inl (PTemporary Eof) then map Calldata txs else rest"
  let ?p = "case held_item ?is of Some c \<Rightarrow> repair c p | None \<Rightarrow> p"
  have r: "r = result" "(held_item ?is \<noteq> None) = is_some" "spec_runs A repair txs ?p ?is rs"
    using Cons.prems(4) unfolding k spec_runs.simps n Let_def prod.case by blast+
  have "expect (test_call A E s b a) (\<lambda>r' s'. r' = r \<and> at_state B txs p ?is (r \<noteq> Inl (PTemporary Eof)) s')"
    by (rule expect_call [OF law Cons.prems(1,2)]) (auto simp: n)
  then obtain s' where s': "test_call A E s b a = Some (r, s')"
    "at_state B txs p ?is (r \<noteq> Inl (PTemporary Eof)) s'"
    by (auto simp: expect_def split: option.splits)
  let ?s = "case altda_commitment s' of Some c \<Rightarrow> on_fetcher (repair c) s' | None \<Rightarrow> s'"
  have h: "altda_commitment s' = held_item ?is" by (rule at_state_altda [OF s'(2)])
  have st: "at_state B txs ?p ?is (r \<noteq> Inl (PTemporary Eof)) ?s"
    unfolding h using s'(2) at_state_fetcher [OF s'(2)] by (cases "held_item ?is") simp_all
  have is_served: "\<forall>i\<in>set ?is. item_served A p (bi_number b) i"
    using served_rest [OF Cons.prems(2)] Cons.prems(3) n by auto
  have keep_p: "item_served A p (bi_number b) i \<Longrightarrow> item_served A ?p (bi_number b) i"
    and flag: "tp_should_preimage_err ?p = tp_should_preimage_err p" for i
    using keep keeps_served_item [OF keep] by (auto simp: keeps_served_def split: option.splits)
  obtain s'' q is' opn' where "run_nexts A E b a repair ?s rs = Some s''" "at_state B txs q is' opn' s''"
    "tp_should_preimage_err q = tp_should_preimage_err ?p"
    using Cons.IH [OF st _ _ r(3)] is_served Cons.prems(3) keep_p by blast
  then show ?case using k r(1,2) s'(1) h flag by auto
qed

text \<open>A scenario on the three commitments, from any state whose source was cleared.\<close>

lemma scenario_passes:
  assumes "blob_source_law E B (inbox_of A [c0, c1, c2]) b a" "keeps_served A repair"
    and c: "\<forall>c\<in>{c0, c1, c2}. parsed_form A c \<and> unsupported_version c = None \<and> recent_enough c (bi_number b)"
    and "at_state B (inbox_of A [c0, c1, c2]) p (map Calldata (inbox_of A [c0, c1, c2])) opn s"
    and p: "\<not> tp_should_preimage_err p"
    and "spec_runs A repair (inbox_of A [c0, c1, c2])
      (fold (insert_entry A) [(c0, v0, y0), (c1, v1, y1), (c2, v2, y2)] p) (map Calldata (inbox_of A [c0, c1, c2])) rs"
  shows "\<exists>s' q is' opn'. run_nexts A E b a repair
      (set_eigenda_preimage_provider_value A [(c0, v0, y0), (c1, v1, y1), (c2, v2, y2)] s) rs = Some s' \<and>
    at_state B (inbox_of A [c0, c1, c2]) q is' opn' s' \<and> \<not> tp_should_preimage_err q"
proof -
  let ?p = "fold (insert_entry A) [(c0, v0, y0), (c1, v1, y1), (c2, v2, y2)] p"
  have d: "\<forall>d\<in>set (inbox_of A [c0, c1, c2]). item_served A ?p (bi_number b) (Calldata d)"
    using c by (auto simp: inbox_of_def served_def insert_entry_simps)
  have "\<not> tp_should_preimage_err ?p" using p by (simp add: insert_entry_simps)
  then show ?thesis
    using run_nexts_spec [OF assms(1,2) at_state_set(1) [OF assms(4)] _ d assms(6)] d by auto
qed

text \<open>What the fixtures of the scenario test satisfy.\<close>

definition scenario_fixtures ::
    "alloy_ops \<Rightarrow> AltDACommitment \<Rightarrow> AltDACommitment \<Rightarrow> AltDACommitment \<Rightarrow> EncodedPayload \<Rightarrow> EncodedPayload \<Rightarrow>
     EncodedPayload \<Rightarrow> bytes \<Rightarrow> bytes \<Rightarrow> bytes \<Rightarrow> bool" where
  "scenario_fixtures A c0 c1 c2 x0 x1 x2 bs0 bs1 bs2 \<longleftrightarrow>
     parsed_form A c0 \<and> parsed_form A c1 \<and> parsed_form A c2 \<and>
     distinct [to_digest A c0, to_digest A c1, to_digest A c2] \<and>
     EncodedPayload_decode x0 = Ret (Inr bs0) \<and> EncodedPayload_decode x1 = Ret (Inr bs1) \<and>
     EncodedPayload_decode x2 = Ret (Inr bs2)"

lemmas scenario_simps = inbox_of_def test_verdict_def insert_entry_simps no_answer_decodes HokuleaErrorKind_from_test_def
  held_item_def preimage_temporary_error_def drop_repair_def take_repair_def insert_validity_def
  insert_encoded_payload_def Let_def

lemma scenario_specs:
  assumes "scenario_fixtures A c0 c1 c2 x0 x1 x2 bs0 bs1 bs2" "\<not> tp_should_preimage_err p"
  shows "sc \<in> set (scenarios c0 c1 c2 x0 x1 x2 bs0 bs2) \<Longrightarrow>
      spec_runs A (drop_repair A) (inbox_of A [c0, c1, c2]) (fold (insert_entry A) (sc_cases sc) p)
        (map Calldata (inbox_of A [c0, c1, c2])) (sc_results sc)"
    "spec_runs A (take_repair A) (inbox_of A [c0, c1, c2])
      (fold (insert_entry A) (sc_cases (retry_scenario c0 c1 c2 x0 x1 bs0 bs1)) p)
      (map Calldata (inbox_of A [c0, c1, c2])) (sc_results (retry_scenario c0 c1 c2 x0 x1 bs0 bs1))"
proof -
  have ne: "to_digest A c0 \<noteq> to_digest A c1" "to_digest A c0 \<noteq> to_digest A c2" "to_digest A c1 \<noteq> to_digest A c2"
    using assms(1) by (auto simp: scenario_fixtures_def)
  note facts = ne ne [symmetric] assms(1) [unfolded scenario_fixtures_def] assms(2)
  show "sc \<in> set (scenarios c0 c1 c2 x0 x1 x2 bs0 bs2) \<Longrightarrow>
      spec_runs A (drop_repair A) (inbox_of A [c0, c1, c2]) (fold (insert_entry A) (sc_cases sc) p)
        (map Calldata (inbox_of A [c0, c1, c2])) (sc_results sc)"
    using facts by (auto simp: scenarios_def scenario_simps)
  show "spec_runs A (take_repair A) (inbox_of A [c0, c1, c2])
      (fold (insert_entry A) (sc_cases (retry_scenario c0 c1 c2 x0 x1 bs0 bs1)) p)
      (map Calldata (inbox_of A [c0, c1, c2])) (sc_results (retry_scenario c0 c1 c2 x0 x1 bs0 bs1))"
    using facts by (simp add: retry_scenario_def scenario_simps)
qed

lemma run_scenarios_pass:
  assumes law: "blob_source_law E B (inbox_of A [c0, c1, c2]) b a"
    and c: "\<forall>c\<in>{c0, c1, c2}. parsed_form A c \<and> unsupported_version c = None \<and> recent_enough c (bi_number b)"
    and fx: "scenario_fixtures A c0 c1 c2 x0 x1 x2 bs0 bs1 bs2"
    and "set scs \<subseteq> set (scenarios c0 c1 c2 x0 x1 x2 bs0 bs2)" "\<not> tp_should_preimage_err p"
    and "at_state B (inbox_of A [c0, c1, c2]) p (map Calldata (inbox_of A [c0, c1, c2])) opn s"
  shows "\<exists>s' q opn'. run_scenarios A E b a s scs = Some s' \<and>
    at_state B (inbox_of A [c0, c1, c2]) q (map Calldata (inbox_of A [c0, c1, c2])) opn' s' \<and>
    \<not> tp_should_preimage_err q"
  using assms(4-6)
proof (induction scs arbitrary: s p opn)
  case Nil
  then show ?case by auto
next
  case (Cons sc scs)
  have "\<exists>v0 y0 v1 y1 v2 y2. sc_cases sc = [(c0, v0, y0), (c1, v1, y1), (c2, v2, y2)]"
    using Cons.prems(1) by (auto simp: scenarios_def)
  then obtain v0 y0 v1 y1 v2 y2 where cs: "sc_cases sc = [(c0, v0, y0), (c1, v1, y1), (c2, v2, y2)]" by blast
  have "spec_runs A (drop_repair A) (inbox_of A [c0, c1, c2]) (fold (insert_entry A) (sc_cases sc) p)
      (map Calldata (inbox_of A [c0, c1, c2])) (sc_results sc)"
    by (rule scenario_specs(1) [OF fx]) (use Cons.prems in auto)
  from scenario_passes [OF law repairs_keep_served(1) c Cons.prems(3,2) this [unfolded cs], folded cs]
  obtain s' q is' opn' where "run_nexts A E b a (drop_repair A)
      (set_eigenda_preimage_provider_value A (sc_cases sc) s) (sc_results sc) = Some s'"
    "at_state B (inbox_of A [c0, c1, c2]) q is' opn' s'" "\<not> tp_should_preimage_err q"
    by blast
  then show ?case
    using Cons.IH [OF _ _ at_state_clear [OF law]] Cons.prems(1) by auto
qed

text \<open>C22. A block with three commitments through drops and retries: for whatever commitments, payloads and
  ethereum source, the sequence of calls of the scenario test gives the results the test lists. Discarded
  commitments are skipped within one call, a temporary failure keeps the commitment for the next call,
  which takes or drops it after the repair, the end of the block is reported once everything is used up,
  and \<open>clear\<close> makes the source read the block again.\<close>

theorem keep_and_discard_test_passes:
  assumes "blob_source_law E B (inbox_of A [c0, c1, c2]) b a" "\<not> bv_open B g"
    and "\<forall>c\<in>{c0, c1, c2}. parsed_form A c \<and> unsupported_version c = None \<and> recent_enough c (bi_number b)"
    and "distinct [to_digest A c0, to_digest A c1, to_digest A c2]"
    and "EncodedPayload_decode x0 = Ret (Inr bs0)" "EncodedPayload_decode x1 = Ret (Inr bs1)"
    and "EncodedPayload_decode x2 = Ret (Inr bs2)"
  shows "test_next_with_keep_and_discard_multiple_altda_commitment A E g b a c0 c1 c2 x0 x1 x2"
proof -
  have fx: "scenario_fixtures A c0 c1 c2 x0 x1 x2 bs0 bs1 bs2"
    using assms(3-7) by (simp add: scenario_fixtures_def)
  obtain s' q opn' where s': "run_scenarios A E b a (default_test_eigenda_data_source g)
      (scenarios c0 c1 c2 x0 x1 x2 bs0 bs2) = Some s'"
    "at_state B (inbox_of A [c0, c1, c2]) q (map Calldata (inbox_of A [c0, c1, c2])) opn' s'"
    "\<not> tp_should_preimage_err q"
    using run_scenarios_pass [OF assms(1,3) fx subset_refl _ at_state_default [OF assms(2)]] by auto
  let ?sc = "retry_scenario c0 c1 c2 x0 x1 bs0 bs1"
  have cs: "sc_cases ?sc = [(c0, Inl TestPreimageError, Inr x0), (c1, Inl TestPreimageError, Inr x1),
      (c2, Inr False, Inr NOT_DECODABLE_ENCODED_PAYLOAD)]"
    by (simp add: retry_scenario_def)
  from scenario_passes [OF assms(1) repairs_keep_served(2) assms(3) s'(2,3)
      scenario_specs(2) [OF fx s'(3), unfolded cs], folded cs]
  obtain s'' where "run_nexts A E b a (take_repair A)
      (set_eigenda_preimage_provider_value A (sc_cases ?sc) s') (sc_results ?sc) = Some s''"
    by blast
  then show ?thesis
    using s'(1) assms(5-7)
    by (simp add: test_next_with_keep_and_discard_multiple_altda_commitment_def Let_def)
qed

text \<open>A source that reads a block again once it is closed.\<close>

definition reload_eth :: "bytes list \<Rightarrow> (bool \<times> bytes list) eth_ops" where
  "reload_eth txs =
     \<lparr> eth_next = (\<lambda>(opn, ds) _ _. case (if opn then ds else txs) of
            [] \<Rightarrow> (Inl (PTemporary Eof), (True, []))
          | d # ds \<Rightarrow> (Inr d, (True, ds))),
       eth_clear = (\<lambda>_. (False, [])) \<rparr>"

definition reload_view :: "(bool \<times> bytes list) blob_view" where
  "reload_view = \<lparr> bv_open = fst, bv_data = snd \<rparr>"

lemma reload_law: "blob_source_law (reload_eth txs) reload_view txs b a"
  by (auto simp: blob_source_law_def reload_eth_def reload_view_def held_def split: list.splits)

text \<open>The fixtures of the test itself.\<close>

lemma sepolia_facts:
  assumes "c \<in> {sepolia_1, sepolia_2, sepolia_3}"
  shows "parsed_form (eth_alloy keccak) c" "unsupported_version c = None" "recent_enough c bn"
  using assms sepolia_parsed_form_1 [of keccak] sepolia_parsed_form_2 [of keccak] sepolia_parsed_form_3 [of keccak]
  by (auto simp: unsupported_version_def recent_enough_def sepolia_1_def sepolia_2_def sepolia_3_def)

definition length_alloy :: alloy_ops where
  "length_alloy = eth_alloy (\<lambda>bs. of_nat (length bs))"

lemmas sepolia_lengths =
  sepolia_length_1 [of "\<lambda>bs. of_nat (length bs)", folded length_alloy_def]
  sepolia_length_2 [of "\<lambda>bs. of_nat (length bs)", folded length_alloy_def]
  sepolia_length_3 [of "\<lambda>bs. of_nat (length bs)", folded length_alloy_def]

theorem keep_and_discard_test_passes_witness:
  "test_next_with_keep_and_discard_multiple_altda_commitment length_alloy
     (reload_eth (inbox_of length_alloy [sepolia_1, sepolia_2, sepolia_3])) (False, []) BLOCK_INFO BATCHER_ADDRESS
     sepolia_1 sepolia_2 sepolia_3 (sepolia_encoded sepolia_payload_1) (sepolia_encoded sepolia_payload_2)
     (sepolia_encoded sepolia_payload_3)"
proof -
  have "\<not> bv_open reload_view (False, [])" by (simp add: reload_view_def)
  moreover have "keccak256 length_alloy bs = of_nat (length bs)" for bs by (simp add: length_alloy_def eth_alloy_def)
  then have "distinct (map (to_digest length_alloy) [sepolia_1, sepolia_2, sepolia_3])"
    by (simp add: to_digest_def sepolia_lengths)
  ultimately show ?thesis
    by (intro keep_and_discard_test_passes [OF reload_law])
       (simp_all add: length_alloy_def sepolia_facts sepolia_payloads_decode sepolia_payloads_def)
qed

end
