(* ===== verification/Witness_Tests.thy ===== *)
theory Witness_Tests
  imports Preloader Test_Support
begin

text \<open>
  The tests of \<open>crates/proof/src/preloaded_eigenda_provider.rs\<close>: the fixture, a witness of one payload with
  its KZG proof, and the tests of \<open>from_witness\<close> and of the provider it makes. A test is the outcome of its
  body; one marked \<open>should_panic\<close> passes when that is a panic. The certificate of the fixture is any
  certificate of two field elements, and the KZG library is a parameter that is complete.
\<close>

section \<open>The fixture\<close>

text \<open>The first four points of the setup. \<open>hex_decode\<close> is \<open>hex::decode\<close> and \<open>read\<close> is
  \<open>read_g1_point_from_bytes_be\<close>.\<close>

definition G1_POINTS_BYTE :: string where
  "G1_POINTS_BYTE =
     ''8000000000000000000000000000000000000000000000000000000000000001'' @
     ''cbfc87ecbdcdc23ef5481bb179aaada7f42c22d2dfd52b4655a18c2879c54eea'' @
     ''9fb27cc0e2465b3e57a42a051dbfbd8d0b62eec80cd07c46401781deab36ca27'' @
     ''c44ab250113840f37622eb001cfbcb1dec55f15e6ea48333ddb63e9d2befecab''"

definition load_g1_srs ::
    "(string \<Rightarrow> (bytes, string) result) \<Rightarrow> (bytes \<Rightarrow> ('pt, string) result) \<Rightarrow> 'pt SRS outcome" where
  "load_g1_srs hex_decode read =
     obind (unwrap ''called `Result::unwrap()` on an `Err` value'' (hex_decode G1_POINTS_BYTE)) (\<lambda>g1_points_bytes.
     obind (mapM (\<lambda>i. unwrap ''called `Result::unwrap()` on an `Err` value''
                        (read (subslice (32 * i) (32 * i + 32) g1_points_bytes))) [0, 1, 2, 3]) (\<lambda>g1_srs.
       Ret \<lparr> srs_g1 = g1_srs, srs_order = 4 \<rparr>))"

definition compute_kzg_commitment ::
    "('b, 'p, 'pt) kzg_prover_ops \<Rightarrow> ('b \<Rightarrow> u64) \<Rightarrow> 'pt SRS \<Rightarrow> 'b \<Rightarrow> (G1Point, string) result outcome" where
  "compute_kzg_commitment KP blob_len srs blob =
     obind (unwrap ''called `Result::unwrap()` on an `Err` value''
              (kp_calculate_and_store_roots_of_unity KP (blob_len blob))) (\<lambda>_.
     orbind (Ret (kp_to_polynomial_eval_form KP blob)) (\<lambda>input_poly.
     orbind (Ret (kp_commit_eval_form KP input_poly srs)) (\<lambda>commitment.
     obind (convert_biguint_to_be_32_bytes (kp_to_bytes_be KP) (kp_x KP commitment)) (\<lambda>commitment_x_bytes.
     obind (convert_biguint_to_be_32_bytes (kp_to_bytes_be KP) (kp_y KP commitment)) (\<lambda>commitment_y_bytes.
       Ret (Inr \<lparr> g1_x = be_b256 commitment_x_bytes, g1_y = be_b256 commitment_y_bytes \<rparr>))))))"

definition compute_kzg_proof_and_commitment ::
    "('b, 'p, 'pt) kzg_prover_ops \<Rightarrow> ('b \<Rightarrow> u64) \<Rightarrow> 'pt SRS \<Rightarrow> bytes \<Rightarrow> ('b \<times> G1Point \<times> u512) outcome" where
  "compute_kzg_proof_and_commitment KP blob_len srs encoded_payload_inner =
     (let p = \<lparr> encoded_payload = encoded_payload_inner \<rparr> in
      obind (compute_kzg_proof_with_srs KP (serialize p) srs) (\<lambda>r.
      obind (unwrap ''should be able to produce a proof'' r) (\<lambda>kzg_proof.
      obind (oassert (length kzg_proof = 64) ''FixedBytes::from_slice'') (\<lambda>_.
      obind (unwrap ''should be able to construct a blob'' (kp_blob_new KP (serialize p))) (\<lambda>blob.
      obind (compute_kzg_commitment KP blob_len srs blob) (\<lambda>r.
      obind (unwrap ''called `Result::unwrap()` on an `Err` value'' r) (\<lambda>kzg_commitment.
        Ret (blob, kzg_commitment, of_nat (be_nat kzg_proof)))))))))"

definition ok_payload :: bytes where
  "ok_payload = replicate 5 0 @ [31] @ replicate 26 2 @ [0] @ replicate 31 1"

definition prepare_ok_data ::
    "('b, 'p, 'pt) kzg_prover_ops \<Rightarrow> ('b \<Rightarrow> u64) \<Rightarrow> 'pt SRS \<Rightarrow> AltDACommitment \<Rightarrow> EigenDAWitness outcome" where
  "prepare_ok_data KP blob_len srs c =
     obind (compute_kzg_proof_and_commitment KP blob_len srs ok_payload) (\<lambda>(_, commitment, proof).
       let altda_commitment = set_kzg_commitment commitment c in
       Ret \<lparr> wit_validities = [(altda_commitment, True)],
             wit_encoded_payloads = [(altda_commitment, \<lparr> encoded_payload = ok_payload \<rparr>, proof)],
             wit_canoe_proof_bytes = Some [] \<rparr>)"

definition prepare_data_with_invalid_encoded_payload ::
    "('b, 'p, 'pt) kzg_prover_ops \<Rightarrow> ('b \<Rightarrow> u64) \<Rightarrow> 'pt SRS \<Rightarrow> AltDACommitment \<Rightarrow> EigenDAWitness outcome" where
  "prepare_data_with_invalid_encoded_payload KP blob_len srs c =
     obind (prepare_ok_data KP blob_len srs c) (\<lambda>ok_data.
       Ret (ok_data\<lparr> wit_encoded_payloads :=
              map (\<lambda>(c, x, k). (c, x\<lparr> encoded_payload :=
                     [255] @ replicate 4 0 @ [31] @ replicate 26 2 @ [0] @ replicate 31 1 \<rparr>, k))
                (wit_encoded_payloads ok_data) \<rparr>))"

section \<open>The tests\<close>

abbreviation noop_from_witness :: "batch_verifier \<Rightarrow> EigenDAWitness \<Rightarrow> PreloadedEigenDAPreimageProvider outcome" where
  "noop_from_witness BV w \<equiv> from_witness CanoeNoOpVerifier (static_fetch_address 0) BV w 0 0 0 0"

definition should_panic :: "'a outcome \<Rightarrow> bool" where
  "should_panic body = (case body of Panic _ \<Rightarrow> True | Ret _ \<Rightarrow> False)"

definition test_from_witness_ok_0_preimage :: "batch_verifier \<Rightarrow> bool" where
  "test_from_witness_ok_0_preimage BV \<longleftrightarrow>
     (case noop_from_witness BV
             \<lparr> wit_validities = [], wit_encoded_payloads = [], wit_canoe_proof_bytes = None \<rparr> of
        Ret preimage \<Rightarrow> length (encoded_payload_entries preimage) = 0 \<and> length (validity_entries preimage) = 0
      | Panic _ \<Rightarrow> False)"

text \<open>The body of the replay test up to the last request, and that request.\<close>

definition replay_test_start :: "batch_verifier \<Rightarrow> EigenDAWitness \<Rightarrow> PreloadedEigenDAPreimageProvider outcome" where
  "replay_test_start BV w =
     (let c = fst (wit_validities w ! 0) in
      obind (noop_from_witness BV w) (\<lambda>preimage.
      obind (preloaded_get_validity preimage c) (\<lambda>(r, preimage).
      obind (oassert (r = Inr (snd (wit_validities w ! 0))) ''assertion failed'') (\<lambda>_.
      obind (preloaded_get_encoded_payload preimage c) (\<lambda>(r, preimage).
      obind (oassert (r = Inr (fst (snd (wit_encoded_payloads w ! 0)))) ''assertion failed'') (\<lambda>_.
        Ret preimage))))))"

definition test_from_witness_ok_and_preimage_provider :: "batch_verifier \<Rightarrow> EigenDAWitness outcome \<Rightarrow> bool" where
  "test_from_witness_ok_and_preimage_provider BV ok_data \<longleftrightarrow>
     should_panic (obind ok_data (\<lambda>w. obind (replay_test_start BV w) (\<lambda>preimage.
       preloaded_get_encoded_payload preimage (fst (wit_validities w ! 0)))))"

definition test_from_witness_panic_unknown_key_validity :: "batch_verifier \<Rightarrow> EigenDAWitness outcome \<Rightarrow> bool" where
  "test_from_witness_panic_unknown_key_validity BV ok_data \<longleftrightarrow>
     should_panic (obind ok_data (\<lambda>w.
       let altda_commitment = (fst (wit_validities w ! 0))\<lparr> da_layer_byte := 255 \<rparr> in
       obind (noop_from_witness BV w) (\<lambda>preimage. preloaded_get_validity preimage altda_commitment)))"

definition test_from_witness_panic_unknown_key_encoded_payload ::
    "batch_verifier \<Rightarrow> EigenDAWitness outcome \<Rightarrow> bool" where
  "test_from_witness_panic_unknown_key_encoded_payload BV ok_data \<longleftrightarrow>
     should_panic (obind ok_data (\<lambda>w.
       let altda_commitment = (fst (wit_validities w ! 0))\<lparr> da_layer_byte := 255 \<rparr> in
       obind (noop_from_witness BV w) (\<lambda>preimage. preloaded_get_encoded_payload preimage altda_commitment)))"

definition test_from_witness_length_violation_validity_encoded_payload ::
    "batch_verifier \<Rightarrow> EigenDAWitness outcome \<Rightarrow> bool" where
  "test_from_witness_length_violation_validity_encoded_payload BV ok_data \<longleftrightarrow>
     should_panic (obind ok_data (\<lambda>w.
       noop_from_witness BV (w\<lparr> wit_encoded_payloads := wit_encoded_payloads w @ wit_encoded_payloads w \<rparr>)))"

definition test_from_witness_not_field_element :: "batch_verifier \<Rightarrow> EigenDAWitness outcome \<Rightarrow> bool" where
  "test_from_witness_not_field_element BV invalid_data \<longleftrightarrow> should_panic (obind invalid_data (noop_from_witness BV))"

section \<open>The model passes\<close>

lemma compute_kzg_commitment_Ret:
  assumes "bytes_be_law (kp_to_bytes_be KP)" "coordinates_fit KP"
    and "compute_kzg_commitment KP blob_len srs blob = Ret (Inr g)"
  obtains poly C where "kp_to_polynomial_eval_form KP blob = Inr poly" "kp_commit_eval_form KP poly srs = Inr C"
    "kp_x KP C = unat (g1_x g)" "kp_y KP C = unat (g1_y g)"
proof -
  have c: "convert_biguint_to_be_32_bytes (kp_to_bytes_be KP) (kp_x KP P) = Ret (nat_be 32 (kp_x KP P))"
    "convert_biguint_to_be_32_bytes (kp_to_bytes_be KP) (kp_y KP P) = Ret (nat_be 32 (kp_y KP P))"
    "kp_x KP P < 256 ^ 32" "kp_y KP P < 256 ^ 32" for P
    using convert_biguint [OF assms(1)] assms(2) by (simp_all add: coordinates_fit_def)
  have b: "unat (be_b256 (nat_be 32 n)) = n" if "n < 256 ^ 32" for n
    using that by (simp add: be_b256_def unat_of_nat)
  show thesis
    using assms(3) that b c
    by (auto simp: compute_kzg_commitment_def obind_eq_Ret orbind_eq_RetInr unwrap_eq_Ret)
qed

text \<open>A certificate with the fixture's commitment commits to the payload, and the proof is the prover's, so a
  complete KZG library accepts it.\<close>

lemma compute_kzg_proof_and_commitment_Ret:
  assumes "bytes_be_law (kp_to_bytes_be KP)" "coordinates_fit KP"
    and "compute_kzg_proof_and_commitment KP blob_len srs bs = Ret (blob, g, k)"
  obtains out where "compute_kzg_proof_with_srs KP bs srs = Ret (Inr out)" "length out = 64"
    "k = of_nat (be_nat out)" "kp_blob_new KP bs = Inr blob"
    "\<And>c. commits_to KP (Ret srs) (set_kzg_commitment g c) \<lparr> encoded_payload = bs \<rparr>"
proof -
  obtain out where out: "compute_kzg_proof_with_srs KP bs srs = Ret (Inr out)" "length out = 64"
    "k = of_nat (be_nat out)" "kp_blob_new KP bs = Inr blob"
    "compute_kzg_commitment KP blob_len srs blob = Ret (Inr g)"
    using assms(3) by (auto simp: compute_kzg_proof_and_commitment_def serialize_def Let_def obind_eq_Ret unwrap_eq_Ret)
  obtain poly C where "kp_to_polynomial_eval_form KP blob = Inr poly" "kp_commit_eval_form KP poly srs = Inr C"
    "kp_x KP C = unat (g1_x g)" "kp_y KP C = unat (g1_y g)"
    using compute_kzg_commitment_Ret [OF assms(1,2) out(5)] .
  then have "commits_to KP (Ret srs) (set_kzg_commitment g c) \<lparr> encoded_payload = bs \<rparr>" for c
    using out(4) by (auto simp: commits_to_def serialize_def)
  then show thesis using out that by blast
qed

lemma fixtures_accepted:
  assumes "bytes_be_law (kp_to_bytes_be KP)" "coordinates_fit KP" "kzg_complete BV KP (Ret srs)"
    and "list_all2 (\<lambda>bs (blob, g, k). compute_kzg_proof_and_commitment KP blob_len srs bs = Ret (blob, g, k)) payloads fs"
  shows "BV payloads (map (\<lambda>(_, g, _). g) fs) (map (\<lambda>(_, _, k). k) fs) = Ret True"
proof -
  fix c :: AltDACommitment
  let ?entries = "map (\<lambda>(bs, _, g, _). (set_kzg_commitment g c, \<lparr> encoded_payload = bs \<rparr>)) (zip payloads fs)"
  have "create_kzg_proofs_for_eigenda_preimage KP (Ret srs) ?entries = Ret (map (\<lambda>(_, _, k). k) fs) \<and>
      (\<forall>(c, x)\<in>set ?entries. commits_to KP (Ret srs) c x) \<and>
      map (\<lambda>(_, x). serialize x) ?entries = payloads \<and>
      map (\<lambda>(c, _). get_kzg_commitment c) ?entries = map (\<lambda>(_, g, _). g) fs"
    using assms(4)
  proof (induction payloads fs rule: list_all2_induct)
    case (Cons bs payloads f fs)
    obtain blob g k where f: "f = (blob, g, k)" by (cases f)
    obtain out where "compute_kzg_proof_with_srs KP bs srs = Ret (Inr out)" "length out = 64"
      "k = of_nat (be_nat out)" "commits_to KP (Ret srs) (set_kzg_commitment g c) \<lparr> encoded_payload = bs \<rparr>"
      using Cons.hyps(1) f compute_kzg_proof_and_commitment_Ret [OF assms(1,2)] by blast
    then show ?case using Cons.IH f by (simp add: compute_kzg_proof_def serialize_def)
  qed simp
  then show ?thesis using assms(3) unfolding kzg_complete_def by metis
qed

text \<open>The fixture is a witness of one entry.\<close>

lemma prepare_ok_data_witness:
  assumes "bytes_be_law (kp_to_bytes_be KP)" "coordinates_fit KP" "kzg_complete BV KP (Ret srs)"
    and "prepare_ok_data KP blob_len srs c = Ret w"
  obtains g k where
    "w = \<lparr> wit_validities = [(set_kzg_commitment g c, True)],
           wit_encoded_payloads = [(set_kzg_commitment g c, \<lparr> encoded_payload = ok_payload \<rparr>, k)],
           wit_canoe_proof_bytes = Some [] \<rparr>"
    "BV [ok_payload] [g] [k] = Ret True"
proof -
  obtain blob g k where f: "compute_kzg_proof_and_commitment KP blob_len srs ok_payload = Ret (blob, g, k)"
    and w: "w = \<lparr> wit_validities = [(set_kzg_commitment g c, True)],
           wit_encoded_payloads = [(set_kzg_commitment g c, \<lparr> encoded_payload = ok_payload \<rparr>, k)],
           wit_canoe_proof_bytes = Some [] \<rparr>"
    using assms(4) by (auto simp: prepare_ok_data_def obind_eq_Ret Let_def)
  have "BV [ok_payload] [g] [k] = Ret True"
    using fixtures_accepted [OF assms(1-3), of blob_len "[ok_payload]" "[(blob, g, k)]"] f by simp
  then show thesis using w that by blast
qed

lemma noop_from_witness_Ret_iff:
  "noop_from_witness BV w = Ret p \<longleftrightarrow>
     length (wit_encoded_payloads w) \<le> length (wit_validities w) \<and>
     (\<forall>(c, x, _) \<in> set (wit_encoded_payloads w). num_field_element x = get_num_field_element c) \<and>
     BV (map (\<lambda>(_, x, _). serialize x) (wit_encoded_payloads w))
        (map (\<lambda>(c, _, _). get_kzg_commitment c) (wit_encoded_payloads w))
        (map (\<lambda>(_, _, k). k) (wit_encoded_payloads w)) = Ret True \<and>
     p = preloaded_of (wit_validities w) (map (\<lambda>(c, x, _). (c, x)) (wit_encoded_payloads w))"
proof -
  have "\<exists>claims. mapM (cert_validity_of (static_fetch_address 0) h n t ch) vs = Ret claims" for h n t ch vs
    unfolding mapM_Ret_iff
    by (intro exI [of _ "map (\<lambda>v. the_elem {q. cert_validity_of (static_fetch_address 0) h n t ch v = Ret q}) vs"])
       (auto simp: list_all2_map2 list_all2_same cert_validity_of_def static_fetch_address_def split: prod.splits)
  then show ?thesis
    unfolding from_witness_Ret_iff by (auto simp: CanoeNoOpVerifier_def)
qed

lemma empty_witness_test_passes:
  assumes "kzg_complete BV KP srs"
  shows "test_from_witness_ok_0_preimage BV"
proof -
  have "BV [] [] [] = Ret True"
    using assms unfolding kzg_complete_def by (auto dest!: spec [of _ "[]"])
  then have "noop_from_witness BV \<lparr> wit_validities = [], wit_encoded_payloads = [], wit_canoe_proof_bytes = None \<rparr> =
      Ret (preloaded_of [] [])"
    by (simp add: noop_from_witness_Ret_iff)
  then show ?thesis by (simp add: test_from_witness_ok_0_preimage_def preloaded_of_def)
qed

lemma should_panic_iff: "should_panic y \<longleftrightarrow> (\<forall>v. y \<noteq> Ret v)"
  by (cases y) (simp_all add: should_panic_def)

text \<open>The tests pass for the reason they are written for: the requests before the last one are answered,
  and the witness of a wrong length is refused although its batch is accepted.\<close>

lemma witness_tests_pass:
  assumes "bytes_be_law (kp_to_bytes_be KP)" "coordinates_fit KP" "kzg_complete BV KP (Ret srs)"
    and "prepare_ok_data KP blob_len srs c = Ret w"
    and "get_num_field_element c = 2" "da_layer_byte c \<noteq> 255"
  shows "\<exists>preimage. noop_from_witness BV w = Ret preimage"
    "replay_test_start BV w = Ret (preloaded_of [] [])"
    "test_from_witness_ok_and_preimage_provider BV (Ret w)"
    "test_from_witness_panic_unknown_key_validity BV (Ret w)"
    "test_from_witness_panic_unknown_key_encoded_payload BV (Ret w)"
    "test_from_witness_length_violation_validity_encoded_payload BV (Ret w)"
proof -
  obtain g k where w: "w = \<lparr> wit_validities = [(set_kzg_commitment g c, True)],
      wit_encoded_payloads = [(set_kzg_commitment g c, \<lparr> encoded_payload = ok_payload \<rparr>, k)],
      wit_canoe_proof_bytes = Some [] \<rparr>" "BV [ok_payload] [g] [k] = Ret True"
    using prepare_ok_data_witness [OF assms(1-4)] .
  let ?c = "set_kzg_commitment g c"
  let ?p = "preloaded_of [(?c, True)] [(?c, \<lparr> encoded_payload = ok_payload \<rparr>)]"
  have "num_field_element \<lparr> encoded_payload = ok_payload \<rparr> = 2"
    by (simp add: num_field_element_def ok_payload_def)
  then have p: "noop_from_witness BV w = Ret ?p"
    using w assms(5) by (simp add: noop_from_witness_Ret_iff serialize_def)
  then show "\<exists>preimage. noop_from_witness BV w = Ret preimage" ..
  have v: "preloaded_get_validity ?p ?c = Ret (Inr True, preloaded_of [] [(?c, \<lparr> encoded_payload = ok_payload \<rparr>)])"
    "preloaded_get_encoded_payload (preloaded_of [] [(?c, \<lparr> encoded_payload = ok_payload \<rparr>)]) ?c =
      Ret (Inr \<lparr> encoded_payload = ok_payload \<rparr>, preloaded_of [] [])"
    by (auto simp: preloaded_get_validity_Ret_iff preloaded_get_encoded_payload_Ret_iff)
  then show start: "replay_test_start BV w = Ret (preloaded_of [] [])"
    using p w(1) by (simp add: replay_test_start_def Let_def)
  show "test_from_witness_ok_and_preimage_provider BV (Ret w)"
    by (simp add: test_from_witness_ok_and_preimage_provider_def start should_panic_iff
        preloaded_get_encoded_payload_Ret_iff)
  have ne: "?c\<lparr> da_layer_byte := 255 \<rparr> \<noteq> ?c"
  proof
    assume "?c\<lparr> da_layer_byte := 255 \<rparr> = ?c"
    from arg_cong [OF this, of da_layer_byte] show False using assms(6) by (simp add: set_kzg_commitment_def)
  qed
  show "test_from_witness_panic_unknown_key_validity BV (Ret w)"
    "test_from_witness_panic_unknown_key_encoded_payload BV (Ret w)"
    using p [unfolded w(1)] w(1) ne ne [symmetric]
    by (simp_all add: test_from_witness_panic_unknown_key_validity_def
        test_from_witness_panic_unknown_key_encoded_payload_def should_panic_iff preloaded_get_validity_Ret_iff
        preloaded_get_encoded_payload_Ret_iff Let_def)
  show "test_from_witness_length_violation_validity_encoded_payload BV (Ret w)"
    using w(1) by (simp add: test_from_witness_length_violation_validity_encoded_payload_def should_panic_iff
        noop_from_witness_Ret_iff)
qed

lemma not_field_element_test_passes:
  assumes "\<forall>bs g k. bs \<noteq> [] \<longrightarrow> hd bs = 255 \<longrightarrow> (\<exists>m. BV [bs] [g] [k] = Panic m)"
  shows "test_from_witness_not_field_element BV (prepare_data_with_invalid_encoded_payload KP blob_len srs c)"
proof -
  have "BV [[255] @ replicate 4 0 @ [31] @ replicate 26 2 @ [0] @ replicate 31 1] [g] [k] \<noteq> Ret True" for g k
    using assms by (metis append_Cons append_Nil list.distinct(1) list.sel(1) outcome.distinct(1))
  then show ?thesis
    by (auto simp: test_from_witness_not_field_element_def should_panic_iff obind_eq_Ret
        prepare_data_with_invalid_encoded_payload_def prepare_ok_data_def noop_from_witness_Ret_iff serialize_def
        Let_def)
qed

end
