(* ===== verification/Parity_Tests.thy ===== *)
theory Parity_Tests
  imports Kzg_Defects Witness_Tests
begin

text \<open>
  The tests that compare the two KZG backends, \<open>crates/sp1-bn-verifier/tests/parity.rs\<close>, and
  \<open>test_batch_verify\<close> of \<open>crates/proof/src/preloaded_eigenda_provider.rs\<close>. The libraries are parameters, so a
  rejecting test is reduced to what makes it pass: for proofs of other blobs the sp1 verifier computes,
  in the exponent, by how much they miss the quotients.
\<close>

section \<open>The test of the proof crate\<close>

definition second_payload :: bytes where
  "second_payload = [0] @ replicate 4 1 @ [31] @ replicate 26 2 @ [0] @ replicate 31 1"

text \<open>\<open>blob_data\<close> is the conversion of a blob into its bytes.\<close>

definition test_batch_verify ::
    "('b, 'p, 'pt) kzg_prover_ops \<Rightarrow> ('b \<Rightarrow> u64) \<Rightarrow> ('b \<Rightarrow> bytes) \<Rightarrow> 'pt SRS \<Rightarrow> batch_verifier \<Rightarrow> unit outcome" where
  "test_batch_verify KP blob_len blob_data srs BV =
     obind (mapM (compute_kzg_proof_and_commitment KP blob_len srs) [ok_payload, second_payload]) (\<lambda>triples.
     let blobs = map (\<lambda>(blob, _, _). blob_data blob) triples;
         commitments = map (\<lambda>(_, commitment, _). commitment) triples;
         proofs = map (\<lambda>(_, _, pf). pf) triples
     in obind (BV blobs commitments proofs) (\<lambda>accepted.
        obind (oassert accepted ''assertion failed'') (\<lambda>_.
        let proofs = proofs[0 := proofs ! 1, 1 := proofs ! 0]
        in obind (BV blobs commitments proofs) (\<lambda>accepted.
           obind (oassert (\<not> accepted) ''assertion failed'') (\<lambda>_.
           obind (BV (take 1 blobs) (take 1 commitments) (take 1 proofs)) (\<lambda>accepted.
             oassert (\<not> accepted) ''assertion failed''))))))"

section \<open>The parity tests\<close>

record ('b, 'p, 'pt, 'aq, 'apt, 'f, 'g, 'h, 't) parity_ops =
  py_prover :: "('b, 'p, 'pt) kzg_prover_ops"
  py_blob_len :: "'b \<Rightarrow> u64"
  py_blob_data :: "'b \<Rightarrow> bytes"
  py_hex_decode :: "string \<Rightarrow> (bytes, string) result"
  py_read_g1_point :: "bytes \<Rightarrow> ('pt, string) result"
  py_reference :: "('b, 'aq, 'apt) ark_ops"
  py_bn :: "('f, 'g, 'h, 't) bn_ops"

text \<open>The points and the function are those of the proof crate's tests.\<close>

definition py_load_g1_srs :: "('b, 'p, 'pt, 'aq, 'apt, 'f, 'g, 'h, 't) parity_ops \<Rightarrow> 'pt SRS outcome" where
  "py_load_g1_srs PY = load_g1_srs (py_hex_decode PY) (py_read_g1_point PY)"

definition compute_commitment ::
    "('b, 'p, 'pt, 'aq, 'apt, 'f, 'g, 'h, 't) parity_ops \<Rightarrow> 'b \<Rightarrow> (G1Point, string) result outcome" where
  "compute_commitment PY blob =
     (let KP = py_prover PY in
      obind (unwrap ''called `Result::unwrap()` on an `Err` value''
               (kp_calculate_and_store_roots_of_unity KP (py_blob_len PY blob))) (\<lambda>_.
      orbind (Ret (kp_to_polynomial_eval_form KP blob)) (\<lambda>poly.
      obind (py_load_g1_srs PY) (\<lambda>srs.
      orbind (Ret (kp_commit_eval_form KP poly srs)) (\<lambda>commitment.
      obind (convert_biguint_to_be_32_bytes (kp_to_bytes_be KP) (kp_x KP commitment)) (\<lambda>cx_bytes.
      obind (convert_biguint_to_be_32_bytes (kp_to_bytes_be KP) (kp_y KP commitment)) (\<lambda>cy_bytes.
        Ret (Inr \<lparr> g1_x = be_b256 cx_bytes, g1_y = be_b256 cy_bytes \<rparr>))))))))"

definition compute_proof_and_commitment ::
    "('b, 'p, 'pt, 'aq, 'apt, 'f, 'g, 'h, 't) parity_ops \<Rightarrow> bytes \<Rightarrow> ('b \<times> G1Point \<times> u512) outcome" where
  "compute_proof_and_commitment PY payload =
     (let encoded = \<lparr> encoded_payload = payload \<rparr> in
      obind (py_load_g1_srs PY) (\<lambda>srs.
      obind (compute_kzg_proof_with_srs (py_prover PY) (serialize encoded) srs) (\<lambda>r.
      obind (unwrap ''called `Result::unwrap()` on an `Err` value'' r) (\<lambda>proof_bytes.
      obind (oassert (length proof_bytes = 64) ''FixedBytes::from_slice'') (\<lambda>_.
      obind (unwrap ''called `Result::unwrap()` on an `Err` value''
               (kp_blob_new (py_prover PY) (serialize encoded))) (\<lambda>blob.
      obind (compute_commitment PY blob) (\<lambda>r.
      obind (unwrap ''called `Result::unwrap()` on an `Err` value'' r) (\<lambda>commitment.
        Ret (blob, commitment, of_nat (be_nat proof_bytes))))))))))"

definition ref_batch_verify ::
    "('b, 'p, 'pt, 'aq, 'apt, 'f, 'g, 'h, 't) parity_ops \<Rightarrow> 'b list \<Rightarrow> G1Point list \<Rightarrow> u512 list \<Rightarrow> bool outcome" where
  "ref_batch_verify PY blobs commitments proofs =
     (let AK = py_reference PY in
      obind (mapM (\<lambda>c. ak_g1_new AK (ak_fq_from_be_bytes_mod_order AK (b256_be (g1_x c)))
                        (ak_fq_from_be_bytes_mod_order AK (b256_be (g1_y c)))) commitments) (\<lambda>lib_commitments.
      obind (mapM (\<lambda>p. let bs = nat_be 64 (unat p) in
                        ak_g1_new AK (ak_fq_from_be_bytes_mod_order AK (take 32 bs))
                          (ak_fq_from_be_bytes_mod_order AK (subslice 32 64 bs))) proofs) (\<lambda>lib_proofs.
        Ret (case ak_verify_blob_kzg_proof_batch AK blobs lib_commitments lib_proofs of
               Inr b \<Rightarrow> b | Inl _ \<Rightarrow> False))))"

definition sp1_batch_verify ::
    "('b, 'p, 'pt, 'aq, 'apt, 'f, 'g::ab_group_add, 'h, 't) parity_ops \<Rightarrow> 'b list \<Rightarrow> G1Point list \<Rightarrow> u512 list \<Rightarrow>
     bool outcome" where
  "sp1_batch_verify PY blobs commitments proofs =
     batch_verify (py_bn PY) (map (py_blob_data PY) blobs) commitments proofs"

definition fixture_payload_a :: bytes where
  "fixture_payload_a = replicate 5 0 @ [31] @ replicate 26 2 @ [0] @ replicate 31 1"

definition fixture_payload_b :: bytes where
  "fixture_payload_b = [0] @ replicate 4 1 @ [31] @ replicate 26 2 @ [0] @ replicate 31 1"

text \<open>The two verdicts, the first of which is expected.\<close>

definition assert_parity ::
    "('b, 'p, 'pt, 'aq, 'apt, 'f, 'g::ab_group_add, 'h, 't) parity_ops \<Rightarrow> bool \<Rightarrow> 'b list \<Rightarrow> G1Point list \<Rightarrow>
     u512 list \<Rightarrow> unit outcome" where
  "assert_parity PY expected blobs commitments proofs =
     obind (ref_batch_verify PY blobs commitments proofs) (\<lambda>r.
     obind (sp1_batch_verify PY blobs commitments proofs) (\<lambda>s.
     obind (oassert (r = expected) ''reference verdict'') (\<lambda>_.
       oassert (r = s) ''ref and sp1 differ'')))"

definition parity_single_blob_valid ::
    "('b, 'p, 'pt, 'aq, 'apt, 'f, 'g::ab_group_add, 'h, 't) parity_ops \<Rightarrow> unit outcome" where
  "parity_single_blob_valid PY =
     obind (compute_proof_and_commitment PY fixture_payload_a) (\<lambda>(blob, commitment, pf).
       assert_parity PY True [blob] [commitment] [pf])"

definition parity_two_blobs_valid ::
    "('b, 'p, 'pt, 'aq, 'apt, 'f, 'g::ab_group_add, 'h, 't) parity_ops \<Rightarrow> unit outcome" where
  "parity_two_blobs_valid PY =
     obind (compute_proof_and_commitment PY fixture_payload_a) (\<lambda>(b1, c1, p1).
     obind (compute_proof_and_commitment PY fixture_payload_b) (\<lambda>(b2, c2, p2).
       assert_parity PY True [b1, b2] [c1, c2] [p1, p2]))"

definition parity_two_blobs_swapped_proofs_invalid ::
    "('b, 'p, 'pt, 'aq, 'apt, 'f, 'g::ab_group_add, 'h, 't) parity_ops \<Rightarrow> unit outcome" where
  "parity_two_blobs_swapped_proofs_invalid PY =
     obind (compute_proof_and_commitment PY fixture_payload_a) (\<lambda>(b1, c1, p1).
     obind (compute_proof_and_commitment PY fixture_payload_b) (\<lambda>(b2, c2, p2).
       assert_parity PY False [b1, b2] [c1, c2] [p2, p1]))"

definition parity_corrupted_proof_invalid ::
    "('b, 'p, 'pt, 'aq, 'apt, 'f, 'g::ab_group_add, 'h, 't) parity_ops \<Rightarrow> unit outcome" where
  "parity_corrupted_proof_invalid PY =
     obind (compute_proof_and_commitment PY fixture_payload_a) (\<lambda>(b1, c1, _).
     obind (compute_proof_and_commitment PY fixture_payload_b) (\<lambda>(_, _, p2).
       assert_parity PY False [b1] [c1] [p2]))"

definition g1point_to_bn_affine :: "('f, 'g, 'h, 't) bn_ops \<Rightarrow> G1Point \<Rightarrow> 'g outcome" where
  "g1point_to_bn_affine BN c =
     obind (unwrap ''called `Result::unwrap()` on an `Err` value''
              (bn_fq_from_be_bytes_mod_order BN (b256_be (g1_x c)))) (\<lambda>x.
     obind (unwrap ''called `Result::unwrap()` on an `Err` value''
              (bn_fq_from_be_bytes_mod_order BN (b256_be (g1_y c)))) (\<lambda>y.
       unwrap ''called `Result::unwrap()` on an `Err` value'' (bn_affine_new BN x y)))"

definition g1point_to_ark_affine :: "('b, 'aq, 'apt) ark_ops \<Rightarrow> G1Point \<Rightarrow> 'apt outcome" where
  "g1point_to_ark_affine AK c =
     ak_g1_new AK (ak_fq_from_be_bytes_mod_order AK (b256_be (g1_x c)))
       (ak_fq_from_be_bytes_mod_order AK (b256_be (g1_y c)))"

text \<open>\<open>ref_compute_challenge\<close> and \<open>fr_bytes_be\<close> are the reference's challenge and the bytes of its field.\<close>

definition challenge_bytes_match ::
    "('b, 'p, 'pt, 'aq, 'apt, 'f, 'g::ab_group_add, 'h, 't) parity_ops \<Rightarrow> ('b \<Rightarrow> 'apt \<Rightarrow> ('afr, string) result) \<Rightarrow>
     ('afr \<Rightarrow> bytes) \<Rightarrow> bytes \<Rightarrow> unit outcome" where
  "challenge_bytes_match PY ref_compute_challenge fr_bytes_be payload =
     obind (compute_proof_and_commitment PY payload) (\<lambda>(blob, commitment, _).
     obind (g1point_to_ark_affine (py_reference PY) commitment) (\<lambda>point.
     obind (unwrap ''called `Result::unwrap()` on an `Err` value'' (ref_compute_challenge blob point)) (\<lambda>ref_z.
     let be = fr_bytes_be ref_z in
     obind (oassert (length be \<le> 32) ''index out of bounds'') (\<lambda>_.
     let ref_bytes_le = rev be @ replicate (32 - length be) 0 in
     obind (unwrap ''called `Result::unwrap()` on an `Err` value''
              (to_fr_array_canonical (bn_fr_from_slice (py_bn PY)) (py_blob_data PY blob))) (\<lambda>fr.
     obind (unwrap ''called `Result::unwrap()` on an `Err` value'' (PolynomialEvalForm_new fr)) (\<lambda>blob_poly.
     obind (g1point_to_bn_affine (py_bn PY) commitment) (\<lambda>point.
     obind (unwrap ''called `Result::unwrap()` on an `Err` value'' (compute_challenge (py_bn PY) blob_poly point)) (\<lambda>sp1_z.
       oassert (ref_bytes_le = serialize_fr_le sp1_z) ''compute_challenge bytes diverge''))))))))"

definition parity_compute_challenge_bytes_match ::
    "('b, 'p, 'pt, 'aq, 'apt, 'f, 'g::ab_group_add, 'h, 't) parity_ops \<Rightarrow> ('b \<Rightarrow> 'apt \<Rightarrow> ('afr, string) result) \<Rightarrow>
     ('afr \<Rightarrow> bytes) \<Rightarrow> unit outcome" where
  "parity_compute_challenge_bytes_match PY ref_compute_challenge fr_bytes_be =
     obind (challenge_bytes_match PY ref_compute_challenge fr_bytes_be fixture_payload_a) (\<lambda>_.
       challenge_bytes_match PY ref_compute_challenge fr_bytes_be fixture_payload_b)"

section \<open>When the tests pass\<close>

lemma fixture_payloads: "fixture_payload_a = ok_payload" "fixture_payload_b = second_payload"
  by (simp_all add: fixture_payload_a_def ok_payload_def fixture_payload_b_def second_payload_def)

lemma proof_and_commitment_eq:
  assumes "py_load_g1_srs PY = Ret srs"
  shows "compute_proof_and_commitment PY bs = Ret x \<longleftrightarrow>
    compute_kzg_proof_and_commitment (py_prover PY) (py_blob_len PY) srs bs = Ret x"
proof -
  have "compute_commitment PY blob = compute_kzg_commitment (py_prover PY) (py_blob_len PY) srs blob" for blob
    by (simp add: compute_commitment_def compute_kzg_commitment_def assms Let_def)
  then show ?thesis
    by (simp add: compute_proof_and_commitment_def compute_kzg_proof_and_commitment_def assms Let_def
        obind_eq_Ret unwrap_eq_Ret)
qed

text \<open>The reference wrapper is the arkworks backend on blobs that are already made.\<close>

lemma ref_batch_verify_eq:
  assumes "list_all2 (\<lambda>bs b. ak_blob_new (py_reference PY) bs = Inr b) payloads blobs"
  shows "ref_batch_verify PY blobs commitments proofs = ark_batch_verify (py_reference PY) payloads commitments proofs"
proof -
  have "mapM (\<lambda>b. unwrap ''should be able to construct blob'' (ak_blob_new (py_reference PY) b)) payloads = Ret blobs"
    unfolding mapM_Ret_iff unwrap_eq_Ret by (rule assms)
  then show ?thesis by (simp add: ref_batch_verify_def ark_batch_verify_def Let_def)
qed

text \<open>The libraries: the setup loads, the prover computes openings that the lawful curve library reads, and
  both sides see the bytes a blob was made of.\<close>

definition parity_lawful ::
    "('b, 'p, 'pt, 'aq, 'apt, 'f, 'g::ab_group_add, 'h, 't) parity_ops \<Rightarrow> Fr \<Rightarrow> 'pt SRS \<Rightarrow> bool" where
  "parity_lawful PY \<tau> srs \<longleftrightarrow>
     py_load_g1_srs PY = Ret srs \<and> bytes_be_law (kp_to_bytes_be (py_prover PY)) \<and> coordinates_fit (py_prover PY) \<and>
     bn_lawful (py_bn PY) \<tau> \<and> slice_unreduced (bn_fr_from_slice (py_bn PY)) \<and>
     inverse_sound (bn_fr_inverse (py_bn PY)) \<and> prover_computes_openings (py_bn PY) \<tau> (py_prover PY) srs \<and>
     (\<forall>bs b. kp_blob_new (py_prover PY) bs = Inr b \<longrightarrow>
        py_blob_data PY b = bs \<and> ak_blob_new (py_reference PY) bs = Inr b)"

lemma fixture_blob:
  assumes "parity_lawful PY \<tau> srs" "compute_proof_and_commitment PY bs = Ret (blob, g, k)"
  shows "py_blob_data PY blob = bs" "ak_blob_new (py_reference PY) bs = Inr blob"
    "compute_kzg_proof_and_commitment (py_prover PY) (py_blob_len PY) srs bs = Ret (blob, g, k)"
proof -
  show f: "compute_kzg_proof_and_commitment (py_prover PY) (py_blob_len PY) srs bs = Ret (blob, g, k)"
    using assms by (simp add: parity_lawful_def proof_and_commitment_eq)
  then have "kp_blob_new (py_prover PY) bs = Inr blob"
    by (auto simp: compute_kzg_proof_and_commitment_def serialize_def Let_def obind_eq_Ret unwrap_eq_Ret)
  then show "py_blob_data PY blob = bs" "ak_blob_new (py_reference PY) bs = Inr blob"
    using assms(1) by (auto simp: parity_lawful_def)
qed

lemma fixture_opened:
  assumes "bn_lawful BN \<tau>" "bytes_be_law (kp_to_bytes_be KP)" "coordinates_fit KP" "prover_computes_openings BN \<tau> KP srs"
    and "compute_kzg_proof_and_commitment KP blob_len srs bs = Ret (blob, g, k)"
  obtains opn where "opened BN \<tau> (bs, g) opn"
    "proof_bytes_to_affine BN k = Inr (bn_scale BN (op_quotient opn) (bn_g1_one BN))"
proof -
  fix c :: AltDACommitment
  obtain out where out: "compute_kzg_proof_with_srs KP (serialize \<lparr> encoded_payload = bs \<rparr>) srs = Ret (Inr out)"
    "k = of_nat (be_nat out)" "commits_to KP (Ret srs) (set_kzg_commitment g c) \<lparr> encoded_payload = bs \<rparr>"
    using compute_kzg_proof_and_commitment_Ret [OF assms(2,3,5)] by (metis serialize_def EncodedPayload.select_convs(1))
  have "opens_honestly BN \<tau> bs g k"
    using created_opening [OF assms(2-4) out(1,3)] out(2) by (simp add: serialize_def)
  then show thesis using that by (rule opens_honestly_opened)
qed

lemma assert_parity_iff:
  "assert_parity PY expected blobs gs ks = Ret () \<longleftrightarrow>
     ref_batch_verify PY blobs gs ks = Ret expected \<and> sp1_batch_verify PY blobs gs ks = Ret expected"
  by (auto simp: assert_parity_def obind_eq_Ret)

text \<open>The valid fixtures pass when the reference is complete.\<close>

lemma valid_fixtures_pass:
  assumes "parity_lawful PY \<tau> srs" "kzg_complete (ark_batch_verify (py_reference PY)) (py_prover PY) (Ret srs)"
    and "compute_proof_and_commitment PY fixture_payload_a = Ret (b1, g1, k1)"
    and "compute_proof_and_commitment PY fixture_payload_b = Ret (b2, g2, k2)"
  shows "parity_single_blob_valid PY = Ret ()" "parity_two_blobs_valid PY = Ret ()"
proof -
  note f = fixture_blob [OF assms(1,3)] and f' = fixture_blob [OF assms(1,4)]
  note law = assms(1) [unfolded parity_lawful_def]
  have c: "kzg_complete (proof_batch_verify True (py_reference PY) (py_bn PY)) (py_prover PY) (Ret srs)"
    using law by (intro sp1_backend_complete [of _ \<tau>]) simp_all
  have acc: "BV payloads (map (\<lambda>(_, g, _). g) fs) (map (\<lambda>(_, _, k). k) fs) = Ret True"
    if "kzg_complete BV (py_prover PY) (Ret srs)" "list_all2 (\<lambda>bs (blob, g, k).
       compute_kzg_proof_and_commitment (py_prover PY) (py_blob_len PY) srs bs = Ret (blob, g, k)) payloads fs"
    for BV payloads fs
    using fixtures_accepted [OF _ _ that] law by simp
  show "parity_single_blob_valid PY = Ret ()"
    using acc [OF assms(2), of "[fixture_payload_a]" "[(b1, g1, k1)]"] acc [OF c, of "[fixture_payload_a]" "[(b1, g1, k1)]"]
      ref_batch_verify_eq [of PY "[fixture_payload_a]" "[b1]"] f
    by (simp add: parity_single_blob_valid_def assms(3) assert_parity_iff sp1_batch_verify_def proof_batch_verify_def)
  let ?ps = "[fixture_payload_a, fixture_payload_b]" and ?fs = "[(b1, g1, k1), (b2, g2, k2)]"
  show "parity_two_blobs_valid PY = Ret ()"
    using acc [OF assms(2), of ?ps ?fs] acc [OF c, of ?ps ?fs] ref_batch_verify_eq [of PY ?ps "[b1, b2]"] f f'
    by (simp add: parity_two_blobs_valid_def assms(3,4) assert_parity_iff sp1_batch_verify_def proof_batch_verify_def)
qed

text \<open>What the sp1 verifier says of two blobs with exchanged proofs: it rejects unless the defect, or the
  combination of the two, vanishes.\<close>

abbreviation exchange_defect :: "Fr \<Rightarrow> 'g kzg_opening \<Rightarrow> 'g kzg_opening \<Rightarrow> Fr" where
  "exchange_defect \<tau> o1 o2 \<equiv> (\<tau> - op_z o1) * (op_quotient o2 - op_quotient o1)"

abbreviation exchange_defects :: "('q, 'g::ab_group_add, 'h, 't) bn_ops \<Rightarrow> Fr \<Rightarrow> 'g kzg_opening \<Rightarrow> 'g kzg_opening \<Rightarrow> Fr" where
  "exchange_defects BN \<tau> o1 o2 \<equiv> exchange_defect \<tau> o1 o2 +
     openings_challenge BN [o1, o2] [op_quotient o2, op_quotient o1] * exchange_defect \<tau> o2 o1"

lemma exchanged_proofs_verdict:
  assumes "bn_lawful BN \<tau>" "slice_unreduced (bn_fr_from_slice BN)" "inverse_sound (bn_fr_inverse BN)"
    and "opened BN \<tau> (bs1, g1) o1" "proof_bytes_to_affine BN k1 = Inr (bn_scale BN (op_quotient o1) (bn_g1_one BN))"
    and "opened BN \<tau> (bs2, g2) o2" "proof_bytes_to_affine BN k2 = Inr (bn_scale BN (op_quotient o2) (bn_g1_one BN))"
  shows "batch_verify BN [bs1] [g1] [k2] = Ret (bn_scale BN (exchange_defect \<tau> o1 o2) (bn_g1_one BN) = 0)"
    "batch_verify BN [bs1, bs2] [g1, g2] [k2, k1] = Ret (bn_scale BN (exchange_defects BN \<tau> o1 o2) (bn_g1_one BN) = 0)"
proof -
  note v = verdict_is_defect [OF assms(1-3)]
  show "batch_verify BN [bs1] [g1] [k2] = Ret (bn_scale BN (exchange_defect \<tau> o1 o2) (bn_g1_one BN) = 0)"
    using v [of "[(bs1, g1)]" "[o1]" "[op_quotient o2]" "[k2]"] assms(4,7) by (simp add: combined_defect_def)
  show "batch_verify BN [bs1, bs2] [g1, g2] [k2, k1] = Ret (bn_scale BN (exchange_defects BN \<tau> o1 o2) (bn_g1_one BN) = 0)"
    using v [of "[(bs1, g1), (bs2, g2)]" "[o1, o2]" "[op_quotient o2, op_quotient o1]" "[k2, k1]"] assms(4-7)
    by (simp add: combined_defect_def numeral_2_eq_2 lessThan_Suc add.commute)
qed

text \<open>So the tests with exchanged proofs pass exactly when the reference rejects and the quotients of the
  fixtures, at their challenges, do not meet.\<close>

lemma exchanged_fixtures:
  assumes "parity_lawful PY \<tau> srs"
    and "compute_proof_and_commitment PY fixture_payload_a = Ret (b1, g1, k1)"
    and "compute_proof_and_commitment PY fixture_payload_b = Ret (b2, g2, k2)"
  obtains o1 o2 where "opened (py_bn PY) \<tau> (fixture_payload_a, g1) o1"
    "opened (py_bn PY) \<tau> (fixture_payload_b, g2) o2"
    "parity_corrupted_proof_invalid PY = Ret () \<longleftrightarrow> ref_batch_verify PY [b1] [g1] [k2] = Ret False \<and>
       bn_scale (py_bn PY) (exchange_defect \<tau> o1 o2) (bn_g1_one (py_bn PY)) \<noteq> 0"
    "parity_two_blobs_swapped_proofs_invalid PY = Ret () \<longleftrightarrow>
       ref_batch_verify PY [b1, b2] [g1, g2] [k2, k1] = Ret False \<and>
       bn_scale (py_bn PY) (exchange_defects (py_bn PY) \<tau> o1 o2) (bn_g1_one (py_bn PY)) \<noteq> 0"
proof -
  note f = fixture_blob [OF assms(1,2)] and f' = fixture_blob [OF assms(1,3)]
  have law: "bn_lawful (py_bn PY) \<tau>" "slice_unreduced (bn_fr_from_slice (py_bn PY))"
    "inverse_sound (bn_fr_inverse (py_bn PY))" "bytes_be_law (kp_to_bytes_be (py_prover PY))"
    "coordinates_fit (py_prover PY)" "prover_computes_openings (py_bn PY) \<tau> (py_prover PY) srs"
    using assms(1) by (simp_all add: parity_lawful_def)
  obtain o1 where o1: "opened (py_bn PY) \<tau> (fixture_payload_a, g1) o1"
    "proof_bytes_to_affine (py_bn PY) k1 = Inr (bn_scale (py_bn PY) (op_quotient o1) (bn_g1_one (py_bn PY)))"
    using fixture_opened [OF law(1,4-6) f(3)] .
  obtain o2 where o2: "opened (py_bn PY) \<tau> (fixture_payload_b, g2) o2"
    "proof_bytes_to_affine (py_bn PY) k2 = Inr (bn_scale (py_bn PY) (op_quotient o2) (bn_g1_one (py_bn PY)))"
    using fixture_opened [OF law(1,4-6) f'(3)] .
  note v = exchanged_proofs_verdict [OF law(1-3) o1 o2]
  show thesis
    by (rule that [OF o1(1) o2(1)])
       (use v f(1) f'(1) in \<open>simp_all add: parity_corrupted_proof_invalid_def
          parity_two_blobs_swapped_proofs_invalid_def assms(2,3) assert_parity_iff sp1_batch_verify_def\<close>)
qed

text \<open>The same for the test of the proof crate with the sp1 backend.\<close>

lemma batch_verify_test:
  assumes "bn_lawful BN \<tau>" "slice_unreduced (bn_fr_from_slice BN)" "inverse_sound (bn_fr_inverse BN)"
    and "bytes_be_law (kp_to_bytes_be KP)" "coordinates_fit KP" "prover_computes_openings BN \<tau> KP srs"
    and "compute_kzg_proof_and_commitment KP blob_len srs ok_payload = Ret (b1, g1, k1)"
    and "compute_kzg_proof_and_commitment KP blob_len srs second_payload = Ret (b2, g2, k2)"
    and "blob_data b1 = ok_payload" "blob_data b2 = second_payload"
  obtains o1 o2 where "opened BN \<tau> (ok_payload, g1) o1" "opened BN \<tau> (second_payload, g2) o2"
    "test_batch_verify KP blob_len blob_data srs (batch_verify BN) = Ret () \<longleftrightarrow>
       bn_scale BN (exchange_defects BN \<tau> o1 o2) (bn_g1_one BN) \<noteq> 0 \<and>
       bn_scale BN (exchange_defect \<tau> o1 o2) (bn_g1_one BN) \<noteq> 0"
proof -
  obtain o1 where o1: "opened BN \<tau> (ok_payload, g1) o1"
    "proof_bytes_to_affine BN k1 = Inr (bn_scale BN (op_quotient o1) (bn_g1_one BN))"
    using fixture_opened [OF assms(1,4-7)] .
  obtain o2 where o2: "opened BN \<tau> (second_payload, g2) o2"
    "proof_bytes_to_affine BN k2 = Inr (bn_scale BN (op_quotient o2) (bn_g1_one BN))"
    using fixture_opened [OF assms(1,4-6,8)] .
  have "batch_verify BN [ok_payload, second_payload] [g1, g2] [k1, k2] = Ret True"
    using fixtures_accepted [OF assms(4,5) sp1_backend_complete [OF assms(1-6)], of blob_len
        "[ok_payload, second_payload]" "[(b1, g1, k1), (b2, g2, k2)]"] assms(7,8)
    by (simp add: proof_batch_verify_def)
  then have "test_batch_verify KP blob_len blob_data srs (batch_verify BN) = Ret () \<longleftrightarrow>
      batch_verify BN [ok_payload, second_payload] [g1, g2] [k2, k1] = Ret False \<and>
      batch_verify BN [ok_payload] [g1] [k2] = Ret False"
    using assms(7-10) by (simp add: test_batch_verify_def obind_eq_Ret) (metis (full_types))
  then show thesis
    using that [OF o1(1) o2(1)] exchanged_proofs_verdict [OF assms(1-3) o1 o2] by simp
qed

text \<open>When the challenge test passes, the reference's challenge of each fixture has the value of the
  challenge the batch verifier uses.\<close>

lemma challenge_test_meaning:
  assumes "bn_lawful (py_bn PY) \<tau>" "challenge_bytes_match PY ref_challenge fr_bytes_be payload = Ret ()"
  shows "\<exists>blob g k pt ref_z fr p C. compute_proof_and_commitment PY payload = Ret (blob, g, k) \<and>
    g1point_to_ark_affine (py_reference PY) g = Ret pt \<and> ref_challenge blob pt = Inr ref_z \<and>
    blob_to_poly (py_bn PY) (py_blob_data PY blob) = Inr p \<and> g1point_to_bn_affine (py_bn PY) g = Ret C \<and>
    be_nat (fr_bytes_be ref_z) = fr_to_nat (blob_challenge (py_bn PY) p C)"
proof -
  obtain blob g k where b: "compute_proof_and_commitment PY payload = Ret (blob, g, k)"
    using assms(2) by (cases "compute_proof_and_commitment PY payload") (auto simp: challenge_bytes_match_def)
  obtain pt where pt: "g1point_to_ark_affine (py_reference PY) g = Ret pt"
    using assms(2) b by (cases "g1point_to_ark_affine (py_reference PY) g") (simp_all add: challenge_bytes_match_def)
  obtain ref_z where z: "ref_challenge blob pt = Inr ref_z"
    using assms(2) b pt by (cases "ref_challenge blob pt") (simp_all add: challenge_bytes_match_def)
  obtain fr where fr: "to_fr_array_canonical (bn_fr_from_slice (py_bn PY)) (py_blob_data PY blob) = Inr fr"
    using assms(2) b pt z by (auto simp: challenge_bytes_match_def Let_def obind_eq_Ret unwrap_eq_Ret)
  obtain p where p: "PolynomialEvalForm_new fr = Inr p"
    using assms(2) b pt z fr by (auto simp: challenge_bytes_match_def Let_def obind_eq_Ret unwrap_eq_Ret)
  obtain C where C: "g1point_to_bn_affine (py_bn PY) g = Ret C"
    using assms(2) b pt z fr p by (auto simp: challenge_bytes_match_def Let_def obind_eq_Ret)
  have le: "rev (fr_bytes_be ref_z) @ replicate (32 - length (fr_bytes_be ref_z)) 0 =
       serialize_fr_le (blob_challenge (py_bn PY) p C)"
    using assms(2) b pt z fr p C
    by (simp add: challenge_bytes_match_def Let_def obind_eq_Ret compute_challenge_eq [OF assms(1)])
  have "be_nat (rev (rev (fr_bytes_be ref_z) @ replicate (32 - length (fr_bytes_be ref_z)) 0)) =
      be_nat (fr_be (blob_challenge (py_bn PY) p C))"
    unfolding le by (simp add: serialize_fr_le_def fr_be_def)
  then have "be_nat (fr_bytes_be ref_z) = fr_to_nat (blob_challenge (py_bn PY) p C)"
    by (simp add: be_nat_append be_nat_fr_be)
  moreover have "blob_to_poly (py_bn PY) (py_blob_data PY blob) = Inr p"
    using fr p by (simp add: blob_to_poly_def)
  ultimately show ?thesis using b pt z C by blast
qed

end
