(* ===== verification/Spec2Isabelle.thy ===== *)
theory Spec2Isabelle
  imports Commitment_Properties Sample_Runs Honest_Witness Kzg_Identity Kzg_Binding Pipeline_Properties Preloader_Main
    Kzg_Decimal Programs Guest_Build Data_Source_Tests Parity_Tests
begin

text \<open>
  Verification of hokulea, the EigenDA blob derivation for OP rollups.

  \<^bold>\<open>The program.\<close> A rollup's batcher posts commitments to data on EigenDA in its L1 inbox. The
  derivation (\<open>crates/eigenda\<close>) pulls inbox data, parses commitments, asks a preimage provider for the
  validity of the certificate and for the encoded payload, applies the recency rule, decodes the
  payload and hands the bytes to kona's pipeline. Providers: the preimage oracle of a fault proof
  client (\<open>crates/proof/src/eigenda_provider.rs\<close>), fed by the host (\<open>bin/host\<close>) from an
  eigenda-proxy; the host's own online provider; a recorder around another provider
  (\<open>crates/witgen\<close>); and, inside a zkVM, a provider preloaded from a verified witness
  (\<open>crates/proof/src/preloaded_eigenda_provider.rs\<close>). The validity of certificates is proved by Canoe
  (\<open>canoe/\<close>), a view call of the certificate verifier contract proved with risc0 steel or sp1-cc.

  \<^bold>\<open>The theories\<close>, in the order of the imports:

  \<^item> \<open>Prelude\<close>: results that may panic (\<open>outcome\<close>), Rust's \<open>Result\<close> as a sum, big-endian integers,
    slices, decimal and hexadecimal text.
  \<^item> \<open>Canoe_Bindings\<close>, \<open>Eigenda_Cert\<close>, \<open>Altda_Commitment\<close>: the Solidity structs, the certificates and
    their conversions, the commitment with its parser and printer (\<open>crates/eigenda-cert\<close>,
    \<open>canoe/bindings\<close>). The locale \<open>prefix_codec\<close> states what the printer promises the parser.
  \<^item> \<open>Rlp\<close>, \<open>Rlp_Certs\<close>, \<open>Hex\<close>: Ethereum's RLP, the RLP form of every certificate struct (locale
    \<open>rlp_form\<close>) and the hexadecimal code. They instantiate parameters of the model: \<open>eth_alloy\<close> satisfies
    what is assumed of the alloy crates, whatever the hash.
  \<^item> \<open>Hokulea_Errors\<close>, \<open>Encoded_Payload\<close>: error types and conversions; the decoder, and the encoding it
    inverts as a reference definition.
  \<^item> \<open>Preimage_Source\<close>, \<open>Data_Source\<close>: \<open>EigenDAPreimageSource\<close> and \<open>EigenDADataSource\<close>. The locale
    \<open>sound_provider\<close> is the contract of a provider (answers agree with a fixed validity and payload
    function, errors never discard), \<open>total_provider\<close> adds that it answers; the specification
    \<open>spec_outputs\<close> of what a block delivers, and the proofs that \<open>next\<close> refines it, are inside them.
    \<open>next\<close> calls itself after a discarded commitment and is a \<open>partial_function (option)\<close>; that it
    returns is proved from a measure on the inbox.
  \<^item> \<open>Oracle_Provider\<close>, \<open>Host\<close>: the client's provider and the hint handler, whose store is the other end
    of the client's channel; the online provider with its cache. Both providers interpret the
    contract.
  \<^item> \<open>Canoe_Fetcher\<close>, \<open>Canoe_Provider\<close>, \<open>Canoe_Steel\<close>, \<open>Canoe_Sp1\<close>: verifier addresses, the view call,
    both verifiers and both guests. The locale \<open>secure_verifier\<close> states that acceptance means a checked
    proof of exactly the journals of the claims.
  \<^item> \<open>Eigenda_Witness\<close>, \<open>Preloaded_Provider\<close>, \<open>Witgen\<close>: witnesses, the provider of the zkVM and
    \<open>from_witness\<close>, the recorder, and record/replay as a simulation over sequences of calls.
  \<^item> \<open>Zkvm_Soundness\<close>, \<open>Honest_Witness\<close>: what an accepted witness says about the chain, and that honest
    recordings pass the checks.
  \<^item> \<open>Kzg_Field\<close>, \<open>Kzg_Helpers\<close>, \<open>Kzg_Batch\<close>: the KZG batch verifier \<open>crates/sp1-bn-verifier\<close>, over the
    scalar field as the integers modulo its order and a curve library given as \<open>bn_ops\<close>.
    \<open>Kzg_Evaluation\<close> proves the roots of unity and the barycentric evaluation right,
    \<open>Kzg_Soundness\<close> what acceptance means, \<open>Kzg_Transcript\<close> the Fiat-Shamir transcripts.
  \<^item> \<open>Fault_Proof_Client\<close>, \<open>Zkvm_Entry\<close>, \<open>Host_Config\<close>: the programs. \<open>run_fp_client\<close> (\<open>crates/client\<close>) runs
    the data source under a driver, which is any function from what it has seen so far to its next step
    and stands for kona's pipeline, executor and driver; the run is a \<open>partial_function (option)\<close>, since
    such a driver need not end. Two facts carry over from single calls to whole runs: a recorded run is
    repeated by the preloaded provider, and a run is repeated by every provider that simulates the first
    (locale \<open>provider_simulation\<close>). \<open>Zkvm_Entry\<close> is the program of the zkVM
    (\<open>crates/zkvm-verification\<close>), \<open>Host_Config\<close> the host's choice of a backend and its native mode,
    \<open>Programs\<close> the main functions of the host and of the client.
  \<^item> \<open>Kzg_Prover\<close>, \<open>Canoe_Host\<close>, \<open>Preloader\<close>: the provers. KZG proofs for recorded payloads
    (\<open>crates/compute-proof\<close>) and the two KZG backends; the steel and the sp1-cc host (\<open>canoe/steel/apps\<close>,
    \<open>canoe/sp1-cc/host\<close>), whose proofs their verifiers accept; and the pipeline of
    \<open>example/preloader\<close> that derives, proves and verifies. \<open>Srs_Build\<close> is the build script that writes the
    points of the setup, which the library is shown to load, \<open>Guest_Build\<close> the one that embeds the steel
    guest; \<open>Preloader_Main\<close> the main function of the
    pipeline, its choice of Canoe and its exit code. \<open>Kzg_Completeness\<close> joins prover and verifier of
    KZG proofs: for the sp1 backend \<open>kzg_complete\<close> follows when the prover opens honestly.
    \<open>Kzg_Defects\<close> says what the verifier makes of proofs that are not the quotients, \<open>Kzg_Identity\<close> what it
    makes of the proof of a constant. \<open>Kzg_Binding\<close> reduces the binding of payloads to commitments to the
    strong Diffie-Hellman problem: from an accepted batch with other payloads it computes, with the public
    points of the setup only, a solution of it or a challenge that hits a root, and counts the roots.
  \<^item> \<open>Kzg_Decimal\<close>: how the KZG verifier makes field elements of small integers through decimal text,
    shown to be \<open>of_nat\<close>. \<open>Tools\<close>: the input and the check of the Sepolia example, the tool that prints a
    verification key, the log filter of the host.
  \<^item> \<open>Test_Support\<close>: the test provider, which satisfies the contract of providers, the encoder of the
    payload tests and the commitment converter. \<open>Codec_Tests\<close>, \<open>Data_Source_Tests\<close>, \<open>Witness_Tests\<close> and \<open>Parity_Tests\<close> are
    the unit tests of \<open>eigenda_data.rs\<close>, \<open>altda_commitment.rs\<close>, \<open>eigenda_preimage.rs\<close>, \<open>eigenda.rs\<close>,
    \<open>preloaded_eigenda_provider.rs\<close> and \<open>tests/parity.rs\<close> as predicates, which the model satisfies for all fixtures of the kind the
    tests use; where a test compares with the arkworks library, it is reduced to that library's verdict.
    \<open>Sepolia_Data\<close> and \<open>Sepolia_Fixtures\<close> hold the transactions, commitments and payloads from Sepolia that
    the tests read: the strings decode under Ethereum's RLP to the certificates written there.
    \<open>Derivation_Tests\<close> shows for this what a call of \<open>next\<close> computes over the test provider,
    failures included, with kona's test source given by \<open>blob_source_law\<close>.
  \<^item> \<open>Sample_Data\<close>, \<open>Sample_Runs\<close>: concrete values and runs. \<open>Commitment_Properties\<close>,
    \<open>Derivation_Properties\<close>, \<open>Zkvm_Properties\<close>, \<open>Kzg_Properties\<close>, \<open>Pipeline_Properties\<close> and this
    theory hold the properties with their instances.

  \<^bold>\<open>What the properties show.\<close> Data: the decoder accepts exactly the reference encodings and never
  panics (C3), parser and printer are inverse (C11), preimage addresses never meet (C13), the
  recency rule does not overflow (C14). Derivation: a
  block delivers the specified data over the oracle (C2), calls return (C6), failed calls lose nothing
  (C7), the derivation completes when the oracle answers (C8), the host stores what the client reads
  (C5, C24), a certificate the proxy calls stale is discarded by the client's own rule or not at all (C25),
  and the scenario test of \<open>eigenda.rs\<close> holds for all its inputs (C22). Proofs: both verifiers accept
  only true claims (C9, C10), the provider made of a witness answers in its order (C21), prover and verifier
  see the same claims (C23), the derivation in the zkVM is the specified one unless the witness breaks the
  KZG check (C1), an error-free recording replays exactly (C4) and honest witnesses are accepted (C27). KZG: evaluation is interpolation over
  proven roots of unity (C28 to C31), the verifier computes its specification (C32),
  decides batches of honest commitments by the combined defect of their proofs (C33) and accepts only
  batches whose openings satisfy the KZG equations, combined (C34), one by one (C35) and for enough
  challenges all (C36), its transcripts bind (C37), an accepted batch is the data behind its commitments or
  breaks the check in one of three listed ways (C16), and it accepts what the prover of recorded payloads
  makes (C17). Programs: a verdict of the zkVM program is the verdict over the contract's validities and
  the committed payloads, unless the witness breaks the KZG check (C38), a witness prepared from an
  error-free run is verified (C39), what the Canoe hosts prove their verifiers accept (C40, C26), and
  the host exits with 0 exactly when its server or its client succeeds (C12).
  Three properties show the limits: after a retry the recording no longer replays (C15), payloads of one
  field element can be proven but not verified, because their opening proof is the point at infinity (C18),
  and sp1-cc proofs about a chain whose genesis rsp does not know can be made but not verified (C19).

  \<^bold>\<open>Parameters and assumptions.\<close> Code outside the repository is a record of functions given to the
  definitions: \<open>alloy_ops\<close> (keccak256, RLP), \<open>abi_ops\<close> (ABI), \<open>eth_ops\<close> (kona's ethereum source),
  \<open>comms_ops\<close> (the preimage channel), \<open>kv_ops\<close> and \<open>http_ops\<close> (store, proxy), \<open>fork_ops\<close>,
  \<open>steel_ops\<close>, \<open>steel_guest_ops\<close>, \<open>sp1_ops\<close>, \<open>sp1_guest_ops\<close> (fork tables, zkVMs, EVM execution), and
  \<open>batch_verifier\<close> (the KZG check, as \<open>from_witness\<close> sees it), \<open>bn_ops\<close> (BN254 arithmetic, pairing,
  SHA-256), \<open>ark_ops\<close> and \<open>kzg_prover_ops\<close> (arkworks and rust-kzg-bn254), \<open>kona_ops\<close> and \<open>kona_host_ops\<close>
  (kona's client and host), \<open>steel_host_ops\<close> and \<open>sp1_host_ops\<close> (RPC access and provers). What is assumed of them is named where it is used: \<open>rlp_law\<close>, \<open>rlp_canonical\<close>,
  \<open>bincode_injective\<close>, \<open>steel_attested\<close> and \<open>sp1_attested\<close> for accepted proofs, \<open>witness_committed\<close>
  for the commitments in the certificates of a witness,
  \<open>kv_lawful\<close>, \<open>channel_backed\<close>, \<open>keys_distinct\<close>, \<open>oracle_consistent\<close>, \<open>oracle_answers\<close>,
  \<open>eth_drains\<close>; \<open>bn_lawful\<close>, \<open>inverse_sound\<close>, \<open>slice_unreduced\<close> and \<open>fq_bytes_fixed\<close> for the curve
  library; \<open>steel_prover_runs\<close>, \<open>sp1_prover_runs\<close>, \<open>forks_agree\<close>, \<open>sp1_sketch_genesis\<close> and
  \<open>sp1_config_agrees\<close> (for the chain and the block at hand) for the provers,
  \<open>kzg_complete\<close> for the KZG library, \<open>commits_to\<close> for the payloads an oracle served,
  \<open>prover_computes_openings\<close> for the KZG prover, \<open>refuses_origin\<close> and \<open>infinity_at_origin\<close> for the point
  at infinity, \<open>blob_source_law\<close> for kona's test source.

  \<^bold>\<open>Conventions.\<close> Machine integers are words of their width; panics and \<open>expect\<close> are \<open>Panic\<close>; \<open>Result\<close>
  is a sum with the error on the left; logging is left out; \<open>await\<close> is a call.

  \<^bold>\<open>Not modelled.\<close> The parsing of command lines, which is clap's, and kona's entry macro; the main
  function of the Sepolia example, which builds a claim with four of its six fields and does not compile
  any more. Kona itself is a parameter, so nothing is said about how it batches and executes.
  That the strong Diffie-Hellman problem is hard and that the hash hits no root are cryptographic assumptions
  and no hypotheses: C1, C16 and C38 say what a witness that gets around the KZG check would exhibit.
  C17 and C39 assume a prover whose points the curve check accepts, which excludes the point at infinity;
  C18 says what happens there.
\<close>

section \<open>Derivation in the zkVM\<close>

text \<open>C1. Inside the zkVM, on a witness that \<open>from_witness\<close> accepted with the steel verifier and the KZG
  verifier of \<open>sp1-bn\<close>, the data the pipeline receives for a block is the data the specification derives
  from the inbox with the validity the certificate verifier contract gives in one EVM environment, of the
  given chain and L1 head, and with the payloads the certificates' KZG commitments were made of; or else
  the payloads and proofs of the witness break the KZG check: they solve the strong Diffie-Hellman problem
  of the setup or hit a root with a challenge, as \<open>kzg_broken\<close> says.\<close>

theorem zkvm_derivation_sound:
  assumes "from_witness (CanoeSteelVerifier zkvm A FO SO) fetch (proof_batch_verify True AK BN) w hash num ts chain =
      Ret p"
    and "\<forall>j. steel_proven zkvm SO j \<longrightarrow> steel_attested A B FO SO GO j"
    and "bincode_injective (so_bincode SO)"
    and "\<forall>(c, b)\<in>set (wit_validities w). rlp_law A (versioned_cert c)"
    and "bn_lawful BN \<tau>" "slice_unreduced (bn_fr_from_slice BN)" "inverse_sound (bn_fr_inverse BN)"
    and "witness_committed BN \<tau> D w" "eth_drains E items b a"
    and "pulls A E preloaded_provider b a (EigenDADataSource_new g (EigenDAPreimageSource_new p)) xs"
  shows "witness_breaks_kzg BN \<tau> D w \<or>
    (\<exists>env. xs = spec_outputs (spec_item A (chain_validity B GO fetch chain env) (committed_payload D)
                     (bi_number b)) (map Calldata (items g)) \<and>
     (wit_validities w = [] \<or> run_env GO chain hash num env))"
proof (cases "witness_breaks_kzg BN \<tau> D w")
  case nb: False
  obtain env where e: "entries_agree (chain_validity B GO fetch chain env) (committed_payload D) p"
    and r: "wit_validities w = [] \<or> run_env GO chain hash num env"
    using from_witness_entries [OF assms(1-4) witness_payloads [OF assms(1,5-8) nb]] by blast
  have "xs = spec_outputs (spec_item A (chain_validity B GO fetch chain env) (committed_payload D)
                     (bi_number b)) (map Calldata (items g))"
    using preloaded_sound.pulls_spec [OF assms(10,9)] e
    by (simp add: EigenDADataSource_new_def EigenDAPreimageSource_new_def pending_def)
  with r show ?thesis by blast
qed simp

theorem zkvm_derivation_sound_witness:
  "\<exists>env. [[]] = spec_outputs (spec_item sample_alloy
       (chain_validity sample_abi sample_env (static_fetch_address 9) 1 env)
       (committed_payload (\<lambda>_ _. replicate 32 0)) 200) [Calldata [1, 1, 0, 2, 7]] \<and>
     run_env sample_env 1 7 200 env"
proof -
  have "bincode_injective (so_bincode sample_steel)"
    "\<forall>(c, b)\<in>set (wit_validities sample_witness). rlp_law sample_alloy (versioned_cert c)"
    by (simp_all add: sample_steel_def sample_witness_def)
  from zkvm_derivation_sound [OF sample_kzg_from_witness sample_steel_proven this line_lawful _ _
      sample_witness_committed list_eth_drains sample_preloaded_pulls] sample_witness_unbroken
  show ?thesis by (simp add: sample_witness_def dlog_slice dlog_inverse del: dlog_bn_simps)
qed

section \<open>From recording to replay\<close>

text \<open>C4. A derivation recorded over a provider that reported no errors, turned into a witness that
  \<open>from_witness\<close> accepts, replays on the preloaded provider: the same calls give the same results, and
  every entry of the witness has been used at the end.\<close>

theorem replay_reproduces_recording:
  assumes "calls A E (recorder PO) (EigenDADataSource_new g (EigenDAPreimageSource_new (recorder_new p))) rs s'"
    and "never_errs PO"
    and "from_preimage (recording s') kzg pf = Inr w"
    and "from_witness VO fetch BV w hash num ts chain = Ret q"
  shows "\<exists>t. calls A E preloaded_provider (EigenDADataSource_new g (EigenDAPreimageSource_new q)) rs t \<and>
     eigenda_fetcher (eigenda_source t) = \<lparr> validity_entries = [], encoded_payload_entries = [] \<rparr>"
proof -
  have "q = preloaded_of (pre_validities (recording s')) (pre_encoded_payloads (recording s'))"
    using assms(4) from_preimage_entries [OF assms(3)] unfolding from_witness_Ret_iff by simp
  then show ?thesis
    using record_then_replay [OF assms(1,2)] by (simp add: preloaded_of_def)
qed

theorem replay_reproduces_recording_witness:
  "\<exists>t. calls sample_alloy list_eth preloaded_provider (EigenDADataSource_new [[1, 1, 0, 2, 7]]
       (EigenDAPreimageSource_new (preloaded_of [(sample_c3, True)] [(sample_c3, sample_payload)])))
       [(sample_block, 0, Inr [])] t \<and>
     eigenda_fetcher (eigenda_source t) = \<lparr> validity_entries = [], encoded_payload_entries = [] \<rparr>"
proof (rule replay_reproduces_recording [OF sample_recorded_calls sample_oracle_never_errs])
  show "from_preimage (recording sample_recorded) [0] (Some []) =
      Inr (sample_witness\<lparr> wit_canoe_proof_bytes := Some [] \<rparr>)"
    using sample_recorded_witness(1) by simp
qed (rule sample_recorded_witness(2))

text \<open>C27. The witness made of any derivation recorded over the preimage oracle, errors and retries
  included, is accepted by \<open>from_witness\<close> as soon as the two proofs are: when the verifier addresses
  can be fetched, the Canoe verifier accepts the recorded claims and the KZG check accepts the recorded
  payloads, no other check can fail.\<close>

theorem honest_witness_accepted:
  assumes "calls A E (recorder (oracle_provider A CO))
      (EigenDADataSource_new g (EigenDAPreimageSource_new (recorder_new p))) rs s'"
    and "from_preimage (recording s') kzg pf = Inr w"
    and "mapM (cert_validity_of fetch hash num ts chain) (pre_validities (recording s')) = Ret claims"
    and "pre_validities (recording s') = [] \<or> vo_validate_cert_receipt VO claims pf = Ret (Inr ())"
    and "BV (map (\<lambda>(_, x). serialize x) (pre_encoded_payloads (recording s')))
            (map (\<lambda>(c, _). get_kzg_commitment c) (pre_encoded_payloads (recording s'))) kzg = Ret True"
  shows "from_witness VO fetch BV w hash num ts chain =
     Ret \<lparr> validity_entries = rev (pre_validities (recording s')),
           encoded_payload_entries = rev (pre_encoded_payloads (recording s')) \<rparr>"
  using honest_from_witness [OF assms(2)
      calls_well_recorded [OF assms(1) oracle_exact_lengths well_recorded_new] assms(3,4), of BV] assms(5)
  by (simp add: preloaded_of_def)

theorem honest_witness_accepted_witness:
  "from_witness sample_verifier (static_fetch_address 9) sample_batch_verify
      (sample_witness\<lparr> wit_canoe_proof_bytes := Some [] \<rparr>) 7 200 50 1 =
    Ret \<lparr> validity_entries = [(sample_c3, True)],
          encoded_payload_entries = [(sample_c3, sample_payload)] \<rparr>"
proof -
  have c: "mapM (cert_validity_of (static_fetch_address 9) 7 200 50 1) [(sample_c3, True)] = Ret sample_claims"
    by (simp add: cert_validity_of_def static_fetch_address_def sample_claims_def)
  have "vo_validate_cert_receipt sample_verifier sample_claims (Some []) =
      vo_validate_cert_receipt sample_verifier sample_claims None"
    by (simp add: CanoeSteelVerifier_def steel_validate_cert_receipt_def steel_validate_cert_receipt_inner_def)
  then have v: "vo_validate_cert_receipt sample_verifier sample_claims (Some []) = Ret (Inr ())"
    using sample_steel_accepts by simp
  have "sample_batch_verify [serialize sample_payload] [get_kzg_commitment sample_c3] [0] = Ret True"
    by (simp add: sample_batch_verify_def serialize_def sample_payload_def)
  then show ?thesis
    using honest_witness_accepted [OF sample_recorded_calls, of "[0]" "Some []"
        "sample_witness\<lparr> wit_canoe_proof_bytes := Some [] \<rparr>" "static_fetch_address 9" 7 200 50 1
        sample_claims sample_verifier sample_batch_verify] c v sample_recorded_witness(1)
    by (simp add: sample_recording_def del: mapM.simps)
qed

text \<open>C15. A commitment whose validity is answered and whose payload then fails temporarily is asked for
  again, and the recorder has then stored its validity twice. On a replay of such a recording, whatever
  was recorded later, the commitment itself is served once and the request for the next, different
  commitment aborts.\<close>

theorem retry_breaks_replay:
  assumes "pv_get_validity PO p c = Ret (Inr True, p1)" "pv_get_encoded_payload PO p1 c = Ret (Inl e, p2)"
    and "pv_into_kind PO e = Temporary info"
    and "pv_get_validity PO p2 c = Ret (Inr True, p3)" "pv_get_encoded_payload PO p3 c = Ret (Inr x, p4)"
    and "unsupported_version c = None" "recent_enough c bn" "c \<noteq> d"
  shows "\<exists>s1 s2. preimage_source_next (recorder PO) (EigenDAPreimageSource_new (recorder_new p)) c bn =
        Ret (Inl (Temporary info), s1) \<and>
      preimage_source_next (recorder PO) s1 c bn = Ret (Inr x, s2) \<and>
      (\<forall>vs ps. \<exists>t m. preimage_source_next preloaded_provider (EigenDAPreimageSource_new
            (preloaded_of (pre_validities (rec_preimage (eigenda_fetcher s2)) @ vs)
               (pre_encoded_payloads (rec_preimage (eigenda_fetcher s2)) @ ps))) c bn = Ret (Inr x, t) \<and>
         preimage_source_next preloaded_provider t d bn' = Panic m)"
proof -
  let ?src = "\<lambda>q vs ps. \<lparr> eigenda_fetcher = \<lparr> rec_provider = q,
      rec_preimage = \<lparr> pre_validities = vs, pre_encoded_payloads = ps \<rparr> \<rparr> \<rparr>"
  have "preimage_source_next (recorder PO) (EigenDAPreimageSource_new (recorder_new p)) c bn =
      Ret (Inl (Temporary info), ?src p2 [(c, True)] [])"
    using recorder_next_fetched [OF assms(1,2,6,7), of "[]" "[]"] assms(3)
    by (simp add: EigenDAPreimageSource_new_def recorder_new_def)
  moreover have "preimage_source_next (recorder PO) (?src p2 [(c, True)] []) c bn =
      Ret (Inr x, ?src p4 [(c, True), (c, True)] [(c, x)])"
    using recorder_next_fetched [OF assms(4-7), of "[(c, True)]" "[]"] by simp
  ultimately show ?thesis
    using replay_after_duplicate [OF assms(6-8)]
    by (intro exI [of _ "?src p2 [(c, True)] []"] exI [of _ "?src p4 [(c, True), (c, True)] [(c, x)]"])
       (simp add: EigenDAPreimageSource_new_def)
qed

text \<open>A provider whose first payload request fails.\<close>

definition flaky_provider :: "(bool, unit) provider_ops" where
  "flaky_provider =
     \<lparr> pv_get_validity = (\<lambda>p c. Ret (Inr True, p)),
       pv_get_encoded_payload = (\<lambda>p c. if p then Ret (Inr sample_payload, p) else Ret (Inl (), True)),
       pv_into_kind = (\<lambda>_. Temporary ''timeout'') \<rparr>"

theorem retry_breaks_replay_witness:
  "\<exists>s1 s2. preimage_source_next (recorder flaky_provider) (EigenDAPreimageSource_new (recorder_new False))
        sample_c3 200 = Ret (Inl (Temporary ''timeout''), s1) \<and>
      preimage_source_next (recorder flaky_provider) s1 sample_c3 200 = Ret (Inr sample_payload, s2) \<and>
      (\<forall>vs ps. \<exists>t m. preimage_source_next preloaded_provider (EigenDAPreimageSource_new
            (preloaded_of (pre_validities (rec_preimage (eigenda_fetcher s2)) @ vs)
               (pre_encoded_payloads (rec_preimage (eigenda_fetcher s2)) @ ps))) sample_c3 200 =
             Ret (Inr sample_payload, t) \<and>
         preimage_source_next preloaded_provider t sample_c4 200 = Panic m)"
  by (rule retry_breaks_replay [where e = "()" and ?p1.0 = False and ?p2.0 = True and ?p3.0 = True and ?p4.0 = True]) (simp_all add: flaky_provider_def)

text \<open>C23. Prover and verifier talk about the same claims: when the inputs of the Canoe proof can be made
  from a recording with the EigenLabs addresses, the claims \<open>from_witness\<close> builds from the witness of the
  same recording at the same L1 head are the inputs, one by one, and all carry one verifier address.\<close>

theorem prover_and_verifier_see_same_claims:
  assumes "from_preimage pre kzg pf = Inr w"
    and "from_eigenda_preimage_to_canoe_inputs eigenlabs_fetch_address chain hash num (pre_validities pre) =
      Inr inputs"
  shows "\<exists>address. mapM (cert_validity_of eigenlabs_fetch_address hash num ts chain) (wit_validities w) =
       Ret (map (\<lambda>i. (ci_altda_commitment i,
          \<lparr> cv_claimed_validity = ci_claimed_validity i, cv_l1_head_block_hash = ci_l1_head_block_hash i,
            cv_l1_head_block_number = ci_l1_head_block_number i, cv_l1_head_block_timestamp = ts,
            cv_l1_chain_id = ci_l1_chain_id i, cv_verifier_address = address \<rparr>)) inputs) \<and>
     (\<forall>i\<in>set inputs. ci_verifier_address i = address)"
proof (cases inputs)
  case Nil
  then show ?thesis using assms(2) from_preimage_entries(1) [OF assms(1)]
    unfolding canoe_inputs_iff by simp
next
  case (Cons first rest)
  note l = assms(2) [unfolded canoe_inputs_iff]
  obtain d address where a: "eigenlabs_fetch_address chain d = Inr address"
    using l Cons by (cases "pre_validities pre") (auto split: prod.splits)
  have same: "eigenlabs_fetch_address chain c = Inr address" for c
    using a eigenlabs_fetcher.version_independent [of chain c d] by simp
  show ?thesis
    unfolding mapM_Ret_iff from_preimage_entries(1) [OF assms(1)] list_all2_map2
  proof (intro exI [of _ address] conjI)
    show "\<forall>i\<in>set inputs. ci_verifier_address i = address"
      using l by (induction rule: list_all2_induct) (auto simp: same)
    show "list_all2 (\<lambda>e i. cert_validity_of eigenlabs_fetch_address hash num ts chain e =
        Ret (ci_altda_commitment i,
          \<lparr> cv_claimed_validity = ci_claimed_validity i, cv_l1_head_block_hash = ci_l1_head_block_hash i,
            cv_l1_head_block_number = ci_l1_head_block_number i, cv_l1_head_block_timestamp = ts,
            cv_l1_chain_id = ci_l1_chain_id i, cv_verifier_address = address \<rparr>)) (pre_validities pre) inputs"
      using l by (rule list.rel_mono_strong) (auto simp: cert_validity_of_Ret_iff same)
  qed
qed

theorem prover_and_verifier_see_same_claims_witness:
  "\<exists>address. mapM (cert_validity_of eigenlabs_fetch_address 7 200 50 1) [(sample_c3, True)] =
     Ret [(sample_c3, \<lparr> cv_claimed_validity = True, cv_l1_head_block_hash = 7,
            cv_l1_head_block_number = 200, cv_l1_head_block_timestamp = 50,
            cv_l1_chain_id = 1, cv_verifier_address = address \<rparr>)]"
proof -
  obtain a where "eigenlabs_fetch_address 1 (versioned_cert sample_c3) = Inr a"
    by (simp add: eigenlabs_fetch_address_def cert_verifier_address_def sample_c3_def
        cert_verifier_address_abi_encode_interface_def)
  then have "from_eigenda_preimage_to_canoe_inputs eigenlabs_fetch_address 1 7 200
      (pre_validities sample_recording) = Inr [sample_input\<lparr> ci_verifier_address := a \<rparr>]"
    by (simp add: sample_recording_def sample_input_def)
  from prover_and_verifier_see_same_claims [OF sample_recorded_witness(1) this, of 50]
  show ?thesis by (simp add: sample_witness_def sample_input_def del: mapM.simps)
qed

end
